(* ===== verification/Prelude.thy ===== *)
theory Prelude
  imports Main "HOL-Library.Char_ord" "HOL-Library.List_Lexorder"
begin

text \<open>
  Shared vocabulary of the development: the lemma collections, Python strings, and the few
  list facts several components use.

  A Python \<open>str\<close> is a sequence of code points. It is modelled by its UTF-8 bytes (\<open>string\<close>),
  so that ASCII literals read as in the source; \<open>utf8_chars\<close> recovers the code points, and
  every operation that counts or classifies characters (\<open>len\<close>, slicing, \<open>strip\<close>, \<open>split\<close>)
  goes through it. Equality, prefix, substring and order agree with Python's on valid UTF-8.
\<close>

named_theorems act_simps \<open>evaluation of state and exception actions\<close>
named_theorems codec_simps \<open>evaluation of the model codecs\<close>

section \<open>Strings\<close>

text \<open>Text outside ASCII, given by its UTF-8 bytes.\<close>

definition utf8_bytes :: "nat list \<Rightarrow> string" where
  "utf8_bytes bs = map char_of bs"

definition starts_with :: "string \<Rightarrow> string \<Rightarrow> bool" where
  "starts_with s p \<longleftrightarrow> take (length p) s = p"

fun has_substring :: "string \<Rightarrow> string \<Rightarrow> bool" where
  "has_substring p [] = (p = [])"
| "has_substring p (c # cs) = (starts_with (c # cs) p \<or> has_substring p cs)"

definition continuation_byte :: "char \<Rightarrow> bool" where
  "continuation_byte c \<longleftrightarrow> (128 :: nat) \<le> of_char c \<and> (of_char c :: nat) < 192"

function utf8_chars :: "string \<Rightarrow> string list" where
  "utf8_chars [] = []"
| "utf8_chars (c # cs) =
     (c # takeWhile continuation_byte cs) # utf8_chars (dropWhile continuation_byte cs)"
  by pat_completeness auto
termination
  by (relation "measure length") (auto simp: le_imp_less_Suc length_dropWhile_le)

definition py_len :: "string \<Rightarrow> nat" where
  "py_len s = length (utf8_chars s)"

text \<open>\<open>s[:n]\<close>\<close>

definition py_take :: "nat \<Rightarrow> string \<Rightarrow> string" where
  "py_take n s = concat (take n (utf8_chars s))"

text \<open>The characters for which \<open>str.isspace\<close> holds, in UTF-8.\<close>

definition space_bytes :: "nat list list" where
  "space_bytes =
     map (\<lambda>b. [b]) [9, 10, 11, 12, 13, 28, 29, 30, 31, 32] @
     [[194, 133], [194, 160], [225, 154, 128]] @
     map (\<lambda>b. [226, 128, b]) [128, 129, 130, 131, 132, 133, 134, 135, 136, 137, 138, 168, 169, 175] @
     [[226, 129, 159], [227, 128, 128]]"

definition is_space :: "string \<Rightarrow> bool" where
  "is_space c \<longleftrightarrow> map of_char c \<in> set space_bytes"

definition py_strip :: "string \<Rightarrow> string" where
  "py_strip s = concat (rev (dropWhile is_space (rev (dropWhile is_space (utf8_chars s)))))"

text \<open>\<open>s.split()\<close>: the maximal runs of non-space characters.\<close>

fun split_words :: "string list \<Rightarrow> string list \<Rightarrow> string list" where
  "split_words [] acc = (if acc = [] then [] else [concat (rev acc)])"
| "split_words (c # cs) acc =
     (if is_space c
      then (if acc = [] then split_words cs [] else concat (rev acc) # split_words cs [])
      else split_words cs (c # acc))"

definition py_split :: "string \<Rightarrow> string list" where
  "py_split s = split_words (utf8_chars s) []"

text \<open>\<open>s.split(c)\<close> for a one-character separator.\<close>

fun split_on :: "char \<Rightarrow> string \<Rightarrow> string list" where
  "split_on sep [] = [[]]"
| "split_on sep (c # cs) =
     (if c = sep then [] # split_on sep cs
      else (case split_on sep cs of [] \<Rightarrow> [[c]] | w # ws \<Rightarrow> (c # w) # ws))"

text \<open>\<open>s.rsplit(c, 1)[-1]\<close> and \<open>s.partition(c)\<close>.\<close>

definition after_last :: "char \<Rightarrow> string \<Rightarrow> string" where
  "after_last c s = rev (takeWhile (\<lambda>x. x \<noteq> c) (rev s))"

definition partition_at :: "char \<Rightarrow> string \<Rightarrow> string \<times> string \<times> string" where
  "partition_at c s =
     (case dropWhile (\<lambda>x. x \<noteq> c) s of
        [] \<Rightarrow> (s, [], [])
      | _ # rest \<Rightarrow> (takeWhile (\<lambda>x. x \<noteq> c) s, [c], rest))"

definition rstrip_char :: "char \<Rightarrow> string \<Rightarrow> string" where
  "rstrip_char c s = rev (dropWhile (\<lambda>x. x = c) (rev s))"

text \<open>\<open>upper\<close> and \<open>lower\<close>, used by the code on ASCII text only.\<close>

definition upper_char :: "char \<Rightarrow> char" where
  "upper_char c = (if 97 \<le> (of_char c :: nat) \<and> (of_char c :: nat) \<le> 122
                   then char_of ((of_char c :: nat) - 32) else c)"

definition lower_char :: "char \<Rightarrow> char" where
  "lower_char c = (if 65 \<le> (of_char c :: nat) \<and> (of_char c :: nat) \<le> 90
                   then char_of ((of_char c :: nat) + 32) else c)"

definition ascii_upper :: "string \<Rightarrow> string" where
  "ascii_upper s = map upper_char s"

definition ascii_lower :: "string \<Rightarrow> string" where
  "ascii_lower s = map lower_char s"

section \<open>Decimal numerals\<close>

definition digit_char :: "nat \<Rightarrow> char" where
  "digit_char n = char_of (48 + n)"

fun str_of_nat :: "nat \<Rightarrow> string" where
  "str_of_nat n = (if n < 10 then [digit_char n] else str_of_nat (n div 10) @ [digit_char (n mod 10)])"

declare str_of_nat.simps [simp del]

definition str_of_int :: "int \<Rightarrow> string" where
  "str_of_int i = (if i < 0 then CHR ''-'' # str_of_nat (nat (- i)) else str_of_nat (nat i))"

definition digit_val :: "char \<Rightarrow> nat option" where
  "digit_val c =
     (let n = of_char c :: nat in if 48 \<le> n \<and> n \<le> 57 then Some (n - 48) else None)"

text \<open>The digits of \<open>int(s)\<close>: ASCII digits, single underscores between digits allowed.\<close>

fun parse_digits :: "nat \<Rightarrow> string \<Rightarrow> nat option" where
  "parse_digits acc [] = Some acc"
| "parse_digits acc (c # cs) =
     (case digit_val c of
        Some d \<Rightarrow> parse_digits (10 * acc + d) cs
      | None \<Rightarrow>
          (if c = CHR ''_''
           then (case cs of
                   [] \<Rightarrow> None
                 | c' # cs' \<Rightarrow>
                     (case digit_val c' of
                        None \<Rightarrow> None
                      | Some d \<Rightarrow> parse_digits (10 * acc + d) cs'))
           else None))"

definition parse_nat :: "string \<Rightarrow> nat option" where
  "parse_nat s =
     (case s of
        [] \<Rightarrow> None
      | c # cs \<Rightarrow> (case digit_val c of None \<Rightarrow> None | Some d \<Rightarrow> parse_digits d cs))"

definition parse_int :: "string \<Rightarrow> int option" where
  "parse_int s =
     (case py_strip s of
        [] \<Rightarrow> None
      | c # cs \<Rightarrow>
          (if c = CHR ''-'' then map_option (\<lambda>n. - int n) (parse_nat cs)
           else if c = CHR ''+'' then map_option int (parse_nat cs)
           else map_option int (parse_nat (c # cs))))"

section \<open>Lemmas\<close>

lemma starts_with_append [simp]: "starts_with (p @ s) p"
  by (simp add: starts_with_def)

lemma concat_utf8_chars [simp]: "concat (utf8_chars s) = s"
  by (induction s rule: utf8_chars.induct) simp_all

lemma py_take_all: "py_len s \<le> n \<Longrightarrow> py_take n s = s"
  by (simp add: py_take_def py_len_def)

lemma digit_val_digit_char [simp]: "n < 10 \<Longrightarrow> digit_val (digit_char n) = Some n"
  by (simp add: digit_val_def digit_char_def)

lemma parse_digits_append:
  "(\<forall>c \<in> set xs. digit_val c \<noteq> None) \<Longrightarrow>
   parse_digits a (xs @ ys) = (case parse_digits a xs of None \<Rightarrow> None | Some b \<Rightarrow> parse_digits b ys)"
  by (induction xs arbitrary: a) (auto split: option.splits)

lemma str_of_nat_digits: "c \<in> set (str_of_nat n) \<Longrightarrow> digit_val c \<noteq> None"
proof (induction n rule: str_of_nat.induct)
  case (1 n)
  then show ?case by (subst (asm) (2) str_of_nat.simps) (auto split: if_splits)
qed

lemma str_of_nat_nonempty [simp]: "str_of_nat n \<noteq> []"
  by (subst str_of_nat.simps) simp

lemma parse_digits_str_of_nat: "parse_digits 0 (str_of_nat n) = Some n"
proof (induction n rule: str_of_nat.induct)
  case (1 n)
  show ?case
  proof (cases "n < 10")
    case True
    then show ?thesis by (subst str_of_nat.simps) simp
  next
    case False
    with 1 have "parse_digits 0 (str_of_nat (n div 10)) = Some (n div 10)" by simp
    then have "parse_digits 0 (str_of_nat (n div 10) @ [digit_char (n mod 10)]) = Some n"
      using str_of_nat_digits [of _ "n div 10"] by (subst parse_digits_append) auto
    then show ?thesis using False by (subst str_of_nat.simps) simp
  qed
qed

lemma str_of_nat_inj: "str_of_nat m = str_of_nat n \<Longrightarrow> m = n"
  by (metis option.inject parse_digits_str_of_nat)

text \<open>Two words separated by a character that neither tail contains are recovered.\<close>

lemma append_sep_inject:
  assumes "c \<notin> set ys" "c \<notin> set vs" "xs @ c # ys = us @ c # vs"
  shows "xs = us \<and> ys = vs"
proof -
  have t: "takeWhile (\<lambda>x. x \<noteq> c) (rev (a @ c # b)) = rev b" if "c \<notin> set b" for a b
    using that by (subst rev_append) (auto simp: takeWhile_append2 takeWhile_tail)
  have "rev ys = rev vs" using assms t [of ys xs] t [of vs us] by metis
  then show ?thesis using assms(3) by simp
qed

lemma distinct_map_filter_fst: "distinct (map fst xs) \<Longrightarrow> distinct (map fst (filter P xs))"
  by (induction xs) auto

end
