(* ===== verification/Pyfloat.thy ===== *)
theory Pyfloat
  imports Complex_Main "HOL-Library.Log_Nat" Prelude
begin

text \<open>
  Python's \<open>float\<close>: IEEE-754 binary64 with round-half-to-even. A finite value is the exact
  rational it denotes; every arithmetic operation is the exact operation followed by
  \<open>to_float\<close>, which rounds and overflows to an infinity. Signed zero is not distinguished:
  no code under \<open>src/\<close> looks at the sign of a zero. The lemmas give monotonicity of rounding,
  exactness on representable values, and that a rounded ratio of two doubles compares with 1
  exactly as the operands compare (the threshold test of the incident service).
\<close>

section \<open>Rounding to binary64\<close>

definition ilog2 :: "rat \<Rightarrow> int" where
  "ilog2 x =
     (let (n, d) = quotient_of x;
          e = int (floorlog 2 (nat n)) - int (floorlog 2 (nat d))
      in if 2 powi e \<le> x then e else e - 1)"

definition round_half_even :: "rat \<Rightarrow> int" where
  "round_half_even x =
     (let f = \<lfloor>x\<rfloor>; r = x - of_int f
      in if r < 1 / 2 then f
         else if r > 1 / 2 then f + 1
         else if even f then f else f + 1)"

definition quantum :: "rat \<Rightarrow> rat" where
  "quantum x = 2 powi (max (ilog2 \<bar>x\<bar>) (-1022) - 52)"

definition rnd :: "rat \<Rightarrow> rat" where
  "rnd x = (if x = 0 then 0 else of_int (round_half_even (x / quantum x)) * quantum x)"

lemma powi_two_pos [simp]: "0 < (2 :: rat) powi e"
  by (simp add: zero_less_power_int)

lemma powi_two_mono: "a \<le> b \<Longrightarrow> (2 :: rat) powi a \<le> 2 powi b"
  by (simp add: power_int_increasing)

lemma powi_two_less_iff: "(2 :: rat) powi a < 2 powi b \<longleftrightarrow> a < b"
  by (metis linorder_not_less one_less_numeral_iff power_int_increasing power_int_strict_increasing semiring_norm(76) order_less_imp_le)

lemma powi_two_split: "a \<le> b \<Longrightarrow> (2 :: rat) powi b = of_int (2 ^ nat (b - a)) * 2 powi a"
proof -
  assume "a \<le> b"
  then have "(2 :: rat) powi b = 2 powi (int (nat (b - a)) + a)" by simp
  also have "\<dots> = 2 powi int (nat (b - a)) * 2 powi a" by (simp add: power_int_add)
  also have "2 powi int (nat (b - a)) = (of_int (2 ^ nat (b - a)) :: rat)"
    by (simp only: power_int_of_nat of_int_power of_int_numeral)
  finally show ?thesis .
qed

text \<open>The estimate of a logarithm from the lengths of numerator and denominator is off by at most one.\<close>

lemma length_bounds:
  assumes "2 \<le> b" "0 < n"
  shows "(rat_of_nat b) powi (int (floorlog b (nat n)) - 1) \<le> of_int n"
    and "of_int n < (rat_of_nat b) powi int (floorlog b (nat n))"
proof -
  define a where "a = floorlog b (nat n)"
  have na: "b ^ (a - 1) \<le> nat n" "nat n < b ^ a"
    using assms floorlog_bounds [of "nat n" b] by (auto simp: a_def)
  then have a0: "0 < a" using assms by (auto intro: gr0I)
  have n: "(of_int n :: rat) = rat_of_nat (nat n)" using assms by simp
  have "rat_of_nat (b ^ (a - 1)) \<le> rat_of_nat (nat n)" using na(1) by (simp only: of_nat_le_iff)
  moreover have "int a - 1 = int (a - 1)" using a0 by simp
  ultimately show "(rat_of_nat b) powi (int (floorlog b (nat n)) - 1) \<le> of_int n"
    unfolding n a_def [symmetric] by (simp only: power_int_of_nat of_nat_power)
  have "rat_of_nat (nat n) < rat_of_nat (b ^ a)" using na(2) by (simp only: of_nat_less_iff)
  then show "of_int n < (rat_of_nat b) powi int (floorlog b (nat n))"
    unfolding n a_def [symmetric] by (simp only: power_int_of_nat of_nat_power)
qed

lemma ratio_log_bounds:
  assumes "2 \<le> b" "0 < x" "quotient_of x = (n, d)"
    and "e = int (floorlog b (nat n)) - int (floorlog b (nat d))"
  shows "(rat_of_nat b) powi (e - 1) \<le> x" "x < (rat_of_nat b) powi (e + 1)"
proof -
  have d: "0 < d" using assms(3) by (rule quotient_of_denom_pos)
  have x: "x = of_int n / of_int d" using assms(3) by (rule quotient_of_div)
  have n: "0 < n" using assms(2) d by (simp add: x zero_less_divide_iff)
  have dp: "(0::rat) < of_int d" using d by simp
  have b: "0 < rat_of_nat b" "rat_of_nat b \<noteq> 0" using assms(1) by simp_all
  have pos: "0 < (rat_of_nat b) powi k" for k using b by simp
  note nb = length_bounds [OF assms(1) n] and db = length_bounds [OF assms(1) d]
  have "of_int n < (rat_of_nat b) powi int (floorlog b (nat n))" by (rule nb)
  also have "\<dots> = (rat_of_nat b) powi (e + 1) * (rat_of_nat b) powi (int (floorlog b (nat d)) - 1)"
    using b by (simp add: assms(4) del: power_int_of_nat flip: power_int_add)
  also have "\<dots> \<le> (rat_of_nat b) powi (e + 1) * of_int d"
    using db(1) pos by (intro mult_left_mono) (auto intro: less_imp_le)
  finally show "x < (rat_of_nat b) powi (e + 1)" using dp by (simp add: x divide_less_eq)
  have "(rat_of_nat b) powi (e - 1) * of_int d \<le>
      (rat_of_nat b) powi (e - 1) * (rat_of_nat b) powi int (floorlog b (nat d))"
    using db(2) pos by (intro mult_left_mono) (auto intro: less_imp_le)
  also have "\<dots> = (rat_of_nat b) powi (int (floorlog b (nat n)) - 1)"
    using b by (simp add: assms(4) del: power_int_of_nat flip: power_int_add)
  also have "\<dots> \<le> of_int n" by (rule nb)
  finally show "(rat_of_nat b) powi (e - 1) \<le> x" using dp by (simp add: x le_divide_eq)
qed

lemma ilog2_bounds:
  assumes "0 < x"
  shows "2 powi ilog2 x \<le> x" "x < 2 powi (ilog2 x + 1)"
proof -
  obtain n d where q: "quotient_of x = (n, d)" by (cases "quotient_of x") auto
  from ratio_log_bounds [of 2, OF _ assms q refl] show "2 powi ilog2 x \<le> x" "x < 2 powi (ilog2 x + 1)"
    by (auto simp: ilog2_def q Let_def)
qed

lemma ilog2_less: "0 < x \<Longrightarrow> x < 2 powi e \<Longrightarrow> ilog2 x < e"
  using ilog2_bounds(1) [of x] by (metis order_le_less_trans powi_two_less_iff)

lemma ilog2_ge: "2 powi e \<le> x \<Longrightarrow> e \<le> ilog2 x"
proof -
  assume e: "2 powi e \<le> x"
  then have "0 < x" by (meson order_less_le_trans powi_two_pos)
  from ilog2_bounds(2) [OF this] e have "(2::rat) powi e < 2 powi (ilog2 x + 1)" by simp
  then show ?thesis by (simp add: powi_two_less_iff)
qed

lemma round_half_even_int [simp]: "round_half_even (of_int k) = k"
  by (simp add: round_half_even_def)

lemma round_half_even_near: "\<bar>of_int (round_half_even y) - y\<bar> \<le> 1 / 2"
proof -
  define r where "r = y - of_int \<lfloor>y\<rfloor>"
  have "0 \<le> r" "r < 1" unfolding r_def by linarith+
  moreover have "of_int (round_half_even y) - y = (if r < 1 / 2 then - r else if r > 1 / 2 then 1 - r
      else if even \<lfloor>y\<rfloor> then - r else 1 - r)"
    by (simp add: round_half_even_def Let_def r_def)
  ultimately show ?thesis by simp
qed

lemma round_half_even_le: "x \<le> of_int k \<Longrightarrow> round_half_even x \<le> k"
proof -
  assume xk: "x \<le> of_int k"
  show ?thesis
  proof (cases "x = of_int k")
    case False
    with xk have "\<lfloor>x\<rfloor> < k" by (metis floor_less_iff order_less_le)
    then show ?thesis by (auto simp: round_half_even_def Let_def)
  qed simp
qed

lemma round_half_even_bounds: "\<lfloor>x\<rfloor> \<le> round_half_even x \<and> round_half_even x \<le> \<lfloor>x\<rfloor> + 1"
  by (simp add: round_half_even_def Let_def)

lemma round_half_even_ge: "of_int k \<le> x \<Longrightarrow> k \<le> round_half_even x"
  using round_half_even_bounds [of x] by (meson le_floor_iff order_trans)

lemma round_half_even_mono: "x \<le> y \<Longrightarrow> round_half_even x \<le> round_half_even y"
proof -
  assume xy: "x \<le> y"
  show ?thesis
  proof (cases "\<lfloor>x\<rfloor> = \<lfloor>y\<rfloor>")
    case True
    with xy show ?thesis by (auto simp: round_half_even_def Let_def)
  next
    case False
    with xy have "\<lfloor>x\<rfloor> + 1 \<le> \<lfloor>y\<rfloor>" using floor_mono [of x y] by linarith
    then show ?thesis using round_half_even_bounds [of x] round_half_even_bounds [of y] by linarith
  qed
qed

lemma quantum_pos [simp]: "0 < quantum x"
  by (simp add: quantum_def)

lemma rnd_zero [simp]: "rnd 0 = 0"
  by (simp add: rnd_def)

text \<open>Any multiple of the quantum of \<open>x\<close> bounds \<open>rnd x\<close> on the side it bounds \<open>x\<close>.\<close>

lemma rnd_le_grid: "x \<le> of_int k * quantum x \<Longrightarrow> rnd x \<le> of_int k * quantum x"
proof (cases "x = 0")
  case False
  assume "x \<le> of_int k * quantum x"
  then have "x / quantum x \<le> of_int k" by (simp add: divide_le_eq)
  then have "round_half_even (x / quantum x) \<le> k" by (rule round_half_even_le)
  then show ?thesis using False by (simp add: rnd_def less_imp_le)
qed simp

lemma rnd_ge_grid: "of_int k * quantum x \<le> x \<Longrightarrow> of_int k * quantum x \<le> rnd x"
proof (cases "x = 0")
  case False
  assume "of_int k * quantum x \<le> x"
  then have "of_int k \<le> x / quantum x" by (simp add: le_divide_eq)
  then have "k \<le> round_half_even (x / quantum x)" by (rule round_half_even_ge)
  then show ?thesis using False by (simp add: rnd_def less_imp_le)
qed simp

lemma rnd_grid: "x = of_int k * quantum x \<Longrightarrow> rnd x = x"
  by (metis rnd_ge_grid rnd_le_grid order_antisym order_refl)

lemma round_half_even_minus: "round_half_even (- x) = - round_half_even x"
proof (cases "x = of_int \<lfloor>x\<rfloor>")
  case True
  then show ?thesis by (metis of_int_minus round_half_even_int)
next
  case False
  then have "of_int \<lfloor>x\<rfloor> < x" using of_int_floor_le [of x] by linarith
  then have "\<lceil>x\<rceil> = \<lfloor>x\<rfloor> + 1" by (simp add: ceiling_altdef)
  then have "\<lfloor>- x\<rfloor> = - \<lfloor>x\<rfloor> - 1" by (simp add: floor_minus)
  then show ?thesis by (auto simp: round_half_even_def Let_def)
qed

lemma rnd_minus: "rnd (- x) = - rnd x"
  by (simp add: rnd_def quantum_def round_half_even_minus)

lemma rnd_nonneg: "0 \<le> x \<Longrightarrow> 0 \<le> rnd x"
  using rnd_ge_grid [of 0 x] by simp

lemma rnd_mono_pos:
  assumes "0 < x" "x \<le> y"
  shows "rnd x \<le> rnd y"
proof -
  define ex ey where "ex = max (ilog2 x) (-1022)" and "ey = max (ilog2 y) (-1022)"
  have y: "0 < y" using assms by simp
  have qx: "quantum x = 2 powi (ex - 52)" and qy: "quantum y = 2 powi (ey - 52)"
    using assms y by (simp_all add: quantum_def ex_def ey_def)
  have "ilog2 x \<le> ilog2 y"
    using ilog2_ge [of "ilog2 x" y] ilog2_bounds(1) [of x] assms by force
  then have le: "ex \<le> ey" by (simp add: ex_def ey_def)
  show ?thesis
  proof (cases "ex = ey")
    case True
    then have "quantum x = quantum y" by (simp add: qx qy)
    moreover have "round_half_even (x / quantum y) \<le> round_half_even (y / quantum y)"
      using assms by (intro round_half_even_mono divide_right_mono) (simp_all add: less_imp_le)
    ultimately show ?thesis using assms y by (simp add: rnd_def less_imp_le)
  next
    case False
    with le have lt: "ex < ey" by simp
    then have iy: "ilog2 y = ey" by (auto simp: ex_def ey_def max_def split: if_splits)
    have "2 powi ey \<le> y" using ilog2_bounds(1) [OF y] by (simp add: iy)
    moreover have "(2::rat) powi ey = of_int (2 ^ nat 52) * quantum y"
      using powi_two_split [of "ey - 52" ey] by (simp add: qy)
    ultimately have lo: "2 powi ey \<le> rnd y" using rnd_ge_grid [of "2 ^ nat 52" y] by simp
    have "x < 2 powi (ilog2 x + 1)" using assms by (intro ilog2_bounds)
    also have "\<dots> \<le> 2 powi ey" using lt by (intro powi_two_mono) (simp add: ex_def)
    finally have "x \<le> 2 powi ey" by simp
    moreover have "(2::rat) powi ey = of_int (2 ^ nat (ey - (ex - 52))) * quantum x"
      using powi_two_split [of "ex - 52" ey] lt by (simp add: qx)
    ultimately have "rnd x \<le> 2 powi ey" using rnd_le_grid [of x] by metis
    with lo show ?thesis by simp
  qed
qed

theorem rnd_mono:
  assumes xy: "x \<le> y"
  shows "rnd x \<le> rnd y"
proof (cases "0 < x")
  case True
  then show ?thesis using xy by (rule rnd_mono_pos)
next
  case False
  show ?thesis
  proof (cases "0 \<le> y")
    case True
    have "0 \<le> rnd (- x)" using False by (intro rnd_nonneg) simp
    then show ?thesis using rnd_nonneg [OF True] by (simp add: rnd_minus)
  next
    case yneg: False
    then have "rnd (- y) \<le> rnd (- x)" using xy by (intro rnd_mono_pos) auto
    then show ?thesis by (simp add: rnd_minus)
  qed
qed

definition is_double :: "rat \<Rightarrow> bool" where
  "is_double x \<longleftrightarrow> rnd x = x"

lemma rnd_exact_small:
  assumes x: "x = of_int m * 2 powi e" and "\<bar>m\<bar> < 2 ^ 53" and e: "-1074 \<le> e"
  shows "rnd x = x"
proof (cases "m = 0")
  case False
  have "\<bar>x\<bar> = of_int \<bar>m\<bar> * 2 powi e" by (simp add: x abs_mult)
  also have "\<dots> < of_int (2 ^ 53) * 2 powi e"
    using assms(2) by (intro mult_strict_right_mono powi_two_pos) (simp only: of_int_less_iff)
  also have "\<dots> = 2 powi (53 + e)" using powi_two_split [of e "53 + e"] by simp
  finally have lt: "\<bar>x\<bar> < 2 powi (53 + e)" .
  have "0 < \<bar>x\<bar>" using False by (simp add: x)
  from this lt have "ilog2 \<bar>x\<bar> < 53 + e" by (rule ilog2_less)
  define g where "g = max (ilog2 \<bar>x\<bar>) (-1022) - 52"
  have le: "g \<le> e" using e \<open>ilog2 \<bar>x\<bar> < 53 + e\<close> by (simp add: g_def)
  have "x = of_int m * (of_int (2 ^ nat (e - g)) * 2 powi g)"
    unfolding powi_two_split [OF le, symmetric] by (rule x)
  also have "2 powi g = quantum x" by (simp add: quantum_def g_def)
  finally have "x = of_int (m * 2 ^ nat (e - g)) * quantum x" by simp
  then show ?thesis by (rule rnd_grid)
qed (simp add: x)

lemma rnd_exact:
  assumes x: "x = of_int m * 2 powi e" and m: "\<bar>m\<bar> \<le> 2 ^ 53" and e: "-1074 \<le> e"
  shows "rnd x = x"
proof (cases "\<bar>m\<bar> = 2 ^ 53")
  case True
  then obtain s where s: "m = s * 2 ^ 53" "\<bar>s\<bar> = 1" by (cases "0 \<le> m") (auto intro: that [of 1] that [of "-1"])
  have "x = of_int (s * 2 ^ 52) * 2 powi (e + 1)"
    by (simp add: x s power_int_add)
  then show ?thesis by (rule rnd_exact_small) (use s e in \<open>simp_all add: abs_mult\<close>)
next
  case False
  with m have "\<bar>m\<bar> < 2 ^ 53" by simp
  from rnd_exact_small [OF x this e] show ?thesis .
qed

lemma is_double_int: "\<bar>k\<bar> \<le> 2 ^ 53 \<Longrightarrow> is_double (of_int k)"
  using rnd_exact [of "of_int k" k 0] by (simp add: is_double_def)

lemma is_double_grid: "is_double x \<longleftrightarrow> (\<exists>k. x = of_int k * quantum x)"
proof
  assume "is_double x"
  then have "x = 0 \<or> x = of_int (round_half_even (x / quantum x)) * quantum x"
    by (auto simp: is_double_def rnd_def split: if_splits)
  then show "\<exists>k. x = of_int k * quantum x" by (metis mult_eq_0_iff of_int_0)
next
  assume "\<exists>k. x = of_int k * quantum x"
  then show "is_double x" by (auto simp: is_double_def intro: rnd_grid)
qed

lemma less_quantum:
  assumes "0 < y" shows "y < 2 ^ 53 * quantum y"
proof -
  define e where "e = max (ilog2 \<bar>y\<bar>) (-1022)"
  have "y < 2 powi (ilog2 y + 1)" using assms by (rule ilog2_bounds)
  also have "\<dots> \<le> 2 powi (e + 1)" using assms by (intro powi_two_mono) (simp add: e_def)
  also have "\<dots> = of_int (2 ^ 53) * quantum y"
    using powi_two_split [of "e - 52" "e + 1"] by (simp add: quantum_def e_def)
  finally show ?thesis by simp
qed

lemma pos_multiple_ge:
  assumes "d = of_int k * (q :: rat)" "0 < d" "0 < q"
  shows "q \<le> d"
proof -
  have "0 < k" using assms by (simp add: zero_less_mult_iff)
  then have "(1 :: rat) \<le> of_int k" by (simp only: of_int_1_le_iff)
  then show ?thesis using assms by (simp add: mult_le_cancel_right1)
qed

text \<open>Two neighbouring positive doubles are at least one part in \<open>2 ^ 53\<close> apart.\<close>

lemma double_gap:
  assumes dx: "is_double x" and dy: "is_double y" and y: "0 < y" and less: "x < y"
  shows "y \<le> 2 ^ 53 * (y - x)"
proof (cases "2 * x \<le> y")
  case True
  then have "y \<le> 2 * (y - x)" by simp
  also have "\<dots> \<le> 2 ^ 53 * (y - x)" using less by (intro mult_right_mono) simp_all
  finally show ?thesis .
next
  case False
  then have x: "0 < x" using y by simp
  define ex ey where "ex = max (ilog2 x) (-1022)" and "ey = max (ilog2 y) (-1022)"
  have qx: "quantum x = 2 powi (ex - 52)" and qy: "quantum y = 2 powi (ey - 52)"
    using x y by (simp_all add: quantum_def ex_def ey_def)
  obtain i where i: "x = of_int i * quantum x" using dx is_double_grid by blast
  obtain j where j: "y = of_int j * quantum y" using dy is_double_grid by blast
  have "ilog2 x \<le> ilog2 y"
    using ilog2_ge [of "ilog2 x" y] ilog2_bounds(1) [OF x] less by linarith
  then have le: "ex \<le> ey" by (simp add: ex_def ey_def)
  have "2 powi (ilog2 y - 1) \<le> x"
    using ilog2_bounds(1) [OF y] False by (simp add: power_int_diff)
  then have "ilog2 y - 1 \<le> ilog2 x" by (rule ilog2_ge)
  then have ge: "ey - 1 \<le> ex" by (simp add: ex_def ey_def)
  show ?thesis
  proof (cases "ex = ey")
    case True
    then have "x = of_int i * quantum y" using i by (simp add: qx qy)
    then have "y - x = of_int (j - i) * quantum y" using j by (metis left_diff_distrib of_int_diff)
    then have "quantum y \<le> y - x" by (rule pos_multiple_ge) (use less in simp_all)
    then show ?thesis using less_quantum [OF y] by simp
  next
    case False
    then have ex: "ex = ey - 1" using le ge by simp
    then have iy: "ilog2 y = ey" by (auto simp: ex_def ey_def max_def split: if_splits)
    have two: "quantum y = 2 * quantum x" by (simp add: qx qy ex power_int_diff)
    have b: "(2::rat) powi ey = of_int (2 ^ 52) * quantum y"
      using powi_two_split [of "ey - 52" ey] by (simp add: qy)
    have "x < 2 powi (ilog2 x + 1)" using x by (rule ilog2_bounds)
    also have "\<dots> \<le> 2 powi ey" using ex by (intro powi_two_mono) (simp add: ex_def)
    finally have xb: "x < of_int (2 ^ 52) * quantum y" by (simp add: b)
    have "of_int (2 ^ 52) * quantum y \<le> of_int j * quantum y"
      using ilog2_bounds(1) [OF y] j by (simp add: iy b)
    then have jb: "2 ^ 52 \<le> j" by (simp only: mult_le_cancel_right_pos [OF quantum_pos] of_int_le_iff)
    show ?thesis
    proof (cases "j = 2 ^ 52")
      case True
      have "y = of_int (2 * j) * quantum x" using j two by simp
      then have "y - x = of_int (2 * j - i) * quantum x" using i by (metis left_diff_distrib of_int_diff)
      then have "quantum x \<le> y - x" by (rule pos_multiple_ge) (use less in simp_all)
      moreover have "y = 2 ^ 53 * quantum x" using j True two by simp
      ultimately show ?thesis by simp
    next
      case False
      with jb have "2 ^ 52 + 1 \<le> j" by simp
      then have "of_int (2 ^ 52 + 1) * quantum y \<le> y"
        using j by (metis mult_right_mono of_int_le_iff quantum_pos less_imp_le)
      with xb have "quantum y \<le> y - x" by (simp add: algebra_simps)
      then show ?thesis using less_quantum [OF y] by simp
    qed
  qed
qed

text \<open>
  Rounding never lifts a quotient of doubles below one up to one: comparing the rounded
  ratio with 1 decides the comparison of the operands exactly.
\<close>

lemma rnd_ratio_ge_one:
  assumes "is_double x" "is_double y" "0 < y"
  shows "1 \<le> rnd (x / y) \<longleftrightarrow> y \<le> x"
proof
  assume "y \<le> x"
  then have "1 \<le> x / y" using assms by (simp add: le_divide_eq)
  then have "rnd 1 \<le> rnd (x / y)" by (rule rnd_mono)
  moreover have "rnd 1 = 1" using is_double_int [of 1] by (simp add: is_double_def)
  ultimately show "1 \<le> rnd (x / y)" by simp
next
  assume one: "1 \<le> rnd (x / y)"
  show "y \<le> x"
  proof (rule ccontr)
    assume "\<not> y \<le> x"
    then have "y \<le> 2 ^ 53 * (y - x)" using assms by (intro double_gap) simp_all
    then have "x / y \<le> 1 - 1 / 2 ^ 53" using assms(3) by (simp add: field_simps)
    also have "\<dots> = of_int (2 ^ 53 - 1) * 2 powi (- 53)" by (simp add: power_int_def field_simps)
    finally have "rnd (x / y) \<le> rnd (of_int (2 ^ 53 - 1) * 2 powi (- 53))" by (rule rnd_mono)
    also have "\<dots> = of_int (2 ^ 53 - 1) * 2 powi (- 53)"
      by (rule rnd_exact [OF refl]) simp_all
    also have "\<dots> < 1" by (simp add: power_int_def field_simps)
    finally show False using one by simp
  qed
qed

section \<open>Float values and operations\<close>

datatype pyfloat = Fin rat | PInf | NInf | NaN

definition to_float :: "rat \<Rightarrow> pyfloat" where
  "to_float x =
     (let v = rnd x
      in if 2 ^ 1024 \<le> v then PInf else if v \<le> - (2 ^ 1024) then NInf else Fin v)"

definition float_wf :: "pyfloat \<Rightarrow> bool" where
  "float_wf f = (case f of Fin x \<Rightarrow> is_double x | _ \<Rightarrow> True)"

definition is_finite_float :: "pyfloat \<Rightarrow> bool" where
  "is_finite_float f = (case f of Fin _ \<Rightarrow> True | _ \<Rightarrow> False)"

definition inf_of :: "bool \<Rightarrow> pyfloat" where
  "inf_of negative = (if negative then NInf else PInf)"

text \<open>\<open>bool(f)\<close>: only zero is false; NaN and the infinities are true.\<close>

definition float_true :: "pyfloat \<Rightarrow> bool" where
  "float_true f \<longleftrightarrow> f \<noteq> Fin 0"

text \<open>Comparisons: false as soon as one side is NaN.\<close>

fun float_le :: "pyfloat \<Rightarrow> pyfloat \<Rightarrow> bool" where
  "float_le NaN _ = False"
| "float_le _ NaN = False"
| "float_le NInf _ = True"
| "float_le _ PInf = True"
| "float_le (Fin x) (Fin y) = (x \<le> y)"
| "float_le _ _ = False"

fun float_less :: "pyfloat \<Rightarrow> pyfloat \<Rightarrow> bool" where
  "float_less NaN _ = False"
| "float_less _ NaN = False"
| "float_less NInf NInf = False"
| "float_less NInf _ = True"
| "float_less PInf _ = False"
| "float_less (Fin x) PInf = True"
| "float_less (Fin x) (Fin y) = (x < y)"
| "float_less (Fin x) NInf = False"

text \<open>\<open>a / b\<close>; \<open>None\<close> is \<open>ZeroDivisionError\<close>.\<close>

fun float_div :: "pyfloat \<Rightarrow> pyfloat \<Rightarrow> pyfloat option" where
  "float_div NaN (Fin y) = (if y = 0 then None else Some NaN)"
| "float_div NaN _ = Some NaN"
| "float_div _ NaN = Some NaN"
| "float_div (Fin x) (Fin y) = (if y = 0 then None else Some (to_float (x / y)))"
| "float_div (Fin x) _ = Some (Fin 0)"
| "float_div PInf (Fin y) = (if y = 0 then None else Some (inf_of (y < 0)))"
| "float_div NInf (Fin y) = (if y = 0 then None else Some (inf_of (0 < y)))"
| "float_div _ _ = Some NaN"

fun float_mul :: "pyfloat \<Rightarrow> pyfloat \<Rightarrow> pyfloat" where
  "float_mul (Fin x) (Fin y) = to_float (x * y)"
| "float_mul NaN _ = NaN"
| "float_mul _ NaN = NaN"
| "float_mul PInf (Fin y) = (if y = 0 then NaN else inf_of (y < 0))"
| "float_mul NInf (Fin y) = (if y = 0 then NaN else inf_of (0 < y))"
| "float_mul (Fin x) PInf = (if x = 0 then NaN else inf_of (x < 0))"
| "float_mul (Fin x) NInf = (if x = 0 then NaN else inf_of (0 < x))"
| "float_mul PInf PInf = PInf"
| "float_mul NInf NInf = PInf"
| "float_mul PInf NInf = NInf"
| "float_mul NInf PInf = NInf"

fun float_neg :: "pyfloat \<Rightarrow> pyfloat" where
  "float_neg (Fin x) = Fin (- x)"
| "float_neg PInf = NInf"
| "float_neg NInf = PInf"
| "float_neg NaN = NaN"

fun float_add :: "pyfloat \<Rightarrow> pyfloat \<Rightarrow> pyfloat" where
  "float_add (Fin x) (Fin y) = to_float (x + y)"
| "float_add NaN _ = NaN"
| "float_add _ NaN = NaN"
| "float_add PInf NInf = NaN"
| "float_add NInf PInf = NaN"
| "float_add PInf _ = PInf"
| "float_add _ PInf = PInf"
| "float_add _ _ = NInf"

definition float_sub :: "pyfloat \<Rightarrow> pyfloat \<Rightarrow> pyfloat" where
  "float_sub a b = float_add a (float_neg b)"

text \<open>\<open>a / b\<close> on two \<open>int\<close>s with \<open>b \<noteq> 0\<close>: the correctly rounded quotient.\<close>

definition int_truediv :: "int \<Rightarrow> int \<Rightarrow> pyfloat" where
  "int_truediv a b = to_float (of_int a / of_int b)"

lemma rnd_rnd [simp]: "rnd (rnd x) = rnd x"
proof (cases "x = 0")
  case False
  define k where "k = round_half_even (x / quantum x)"
  define e where "e = max (ilog2 \<bar>x\<bar>) (-1022) - 52"
  have r: "rnd x = of_int k * 2 powi e" using False by (simp add: rnd_def k_def quantum_def e_def)
  have "\<bar>x\<bar> < 2 ^ 53 * quantum \<bar>x\<bar>" using False by (intro less_quantum) simp
  then have b: "\<bar>x / quantum x\<bar> < of_int (2 ^ 53)"
    by (simp add: abs_divide divide_less_eq quantum_def)
  have "x / quantum x \<le> of_int (2 ^ 53)" using b by linarith
  then have "k \<le> 2 ^ 53" unfolding k_def by (rule round_half_even_le)
  moreover have "of_int (- (2 ^ 53)) \<le> x / quantum x" using b by linarith
  then have "- (2 ^ 53) \<le> k" unfolding k_def by (rule round_half_even_ge)
  ultimately have "\<bar>k\<bar> \<le> 2 ^ 53" by simp
  from rnd_exact [OF r this] show ?thesis by (simp add: e_def)
qed simp

lemma is_double_rnd [simp]: "is_double (rnd x)"
  by (simp add: is_double_def)

lemma float_wf_to_float [simp]: "float_wf (to_float x)"
  by (simp add: to_float_def float_wf_def Let_def)

lemma to_float_between:
  assumes "of_int a \<le> x" "x \<le> of_int b" "\<bar>a\<bar> \<le> 2 ^ 53" "\<bar>b\<bar> \<le> 2 ^ 53"
  shows "\<exists>v. to_float x = Fin v \<and> of_int a \<le> v \<and> v \<le> of_int b"
proof -
  have a: "rnd (of_int a) = of_int a" and b: "rnd (of_int b) = of_int b"
    using is_double_int assms by (simp_all add: is_double_def)
  have lo: "of_int a \<le> rnd x" using rnd_mono [OF assms(1)] a by simp
  have hi: "rnd x \<le> of_int b" using rnd_mono [OF assms(2)] b by simp
  have "rnd x < 2 ^ 1024" "- (2 ^ 1024) < rnd x"
  proof -
    have ab: "(of_int b :: rat) \<le> of_int (2 ^ 53)" "(of_int (- (2 ^ 53)) :: rat) \<le> of_int a"
      using assms(3,4) by (simp_all only: of_int_le_iff)
    then show "rnd x < 2 ^ 1024" "- (2 ^ 1024) < rnd x" using lo hi by simp_all
  qed
  then show ?thesis using lo hi by (simp add: to_float_def Let_def not_le)
qed

lemma int_truediv_between:
  assumes "a * n \<le> s" "s \<le> b * n" "0 < n" "\<bar>a\<bar> \<le> 2 ^ 53" "\<bar>b\<bar> \<le> 2 ^ 53"
  shows "\<exists>v. int_truediv s n = Fin v \<and> of_int a \<le> v \<and> v \<le> of_int b"
proof -
  have "(of_int (a * n) :: rat) \<le> of_int s" "(of_int s :: rat) \<le> of_int (b * n)"
    using assms by (simp_all only: of_int_le_iff)
  then have "of_int a \<le> (of_int s / of_int n :: rat)" "(of_int s / of_int n :: rat) \<le> of_int b"
    using assms(3) by (simp_all add: le_divide_eq divide_le_eq)
  then show ?thesis unfolding int_truediv_def by (rule to_float_between) (use assms in simp_all)
qed

text \<open>The decimal literals of the code, as the doubles Python reads them as.\<close>

definition float_lit :: "rat \<Rightarrow> pyfloat" where
  "float_lit q = to_float q"

lemma float_le_trans: "float_le a b \<Longrightarrow> float_le b c \<Longrightarrow> float_le a c"
  by (cases a; cases b; cases c) auto

lemma to_float_mono: "x \<le> y \<Longrightarrow> float_le (to_float x) (to_float y)"
  using rnd_mono [of x y] by (auto simp: to_float_def Let_def)

text \<open>
  Evaluation by certificate: the binade \<open>e\<close> and the integer significand \<open>k\<close> of the result.
\<close>

lemma rnd_eqI:
  assumes lo: "2 powi e \<le> \<bar>x\<bar>" and hi: "\<bar>x\<bar> < 2 powi (e + 1)" and e: "- 1022 \<le> e"
    and near: "\<bar>x - of_int k * 2 powi (e - 52)\<bar> < 2 powi (e - 53)"
  shows "rnd x = of_int k * 2 powi (e - 52)"
proof -
  have pos: "0 < \<bar>x\<bar>" using lo powi_two_pos [of e] by linarith
  have "ilog2 \<bar>x\<bar> = e" using ilog2_ge [OF lo] ilog2_less [OF pos hi] by linarith
  then have q: "quantum x = 2 powi (e - 52)" using e by (simp add: quantum_def)
  define y where "y = x / 2 powi (e - 52)"
  have "x - of_int k * 2 powi (e - 52) = (y - of_int k) * 2 powi (e - 52)"
    by (simp add: y_def left_diff_distrib)
  moreover have "(2::rat) powi (e - 53) = 1 / 2 * 2 powi (e - 52)"
    using power_int_add [of "2 :: rat" "- 1" "e - 52"] by simp
  ultimately have "\<bar>y - of_int k\<bar> * 2 powi (e - 52) < 1 / 2 * 2 powi (e - 52)"
    using near by (simp only: abs_mult) simp
  then have "\<bar>y - of_int k\<bar> < 1 / 2"
    by (simp only: mult_less_cancel_right_pos [OF powi_two_pos])
  then have "round_half_even y = k"
  proof (cases "of_int k \<le> y")
    case True
    with \<open>\<bar>y - of_int k\<bar> < 1 / 2\<close> have "\<lfloor>y\<rfloor> = k" by (intro floor_unique) linarith+
    with \<open>\<bar>y - of_int k\<bar> < 1 / 2\<close> True show ?thesis by (simp add: round_half_even_def)
  next
    case False
    with \<open>\<bar>y - of_int k\<bar> < 1 / 2\<close> have "of_int (k - 1) \<le> y" "y < of_int (k - 1) + 1" by simp_all
    then have "\<lfloor>y\<rfloor> = k - 1" by (rule floor_unique)
    with \<open>\<bar>y - of_int k\<bar> < 1 / 2\<close> False show ?thesis by (simp add: round_half_even_def)
  qed
  then show ?thesis using pos by (simp add: rnd_def q y_def)
qed

lemma to_float_eqI:
  assumes "2 powi e \<le> \<bar>x\<bar>" "\<bar>x\<bar> < 2 powi (e + 1)" "- 1022 \<le> e" "e \<le> 1000"
    and "\<bar>x - of_int k * 2 powi (e - 52)\<bar> < 2 powi (e - 53)"
  shows "to_float x = Fin (of_int k * 2 powi (e - 52))"
proof -
  have r: "rnd x = of_int k * 2 powi (e - 52)" using assms by (intro rnd_eqI) simp_all
  have p: "(2 :: rat) powi (e + 1) < 2 ^ 1024"
    using assms(4) powi_two_less_iff [of "e + 1" "int 1024"] by (simp add: power_int_def)
  have m: "rnd (2 powi (e + 1)) = 2 powi (e + 1)"
    using rnd_exact [of "2 powi (e + 1)" 1 "e + 1"] assms(3) by simp
  have "rnd x \<le> 2 powi (e + 1)" using rnd_mono [of x "2 powi (e + 1)"] assms(2) m by simp
  moreover have "- (2 powi (e + 1)) \<le> rnd x"
    using rnd_mono [of "- (2 powi (e + 1))" x] assms(2) m by (simp add: rnd_minus)
  ultimately have "rnd x < 2 ^ 1024" "- (2 ^ 1024) < rnd x" using p by linarith+
  then show ?thesis by (simp add: to_float_def Let_def r not_le)
qed

lemma float_lit_1_2: "float_lit (6 / 5) = Fin (5404319552844595 / 4503599627370496)"
  using to_float_eqI [of 0 "6 / 5" 5404319552844595]
  by (simp add: float_lit_def power_int_def power_divide)

text \<open>
  The literal is the double next to 1.2 from below, with an odd last digit: a number rounds to it
  or beyond exactly when it exceeds the midpoint between the literal and its predecessor.
\<close>

abbreviation below_1_2 :: rat where
  "below_1_2 \<equiv> 10808639105689189 / 9007199254740992"

lemma to_float_below_1_2: "to_float below_1_2 = Fin (5404319552844594 / 4503599627370496)"
proof -
  have "ilog2 below_1_2 = 0" using ilog2_ge [of 0 below_1_2] ilog2_less [of below_1_2 1] by simp
  then have q: "quantum below_1_2 = 1 / 4503599627370496" by (simp add: quantum_def power_int_def power_one_over)
  have "\<lfloor>10808639105689189 / 2 :: rat\<rfloor> = 5404319552844594" by (simp add: floor_eq_iff)
  then have "round_half_even (10808639105689189 / 2) = 5404319552844594"
    by (simp add: round_half_even_def Let_def)
  then have "rnd below_1_2 = 5404319552844594 / 4503599627370496" by (simp add: rnd_def q)
  then show ?thesis by (simp add: to_float_def Let_def)
qed

lemma reaches_1_2: "float_le (float_lit (6 / 5)) (to_float q) \<longleftrightarrow> below_1_2 < q"
proof
  assume reach: "float_le (float_lit (6 / 5)) (to_float q)"
  show "below_1_2 < q"
  proof (rule ccontr)
    assume "\<not> below_1_2 < q"
    then have "float_le (to_float q) (to_float below_1_2)" by (intro to_float_mono) simp
    from float_le_trans [OF reach this] show False by (simp add: float_lit_1_2 to_float_below_1_2)
  qed
next
  let ?c = "5404319552844595 / 4503599627370496 :: rat"
  have eq: "to_float x = Fin ?c" if "below_1_2 < x" "x \<le> ?c" for x
  proof -
    have "x \<le> 2" "1 \<le> x" using that by simp_all
    moreover have "\<bar>x - ?c\<bar> < 1 / 9007199254740992" using that by (simp add: abs_less_iff field_simps)
    ultimately show ?thesis using to_float_eqI [of 0 x 5404319552844595] that
      by (simp add: power_int_def power_divide)
  qed
  assume q: "below_1_2 < q"
  show "float_le (float_lit (6 / 5)) (to_float q)"
  proof (cases "q \<le> ?c")
    case True
    then show ?thesis using eq [OF q] by (simp add: float_lit_1_2)
  next
    case False
    then show ?thesis using to_float_mono [of ?c q] eq [of ?c] by (simp add: float_lit_1_2)
  qed
qed

lemma float_lit_0_7: "float_lit (7 / 10) = Fin (3152519739159347 / 4503599627370496)"
  using to_float_eqI [of "-1" "7 / 10" 6305039478318694]
  by (simp add: float_lit_def power_int_def power_divide)

end
