(* ===== verification/Pyjson.thy ===== *)
theory Pyjson
  imports Pyfloat "HOL-Library.AList" "HOL-Library.Countable"
begin

text \<open>
  The JSON-shaped Python values that cross the program's boundaries: request bodies, event
  payloads, the \<open>data\<close> of a stored item. A \<open>dict\<close> is an association list in insertion order
  (keys are strings everywhere in the code). \<open>JDec\<close> is \<open>decimal.Decimal\<close>, the number type of
  the DynamoDB client. JSON text is not modelled character by character: \<open>json.dumps\<close> and
  \<open>json.loads\<close> appear only as the change they make to the value, and as the text codec of the
  environment where the code keeps the text.
\<close>

section \<open>Values\<close>

datatype json =
    JNull
  | JBool bool
  | JInt int
  | JFloat pyfloat
  | JDec rat
  | JStr string
  | JList "json list"
  | JObj "(string \<times> json) list"

type_synonym dict = "(string \<times> json) list"

text \<open>\<open>d.get(k)\<close>, \<open>d[k] = v\<close>, \<open>d | e\<close>, \<open>d.get(k, default)\<close>\<close>

definition dict_get :: "dict \<Rightarrow> string \<Rightarrow> json option" where
  "dict_get d k = map_of d k"

definition dict_set :: "string \<Rightarrow> json \<Rightarrow> dict \<Rightarrow> dict" where
  "dict_set k v d = AList.update k v d"

definition dict_union :: "dict \<Rightarrow> dict \<Rightarrow> dict" where
  "dict_union d e = fold (\<lambda>(k, v) acc. dict_set k v acc) e d"

definition dict_get_or :: "dict \<Rightarrow> string \<Rightarrow> json \<Rightarrow> json" where
  "dict_get_or d k v = (case dict_get d k of Some x \<Rightarrow> x | None \<Rightarrow> v)"

text \<open>\<open>bool(v)\<close>\<close>

fun truthy :: "json \<Rightarrow> bool" where
  "truthy JNull = False"
| "truthy (JBool b) = b"
| "truthy (JInt n) = (n \<noteq> 0)"
| "truthy (JFloat f) = float_true f"
| "truthy (JDec d) = (d \<noteq> 0)"
| "truthy (JStr s) = (s \<noteq> [])"
| "truthy (JList xs) = (xs \<noteq> [])"
| "truthy (JObj d) = (d \<noteq> [])"

text \<open>\<open>a or b\<close> on values, with an absent key of \<open>d.get(k)\<close> read as \<open>None\<close>.\<close>

definition get_null :: "dict \<Rightarrow> string \<Rightarrow> json" where
  "get_null d k = dict_get_or d k JNull"

definition py_or :: "json \<Rightarrow> json \<Rightarrow> json" where
  "py_or a b = (if truthy a then a else b)"

definition opt_str :: "string option \<Rightarrow> json" where
  "opt_str s = (case s of None \<Rightarrow> JNull | Some t \<Rightarrow> JStr t)"

definition opt_int :: "int option \<Rightarrow> json" where
  "opt_int n = (case n of None \<Rightarrow> JNull | Some i \<Rightarrow> JInt i)"

definition str_list :: "string list \<Rightarrow> json" where
  "str_list xs = JList (map JStr xs)"

section \<open>Equality of values up to the order of dictionary keys\<close>

inductive same_value :: "json \<Rightarrow> json \<Rightarrow> bool" where
  same_null: "same_value JNull JNull"
| same_bool: "same_value (JBool b) (JBool b)"
| same_int: "same_value (JInt n) (JInt n)"
| same_float: "same_value (JFloat f) (JFloat f)"
| same_dec: "same_value (JDec d) (JDec d)"
| same_str: "same_value (JStr s) (JStr s)"
| same_list: "list_all2 same_value xs ys \<Longrightarrow> same_value (JList xs) (JList ys)"
| same_obj: "(\<And>k. rel_option same_value (map_of xs k) (map_of ys k)) \<Longrightarrow>
    same_value (JObj xs) (JObj ys)"
  monos option.rel_mono_strong

inductive_cases same_null_l: "same_value JNull v"
inductive_cases same_bool_l: "same_value (JBool b) v"
inductive_cases same_int_l: "same_value (JInt n) v"
inductive_cases same_float_l: "same_value (JFloat f) v"
inductive_cases same_dec_l: "same_value (JDec d) v"
inductive_cases same_str_l: "same_value (JStr s) v"
inductive_cases same_list_l: "same_value (JList xs) v"
inductive_cases same_obj_l: "same_value (JObj xs) v"

lemma same_value_refl [simp, intro]: "same_value v v"
proof (induction v)
  case (JList xs)
  then show ?case by (auto intro!: same_list simp: list_all2_same)
next
  case (JObj d)
  have "rel_option same_value (map_of d k) (map_of d k)" for k
    using JObj by (cases "map_of d k") (auto dest!: map_of_SomeD)
  then show ?case by (rule same_obj)
qed (auto intro: same_value.intros)

text \<open>A reader that does not look at the order of keys.\<close>

definition key_order_blind :: "(json \<Rightarrow> 'a) \<Rightarrow> bool" where
  "key_order_blind v \<longleftrightarrow> (\<forall>a b. same_value a b \<longrightarrow> v a = v b)"

lemma key_order_blindD: "key_order_blind v \<Longrightarrow> same_value a b \<Longrightarrow> v a = v b"
  by (simp add: key_order_blind_def)

instance pyfloat :: countable by countable_datatype
instance json :: countable by countable_datatype

section \<open>What storing a value does to it\<close>

text \<open>
  \<open>json.loads(json.dumps(v, default=json_default), parse_float=Decimal)\<close>
  (\<open>shared/dynamodb.py\<close>): a finite float becomes the \<open>Decimal\<close> that its \<open>repr\<close> denotes, a
  \<open>Decimal\<close> becomes an \<open>int\<close> when it is integral and goes through \<open>float\<close> otherwise; NaN and
  the infinities stay floats. \<open>rp\<close> is the decimal that \<open>repr\<close> prints for a double.
\<close>

definition decimal_of_float :: "(rat \<Rightarrow> rat) \<Rightarrow> pyfloat \<Rightarrow> json" where
  "decimal_of_float rp f = (case f of Fin x \<Rightarrow> JDec (rp x) | _ \<Rightarrow> JFloat f)"

definition is_integral :: "rat \<Rightarrow> bool" where
  "is_integral d \<longleftrightarrow> of_int \<lfloor>d\<rfloor> = d"

definition json_default :: "(rat \<Rightarrow> rat) \<Rightarrow> rat \<Rightarrow> json" where
  "json_default rp d =
     (if is_integral d then JInt \<lfloor>d\<rfloor> else decimal_of_float rp (to_float d))"

primrec dynamodb_value :: "(rat \<Rightarrow> rat) \<Rightarrow> json \<Rightarrow> json" where
  "dynamodb_value rp JNull = JNull"
| "dynamodb_value rp (JBool b) = JBool b"
| "dynamodb_value rp (JInt n) = JInt n"
| "dynamodb_value rp (JFloat f) = decimal_of_float rp f"
| "dynamodb_value rp (JDec d) = json_default rp d"
| "dynamodb_value rp (JStr s) = JStr s"
| "dynamodb_value rp (JList xs) = JList (map (dynamodb_value rp) xs)"
| "dynamodb_value rp (JObj d) = JObj (map (map_prod id (dynamodb_value rp)) d)"

text \<open>
  \<open>json.loads(json.dumps(v, default=_json_default))\<close> (\<open>shared/realtime.py\<close>): the same
  conversion of \<open>Decimal\<close>, read back without \<open>parse_float\<close>.
\<close>

primrec realtime_value :: "json \<Rightarrow> json" where
  "realtime_value JNull = JNull"
| "realtime_value (JBool b) = JBool b"
| "realtime_value (JInt n) = JInt n"
| "realtime_value (JFloat f) = JFloat f"
| "realtime_value (JDec d) = (if is_integral d then JInt \<lfloor>d\<rfloor> else JFloat (to_float d))"
| "realtime_value (JStr s) = JStr s"
| "realtime_value (JList xs) = JList (map realtime_value xs)"
| "realtime_value (JObj d) = JObj (map (map_prod id realtime_value) d)"

text \<open>
  What the DynamoDB client gives back for a stored value: every number is a \<open>Decimal\<close>. A
  Python float anywhere in an item is refused (\<open>storable\<close>).
\<close>

primrec wire :: "json \<Rightarrow> json" where
  "wire JNull = JNull"
| "wire (JBool b) = JBool b"
| "wire (JInt n) = JDec (of_int n)"
| "wire (JFloat f) = JFloat f"
| "wire (JDec d) = JDec d"
| "wire (JStr s) = JStr s"
| "wire (JList xs) = JList (map wire xs)"
| "wire (JObj d) = JObj (map (map_prod id wire) d)"

primrec storable :: "json \<Rightarrow> bool" where
  "storable JNull = True"
| "storable (JBool b) = True"
| "storable (JInt n) = True"
| "storable (JFloat f) = False"
| "storable (JDec d) = True"
| "storable (JStr s) = True"
| "storable (JList xs) = list_all id (map storable xs)"
| "storable (JObj d) = list_all snd (map (map_prod id storable) d)"

text \<open>Values without NaN, infinities, or decimals too large for a double.\<close>

primrec finite_numbers :: "json \<Rightarrow> bool" where
  "finite_numbers JNull = True"
| "finite_numbers (JBool b) = True"
| "finite_numbers (JInt n) = True"
| "finite_numbers (JFloat f) = is_finite_float f"
| "finite_numbers (JDec d) = (is_integral d \<or> is_finite_float (to_float d))"
| "finite_numbers (JStr s) = True"
| "finite_numbers (JList xs) = list_all id (map finite_numbers xs)"
| "finite_numbers (JObj d) = list_all snd (map (map_prod id finite_numbers) d)"

text \<open>Values that JSON text can carry: no \<open>Decimal\<close>, and no key twice in a dictionary.\<close>

primrec json_native :: "json \<Rightarrow> bool" where
  "json_native JNull = True"
| "json_native (JBool b) = True"
| "json_native (JInt n) = True"
| "json_native (JFloat f) = True"
| "json_native (JDec d) = False"
| "json_native (JStr s) = True"
| "json_native (JList xs) = list_all id (map json_native xs)"
| "json_native (JObj d) = (distinct (map fst d) \<and> list_all snd (map (map_prod id json_native) d))"

text \<open>The entries of a dumped model.\<close>

definition dict_of :: "json \<Rightarrow> dict" where
  "dict_of v = (case v of JObj d \<Rightarrow> d | _ \<Rightarrow> [])"

lemma dict_of_obj [simp]: "dict_of (JObj d) = d"
  by (simp add: dict_of_def)

lemma map_of_map_snd [simp]: "map_of (map (map_prod id f) d) k = map_option f (map_of d k)"
  by (induction d) auto

lemma fst_map_snd [simp]: "map fst (map (map_prod id f) d) = map fst d"
  by (simp add: o_def)

text \<open>Converting a value without NaN or infinities leaves no float behind: the item is storable.\<close>

lemma finite_float_storable: "is_finite_float f \<Longrightarrow> storable (decimal_of_float rp f)"
  by (cases f) (simp_all add: is_finite_float_def decimal_of_float_def)

lemma dynamodb_value_storable: "finite_numbers v \<Longrightarrow> storable (dynamodb_value rp v)"
proof (induction v)
  case (JList xs)
  then show ?case by (auto simp: list_all_iff)
next
  case (JObj d)
  then show ?case by (fastforce simp: list_all_iff)
qed (auto simp: json_default_def finite_float_storable)

lemma is_integral_of_int [simp]: "is_integral (of_int n)"
  by (simp add: is_integral_def)

end
