(* ===== verification/Codec.thy ===== *)
theory Codec
  imports Pyjson
begin

text \<open>
  The library functions the code relies on without containing them (Pydantic's conversions
  of one scalar, ISO-8601 text, the JSON text codec, Unicode case folding, \<open>repr\<close> of a float)
  as one record of parameters, and the combinators with which each \<open>BaseModel\<close> class of the
  source is translated: \<open>required\<close>, \<open>defaulted\<close> and \<open>checked\<close> fields over scalar readers. A
  class then has a \<open>dump\<close> (\<open>model_dump(mode="json")\<close>) and a \<open>validate\<close> (\<open>model_validate\<close>).
\<close>

section \<open>Library parameters\<close>

record lib =
  format_datetime :: "int \<Rightarrow> string"
  parse_datetime :: "string \<Rightarrow> int option"
  lax_datetime :: "json \<Rightarrow> int option"
  lax_float :: "json \<Rightarrow> pyfloat option"
  lax_int :: "json \<Rightarrow> int option"
  lax_bool :: "json \<Rightarrow> bool option"
  float_repr :: "rat \<Rightarrow> rat"
  json_text :: "json \<Rightarrow> string"
  json_parse :: "string \<Rightarrow> json option"
  casefold :: "string \<Rightarrow> string"
  str_other :: "json \<Rightarrow> string"

text \<open>
  Documented behaviour: an ISO-8601 rendering parses back to the same instant, \<open>repr\<close> of a
  finite double denotes a decimal that reads back as that double, and JSON text reads
  back as the value it was written from.
\<close>

definition lib_ok :: "lib \<Rightarrow> bool" where
  "lib_ok L \<longleftrightarrow>
     (\<forall>t. parse_datetime L (format_datetime L t) = Some t) \<and>
     (\<forall>x. to_float x = Fin x \<longrightarrow> to_float (float_repr L x) = Fin x) \<and>
     (\<forall>v. json_native v \<longrightarrow> json_parse L (json_text L v) = Some v)"

lemma lib_ok_datetime [simp]: "lib_ok L \<Longrightarrow> parse_datetime L (format_datetime L t) = Some t"
  and lib_ok_repr: "lib_ok L \<Longrightarrow> to_float x = Fin x \<Longrightarrow> to_float (float_repr L x) = Fin x"
  and lib_ok_text [simp]: "lib_ok L \<Longrightarrow> json_native v \<Longrightarrow> json_parse L (json_text L v) = Some v"
  by (simp_all add: lib_ok_def)

text \<open>\<open>str(v)\<close>; the printed form of other values is left to the library.\<close>

definition py_str :: "lib \<Rightarrow> json \<Rightarrow> string" where
  "py_str L v =
     (case v of JStr s \<Rightarrow> s
      | JInt n \<Rightarrow> str_of_int n
      | JNull \<Rightarrow> ''None''
      | JBool b \<Rightarrow> (if b then ''True'' else ''False'')
      | _ \<Rightarrow> str_other L v)"

section \<open>Readers of one scalar\<close>

type_synonym 'a reader = "json \<Rightarrow> 'a option"

definition read_str :: "string reader" where
  "read_str v = (case v of JStr s \<Rightarrow> Some s | _ \<Rightarrow> None)"

definition read_float :: "lib \<Rightarrow> pyfloat reader" where
  "read_float L v =
     (case v of JFloat f \<Rightarrow> Some f
      | JInt n \<Rightarrow> Some (to_float (of_int n))
      | JDec d \<Rightarrow> Some (to_float d)
      | JStr _ \<Rightarrow> lax_float L v
      | JBool _ \<Rightarrow> lax_float L v
      | _ \<Rightarrow> None)"

definition read_int :: "lib \<Rightarrow> int reader" where
  "read_int L v =
     (case v of JInt n \<Rightarrow> Some n
      | JDec d \<Rightarrow> (if is_integral d then Some \<lfloor>d\<rfloor> else None)
      | JFloat (Fin x) \<Rightarrow> (if is_integral x then Some \<lfloor>x\<rfloor> else None)
      | JStr _ \<Rightarrow> lax_int L v
      | JBool _ \<Rightarrow> lax_int L v
      | _ \<Rightarrow> None)"

definition read_bool :: "lib \<Rightarrow> bool reader" where
  "read_bool L v =
     (case v of JBool b \<Rightarrow> Some b
      | JStr _ \<Rightarrow> lax_bool L v | JInt _ \<Rightarrow> lax_bool L v
      | JDec _ \<Rightarrow> lax_bool L v | JFloat _ \<Rightarrow> lax_bool L v
      | _ \<Rightarrow> None)"

definition read_datetime :: "lib \<Rightarrow> int reader" where
  "read_datetime L v =
     (case v of JStr s \<Rightarrow> parse_datetime L s
      | JInt _ \<Rightarrow> lax_datetime L v | JDec _ \<Rightarrow> lax_datetime L v | JFloat _ \<Rightarrow> lax_datetime L v
      | _ \<Rightarrow> None)"

definition read_opt :: "'a reader \<Rightarrow> 'a option reader" where
  "read_opt r v = (case v of JNull \<Rightarrow> Some None | _ \<Rightarrow> map_option Some (r v))"

fun all_some :: "'a option list \<Rightarrow> 'a list option" where
  "all_some [] = Some []"
| "all_some (x # xs) =
     (case x of None \<Rightarrow> None | Some y \<Rightarrow> map_option (\<lambda>ys. y # ys) (all_some xs))"

definition read_list :: "'a reader \<Rightarrow> 'a list reader" where
  "read_list r v = (case v of JList xs \<Rightarrow> all_some (map r xs) | _ \<Rightarrow> None)"

definition read_dict :: "dict reader" where
  "read_dict v = (case v of JObj d \<Rightarrow> Some d | _ \<Rightarrow> None)"

text \<open>A \<open>StrEnum\<close>: the member whose value is the given string.\<close>

definition read_enum :: "(string \<times> 'a) list \<Rightarrow> 'a reader" where
  "read_enum tbl v = (case v of JStr s \<Rightarrow> map_of tbl s | _ \<Rightarrow> None)"

text \<open>\<open>Field(...)\<close> with a constraint.\<close>

definition checked :: "('a \<Rightarrow> bool) \<Rightarrow> 'a reader \<Rightarrow> 'a reader" where
  "checked p r v = (case r v of Some x \<Rightarrow> (if p x then Some x else None) | None \<Rightarrow> None)"

text \<open>The constraint \<open>min_length=lo, max_length=hi\<close> of a string field.\<close>

definition len_between :: "nat \<Rightarrow> nat \<Rightarrow> string \<Rightarrow> bool" where
  "len_between lo hi s \<longleftrightarrow> lo \<le> py_len s \<and> py_len s \<le> hi"

section \<open>Fields of a model class\<close>

definition required :: "string \<Rightarrow> 'a reader \<Rightarrow> 'a reader" where
  "required k r v =
     (case v of JObj d \<Rightarrow> (case map_of d k of None \<Rightarrow> None | Some x \<Rightarrow> r x) | _ \<Rightarrow> None)"

definition defaulted :: "string \<Rightarrow> 'a \<Rightarrow> 'a reader \<Rightarrow> 'a reader" where
  "defaulted k dflt r v =
     (case v of JObj d \<Rightarrow> (case map_of d k of None \<Rightarrow> Some dflt | Some x \<Rightarrow> r x) | _ \<Rightarrow> None)"

text \<open>Reading one field after another; the first that fails fails the model.\<close>

definition field :: "'a option \<Rightarrow> ('a \<Rightarrow> 'b option) \<Rightarrow> 'b option" where
  "field x f = (case x of None \<Rightarrow> None | Some a \<Rightarrow> f a)"

lemma field_Some [simp]: "field (Some a) f = f a"
  by (simp add: field_def)

lemma field_SomeE:
  assumes "field x f = Some y"
  obtains a where "x = Some a" "f a = Some y"
  using assms by (cases x) (simp_all add: field_def)

lemma required_obj [codec_simps]:
  "required k r (JObj d) = (case map_of d k of None \<Rightarrow> None | Some x \<Rightarrow> r x)"
  by (simp add: required_def)

lemma defaulted_obj [codec_simps]:
  "defaulted k dflt r (JObj d) = (case map_of d k of None \<Rightarrow> Some dflt | Some x \<Rightarrow> r x)"
  by (simp add: defaulted_def)

section \<open>Readers ignore the order of keys\<close>

lemma key_order_blindI: "(\<And>a b. same_value a b \<Longrightarrow> v a = v b) \<Longrightarrow> key_order_blind v"
  by (simp add: key_order_blind_def)

lemma same_value_cases_scalar:
  assumes "same_value a b"
  shows "a = b \<or> (\<exists>xs ys. a = JList xs \<and> b = JList ys) \<or> (\<exists>xs ys. a = JObj xs \<and> b = JObj ys)"
  using assms by (cases rule: same_value.cases) auto

lemma scalar_readers_blind [simp, intro]:
  "key_order_blind read_str" "key_order_blind (read_float L)" "key_order_blind (read_int L)"
  "key_order_blind (read_bool L)" "key_order_blind (read_datetime L)"
  "key_order_blind (read_enum tbl)"
  by (auto intro!: key_order_blindI dest!: same_value_cases_scalar
      simp: read_str_def read_float_def read_int_def read_bool_def read_datetime_def read_enum_def)

lemma read_opt_blind [simp, intro]: "key_order_blind r \<Longrightarrow> key_order_blind (read_opt r)"
proof (rule key_order_blindI)
  fix a b
  assume r: "key_order_blind r" and ab: "same_value a b"
  have "r a = r b" using r ab by (rule key_order_blindD)
  moreover have "a = JNull \<longleftrightarrow> b = JNull" using ab by (cases rule: same_value.cases) auto
  ultimately show "read_opt r a = read_opt r b" by (auto simp: read_opt_def split: json.splits)
qed

lemma read_list_blind [simp, intro]: "key_order_blind r \<Longrightarrow> key_order_blind (read_list r)"
proof (rule key_order_blindI)
  fix a b
  assume r: "key_order_blind r" and ab: "same_value a b"
  show "read_list r a = read_list r b"
  proof (cases "\<exists>xs ys. a = JList xs \<and> b = JList ys")
    case True
    then obtain xs ys where xy: "a = JList xs" "b = JList ys" by blast
    with ab have "list_all2 same_value xs ys" by (auto elim: same_list_l)
    then have "map r xs = map r ys"
      by (induction rule: list_all2_induct) (auto intro: key_order_blindD [OF r])
    then show ?thesis using xy by (simp add: read_list_def)
  next
    case False
    then show ?thesis using same_value_cases_scalar [OF ab] by (auto simp: read_list_def)
  qed
qed

lemma checked_blind [simp, intro]: "key_order_blind r \<Longrightarrow> key_order_blind (checked p r)"
  by (auto simp: key_order_blind_def checked_def)

lemma field_readers_same:
  assumes "key_order_blind r" "same_value a b"
  shows "required k r a = required k r b" "defaulted k dflt r a = defaulted k dflt r b"
proof -
  consider "a = b" | xs ys where "a = JList xs" "b = JList ys" | xs ys where "a = JObj xs" "b = JObj ys"
    using same_value_cases_scalar [OF assms(2)] by blast
  then have "required k r a = required k r b \<and> defaulted k dflt r a = defaulted k dflt r b"
  proof cases
    case (3 xs ys)
    with assms(2) have "rel_option same_value (map_of xs k) (map_of ys k)" by (auto elim: same_obj_l)
    then show ?thesis
      using 3 assms(1) by (cases rule: option.rel_cases) (auto simp: required_def defaulted_def dest: key_order_blindD)
  qed (simp_all add: required_def defaulted_def)
  then show "required k r a = required k r b" "defaulted k dflt r a = defaulted k dflt r b" by auto
qed

lemma required_blind [simp, intro]: "key_order_blind r \<Longrightarrow> key_order_blind (required k r)"
  and defaulted_blind [simp, intro]: "key_order_blind r \<Longrightarrow> key_order_blind (defaulted k dflt r)"
  by (auto intro!: key_order_blindI field_readers_same)

lemma field_blind:
  "key_order_blind r \<Longrightarrow> (\<And>x. key_order_blind (f x)) \<Longrightarrow> key_order_blind (\<lambda>j. field (r j) (\<lambda>x. f x j))"
proof (rule key_order_blindI)
  fix a b
  assume r: "key_order_blind r" and f: "\<And>x. key_order_blind (f x)" and ab: "same_value a b"
  show "field (r a) (\<lambda>x. f x a) = field (r b) (\<lambda>x. f x b)"
    using key_order_blindD [OF r ab] key_order_blindD [OF f ab] by (simp add: field_def)
qed

lemma const_blind [simp, intro]: "key_order_blind (\<lambda>_. c)"
  by (simp add: key_order_blind_def)

section \<open>Reading back what was stored\<close>

definition stored :: "lib \<Rightarrow> json \<Rightarrow> json" where
  "stored L v = wire (dynamodb_value (float_repr L) v)"

lemma stored_simps [simp, codec_simps]:
  "stored L JNull = JNull"
  "stored L (JBool b) = JBool b"
  "stored L (JInt n) = JDec (of_int n)"
  "stored L (JFloat (Fin x)) = JDec (float_repr L x)"
  "stored L (JStr s) = JStr s"
  "stored L (JList xs) = JList (map (stored L) xs)"
  "stored L (JObj d) = JObj (map (map_prod id (stored L)) d)"
  by (simp_all add: stored_def [abs_def] decimal_of_float_def prod.map_comp o_def) (auto simp: map_prod_def)

lemma stored_opt_str [simp, codec_simps]: "stored L (opt_str s) = opt_str s"
  by (cases s) (simp_all add: opt_str_def)

lemma stored_str_list [simp, codec_simps]: "stored L (str_list xs) = str_list xs"
  by (simp add: str_list_def)

lemma readers_of_stored [simp, codec_simps]:
  "read_str (JStr s) = Some s"
  "read_int L (JDec (of_int n)) = Some n" "read_int L (JInt n) = Some n"
  "read_bool L (JBool b) = Some b"
  "read_datetime L (JStr s) = parse_datetime L s"
  "read_float L (JFloat f) = Some f"
  "read_float L (JDec d) = Some (to_float d)"
  "read_dict (JObj ys) = Some ys"
  "read_enum tbl (JStr s) = map_of tbl s"
  by (simp_all add: read_str_def read_int_def read_bool_def read_datetime_def read_float_def
      read_dict_def read_enum_def)

lemma read_opt_str [simp, codec_simps]: "read_opt read_str (opt_str s) = Some s"
  by (cases s) (simp_all add: opt_str_def read_opt_def)

lemma read_opt_checked_str [simp, codec_simps]:
  "(\<And>t. s = Some t \<Longrightarrow> p t) \<Longrightarrow> read_opt (checked p read_str) (opt_str s) = Some s"
  by (cases s) (simp_all add: opt_str_def read_opt_def checked_def)

lemma all_some_map_Some [simp]: "all_some (map (\<lambda>x. Some (f x)) xs) = Some (map f xs)"
  by (induction xs) simp_all

lemma read_str_list [simp, codec_simps]: "read_list read_str (str_list xs) = Some xs"
  using all_some_map_Some [of "\<lambda>x. x" xs] by (simp add: read_list_def str_list_def o_def)

lemma checked_Some [simp, codec_simps]: "r v = Some x \<Longrightarrow> p x \<Longrightarrow> checked p r v = Some x"
  by (simp add: checked_def)

text \<open>A finite double that stores and reads back as itself.\<close>

definition finite_double :: "pyfloat \<Rightarrow> bool" where
  "finite_double f = (case f of Fin x \<Rightarrow> to_float x = Fin x | _ \<Rightarrow> False)"

lemma read_stored_float [simp, codec_simps]:
  "lib_ok L \<Longrightarrow> finite_double f \<Longrightarrow> read_float L (stored L (JFloat f)) = Some f"
  by (cases f) (simp_all add: finite_double_def lib_ok_repr)

lemma finite_double_finite: "finite_double f \<Longrightarrow> is_finite_float f"
  by (cases f) (simp_all add: finite_double_def is_finite_float_def)

lemma finite_str_list [simp]: "finite_numbers (str_list xs)" "finite_numbers (opt_str s)"
    "finite_numbers (opt_int n)"
  by (simp_all add: str_list_def opt_str_def opt_int_def list_all_iff split: option.split)

section \<open>The contract of a stored entity\<close>

text \<open>
  What every entity class provides to the code that stores and loads it: a reader that does
  not depend on key order, accepts what the writer produced (directly, and after a trip
  through the database), and a writer that produces storable values.
\<close>

locale entity_codec =
  fixes dump :: "lib \<Rightarrow> 'a \<Rightarrow> json"
    and validate :: "lib \<Rightarrow> json \<Rightarrow> 'a option"
    and wf :: "'a \<Rightarrow> bool"
  assumes blind: "key_order_blind (validate L)"
    and read_dumped: "lib_ok L \<Longrightarrow> wf x \<Longrightarrow> validate L (dump L x) = Some x"
    and read_stored: "lib_ok L \<Longrightarrow> wf x \<Longrightarrow> validate L (stored L (dump L x)) = Some x"
    and dump_finite: "wf x \<Longrightarrow> finite_numbers (dump L x)"
begin

lemma read_stored_any_order:
  assumes "lib_ok L" "wf x" "same_value (stored L (dump L x)) v"
  shows "validate L v = Some x"
  using key_order_blindD [OF blind assms(3), of L] read_stored [OF assms(1,2)] by simp

lemma dump_storable: "wf x \<Longrightarrow> storable (dynamodb_value rp (dump L x))"
  by (intro dynamodb_value_storable dump_finite)

lemma dump_inject:
  assumes "lib_ok L" "wf x" "wf y" "dump L x = dump L y"
  shows "x = y"
proof -
  have "validate L (dump L y) = Some x" using read_dumped [OF assms(1,2)] unfolding assms(4) .
  then show ?thesis using read_dumped [OF assms(1,3)] by simp
qed

end

section \<open>A concrete library\<close>

text \<open>
  An instance of the parameters that satisfies \<open>lib_ok\<close>: decimal numerals for instants, the
  double itself for \<open>repr\<close>, an enumeration of values for JSON text, and ASCII case folding.
\<close>

definition sample_lib :: lib where
  "sample_lib =
     \<lparr>format_datetime = str_of_int,
      parse_datetime = (\<lambda>s. case s of [] \<Rightarrow> None | c # cs \<Rightarrow>
        (if c = CHR ''-'' then map_option (\<lambda>n. - int n) (parse_digits 0 cs)
         else map_option int (parse_digits 0 s))),
      lax_datetime = (\<lambda>_. None), lax_float = (\<lambda>_. None), lax_int = (\<lambda>_. None),
      lax_bool = (\<lambda>_. None),
      float_repr = (\<lambda>x. x),
      json_text = (\<lambda>v. str_of_nat (to_nat v)),
      json_parse = (\<lambda>s. map_option from_nat (parse_digits 0 s)),
      casefold = ascii_lower,
      str_other = (\<lambda>_. ''?'')\<rparr>"

lemma str_of_int_parse:
  "(case str_of_int t of [] \<Rightarrow> None | c # cs \<Rightarrow>
      (if c = CHR ''-'' then map_option (\<lambda>n. - int n) (parse_digits 0 cs)
       else map_option int (parse_digits 0 (str_of_int t)))) = Some t"
proof (cases "t < 0")
  case False
  obtain c cs where c: "str_of_nat (nat t) = c # cs" using str_of_nat_nonempty by (cases "str_of_nat (nat t)") auto
  then have "digit_val c \<noteq> None" using str_of_nat_digits [of c "nat t"] by simp
  then have "c \<noteq> CHR ''-''" by (auto simp: digit_val_def)
  then show ?thesis using False c parse_digits_str_of_nat [of "nat t"] by (simp add: str_of_int_def)
qed (simp add: str_of_int_def parse_digits_str_of_nat)

lemma sample_lib_ok: "lib_ok sample_lib"
  by (simp add: lib_ok_def sample_lib_def str_of_int_parse parse_digits_str_of_nat)

end
