(* ===== verification/Config.thy ===== *)
theory Config
  imports Prelude
begin

text \<open>
  The settings every service reads (\<open>shared/config.py\<close>). \<open>get_settings\<close> is cached, so one
  settings record is a constant of a run; the values come from the environment and are
  arbitrary. \<open>default_settings\<close> holds the class defaults. The two float settings (timeouts)
  are only handed to client libraries and are kept as whole seconds.
\<close>

record settings =
  environment :: string
  aws_region :: string
  aws_endpoint_url :: "string option"
  dynamodb_table :: string
  events_queue :: string
  events_dlq :: string
  event_wait_time_seconds :: int
  event_bus :: string
  service_name :: string
  kafka_bootstrap_servers :: string
  kafka_consumer_group :: string
  kafka_publish_timeout_seconds :: int
  kafka_max_processing_attempts :: int
  alerts_topic :: string
  websocket_broker :: string
  redis_url :: "string option"
  log_level :: string
  auth_mode :: string
  cognito_user_pool_id :: "string option"
  cognito_client_id :: "string option"
  oidc_issuer :: "string option"
  oidc_jwks_url :: "string option"
  oidc_client_id :: "string option"
  asset_service_url :: "string option"
  incident_service_url :: "string option"
  analysis_service_url :: "string option"
  knowledge_service_url :: "string option"
  work_order_service_url :: "string option"
  ai_provider :: string
  ollama_base_url :: string
  ollama_model :: string
  ollama_timeout_seconds :: int
  bedrock_model_id :: "string option"
  bedrock_guardrail_id :: "string option"
  bedrock_guardrail_version :: "string option"
  documents_bucket :: string
  rag_provider :: string
  bedrock_knowledge_base_id :: "string option"
  bedrock_data_source_id :: "string option"

definition default_settings :: settings where
  "default_settings =
     \<lparr>environment = ''local'',
      aws_region = ''ap-northeast-2'',
      aws_endpoint_url = None,
      dynamodb_table = ''axsentinel-domain'',
      events_queue = ''axsentinel-events'',
      events_dlq = ''axsentinel-events-dlq'',
      event_wait_time_seconds = 10,
      event_bus = ''disabled'',
      service_name = ''ax-sentinel'',
      kafka_bootstrap_servers = ''kafka:9092'',
      kafka_consumer_group = ''ax-sentinel-event-worker-v1'',
      kafka_publish_timeout_seconds = 10,
      kafka_max_processing_attempts = 3,
      alerts_topic = ''axsentinel-alerts'',
      websocket_broker = ''memory'',
      redis_url = None,
      log_level = ''INFO'',
      auth_mode = ''disabled'',
      cognito_user_pool_id = None,
      cognito_client_id = None,
      oidc_issuer = None,
      oidc_jwks_url = None,
      oidc_client_id = None,
      asset_service_url = None,
      incident_service_url = None,
      analysis_service_url = None,
      knowledge_service_url = None,
      work_order_service_url = None,
      ai_provider = ''mock'',
      ollama_base_url = ''http://localhost:11434'',
      ollama_model = ''hoangquan456/qwen3-nothink:4b'',
      ollama_timeout_seconds = 180,
      bedrock_model_id = None,
      bedrock_guardrail_id = None,
      bedrock_guardrail_version = None,
      documents_bucket = ''axsentinel-local'',
      rag_provider = ''local'',
      bedrock_knowledge_base_id = None,
      bedrock_data_source_id = None\<rparr>"

text \<open>\<open>bool(url)\<close> of an optional string setting: unset and empty are both false.\<close>

definition is_set :: "string option \<Rightarrow> bool" where
  "is_set s = (case s of None \<Rightarrow> False | Some t \<Rightarrow> t \<noteq> [])"

end
