(* ===== verification/Effects.thy ===== *)
theory Effects
  imports Codec Config
begin

text \<open>
  The effects of the code: exceptions as values of \<open>exn\<close>, an \<open>act\<close> as a function from the
  state of a process to a result or an exception together with the state it leaves (an
  exception does not undo what was done before it), and the outside world of a process.

  Every call that leaves the process goes through \<open>call\<close>. The environment decides what
  happens at the n-th such call: other writers may change the table first (\<open>others\<close>), and the
  call may succeed, fail without effect, or take effect and still fail (a lost response).
\<close>

section \<open>Exceptions\<close>

datatype exn =
    HTTPException nat json
  | ConcurrentUpdateError string
  | ClientError string
  | ValidationError
  | RequestValidationError
  | ValueError string
  | RuntimeError string
  | KeyError string
  | TypeError string
  | AttributeError string
  | OSError string
  | ZeroDivisionError
  | PyJWTError string
  | HTTPStatusError nat
  | KafkaError string
  | WebSocketDisconnect
  | ListingUnfinished

text \<open>Subclass tests of the \<open>except\<close> clauses (\<open>ConcurrentUpdateError\<close> is a \<open>RuntimeError\<close>,
  Pydantic's \<open>ValidationError\<close> is a \<open>ValueError\<close>).\<close>

fun is_runtime_error :: "exn \<Rightarrow> bool" where
  "is_runtime_error (RuntimeError _) = True"
| "is_runtime_error (ConcurrentUpdateError _) = True"
| "is_runtime_error _ = False"

fun is_value_error :: "exn \<Rightarrow> bool" where
  "is_value_error (ValueError _) = True"
| "is_value_error ValidationError = True"
| "is_value_error _ = False"

fun is_jwt_error :: "exn \<Rightarrow> bool" where
  "is_jwt_error (PyJWTError _) = True"
| "is_jwt_error _ = False"

section \<open>Actions\<close>

type_synonym ('w, 'a) act = "'w \<Rightarrow> (exn + 'a) \<times> 'w"

definition ret :: "'a \<Rightarrow> ('w, 'a) act" where
  "ret x w = (Inr x, w)"

definition throw :: "exn \<Rightarrow> ('w, 'a) act" where
  "throw e w = (Inl e, w)"

definition bnd :: "('w, 'a) act \<Rightarrow> ('a \<Rightarrow> ('w, 'b) act) \<Rightarrow> ('w, 'b) act" where
  "bnd m f w = (case m w of (Inl e, w') \<Rightarrow> (Inl e, w') | (Inr x, w') \<Rightarrow> f x w')"

definition attempt :: "('w, 'a) act \<Rightarrow> (exn \<Rightarrow> ('w, 'a) act) \<Rightarrow> ('w, 'a) act" where
  "attempt m h w = (case m w of (Inl e, w') \<Rightarrow> h e w' | (Inr x, w') \<Rightarrow> (Inr x, w'))"

definition read_state :: "('w \<Rightarrow> 'a) \<Rightarrow> ('w, 'a) act" where
  "read_state f w = (Inr (f w), w)"

definition change :: "('w \<Rightarrow> 'w) \<Rightarrow> ('w, unit) act" where
  "change f w = (Inr (), f w)"

definition of_option :: "exn \<Rightarrow> 'a option \<Rightarrow> ('w, 'a) act" where
  "of_option e x = (case x of None \<Rightarrow> throw e | Some a \<Rightarrow> ret a)"

definition of_result :: "exn + 'a \<Rightarrow> ('w, 'a) act" where
  "of_result r w = (r, w)"

definition check :: "bool \<Rightarrow> exn \<Rightarrow> ('w, unit) act" where
  "check ok e = (if ok then ret () else throw e)"

definition only_if :: "bool \<Rightarrow> ('w, unit) act \<Rightarrow> ('w, unit) act" where
  "only_if b m = (if b then m else ret ())"

fun each :: "('a \<Rightarrow> ('w, 'b) act) \<Rightarrow> 'a list \<Rightarrow> ('w, 'b list) act" where
  "each f [] = ret []"
| "each f (x # xs) = bnd (f x) (\<lambda>y. bnd (each f xs) (\<lambda>ys. ret (y # ys)))"

lemma ret_apply [act_simps]: "ret x w = (Inr x, w)" by (simp add: ret_def)
lemma throw_apply [act_simps]: "throw e w = (Inl e, w)" by (simp add: throw_def)
lemma read_state_apply [act_simps]: "read_state f w = (Inr (f w), w)" by (simp add: read_state_def)
lemma change_apply [act_simps]: "change f w = (Inr (), f w)" by (simp add: change_def)
lemma of_result_apply [act_simps]: "of_result r w = (r, w)" by (simp add: of_result_def)

lemma bnd_Inl [act_simps]: "m w = (Inl e, w') \<Longrightarrow> bnd m f w = (Inl e, w')"
  and bnd_Inr [act_simps]: "m w = (Inr x, w') \<Longrightarrow> bnd m f w = f x w'"
  by (simp_all add: bnd_def)

lemma attempt_Inl [act_simps]: "m w = (Inl e, w') \<Longrightarrow> attempt m h w = h e w'"
  and attempt_Inr [act_simps]: "m w = (Inr x, w') \<Longrightarrow> attempt m h w = (Inr x, w')"
  by (simp_all add: attempt_def)

lemma of_option_simps [act_simps]:
  "of_option e None = throw e" "of_option e (Some a) = ret a"
  by (simp_all add: of_option_def)

lemma check_simps [act_simps]: "check True e = ret ()" "check False e = throw e"
  by (simp_all add: check_def)

lemma only_if_simps [act_simps]: "only_if True m = m" "only_if False m = ret ()"
  by (simp_all add: only_if_def)

lemma bnd_InrE:
  assumes "bnd m f w = (Inr y, w'')"
  obtains x w' where "m w = (Inr x, w')" "f x w' = (Inr y, w'')"
  using assms by (auto simp: bnd_def split: prod.splits sum.splits)

lemma bnd_assoc: "bnd (bnd m f) g = bnd m (\<lambda>x. bnd (f x) g)"
  by (rule ext) (auto simp: bnd_def split: prod.splits sum.splits)

lemma ret_bnd [simp]: "bnd (ret x) f = f x" and throw_bnd [simp]: "bnd (throw e) f = throw e"
  by (auto simp: bnd_def ret_def throw_def)

section \<open>What an action keeps\<close>

text \<open>\<open>keeps P m\<close>: whatever the outcome, \<open>m\<close> leaves a state with \<open>P\<close> when started in one.\<close>

definition keeps :: "('w \<Rightarrow> bool) \<Rightarrow> ('w, 'a) act \<Rightarrow> bool" where
  "keeps P m \<longleftrightarrow> (\<forall>w. P w \<longrightarrow> P (snd (m w)))"

named_theorems keeps_intros \<open>structural rules for keeps\<close>

lemma keepsI: "(\<And>w. P w \<Longrightarrow> P (snd (m w))) \<Longrightarrow> keeps P m"
  by (simp add: keeps_def)

lemma keepsD: "keeps P m \<Longrightarrow> P w \<Longrightarrow> P (snd (m w))"
  by (simp add: keeps_def)

lemma keeps_pure [keeps_intros]:
  "keeps P (ret x)" "keeps P (throw e)" "keeps P (read_state f)" "keeps P (of_result r)"
  by (auto simp: keeps_def act_simps)

lemma keeps_of_option [keeps_intros]: "keeps P (of_option e x)"
  by (cases x) (simp_all add: keeps_pure of_option_simps)

lemma keeps_check [keeps_intros]: "keeps P (check b e)"
  by (cases b) (simp_all add: keeps_pure check_simps)

lemma keeps_bnd [keeps_intros]: "keeps P m \<Longrightarrow> (\<And>x. keeps P (f x)) \<Longrightarrow> keeps P (bnd m f)"
  by (fastforce simp: keeps_def bnd_def split: prod.splits sum.splits)

lemma keeps_attempt [keeps_intros]:
  "keeps P m \<Longrightarrow> (\<And>e. keeps P (h e)) \<Longrightarrow> keeps P (attempt m h)"
  by (fastforce simp: keeps_def attempt_def split: prod.splits sum.splits)

lemma keeps_if [keeps_intros]:
  "(b \<Longrightarrow> keeps P m) \<Longrightarrow> (\<not> b \<Longrightarrow> keeps P n) \<Longrightarrow> keeps P (if b then m else n)"
  by simp

lemma keeps_only_if [keeps_intros]: "keeps P m \<Longrightarrow> keeps P (only_if b m)"
  by (simp add: only_if_def keeps_pure)

lemma keeps_case_option [keeps_intros]:
  "keeps P m \<Longrightarrow> (\<And>x. keeps P (f x)) \<Longrightarrow> keeps P (case v of None \<Rightarrow> m | Some x \<Rightarrow> f x)"
  by (cases v) simp_all

lemma keeps_change: "(\<And>w. P w \<Longrightarrow> P (f w)) \<Longrightarrow> keeps P (change f)"
  by (simp add: keeps_def change_apply)

lemma keeps_each [keeps_intros]: "(\<And>x. keeps P (f x)) \<Longrightarrow> keeps P (each f xs)"
  by (induction xs) (simp_all add: keeps_intros)

section \<open>The process and its outside\<close>

datatype outcome = Done | NotDone exn | DoneBut exn

type_synonym item_key = "string \<times> string"

datatype condition = AttributeNotExists string | AttributeEquals string json

text \<open>
  The DynamoDB table service: a consistent read by primary key, a conditional write of a whole
  item, and a page of a query on the index \<open>entity_type-updated_at-index\<close> in descending order
  (entity type, \<open>Limit\<close>, \<open>ExclusiveStartKey\<close>; the page and its \<open>LastEvaluatedKey\<close>).
\<close>

record 't dynamo =
  get_item :: "'t \<Rightarrow> item_key \<Rightarrow> dict option"
  put_item :: "'t \<Rightarrow> dict \<Rightarrow> condition \<Rightarrow> exn + 't"
  query_page :: "'t \<Rightarrow> string \<Rightarrow> nat \<Rightarrow> dict option \<Rightarrow> dict list \<times> dict option"

record 't env =
  settings_of :: settings
  lib_of :: lib
  dynamo_of :: "'t dynamo"
  others :: "nat \<Rightarrow> 't \<Rightarrow> 't"
  outcome_at :: "nat \<Rightarrow> outcome"
  now_at :: "nat \<Rightarrow> int"
  uuid_at :: "nat \<Rightarrow> string"
  queue_url_of :: "string \<Rightarrow> string"
  topic_arns :: "string list"
  list_fuel :: nat

record kafka_message =
  msg_topic :: string
  msg_key :: string
  msg_value :: json
  msg_headers :: "(string \<times> string) list"

record sns_message =
  sns_arn :: string
  sns_subject :: string
  sns_text :: string

record 't world =
  tick :: nat
  tbl :: 't
  producer_open :: bool
  queue_url :: "string option"
  topic_arn :: "string option"
  kafka_sent :: "kafka_message list"
  sqs_sent :: "(string \<times> string) list"
  sns_sent :: "sns_message list"
  redis_sent :: "(string \<times> json) list"

definition call ::
  "('t, 'e) env_scheme \<Rightarrow> (('t, 'w) world_scheme, 'a) act \<Rightarrow> (('t, 'w) world_scheme, 'a) act" where
  "call E op w =
     (let n = tick w; w' = w\<lparr>tick := Suc n, tbl := others E n (tbl w)\<rparr>
      in case outcome_at E n of
           Done \<Rightarrow> op w'
         | NotDone e \<Rightarrow> (Inl e, w')
         | DoneBut e \<Rightarrow> (Inl e, snd (op w')))"

text \<open>\<open>datetime.now(UTC)\<close> and \<open>str(uuid4())\<close>\<close>

definition now_utc :: "('t, 'e) env_scheme \<Rightarrow> (('t, 'w) world_scheme, int) act" where
  "now_utc E w = (Inr (now_at E (tick w)), w\<lparr>tick := Suc (tick w)\<rparr>)"

definition new_uuid :: "('t, 'e) env_scheme \<Rightarrow> (('t, 'w) world_scheme, string) act" where
  "new_uuid E w = (Inr (uuid_at E (tick w)), w\<lparr>tick := Suc (tick w)\<rparr>)"

text \<open>No call of a run fails; no other process writes to the table.\<close>

definition reliable :: "('t, 'e) env_scheme \<Rightarrow> bool" where
  "reliable E \<longleftrightarrow> (\<forall>n. outcome_at E n = Done)"

definition alone :: "('t, 'e) env_scheme \<Rightarrow> bool" where
  "alone E \<longleftrightarrow> (\<forall>n t. others E n t = t)"

lemma call_quiet:
  "reliable E \<Longrightarrow> alone E \<Longrightarrow> call E op w = op (w\<lparr>tick := Suc (tick w)\<rparr>)"
  by (simp add: call_def reliable_def alone_def Let_def)

lemma keeps_call:
  assumes "keeps P op" "\<And>w n t. P w \<Longrightarrow> P (w\<lparr>tick := Suc n, tbl := t\<rparr>)"
  shows "keeps P (call E op)"
  using assms by (fastforce simp: keeps_def call_def Let_def split: outcome.splits)

lemma keeps_call_alone:
  assumes "alone E" "keeps P op" "\<And>w n. P w \<Longrightarrow> P (w\<lparr>tick := n\<rparr>)"
  shows "keeps P (call E op)"
proof (rule keepsI)
  fix w
  assume "P w"
  then have "P (w\<lparr>tick := Suc (tick w)\<rparr>)" by (rule assms(3))
  moreover from this have "P (snd (op (w\<lparr>tick := Suc (tick w)\<rparr>)))" by (rule keepsD [OF assms(2)])
  ultimately show "P (snd (call E op w))"
    using assms(1) by (auto simp: call_def alone_def Let_def split: outcome.splits)
qed

lemma keeps_clock [keeps_intros]:
  assumes "\<And>w n. P w \<Longrightarrow> P (w\<lparr>tick := n\<rparr>)"
  shows "keeps P (now_utc E)" "keeps P (new_uuid E)"
  using assms by (auto simp: keeps_def now_utc_def new_uuid_def)

end
