(* ===== verification/Repository.thy ===== *)
theory Repository
  imports Effects
begin

text \<open>
  \<open>DynamoRepository\<close> (\<open>shared/dynamodb.py\<close>): optimistic versioned writes, consistent reads
  and the paged listing, over a table service given by its operations and their documented
  laws (\<open>dynamo_ok\<close>, \<open>lists_as\<close>).
\<close>

section \<open>The table service\<close>

definition key_of :: "dict \<Rightarrow> item_key" where
  "key_of it =
     ((case dict_get it ''pk'' of Some (JStr s) \<Rightarrow> s | _ \<Rightarrow> []),
      (case dict_get it ''sk'' of Some (JStr s) \<Rightarrow> s | _ \<Rightarrow> []))"

fun condition_holds :: "condition \<Rightarrow> dict option \<Rightarrow> bool" where
  "condition_holds (AttributeNotExists a) cur =
     (case cur of None \<Rightarrow> True | Some it \<Rightarrow> dict_get it a = None)"
| "condition_holds (AttributeEquals a v) cur =
     (case cur of None \<Rightarrow> False | Some it \<Rightarrow> dict_get it a = Some (wire v))"

abbreviation condition_failed :: exn where
  "condition_failed \<equiv> ClientError ''ConditionalCheckFailedException''"

text \<open>
  A write succeeds exactly when the item holds no Python float and the condition holds of
  the item now stored under its key; it then replaces that item (up to key order) and
  touches no other key. An item that the service refuses for its size (400 KB) or for a number of
  more than 38 digits is a failing call: an outcome \<open>NotDone\<close> of \<open>outcome_at\<close>, which a run without
  failures excludes.
\<close>

definition dynamo_ok :: "'t dynamo \<Rightarrow> bool" where
  "dynamo_ok D \<longleftrightarrow>
     (\<forall>t it c.
        case put_item D t it c of
          Inl e \<Rightarrow>
            (if storable (JObj it)
             then \<not> condition_holds c (get_item D t (key_of it)) \<and> e = condition_failed
             else \<exists>m. e = TypeError m)
        | Inr t' \<Rightarrow>
            storable (JObj it) \<and>
            condition_holds c (get_item D t (key_of it)) \<and>
            (\<exists>it'. get_item D t' (key_of it) = Some it' \<and>
                   same_value (wire (JObj it)) (JObj it')) \<and>
            (\<forall>k. k \<noteq> key_of it \<longrightarrow> get_item D t' k = get_item D t k))"

text \<open>
  Reading the pages of an entity type with any \<open>Limit\<close> enumerates \<open>xs\<close>: a page is the next
  stretch of \<open>xs\<close>, never longer than the limit, and carries a key to go on from unless it
  reached the end.
\<close>

definition lists_as :: "'t dynamo \<Rightarrow> 't \<Rightarrow> string \<Rightarrow> dict list \<Rightarrow> bool" where
  "lists_as D t et xs \<longleftrightarrow>
     (\<exists>pos. pos None = 0 \<and>
        (\<forall>c lmt. 1 \<le> lmt \<longrightarrow> pos c \<le> length xs \<longrightarrow>
           (\<exists>n \<le> lmt. fst (query_page D t et lmt c) = take n (drop (pos c) xs) \<and>
              (case snd (query_page D t et lmt c) of
                 None \<Rightarrow> length xs \<le> pos c + n
               | Some k \<Rightarrow> k \<noteq> [] \<and> 0 < n \<and> pos c + n \<le> length xs \<and> pos (Some k) = pos c + n))))"

section \<open>The repository\<close>

definition entity_key :: "string \<Rightarrow> string \<Rightarrow> item_key" where
  "entity_key entity_type entity_id = (ascii_upper entity_type @ ''#'' @ entity_id, ''METADATA'')"

text \<open>\<open>int(v)\<close>\<close>

definition py_int :: "json \<Rightarrow> exn + int" where
  "py_int v =
     (case v of
        JInt n \<Rightarrow> Inr n
      | JDec d \<Rightarrow> Inr (if 0 \<le> d then \<lfloor>d\<rfloor> else \<lceil>d\<rceil>)
      | JFloat (Fin x) \<Rightarrow> Inr (if 0 \<le> x then \<lfloor>x\<rfloor> else \<lceil>x\<rceil>)
      | JFloat NaN \<Rightarrow> Inl (ValueError ''cannot convert float NaN to integer'')
      | JFloat _ \<Rightarrow> Inl (ValueError ''cannot convert float infinity to integer'')
      | JBool b \<Rightarrow> Inr (if b then 1 else 0)
      | JStr s \<Rightarrow> (case parse_int s of Some n \<Rightarrow> Inr n | None \<Rightarrow> Inl (ValueError ''invalid literal for int()''))
      | _ \<Rightarrow> Inl (TypeError ''int() argument must be a string or a number''))"

definition current_version :: "dict option \<Rightarrow> exn + int" where
  "current_version current =
     (case current of
        None \<Rightarrow> Inr 0
      | Some it \<Rightarrow> (if it = [] then Inr 0 else py_int (dict_get_or it ''version'' (JInt 0))))"

definition make_item :: "lib \<Rightarrow> string \<Rightarrow> string \<Rightarrow> int \<Rightarrow> int \<Rightarrow> json \<Rightarrow> dict" where
  "make_item L entity_type entity_id now version data =
     [(''pk'', JStr (fst (entity_key entity_type entity_id))),
      (''sk'', JStr (snd (entity_key entity_type entity_id))),
      (''entity_type'', JStr entity_type),
      (''entity_id'', JStr entity_id),
      (''updated_at'', JStr (format_datetime L now)),
      (''version'', JInt (version + 1)),
      (''data'', dynamodb_value (float_repr L) data)]"

definition conflict_as_concurrent_update ::
  "string \<Rightarrow> string \<Rightarrow> exn \<Rightarrow> (('t, 'w) world_scheme, unit) act" where
  "conflict_as_concurrent_update entity_type entity_id e =
     (if e = condition_failed
      then throw (ConcurrentUpdateError (entity_type @ ''/'' @ entity_id @ '' was updated concurrently''))
      else throw e)"

definition table_get ::
  "('t, 'e) env_scheme \<Rightarrow> item_key \<Rightarrow> (('t, 'w) world_scheme, dict option) act" where
  "table_get E k = call E (read_state (\<lambda>w. get_item (dynamo_of E) (tbl w) k))"

definition table_put ::
  "('t, 'e) env_scheme \<Rightarrow> dict \<Rightarrow> condition \<Rightarrow> (('t, 'w) world_scheme, unit) act" where
  "table_put E it c = call E (\<lambda>w.
     case put_item (dynamo_of E) (tbl w) it c of
       Inl e \<Rightarrow> (Inl e, w)
     | Inr t' \<Rightarrow> (Inr (), w\<lparr>tbl := t'\<rparr>))"

definition repo_put ::
  "('t, 'e) env_scheme \<Rightarrow> string \<Rightarrow> string \<Rightarrow> json \<Rightarrow> (('t, 'w) world_scheme, unit) act" where
  "repo_put E entity_type entity_id data =
     bnd (now_utc E) (\<lambda>now.
     bnd (table_get E (entity_key entity_type entity_id)) (\<lambda>current.
     bnd (of_result (current_version current)) (\<lambda>version.
     let item = make_item (lib_of E) entity_type entity_id now version data
     in attempt
          (table_put E item
             (if current = None then AttributeNotExists ''pk''
              else AttributeEquals ''version'' (JInt version)))
          (conflict_as_concurrent_update entity_type entity_id))))"

definition item_data :: "dict \<Rightarrow> (('t, 'w) world_scheme, json) act" where
  "item_data it = of_option (KeyError ''data'') (dict_get it ''data'')"

definition repo_get ::
  "('t, 'e) env_scheme \<Rightarrow> string \<Rightarrow> string \<Rightarrow> (('t, 'w) world_scheme, json option) act" where
  "repo_get E entity_type entity_id =
     bnd (table_get E (entity_key entity_type entity_id)) (\<lambda>item.
     case item of
       None \<Rightarrow> ret None
     | Some it \<Rightarrow> (if it = [] then ret None else bnd (item_data it) (\<lambda>d. ret (Some d))))"

definition page_limit :: "int \<Rightarrow> nat" where
  "page_limit limit = nat (min (max limit 1) 200)"

definition repo_list_page ::
  "('t, 'e) env_scheme \<Rightarrow> string \<Rightarrow> int \<Rightarrow> dict option \<Rightarrow>
   (('t, 'w) world_scheme, json list \<times> dict option) act" where
  "repo_list_page E entity_type limit cursor =
     bnd (call E (read_state (\<lambda>w.
            query_page (dynamo_of E) (tbl w) entity_type (page_limit limit)
              (if cursor = Some [] then None else cursor)))) (\<lambda>(items, next_key).
     bnd (each item_data items) (\<lambda>page. ret (page, next_key)))"

fun list_from ::
  "('t, 'e) env_scheme \<Rightarrow> string \<Rightarrow> nat \<Rightarrow> dict option \<Rightarrow> (('t, 'w) world_scheme, json list) act" where
  "list_from E entity_type 0 cursor = throw ListingUnfinished"
| "list_from E entity_type (Suc fuel) cursor =
     bnd (repo_list_page E entity_type 200 cursor) (\<lambda>(page, next_key).
     case next_key of
       None \<Rightarrow> ret page
     | Some k \<Rightarrow> bnd (list_from E entity_type fuel (Some k)) (\<lambda>rest. ret (page @ rest)))"

definition repo_list ::
  "('t, 'e) env_scheme \<Rightarrow> string \<Rightarrow> (('t, 'w) world_scheme, json list) act" where
  "repo_list E entity_type = list_from E entity_type (list_fuel E) None"

section \<open>The abstract view: one value per entity\<close>

definition view :: "'t dynamo \<Rightarrow> 't \<Rightarrow> string \<Rightarrow> string \<Rightarrow> json option" where
  "view D t entity_type entity_id =
     (case get_item D t (entity_key entity_type entity_id) of
        None \<Rightarrow> None
      | Some it \<Rightarrow> dict_get it ''data'')"

text \<open>The version attribute of the item under a key, if there is an item and if it has one.\<close>

definition version_tag :: "'t dynamo \<Rightarrow> 't \<Rightarrow> item_key \<Rightarrow> json option option" where
  "version_tag D t k = map_option (\<lambda>it. dict_get it ''version'') (get_item D t k)"

definition version_number :: "'t dynamo \<Rightarrow> 't \<Rightarrow> item_key \<Rightarrow> int" where
  "version_number D t k =
     (case version_tag D t k of Some (Some (JDec d)) \<Rightarrow> \<lfloor>d\<rfloor> | _ \<Rightarrow> 0)"

definition item_ok :: "dict \<Rightarrow> bool" where
  "item_ok it \<longleftrightarrow>
     dict_get it ''pk'' \<noteq> None \<and>
     (\<exists>d. dict_get it ''data'' = Some d) \<and> (\<exists>n. dict_get it ''version'' = Some (JDec (of_int n)))"

definition table_ok :: "'t dynamo \<Rightarrow> 't \<Rightarrow> bool" where
  "table_ok D t \<longleftrightarrow> (\<forall>k it. get_item D t k = Some it \<longrightarrow> item_ok it)"

lemma item_ok_nonempty: "item_ok it \<Longrightarrow> it \<noteq> []"
  by (auto simp: item_ok_def dict_get_def)

lemma table_okD: "table_ok D t \<Longrightarrow> get_item D t k = Some it \<Longrightarrow> item_ok it"
  unfolding table_ok_def by blast

lemma key_of_make_item [simp]: "key_of (make_item L et eid now v data) = entity_key et eid"
  by (simp add: key_of_def make_item_def dict_get_def entity_key_def)

lemma storable_make_item [simp]:
  "storable (JObj (make_item L et eid now v data)) = storable (dynamodb_value (float_repr L) data)"
  by (simp add: make_item_def)

lemma make_item_lookups [simp]:
  "dict_get (make_item L et eid now v data) ''pk'' = Some (JStr (fst (entity_key et eid)))"
  "dict_get (make_item L et eid now v data) ''version'' = Some (JInt (v + 1))"
  "dict_get (make_item L et eid now v data) ''data'' = Some (dynamodb_value (float_repr L) data)"
  by (simp_all add: make_item_def dict_get_def)

lemma same_lookup:
  assumes "same_value (wire (JObj it)) (JObj it')" "dict_get it k = Some v"
  shows "\<exists>v'. dict_get it' k = Some v' \<and> same_value (wire v) v'"
proof -
  have "rel_option same_value (map_of (map (map_prod id wire) it) k) (map_of it' k)"
    using assms(1) by (auto elim: same_obj_l)
  then show ?thesis using assms(2) by (cases rule: option.rel_cases) (auto simp: dict_get_def)
qed

lemma same_lookup_number:
  "same_value (wire (JObj it)) (JObj it') \<Longrightarrow> dict_get it k = Some (JInt n) \<Longrightarrow>
   dict_get it' k = Some (JDec (of_int n))"
  using same_lookup [of it it' k "JInt n"] by (auto elim: same_dec_l)

section \<open>Laws of one write\<close>

lemma put_item_written:
  assumes "dynamo_ok D" "storable (JObj it)" "condition_holds c (get_item D t (key_of it))"
  obtains t' it' where "put_item D t it c = Inr t'"
    "get_item D t' (key_of it) = Some it'" "same_value (wire (JObj it)) (JObj it')"
    "\<And>k. k \<noteq> key_of it \<Longrightarrow> get_item D t' k = get_item D t k"
  using assms unfolding dynamo_ok_def
  by (elim allE [of _ t] allE [of _ it] allE [of _ c]) (auto split: sum.splits)

lemma put_item_refused:
  assumes "dynamo_ok D" "storable (JObj it)" "\<not> condition_holds c (get_item D t (key_of it))"
  shows "put_item D t it c = Inl condition_failed"
  using assms unfolding dynamo_ok_def
  by (elim allE [of _ t] allE [of _ it] allE [of _ c]) (auto split: sum.splits)

lemma put_item_Inr:
  assumes "dynamo_ok D" "put_item D t it c = Inr t'"
  shows "storable (JObj it) \<and> condition_holds c (get_item D t (key_of it)) \<and>
    (\<exists>it'. get_item D t' (key_of it) = Some it' \<and> same_value (wire (JObj it)) (JObj it')) \<and>
    (\<forall>k. k \<noteq> key_of it \<longrightarrow> get_item D t' k = get_item D t k)"
  using assms unfolding dynamo_ok_def
  by (elim allE [of _ t] allE [of _ it] allE [of _ c]) (auto split: sum.splits)

text \<open>A stored item made by \<open>make_item\<close>: its data, its version, and that it is well formed.\<close>

lemma made_item_facts:
  assumes "same_value (wire (JObj (make_item L et eid now v data))) (JObj it')"
  shows "\<exists>d. dict_get it' ''data'' = Some d \<and> same_value (stored L data) d"
    and "dict_get it' ''version'' = Some (JDec (of_int (v + 1)))"
    and "item_ok it'"
proof -
  show "\<exists>d. dict_get it' ''data'' = Some d \<and> same_value (stored L data) d"
    using same_lookup [OF assms, of "''data''"] by (simp add: stored_def)
  moreover show "dict_get it' ''version'' = Some (JDec (of_int (v + 1)))"
    using assms by (rule same_lookup_number) simp
  moreover have "dict_get it' ''pk'' \<noteq> None" using same_lookup [OF assms, of "''pk''"] by auto
  ultimately show "item_ok it'" unfolding item_ok_def by blast
qed

lemma current_version_ok:
  "item_ok it \<Longrightarrow> \<exists>n. current_version (Some it) = Inr n \<and> dict_get it ''version'' = Some (JDec (of_int n))"
  using item_ok_nonempty [of it]
  by (auto simp: item_ok_def current_version_def dict_get_or_def py_int_def)

text \<open>The condition the repository sends holds exactly when the version has not moved.\<close>

lemma condition_iff_unmoved:
  assumes "case cur of None \<Rightarrow> True | Some it \<Rightarrow> item_ok it"
    and "case seen of None \<Rightarrow> True | Some it \<Rightarrow> item_ok it"
    and "current_version seen = Inr v"
  shows "condition_holds (if seen = None then AttributeNotExists ''pk''
           else AttributeEquals ''version'' (JInt v)) cur \<longleftrightarrow>
         map_option (\<lambda>it. dict_get it ''version'') cur = map_option (\<lambda>it. dict_get it ''version'') seen"
proof (cases seen)
  case None
  then show ?thesis using assms(1) by (cases cur) (auto simp: item_ok_def)
next
  case (Some it)
  then have "item_ok it" using assms(2) by simp
  then have "dict_get it ''version'' = Some (JDec (of_int v))"
    using current_version_ok [of it] assms(3) Some by auto
  then show ?thesis using Some by (cases cur) auto
qed

section \<open>A whole put\<close>

lemma repo_put_run:
  fixes E :: "('t, 'e) env_scheme" and w :: "('t, 'w) world_scheme"
  defines "D \<equiv> dynamo_of E"
  assumes rel: "reliable E" and dyn: "dynamo_ok D"
    and st: "storable (dynamodb_value (float_repr (lib_of E)) data)"
    and t1: "t1 = others E (Suc (tick w)) (tbl w)" and t2: "t2 = others E (Suc (Suc (tick w))) t1"
    and ok1: "table_ok D t1" and ok2: "table_ok D t2"
    and k: "k = entity_key et eid"
  shows "if version_tag D t1 k = version_tag D t2 k
     then \<exists>t' it'. repo_put E et eid data w = (Inr (), w\<lparr>tick := tick w + 3, tbl := t'\<rparr>) \<and>
            get_item D t' k = Some it' \<and> item_ok it' \<and>
            dict_get it' ''version'' = Some (JDec (of_int (version_number D t1 k + 1))) \<and>
            (\<exists>d. dict_get it' ''data'' = Some d \<and> same_value (stored (lib_of E) data) d) \<and>
            (\<forall>k'. k' \<noteq> k \<longrightarrow> get_item D t' k' = get_item D t2 k')
     else \<exists>m. repo_put E et eid data w =
            (Inl (ConcurrentUpdateError m), w\<lparr>tick := tick w + 3, tbl := t2\<rparr>)"
proof -
  have fine: "outcome_at E n = Done" for n using rel by (simp add: reliable_def)
  define seen where "seen = get_item D t1 k"
  define cur where "cur = get_item D t2 k"
  have oks: "case seen of None \<Rightarrow> True | Some it \<Rightarrow> item_ok it"
    "case cur of None \<Rightarrow> True | Some it \<Rightarrow> item_ok it"
    using ok1 ok2 by (auto simp: seen_def cur_def split: option.splits dest: table_okD)
  obtain v where v: "current_version seen = Inr v" and vn: "v = version_number D t1 k"
  proof (cases seen)
    case None
    then show ?thesis
      by (intro that [of 0]) (simp_all add: current_version_def version_number_def version_tag_def seen_def)
  next
    case (Some it)
    then obtain n where "current_version (Some it) = Inr n" "dict_get it ''version'' = Some (JDec (of_int n))"
      using oks(1) current_version_ok [of it] by auto
    then show ?thesis using Some
      by (intro that [of n]) (simp_all add: version_number_def version_tag_def seen_def [symmetric])
  qed
  define item where "item = make_item (lib_of E) et eid (now_at E (tick w)) v data"
  define c where "c = (if seen = None then AttributeNotExists ''pk'' else AttributeEquals ''version'' (JInt v))"
  have cond: "condition_holds c cur \<longleftrightarrow> version_tag D t2 k = version_tag D t1 k"
    using condition_iff_unmoved [OF oks(2,1) v]
    by (simp add: c_def version_tag_def seen_def cur_def)
  define w1 where "w1 = w\<lparr>tick := Suc (Suc (tick w)), tbl := t1\<rparr>"
  have run: "repo_put E et eid data w =
      attempt (table_put E item c) (conflict_as_concurrent_update et eid) w1"
    by (simp add: repo_put_def bnd_def now_utc_def table_get_def call_def fine Let_def read_state_def
        of_result_def v seen_def [symmetric] D_def [symmetric] k [symmetric] t1 [symmetric] item_def
        c_def w1_def)
  have kitem: "key_of item = k" using k by (simp add: item_def)
  have sti: "storable (JObj item)" unfolding item_def storable_make_item by (rule st)
  show ?thesis
  proof (cases "version_tag D t1 k = version_tag D t2 k")
    case True
    then have "condition_holds c (get_item D t2 (key_of item))" by (simp add: cond kitem flip: cur_def)
    from put_item_written [OF dyn sti this] obtain t' it' where
      p: "put_item D t2 item c = Inr t'" "get_item D t' (key_of item) = Some it'"
      "same_value (wire (JObj item)) (JObj it')"
      "\<And>k'. k' \<noteq> key_of item \<Longrightarrow> get_item D t' k' = get_item D t2 k'" by metis
    have "repo_put E et eid data w = (Inr (), w\<lparr>tick := tick w + 3, tbl := t'\<rparr>)"
      using p(1) by (simp add: run attempt_def table_put_def call_def fine Let_def w1_def t2 [symmetric]
          D_def [symmetric])
    moreover note made_item_facts [OF p(3) [unfolded item_def]]
    ultimately show ?thesis using True p(2,4) kitem vn by auto
  next
    case False
    then have "\<not> condition_holds c (get_item D t2 (key_of item))" by (auto simp: cond kitem simp flip: cur_def)
    from put_item_refused [OF dyn sti this]
    have "put_item D t2 item c = Inl condition_failed" .
    then show ?thesis using False
      by (simp add: run attempt_def table_put_def call_def fine Let_def w1_def t2 [symmetric]
          D_def [symmetric] conflict_as_concurrent_update_def throw_def)
  qed
qed

section \<open>Runs without interference\<close>

text \<open>No call fails, nobody else writes, and the services and libraries behave as documented.\<close>

definition quiet :: "('t, 'e) env_scheme \<Rightarrow> bool" where
  "quiet E \<longleftrightarrow> reliable E \<and> alone E \<and> dynamo_ok (dynamo_of E) \<and> lib_ok (lib_of E)"

lemma quietD:
  assumes "quiet E"
  shows "reliable E" "alone E" "dynamo_ok (dynamo_of E)" "lib_ok (lib_of E)"
  using assms by (simp_all add: quiet_def)

lemma quiet_call [act_simps]: "quiet E \<Longrightarrow> call E op w = op (w\<lparr>tick := Suc (tick w)\<rparr>)"
  by (simp add: quiet_def call_quiet)

lemma repo_put_quiet:
  fixes E :: "('t, 'e) env_scheme" and w :: "('t, 'w) world_scheme"
  assumes q: "quiet E" and tok: "table_ok (dynamo_of E) (tbl w)"
    and st: "storable (dynamodb_value (float_repr (lib_of E)) data)"
  shows "\<exists>t' d. repo_put E et eid data w = (Inr (), w\<lparr>tick := tick w + 3, tbl := t'\<rparr>) \<and>
      table_ok (dynamo_of E) t' \<and>
      view (dynamo_of E) t' et eid = Some d \<and> same_value (stored (lib_of E) data) d \<and>
      version_number (dynamo_of E) t' (entity_key et eid) =
        version_number (dynamo_of E) (tbl w) (entity_key et eid) + 1 \<and>
      (\<forall>k. k \<noteq> entity_key et eid \<longrightarrow> get_item (dynamo_of E) t' k = get_item (dynamo_of E) (tbl w) k)"
proof -
  define k where "k = entity_key et eid"
  have same: "others E n t = t" for n t using q by (simp add: quiet_def alone_def)
  obtain t' it' where
    r: "repo_put E et eid data w = (Inr (), w\<lparr>tick := tick w + 3, tbl := t'\<rparr>)"
      "get_item (dynamo_of E) t' k = Some it'" "item_ok it'"
      "dict_get it' ''version'' = Some (JDec (of_int (version_number (dynamo_of E) (tbl w) k + 1)))"
      "\<exists>d. dict_get it' ''data'' = Some d \<and> same_value (stored (lib_of E) data) d"
      "\<forall>k'. k' \<noteq> k \<longrightarrow> get_item (dynamo_of E) t' k' = get_item (dynamo_of E) (tbl w) k'"
    using repo_put_run [OF quietD(1) [OF q] quietD(3) [OF q] st refl refl _ _ k_def, unfolded same, OF tok tok]
    by auto
  have "table_ok (dynamo_of E) t'"
    unfolding table_ok_def using r(2,3,6) tok by (metis option.inject table_okD)
  moreover have "version_number (dynamo_of E) t' k = version_number (dynamo_of E) (tbl w) k + 1"
    using r(2,4) by (simp add: version_number_def version_tag_def del: of_int_add)
  ultimately show ?thesis using r(1,2,5,6) by (auto simp: view_def k_def)
qed

lemma repo_get_quiet [act_simps]:
  assumes "quiet E" "table_ok (dynamo_of E) (tbl w)"
  shows "repo_get E et eid w = (Inr (view (dynamo_of E) (tbl w) et eid), w\<lparr>tick := Suc (tick w)\<rparr>)"
proof (cases "get_item (dynamo_of E) (tbl w) (entity_key et eid)")
  case None
  then show ?thesis
    by (simp add: repo_get_def table_get_def quiet_call [OF assms(1)] bnd_def read_state_def view_def ret_def)
next
  case (Some it)
  then have "item_ok it" using assms(2) by (auto dest: table_okD)
  then obtain d where "dict_get it ''data'' = Some d" by (auto simp: item_ok_def)
  then show ?thesis using Some item_ok_nonempty [OF \<open>item_ok it\<close>]
    by (simp add: repo_get_def table_get_def quiet_call [OF assms(1)] bnd_def read_state_def view_def
        ret_def item_data_def of_option_def)
qed

section \<open>Entity keys\<close>

text \<open>The entity types of the services; none contains the separator, none is another in capitals.\<close>

definition entity_types :: "string list" where
  "entity_types =
     [''equipment'', ''maintenance'', ''telemetry'', ''incident'', ''analysis'', ''expert_review'',
      ''evaluation_case'', ''evaluation_run'', ''document'', ''approval'', ''work_order'',
      ''feedback'', ''processed_event'']"

lemma entity_types_upper:
  "distinct (map ascii_upper entity_types)"
  "list_all (\<lambda>et. CHR ''#'' \<notin> set (ascii_upper et)) entity_types"
  by (simp_all add: entity_types_def ascii_upper_def upper_char_def) (simp add: char_of_def)

lemma entity_key_inject:
  assumes "et \<in> set entity_types" "et' \<in> set entity_types"
    and "entity_key et eid = entity_key et' eid'"
  shows "et = et' \<and> eid = eid'"
proof -
  have no: "CHR ''#'' \<notin> set (ascii_upper et)" "CHR ''#'' \<notin> set (ascii_upper et')"
    using entity_types_upper(2) assms(1,2) by (auto simp: list_all_iff)
  have cut: "takeWhile (\<lambda>c. c \<noteq> CHR ''#'') (u @ ''#'' @ r) = u" if "CHR ''#'' \<notin> set u" for u r
    using that by (subst takeWhile_append2) auto
  have eq: "ascii_upper et @ ''#'' @ eid = ascii_upper et' @ ''#'' @ eid'"
    using assms(3) by (simp add: entity_key_def)
  then have "ascii_upper et = ascii_upper et'" using cut [OF no(1), of eid] cut [OF no(2), of eid'] by metis
  then show ?thesis using eq assms(1,2) entity_types_upper(1) by (auto simp: distinct_map inj_on_def)
qed

lemma entity_key_other:
  "et \<in> set entity_types \<Longrightarrow> et' \<in> set entity_types \<Longrightarrow> et \<noteq> et' \<or> eid \<noteq> eid' \<Longrightarrow>
   entity_key et eid \<noteq> entity_key et' eid'"
  using entity_key_inject by blast

section \<open>Entities of one kind\<close>

definition load_as :: "(json \<Rightarrow> 'a option) \<Rightarrow> 't dynamo \<Rightarrow> 't \<Rightarrow> string \<Rightarrow> string \<Rightarrow> 'a option" where
  "load_as validate D t entity_type entity_id =
     (case view D t entity_type entity_id of None \<Rightarrow> None | Some v \<Rightarrow> validate v)"

text \<open>
  A codec together with the entity type it is stored under: what is put under an id is what is
  loaded from it, with its types, and nothing else of the table changes.
\<close>

locale stored_entity = entity_codec dump validate wf
  for dump :: "lib \<Rightarrow> 'a \<Rightarrow> json" and validate :: "lib \<Rightarrow> json \<Rightarrow> 'a option" and wf :: "'a \<Rightarrow> bool" +
  fixes kind :: string
  assumes kind_known: "kind \<in> set entity_types"
begin

lemma save:
  fixes E :: "('t, 'e) env_scheme" and w :: "('t, 'w) world_scheme"
  assumes "quiet E" "table_ok (dynamo_of E) (tbl w)" "wf x"
  shows "\<exists>t'. repo_put E kind eid (dump (lib_of E) x) w = (Inr (), w\<lparr>tick := tick w + 3, tbl := t'\<rparr>) \<and>
      table_ok (dynamo_of E) t' \<and>
      load_as (validate (lib_of E)) (dynamo_of E) t' kind eid = Some x \<and>
      (\<forall>et eid'. et \<in> set entity_types \<longrightarrow> et \<noteq> kind \<or> eid' \<noteq> eid \<longrightarrow>
         view (dynamo_of E) t' et eid' = view (dynamo_of E) (tbl w) et eid') \<and>
      (\<forall>k. k \<noteq> entity_key kind eid \<longrightarrow> get_item (dynamo_of E) t' k = get_item (dynamo_of E) (tbl w) k)"
proof -
  obtain t' d where
    r: "repo_put E kind eid (dump (lib_of E) x) w = (Inr (), w\<lparr>tick := tick w + 3, tbl := t'\<rparr>)"
      "table_ok (dynamo_of E) t'" "view (dynamo_of E) t' kind eid = Some d"
      "same_value (stored (lib_of E) (dump (lib_of E) x)) d"
      "\<forall>k. k \<noteq> entity_key kind eid \<longrightarrow> get_item (dynamo_of E) t' k = get_item (dynamo_of E) (tbl w) k"
    using repo_put_quiet [OF assms(1,2) dump_storable [OF assms(3)], where et = kind and eid = eid] by blast
  have "validate (lib_of E) d = Some x"
    using quietD(4) [OF assms(1)] assms(3) r(4) by (rule read_stored_any_order)
  moreover have "view (dynamo_of E) t' et eid' = view (dynamo_of E) (tbl w) et eid'"
    if "et \<in> set entity_types" "et \<noteq> kind \<or> eid' \<noteq> eid" for et eid'
    using r(5) [rule_format, OF entity_key_other [OF that(1) kind_known that(2)]]
    by (simp only: view_def)
  ultimately show ?thesis using r by (auto simp: load_as_def)
qed

end

section \<open>The listing loop\<close>

lemma each_item_data:
  "(\<And>it. it \<in> set its \<Longrightarrow> dict_get it ''data'' \<noteq> None) \<Longrightarrow>
   each item_data its w = (Inr (map (\<lambda>it. the (dict_get it ''data'')) its), w)"
proof (induction its)
  case Nil
  then show ?case by (simp add: ret_def)
next
  case (Cons it its)
  then obtain d where "dict_get it ''data'' = Some d" by force
  then show ?case using Cons by (simp add: bnd_def item_data_def of_option_def ret_def)
qed

lemma list_from_quiet:
  fixes E :: "('t, 'e) env_scheme" and w :: "('t, 'w) world_scheme"
  assumes q: "quiet E"
    and pages: "\<And>c lmt. 1 \<le> lmt \<Longrightarrow> pos c \<le> length xs \<Longrightarrow>
       \<exists>n \<le> lmt. fst (query_page (dynamo_of E) (tbl w) et lmt c) = take n (drop (pos c) xs) \<and>
         (case snd (query_page (dynamo_of E) (tbl w) et lmt c) of
            None \<Rightarrow> length xs \<le> pos c + n
          | Some k \<Rightarrow> k \<noteq> [] \<and> 0 < n \<and> pos c + n \<le> length xs \<and> pos (Some k) = pos c + n)"
    and data: "\<And>it. it \<in> set xs \<Longrightarrow> dict_get it ''data'' \<noteq> None"
    and "c \<noteq> Some []" "pos c \<le> length xs" "length xs - pos c < fuel"
  shows "\<exists>n. list_from E et fuel c w =
      (Inr (map (\<lambda>it. the (dict_get it ''data'')) (drop (pos c) xs)), w\<lparr>tick := n\<rparr>)"
  using assms(2,4-)
proof (induction fuel arbitrary: c w)
  case 0
  then show ?case by simp
next
  case (Suc fuel)
  define Q where "Q = query_page (dynamo_of E) (tbl w) et 200 c"
  obtain n where n: "n \<le> 200" "fst Q = take n (drop (pos c) xs)"
    and nxt: "case snd Q of None \<Rightarrow> length xs \<le> pos c + n
       | Some k \<Rightarrow> k \<noteq> [] \<and> 0 < n \<and> pos c + n \<le> length xs \<and> pos (Some k) = pos c + n"
    using Suc.prems(1) [of 200 c] Suc.prems(3) by (auto simp: Q_def)
  have fst: "(if c = Some [] then None else c) = c" using Suc.prems(2) by simp
  have "set (fst Q) \<subseteq> set xs" using n(2) by (metis order_trans set_drop_subset set_take_subset)
  then have page: "repo_list_page E et 200 c w =
      (Inr (map (\<lambda>it. the (dict_get it ''data'')) (fst Q), snd Q), w\<lparr>tick := Suc (tick w)\<rparr>)"
    using data
    by (auto simp: repo_list_page_def bnd_def quiet_call [OF q] read_state_def page_limit_def fst
        Q_def [symmetric] each_item_data subset_iff ret_def split: prod.splits)
  show ?case
  proof (cases "snd Q")
    case None
    then have "take n (drop (pos c) xs) = drop (pos c) xs" using nxt by simp
    then show ?thesis using None n(2) page by (auto simp: bnd_def ret_def)
  next
    case (Some k)
    then have k: "k \<noteq> []" "0 < n" "pos c + n \<le> length xs" "pos (Some k) = pos c + n" using nxt by auto
    define w' where "w' = w\<lparr>tick := Suc (tick w)\<rparr>"
    have "\<exists>m. list_from E et fuel (Some k) w' =
        (Inr (map (\<lambda>it. the (dict_get it ''data'')) (drop (pos (Some k)) xs)), w'\<lparr>tick := m\<rparr>)"
      by (rule Suc.IH) (use Suc.prems k in \<open>simp_all add: w'_def\<close>)
    then obtain m where m: "list_from E et fuel (Some k) w' =
        (Inr (map (\<lambda>it. the (dict_get it ''data'')) (drop (pos (Some k)) xs)), w'\<lparr>tick := m\<rparr>)" by blast
    have split: "take n (drop (pos c) xs) @ drop (pos c + n) xs = drop (pos c) xs"
      by (metis add.commute append_take_drop_id drop_drop)
    have "map f (fst Q) @ map f (drop (pos (Some k)) xs) = map f (drop (pos c) xs)" for f :: "dict \<Rightarrow> json"
      unfolding n(2) k(4) map_append [symmetric] split ..
    then show ?thesis using Some page m by (auto simp: bnd_def ret_def w'_def)
  qed
qed

lemma repo_list_quiet:
  fixes E :: "('t, 'e) env_scheme" and w :: "('t, 'w) world_scheme"
  assumes "quiet E" "lists_as (dynamo_of E) (tbl w) et xs"
    and "\<And>it. it \<in> set xs \<Longrightarrow> dict_get it ''data'' \<noteq> None" "length xs < list_fuel E"
  shows "\<exists>n. repo_list E et w = (Inr (map (\<lambda>it. the (dict_get it ''data'')) xs), w\<lparr>tick := n\<rparr>)"
proof -
  obtain pos where pos: "pos None = 0"
    "\<And>c lmt. 1 \<le> lmt \<Longrightarrow> pos c \<le> length xs \<Longrightarrow>
       \<exists>n \<le> lmt. fst (query_page (dynamo_of E) (tbl w) et lmt c) = take n (drop (pos c) xs) \<and>
         (case snd (query_page (dynamo_of E) (tbl w) et lmt c) of
            None \<Rightarrow> length xs \<le> pos c + n
          | Some k \<Rightarrow> k \<noteq> [] \<and> 0 < n \<and> pos c + n \<le> length xs \<and> pos (Some k) = pos c + n)"
    using assms(2) unfolding lists_as_def by blast
  show ?thesis
    using list_from_quiet [of E pos xs w et None, OF assms(1) pos(2) assms(3)] assms(4)
    by (simp add: pos(1) repo_list_def)
qed

end
