(* ===== verification/Sample.thy ===== *)
theory Sample
  imports Repository
begin

text \<open>
  A concrete outside world: an in-memory table service that satisfies the documented laws, and
  an environment in which every call succeeds and nobody else writes. The hypotheses of the
  properties are shown satisfiable on it.
\<close>

definition mem_get :: "dict list \<Rightarrow> item_key \<Rightarrow> dict option" where
  "mem_get t k = List.find (\<lambda>it. key_of it = k) t"

definition mem_put :: "dict list \<Rightarrow> dict \<Rightarrow> condition \<Rightarrow> exn + dict list" where
  "mem_put t it c =
     (if \<not> storable (JObj it) then Inl (TypeError ''Float types are not supported'')
      else if \<not> condition_holds c (mem_get t (key_of it)) then Inl condition_failed
      else Inr (map (map_prod id wire) it # filter (\<lambda>x. key_of x \<noteq> key_of it) t))"

definition mem_pos :: "nat \<Rightarrow> dict option \<Rightarrow> nat" where
  "mem_pos size_of c =
     (case c of None \<Rightarrow> 0
      | Some d \<Rightarrow> (case dict_get d ''pos'' of Some (JInt n) \<Rightarrow> nat n | _ \<Rightarrow> size_of))"

definition mem_query :: "dict list \<Rightarrow> string \<Rightarrow> nat \<Rightarrow> dict option \<Rightarrow> dict list \<times> dict option" where
  "mem_query t et lmt c =
     (let xs = filter (\<lambda>it. dict_get it ''entity_type'' = Some (JStr et)) t;
          i = mem_pos (length xs) c
      in (take lmt (drop i xs),
          if i + lmt < length xs then Some [(''pos'', JInt (int (i + lmt)))] else None))"

definition mem_dynamo :: "dict list dynamo" where
  "mem_dynamo = \<lparr>get_item = mem_get, put_item = mem_put, query_page = mem_query\<rparr>"

lemma key_of_wire [simp]: "key_of (map (map_prod id wire) it) = key_of it"
proof -
  have "(case map_option wire x of Some (JStr s) \<Rightarrow> s | _ \<Rightarrow> []) = (case x of Some (JStr s) \<Rightarrow> s | _ \<Rightarrow> [])"
    for x by (cases x) (auto split: json.splits)
  then show ?thesis by (simp add: key_of_def dict_get_def)
qed

lemma find_filter_other: "k \<noteq> k' \<Longrightarrow>
  List.find (\<lambda>it. f it = k) (filter (\<lambda>x. f x \<noteq> k') t) = List.find (\<lambda>it. f it = k) t"
  by (induction t) auto

lemma mem_dynamo_ok: "dynamo_ok mem_dynamo"
  unfolding dynamo_ok_def
proof (intro allI)
  fix t it c
  show "case put_item mem_dynamo t it c of
      Inl e \<Rightarrow> (if storable (JObj it)
         then \<not> condition_holds c (get_item mem_dynamo t (key_of it)) \<and> e = condition_failed
         else \<exists>m. e = TypeError m)
    | Inr t' \<Rightarrow> storable (JObj it) \<and> condition_holds c (get_item mem_dynamo t (key_of it)) \<and>
        (\<exists>it'. get_item mem_dynamo t' (key_of it) = Some it' \<and> same_value (wire (JObj it)) (JObj it')) \<and>
        (\<forall>k. k \<noteq> key_of it \<longrightarrow> get_item mem_dynamo t' k = get_item mem_dynamo t k)"
    by (auto simp: mem_dynamo_def mem_put_def mem_get_def find_filter_other simp del: storable.simps)
qed

lemma mem_lists_as:
  "lists_as mem_dynamo t et (filter (\<lambda>it. dict_get it ''entity_type'' = Some (JStr et)) t)"
    (is "lists_as _ _ _ ?xs")
  unfolding lists_as_def
proof (intro exI [of _ "mem_pos (length ?xs)"] conjI allI impI)
  fix c and lmt :: nat
  assume "1 \<le> lmt" "mem_pos (length ?xs) c \<le> length ?xs"
  then show "\<exists>n\<le>lmt. fst (query_page mem_dynamo t et lmt c) = take n (drop (mem_pos (length ?xs) c) ?xs) \<and>
      (case snd (query_page mem_dynamo t et lmt c) of
         None \<Rightarrow> length ?xs \<le> mem_pos (length ?xs) c + n
       | Some k \<Rightarrow> k \<noteq> [] \<and> 0 < n \<and> mem_pos (length ?xs) c + n \<le> length ?xs \<and>
           mem_pos (length ?xs) (Some k) = mem_pos (length ?xs) c + n)"
    by (intro exI [of _ lmt]) (simp add: mem_dynamo_def mem_query_def Let_def mem_pos_def [of _ "Some _"] dict_get_def nat_add_distrib)
qed (simp add: mem_pos_def)

text \<open>Everything succeeds; time and identifiers count the calls.\<close>

definition sample_env :: "dict list env" where
  "sample_env =
     \<lparr>settings_of = default_settings, lib_of = sample_lib, dynamo_of = mem_dynamo,
      others = (\<lambda>_ t. t), outcome_at = (\<lambda>_. Done),
      now_at = int, uuid_at = (\<lambda>n. ''id-'' @ str_of_nat n),
      queue_url_of = (\<lambda>q. ''http://sqs/'' @ q), topic_arns = [],
      list_fuel = 100\<rparr>"

definition sample_world :: "dict list \<Rightarrow> dict list world" where
  "sample_world t =
     \<lparr>tick = 0, tbl = t, producer_open = False, queue_url = None, topic_arn = None,
      kafka_sent = [], sqs_sent = [], sns_sent = [], redis_sent = []\<rparr>"

lemma sample_quiet: "quiet sample_env"
  by (simp add: quiet_def reliable_def alone_def sample_env_def mem_dynamo_ok sample_lib_ok)

lemma sample_table_ok_empty: "table_ok mem_dynamo []"
  by (simp add: table_ok_def mem_dynamo_def mem_get_def)

lemma sample_world_simps [simp]: "tbl (sample_world t) = t" "tick (sample_world t) = 0"
  by (simp_all add: sample_world_def)

lemma sample_env_simps [simp]:
  "dynamo_of sample_env = mem_dynamo" "lib_of sample_env = sample_lib"
  "settings_of sample_env = default_settings" "list_fuel sample_env = 100"
  by (simp_all add: sample_env_def)

text \<open>A stored item, as the repository would have written it at version \<open>v\<close>.\<close>

definition sample_item :: "string \<Rightarrow> string \<Rightarrow> int \<Rightarrow> json \<Rightarrow> dict" where
  "sample_item et eid v data = map (map_prod id wire) (make_item sample_lib et eid 0 (v - 1) data)"

lemma sample_item_ok: "item_ok (sample_item et eid v data)"
proof (rule made_item_facts(3))
  show "same_value (wire (JObj (make_item sample_lib et eid 0 (v - 1) data)))
      (JObj (sample_item et eid v data))"
    by (simp add: sample_item_def)
qed

lemma sample_table_ok: "(\<And>it. it \<in> set t \<Longrightarrow> item_ok it) \<Longrightarrow> table_ok mem_dynamo t"
  by (auto simp: table_ok_def mem_dynamo_def mem_get_def find_Some_iff)

lemma sample_item_key [simp]: "key_of (sample_item et eid v data) = entity_key et eid"
  by (simp add: sample_item_def)

lemma sample_item_data [simp]: "dict_get (sample_item et eid v data) ''data'' = Some (stored sample_lib data)"
  using make_item_lookups(3) [of sample_lib et eid 0 "v - 1" data]
  by (simp add: sample_item_def stored_def dict_get_def sample_lib_def)

lemma mem_get_simps [simp]:
  "get_item mem_dynamo [] k = None"
  "get_item mem_dynamo (it # t) k = (if key_of it = k then Some it else get_item mem_dynamo t k)"
  by (simp_all add: mem_dynamo_def mem_get_def)

lemma mem_view_simps [simp]:
  "view mem_dynamo [] et' eid' = None"
  "view mem_dynamo (sample_item et eid v data # t) et' eid' =
     (if entity_key et eid = entity_key et' eid' then Some (stored sample_lib data)
      else view mem_dynamo t et' eid')"
  by (simp_all add: view_def)

lemma sample_table_ok_items: "list_all item_ok t \<Longrightarrow> table_ok mem_dynamo t"
  by (rule sample_table_ok) (auto simp: list_all_iff)

end
