(* ===== verification/Events.thy ===== *)
theory Events
  imports Sample
begin

text \<open>
  \<open>shared/events.py\<close>: the event envelope, the topic of an event type, and \<open>EventPublisher\<close>,
  which sends one envelope to Kafka, SQS and SNS depending on the configured bus.
\<close>

section \<open>Topics\<close>

definition TOPIC_BY_PREFIX :: "(string \<times> string) list" where
  "TOPIC_BY_PREFIX =
     [(''telemetry.'', ''ax.telemetry.events.v1''),
      (''incident.'', ''ax.incident.events.v1''),
      (''analysis.'', ''ax.analysis.events.v1''),
      (''document.'', ''ax.knowledge.events.v1''),
      (''approval.'', ''ax.work-order.events.v1''),
      (''work_order.'', ''ax.work-order.events.v1''),
      (''feedback.'', ''ax.feedback.events.v1''),
      (''evaluation.'', ''ax.feedback.events.v1'')]"

text \<open>\<open>tuple(dict.fromkeys(xs))\<close>: the first occurrence of each value, in order.\<close>

definition dict_fromkeys :: "'a list \<Rightarrow> 'a list" where
  "dict_fromkeys xs = fold (\<lambda>x acc. if x \<in> set acc then acc else acc @ [x]) xs []"

definition KAFKA_TOPICS :: "string list" where
  "KAFKA_TOPICS = dict_fromkeys (map snd TOPIC_BY_PREFIX @ [''ax.audit.events.v1''])"

definition KAFKA_DLQ_TOPIC :: string where
  "KAFKA_DLQ_TOPIC = ''ax.events.dlq.v1''"

definition topic_for :: "string \<Rightarrow> string" where
  "topic_for event_type =
     (case List.find (\<lambda>(prefix, topic). starts_with event_type prefix) TOPIC_BY_PREFIX of
        Some (prefix, topic) \<Rightarrow> topic
      | None \<Rightarrow> ''ax.audit.events.v1'')"

section \<open>Envelopes\<close>

record envelope =
  event_id :: string
  event_type :: string
  event_version :: int
  occurred_at :: int
  producer :: string
  correlation_id :: string
  causation_id :: "string option"
  actor_id :: "string option"
  payload :: dict

definition dump_envelope :: "lib \<Rightarrow> envelope \<Rightarrow> json" where
  "dump_envelope L e = JObj
     [(''event_id'', JStr (event_id e)),
      (''event_type'', JStr (event_type e)),
      (''event_version'', JInt (event_version e)),
      (''occurred_at'', JStr (format_datetime L (occurred_at e))),
      (''producer'', JStr (producer e)),
      (''correlation_id'', JStr (correlation_id e)),
      (''causation_id'', opt_str (causation_id e)),
      (''actor_id'', opt_str (actor_id e)),
      (''payload'', JObj (payload e))]"

text \<open>The defaults of \<open>event_id\<close>, \<open>occurred_at\<close> and \<open>correlation_id\<close> are fresh values.\<close>

definition validate_envelope :: "lib \<Rightarrow> string \<Rightarrow> int \<Rightarrow> string \<Rightarrow> json \<Rightarrow> envelope option" where
  "validate_envelope L fresh_id now fresh_correlation v =
     field (defaulted ''event_id'' fresh_id read_str v) (\<lambda>eid.
     field (required ''event_type'' (checked (len_between 1 200) read_str) v) (\<lambda>et.
     field (defaulted ''event_version'' 1 (read_int L) v) (\<lambda>ver.
     field (defaulted ''occurred_at'' now (read_datetime L) v) (\<lambda>occ.
     field (required ''producer'' read_str v) (\<lambda>by_service.
     field (defaulted ''correlation_id'' fresh_correlation read_str v) (\<lambda>corr.
     field (defaulted ''causation_id'' None (read_opt read_str) v) (\<lambda>caus.
     field (defaulted ''actor_id'' None (read_opt read_str) v) (\<lambda>actor.
     field (required ''payload'' read_dict v) (\<lambda>pl.
       Some \<lparr>event_id = eid, event_type = et, event_version = ver, occurred_at = occ,
             producer = by_service, correlation_id = corr, causation_id = caus, actor_id = actor,
             payload = pl\<rparr>)))))))))"

section \<open>Publishing\<close>

text \<open>
  The producer, the queue's URL and the topic's name are looked up once and kept: they are set
  only when the call that looks them up has returned.
\<close>

definition supported_bus :: "string \<Rightarrow> bool" where
  "supported_bus bus \<longleftrightarrow> bus \<in> {''disabled'', ''kafka'', ''sqs'', ''dual''}"

definition uses_kafka :: "string \<Rightarrow> bool" where
  "uses_kafka bus \<longleftrightarrow> bus \<in> {''kafka'', ''dual''}"

definition uses_sqs :: "string \<Rightarrow> bool" where
  "uses_sqs bus \<longleftrightarrow> bus \<in> {''sqs'', ''dual''}"

abbreviation bus_of :: "('t, 'e) env_scheme \<Rightarrow> string" where
  "bus_of E \<equiv> event_bus (settings_of E)"

text \<open>\<open>get_event_publisher()\<close>: the constructor refuses an unknown bus.\<close>

definition get_event_publisher :: "('t, 'e) env_scheme \<Rightarrow> (('t, 'w) world_scheme, unit) act" where
  "get_event_publisher E =
     check (supported_bus (bus_of E)) (ValueError (''Unsupported event bus: '' @ bus_of E))"

definition kafka_producer :: "('t, 'e) env_scheme \<Rightarrow> (('t, 'w) world_scheme, unit) act" where
  "kafka_producer E =
     bnd (read_state producer_open) (\<lambda>opened.
     only_if (\<not> opened)
       (bnd (call E (ret ())) (\<lambda>_. change (\<lambda>w. w\<lparr>producer_open := True\<rparr>))))"

definition kafka_send ::
  "('t, 'e) env_scheme \<Rightarrow> kafka_message \<Rightarrow> (('t, 'w) world_scheme, unit) act" where
  "kafka_send E m = call E (change (\<lambda>w. w\<lparr>kafka_sent := kafka_sent w @ [m]\<rparr>))"

definition message_key :: "lib \<Rightarrow> string option \<Rightarrow> dict \<Rightarrow> string \<Rightarrow> string" where
  "message_key L key pl eid =
     (case key of
        Some (c # cs) \<Rightarrow> c # cs
      | _ \<Rightarrow> py_str L (py_or (get_null pl ''incident_id'')
               (py_or (get_null pl ''equipment_id'') (py_or (get_null pl ''id'') (JStr eid)))))"

definition publish_kafka ::
  "('t, 'e) env_scheme \<Rightarrow> string option \<Rightarrow> envelope \<Rightarrow> (('t, 'w) world_scheme, unit) act" where
  "publish_kafka E key e =
     bnd (kafka_producer E) (\<lambda>_.
     kafka_send E
       \<lparr>msg_topic = topic_for (event_type e),
        msg_key = message_key (lib_of E) key (payload e) (event_id e),
        msg_value = dump_envelope (lib_of E) e,
        msg_headers = [(''event_type'', event_type e), (''event_version'', ''1'')]\<rparr>)"

definition publish_sqs ::
  "('t, 'e) env_scheme \<Rightarrow> string \<Rightarrow> (('t, 'w) world_scheme, unit) act" where
  "publish_sqs E message =
     bnd (read_state queue_url) (\<lambda>known.
     bnd (only_if (known = None)
            (bnd (call E (ret ())) (\<lambda>_.
             change (\<lambda>w. w\<lparr>queue_url := Some (queue_url_of E (events_queue (settings_of E)))\<rparr>)))) (\<lambda>_.
     bnd (read_state queue_url) (\<lambda>url.
     call E (change (\<lambda>w.
       w\<lparr>sqs_sent := sqs_sent w @ [(case url of Some u \<Rightarrow> u | None \<Rightarrow> [], message)]\<rparr>)))))"

definition find_topic_arn :: "('t, 'e) env_scheme \<Rightarrow> string option" where
  "find_topic_arn E =
     List.find (\<lambda>arn. after_last (CHR '':'') arn = alerts_topic (settings_of E)) (topic_arns E)"

definition publish_sns ::
  "('t, 'e) env_scheme \<Rightarrow> string \<Rightarrow> string \<Rightarrow> (('t, 'w) world_scheme, unit) act" where
  "publish_sns E et message =
     bnd (read_state topic_arn) (\<lambda>known.
     bnd (only_if (known = None)
            (bnd (call E (ret ())) (\<lambda>_.
             bnd (change (\<lambda>w. w\<lparr>topic_arn := find_topic_arn E\<rparr>)) (\<lambda>_.
             check (find_topic_arn E \<noteq> None)
               (RuntimeError (''SNS topic not found: '' @ alerts_topic (settings_of E))))))) (\<lambda>_.
     bnd (read_state topic_arn) (\<lambda>arn.
     call E (change (\<lambda>w.
       w\<lparr>sns_sent := sns_sent w @
           [\<lparr>sns_arn = (case arn of Some a \<Rightarrow> a | None \<Rightarrow> []),
             sns_subject = ''AX Sentinel: '' @ et, sns_text = message\<rparr>]\<rparr>)))))"

definition make_envelope ::
  "('t, 'e) env_scheme \<Rightarrow> string \<Rightarrow> dict \<Rightarrow> string option \<Rightarrow> string option \<Rightarrow> string option \<Rightarrow>
   (('t, 'w) world_scheme, envelope) act" where
  "make_envelope E et pl actor correlation causation =
     bnd (case correlation of Some (c # cs) \<Rightarrow> ret (c # cs) | _ \<Rightarrow> new_uuid E) (\<lambda>corr.
     bnd (new_uuid E) (\<lambda>eid.
     bnd (now_utc E) (\<lambda>now.
     bnd (check (len_between 1 200 et) ValidationError) (\<lambda>_.
     ret \<lparr>event_id = eid, event_type = et, event_version = 1, occurred_at = now,
          producer = service_name (settings_of E), correlation_id = corr,
          causation_id = causation, actor_id = actor, payload = pl\<rparr>))))"

definition publish ::
  "('t, 'e) env_scheme \<Rightarrow> string \<Rightarrow> dict \<Rightarrow> string option \<Rightarrow> string option \<Rightarrow> string option \<Rightarrow>
   string option \<Rightarrow> bool \<Rightarrow> (('t, 'w) world_scheme, envelope) act" where
  "publish E et pl key actor correlation causation alert =
     bnd (make_envelope E et pl actor correlation causation) (\<lambda>e.
     bnd (only_if (uses_kafka (bus_of E)) (publish_kafka E key e)) (\<lambda>_.
     let message = json_text (lib_of E) (dump_envelope (lib_of E) e) in
     bnd (only_if (uses_sqs (bus_of E)) (publish_sqs E message)) (\<lambda>_.
     bnd (only_if (alert \<and> bus_of E \<noteq> ''disabled'') (publish_sns E et message)) (\<lambda>_.
     ret e))))"

text \<open>\<open>get_event_publisher().publish(et, pl, key=key, actor_id=actor, alert=alert)\<close>\<close>

definition publish_event ::
  "('t, 'e) env_scheme \<Rightarrow> string \<Rightarrow> dict \<Rightarrow> string option \<Rightarrow> string option \<Rightarrow> bool \<Rightarrow>
   (('t, 'w) world_scheme, envelope) act" where
  "publish_event E et pl key actor alert =
     bnd (get_event_publisher E) (\<lambda>_. publish E et pl key actor None None alert)"

text \<open>\<open>EventPublisher.close\<close>: flush and close the producer, if there is one.\<close>

definition close_publisher :: "('t, 'e) env_scheme \<Rightarrow> (('t, 'w) world_scheme, unit) act" where
  "close_publisher E =
     bnd (read_state producer_open) (\<lambda>opened.
     only_if opened
       (bnd (call E (ret ())) (\<lambda>_.
        bnd (call E (ret ())) (\<lambda>_.
        change (\<lambda>w. w\<lparr>producer_open := False\<rparr>)))))"

section \<open>Lemmas on topics\<close>

lemma KAFKA_TOPICS_list:
  "KAFKA_TOPICS =
     [''ax.telemetry.events.v1'', ''ax.incident.events.v1'', ''ax.analysis.events.v1'',
      ''ax.knowledge.events.v1'', ''ax.work-order.events.v1'', ''ax.feedback.events.v1'',
      ''ax.audit.events.v1'']"
  by code_simp

lemma find_topic_cases:
  "topic_for et = ''ax.audit.events.v1'' \<or> (\<exists>p. (p, topic_for et) \<in> set TOPIC_BY_PREFIX)"
proof (cases "List.find (\<lambda>(prefix, topic). starts_with et prefix) TOPIC_BY_PREFIX")
  case (Some x)
  then have "x \<in> set TOPIC_BY_PREFIX" by (metis (no_types, lifting) find_Some_iff nth_mem)
  moreover obtain p t where "x = (p, t)" by (cases x)
  moreover from this have "topic_for et = t" using Some by (simp add: topic_for_def)
  ultimately show ?thesis by blast
qed (simp add: topic_for_def)

section \<open>Lemmas on publishing\<close>

definition kafka_form :: "lib \<Rightarrow> string option \<Rightarrow> envelope \<Rightarrow> kafka_message" where
  "kafka_form L key e =
     \<lparr>msg_topic = topic_for (event_type e),
      msg_key = message_key L key (payload e) (event_id e),
      msg_value = dump_envelope L e,
      msg_headers = [(''event_type'', event_type e), (''event_version'', ''1'')]\<rparr>"

text \<open>The configuration lets an event through: a known bus, and an alert topic where one is used.\<close>

definition can_publish :: "('t, 'e) env_scheme \<Rightarrow> bool \<Rightarrow> bool" where
  "can_publish E alert \<longleftrightarrow>
     supported_bus (bus_of E) \<and>
     (alert \<and> bus_of E \<noteq> ''disabled'' \<longrightarrow> find_topic_arn E \<noteq> None)"

text \<open>\<open>after_publish E w w' ms\<close>: the process went on, sent \<open>ms\<close> to Kafka, and left the rest alone.\<close>

definition after_publish ::
  "('t, 'w) world_scheme \<Rightarrow> ('t, 'w) world_scheme \<Rightarrow> kafka_message list \<Rightarrow> bool" where
  "after_publish w w' ms \<longleftrightarrow>
     kafka_sent w' = kafka_sent w @ ms \<and> tbl w' = tbl w \<and> redis_sent w' = redis_sent w \<and>
     world.more w' = world.more w"

lemmas publish_steps = bnd_def read_state_def only_if_def ret_def change_def check_def after_publish_def

lemma publish_kafka_quiet:
  assumes "quiet E"
  obtains w' where "publish_kafka E key e w = (Inr (), w')"
    "after_publish w w' [kafka_form (lib_of E) key e]" "sqs_sent w' = sqs_sent w" "sns_sent w' = sns_sent w"
  by (cases "producer_open w")
    (auto simp: publish_kafka_def kafka_producer_def kafka_send_def quiet_call [OF assms] kafka_form_def
      publish_steps)

lemma publish_sqs_quiet:
  assumes "quiet E"
  obtains w' u where "publish_sqs E m w = (Inr (), w')" "after_publish w w' []"
    "sqs_sent w' = sqs_sent w @ [(u, m)]" "sns_sent w' = sns_sent w"
  by (cases "queue_url w") (auto simp: publish_sqs_def quiet_call [OF assms] publish_steps)

lemma publish_sns_quiet:
  assumes "quiet E" "find_topic_arn E \<noteq> None"
  obtains w' a where "publish_sns E et m w = (Inr (), w')" "after_publish w w' []"
    "sqs_sent w' = sqs_sent w"
    "sns_sent w' = sns_sent w @
       [\<lparr>sns_arn = a, sns_subject = ''AX Sentinel: '' @ et, sns_text = m\<rparr>]"
  using assms(2)
  by (cases "topic_arn w"; cases "find_topic_arn E")
    (auto simp: publish_sns_def quiet_call [OF assms(1)] publish_steps)

lemma publish_event_quiet:
  assumes q: "quiet E" and can: "can_publish E alert" and len: "len_between 1 200 et"
  shows "\<exists>e w'. publish_event E et pl key actor alert w = (Inr e, w') \<and>
    event_type e = et \<and> payload e = pl \<and> actor_id e = actor \<and>
    producer e = service_name (settings_of E) \<and>
    after_publish w w' (if uses_kafka (bus_of E) then [kafka_form (lib_of E) key e] else []) \<and>
    (alert \<and> bus_of E \<noteq> ''disabled'' \<longrightarrow>
       (\<exists>a. sns_sent w' = sns_sent w @
          [\<lparr>sns_arn = a, sns_subject = ''AX Sentinel: '' @ et,
            sns_text = json_text (lib_of E) (dump_envelope (lib_of E) e)\<rparr>])) \<and>
    (uses_sqs (bus_of E) \<longrightarrow>
       (\<exists>u. sqs_sent w' = sqs_sent w @ [(u, json_text (lib_of E) (dump_envelope (lib_of E) e))])) \<and>
    (bus_of E = ''disabled'' \<longrightarrow> sqs_sent w' = sqs_sent w \<and> sns_sent w' = sns_sent w)"
proof -
  define corr eid where "corr = uuid_at E (tick w)" and "eid = uuid_at E (Suc (tick w))"
  define e where "e =
    \<lparr>event_id = eid, event_type = et, event_version = 1, occurred_at = now_at E (Suc (Suc (tick w))),
     producer = service_name (settings_of E), correlation_id = corr, causation_id = None,
     actor_id = actor, payload = pl\<rparr>"
  define w0 where "w0 = w\<lparr>tick := Suc (Suc (Suc (tick w)))\<rparr>"
  have made: "make_envelope E et pl actor None None w = (Inr e, w0)"
    using len by (simp add: make_envelope_def bnd_def new_uuid_def now_utc_def check_def ret_def e_def
        corr_def eid_def w0_def)
  define m where "m = json_text (lib_of E) (dump_envelope (lib_of E) e)"
  obtain w1 where k: "only_if (uses_kafka (bus_of E)) (publish_kafka E key e) w0 = (Inr (), w1)"
    "after_publish w0 w1 (if uses_kafka (bus_of E) then [kafka_form (lib_of E) key e] else [])"
    "sqs_sent w1 = sqs_sent w0" "sns_sent w1 = sns_sent w0"
    by (cases "uses_kafka (bus_of E)")
      (auto simp: only_if_def ret_def after_publish_def intro: publish_kafka_quiet [OF q, of key e w0])
  obtain w2 where s: "only_if (uses_sqs (bus_of E)) (publish_sqs E m) w1 = (Inr (), w2)"
    "after_publish w1 w2 []" "sns_sent w2 = sns_sent w1"
    "if uses_sqs (bus_of E) then \<exists>u. sqs_sent w2 = sqs_sent w1 @ [(u, m)] else sqs_sent w2 = sqs_sent w1"
    by (cases "uses_sqs (bus_of E)")
      (auto simp: only_if_def ret_def after_publish_def intro: publish_sqs_quiet [OF q, of m w1])
  obtain w3 where n: "only_if (alert \<and> bus_of E \<noteq> ''disabled'') (publish_sns E et m) w2 = (Inr (), w3)"
    "after_publish w2 w3 []" "sqs_sent w3 = sqs_sent w2"
    "if alert \<and> bus_of E \<noteq> ''disabled''
     then \<exists>a. sns_sent w3 = sns_sent w2 @ [\<lparr>sns_arn = a, sns_subject = ''AX Sentinel: '' @ et, sns_text = m\<rparr>]
     else sns_sent w3 = sns_sent w2"
  proof (cases "alert \<and> bus_of E \<noteq> ''disabled''")
    case True
    then have "find_topic_arn E \<noteq> None" using can by (simp add: can_publish_def)
    from publish_sns_quiet [OF q this, of et m w2] show ?thesis
      using True that by (auto simp: only_if_def)
  next
    case False
    then show ?thesis by (intro that [of w2]) (auto simp: only_if_def ret_def after_publish_def)
  qed
  have run: "publish_event E et pl key actor alert w = (Inr e, w3)"
    using made k(1) s(1) n(1) can
    by (simp add: publish_event_def get_event_publisher_def publish_def can_publish_def check_def
        bnd_def ret_def Let_def m_def)
  have "after_publish w w3 (if uses_kafka (bus_of E) then [kafka_form (lib_of E) key e] else [])"
    using k(2) s(2) n(2) by (auto simp: after_publish_def w0_def)
  moreover have "w0\<lparr>tick := tick w\<rparr> = w" by (simp add: w0_def)
  then have base: "sqs_sent w0 = sqs_sent w" "sns_sent w0 = sns_sent w" by (simp_all add: w0_def)
  ultimately show ?thesis
    using run k(3,4) s(3,4) n(3,4)
    by (intro exI [of _ e] exI [of _ w3]) (auto simp: e_def m_def uses_sqs_def split: if_splits)
qed

text \<open>The worker reads an envelope back as it was published.\<close>

lemma dump_envelope_read:
  assumes "lib_ok L" "len_between 1 200 (event_type e)"
  shows "validate_envelope L i t c (dump_envelope L e) = Some e"
  using assms by (simp add: validate_envelope_def dump_envelope_def codec_simps)

text \<open>What publishing keeps: anything that depends on the table alone.\<close>

lemma keeps_lookup:
  assumes "alone E" "\<And>w n. P w \<Longrightarrow> P (w\<lparr>tick := n\<rparr>)"
  shows "keeps P (call E (ret ()))"
  using assms by (intro keeps_call_alone) (simp_all add: keeps_def ret_def)

lemma keeps_call_change:
  assumes "alone E" "\<And>w. P w \<Longrightarrow> P (f w)" "\<And>w n. P w \<Longrightarrow> P (w\<lparr>tick := n\<rparr>)"
  shows "keeps P (call E (change f))"
  using assms by (intro keeps_call_alone keeps_change)

lemma keeps_publish_event [keeps_intros]:
  assumes "alone E"
  shows "keeps (\<lambda>w. Q (tbl w)) (publish_event E et pl key actor alert)"
  unfolding publish_event_def get_event_publisher_def publish_def make_envelope_def publish_kafka_def
    kafka_producer_def kafka_send_def publish_sqs_def publish_sns_def Let_def
  by (intro keeps_intros keeps_change keeps_call_change keeps_lookup assms; simp split: option.split list.split add: keeps_intros)+

end
