(* ===== verification/Auth.thy ===== *)
theory Auth
  imports Events
begin

text \<open>
  \<open>shared/auth.py\<close>: the verifiers of access tokens, the principal read from verified claims,
  and the role check of an endpoint. The cryptographic check of a token (\<open>jwt.decode\<close> with the
  signing key that the JWKS client finds) is a parameter: the URL of the key set, the token, the
  issuer and the audience give the claims or an error.
\<close>

section \<open>Roles and principals\<close>

datatype role = OPERATOR_MANAGER | FIELD_WORKER | SYSTEM_ADMIN

definition known_roles :: "(string \<times> role) list" where
  "known_roles =
     [(''operator_manager'', OPERATOR_MANAGER),
      (''field_worker'', FIELD_WORKER),
      (''system_admin'', SYSTEM_ADMIN)]"

record principal =
  subject :: string
  username :: string
  roles :: "role set"

text \<open>Iterating over a value, as unpacking it in a list display does.\<close>

definition py_iter :: "json \<Rightarrow> exn + json list" where
  "py_iter v =
     (case v of
        JList xs \<Rightarrow> Inr xs
      | JStr s \<Rightarrow> Inr (map JStr (utf8_chars s))
      | JObj d \<Rightarrow> Inr (map (\<lambda>(k, _). JStr k) d)
      | _ \<Rightarrow> Inl (TypeError ''Value after * must be an iterable''))"

text \<open>\<open>known_roles[g] for g in claimed if g in known_roles\<close>: a list or a dict has no hash.\<close>

fun roles_of_groups :: "json list \<Rightarrow> exn + role list" where
  "roles_of_groups [] = Inr []"
| "roles_of_groups (g # gs) =
     (case g of
        JList _ \<Rightarrow> Inl (TypeError ''unhashable type: list'')
      | JObj _ \<Rightarrow> Inl (TypeError ''unhashable type: dict'')
      | _ \<Rightarrow>
         (case roles_of_groups gs of
            Inl e \<Rightarrow> Inl e
          | Inr rs \<Rightarrow>
             (case g of
                JStr s \<Rightarrow> (case map_of known_roles s of Some r \<Rightarrow> Inr (r # rs) | None \<Rightarrow> Inr rs)
              | _ \<Rightarrow> Inr rs)))"

definition keycloak_roles :: "dict \<Rightarrow> json" where
  "keycloak_roles claims =
     (case dict_get_or claims ''realm_access'' (JObj []) of
        JObj d \<Rightarrow> dict_get_or d ''roles'' (JList [])
      | _ \<Rightarrow> JList [])"

definition claimed_roles :: "dict \<Rightarrow> exn + json list" where
  "claimed_roles claims =
     (case py_iter (dict_get_or claims ''cognito:groups'' (JList [])) of
        Inl e \<Rightarrow> Inl e
      | Inr xs \<Rightarrow>
         (case py_iter (keycloak_roles claims) of
            Inl e \<Rightarrow> Inl e
          | Inr ys \<Rightarrow> Inr (xs @ ys)))"

definition principal_from_claims :: "lib \<Rightarrow> dict \<Rightarrow> exn + principal" where
  "principal_from_claims L claims =
     (case claimed_roles claims of
        Inl e \<Rightarrow> Inl e
      | Inr groups \<Rightarrow>
         (case roles_of_groups groups of
            Inl e \<Rightarrow> Inl e
          | Inr rs \<Rightarrow>
             (case dict_get claims ''sub'' of
                None \<Rightarrow> Inl (KeyError ''sub'')
              | Some sub \<Rightarrow>
                  Inr \<lparr>subject = py_str L sub,
                       username = py_str L (dict_get_or claims ''preferred_username''
                                              (dict_get_or claims ''username'' sub)),
                       roles = set rs\<rparr>)))"

definition local_principal :: principal where
  "local_principal =
     \<lparr>subject = ''local-development-user'', username = ''local-admin'',
      roles = {OPERATOR_MANAGER, FIELD_WORKER, SYSTEM_ADMIN}\<rparr>"

definition require_roles :: "role list \<Rightarrow> principal option \<Rightarrow> exn + principal" where
  "require_roles allowed p =
     (case p of
        None \<Rightarrow> Inl (HTTPException 401 (JStr ''Unauthorized''))
      | Some pr \<Rightarrow>
          (if roles pr \<inter> set allowed = {} then Inl (HTTPException 403 (JStr ''Insufficient role''))
           else Inr pr))"

section \<open>Token verifiers\<close>

record 't auth_env = "'t env" +
  jwt_decode :: "string \<Rightarrow> string \<Rightarrow> string \<Rightarrow> string option \<Rightarrow> exn + dict"

text \<open>The issuer, the URL of its key set (fixed by the issuer for Cognito) and the client.\<close>

datatype verifier = CognitoTokenVerifier string string | OidcTokenVerifier string string string

definition cognito_issuer :: "string \<Rightarrow> string \<Rightarrow> string" where
  "cognito_issuer region pool = ''https://cognito-idp.'' @ region @ ''.amazonaws.com/'' @ pool"

fun verify_claims :: "lib \<Rightarrow> verifier \<Rightarrow> dict \<Rightarrow> exn + principal" where
  "verify_claims L (CognitoTokenVerifier issuer client_id) claims =
     (if dict_get claims ''token_use'' \<noteq> Some (JStr ''access'')
      then Inl (PyJWTError ''Only Cognito access tokens are accepted'')
      else if dict_get claims ''client_id'' \<noteq> Some (JStr client_id)
      then Inl (PyJWTError ''Token was issued for a different client'')
      else principal_from_claims L claims)"
| "verify_claims L (OidcTokenVerifier issuer jwks_url client_id) claims = principal_from_claims L claims"

definition cognito_jwks_url :: "string \<Rightarrow> string" where
  "cognito_jwks_url issuer = issuer @ ''/.well-known/jwks.json''"

fun decode_token :: "('t, 'e) auth_env_scheme \<Rightarrow> verifier \<Rightarrow> string \<Rightarrow> exn + dict" where
  "decode_token E (CognitoTokenVerifier issuer client_id) token =
     jwt_decode E (cognito_jwks_url issuer) token issuer None"
| "decode_token E (OidcTokenVerifier issuer jwks_url client_id) token =
     jwt_decode E jwks_url token (rstrip_char (CHR ''/'') issuer) (Some client_id)"

definition verify ::
  "('t, 'e) auth_env_scheme \<Rightarrow> verifier \<Rightarrow> string \<Rightarrow> (('t, 'w) world_scheme, principal) act" where
  "verify E v token =
     bnd (call E (of_result (decode_token E v token))) (\<lambda>claims.
     of_result (verify_claims (lib_of E) v claims))"

definition get_token_verifier :: "settings \<Rightarrow> exn + verifier" where
  "get_token_verifier s =
     (if auth_mode s = ''keycloak'' then
        (case (oidc_issuer s, oidc_jwks_url s, oidc_client_id s) of
           (Some i, Some u, Some c) \<Rightarrow>
             (if i = [] \<or> u = [] \<or> c = []
              then Inl (RuntimeError ''Keycloak OIDC authentication settings are incomplete'')
              else Inr (OidcTokenVerifier i u c))
         | _ \<Rightarrow> Inl (RuntimeError ''Keycloak OIDC authentication settings are incomplete''))
      else if auth_mode s \<noteq> ''cognito''
      then Inl (RuntimeError (''Unsupported authentication mode: '' @ auth_mode s))
      else
        (case (cognito_user_pool_id s, cognito_client_id s) of
           (Some p, Some c) \<Rightarrow>
             (if p = [] \<or> c = [] then Inl (RuntimeError ''Cognito authentication settings are incomplete'')
              else Inr (CognitoTokenVerifier (cognito_issuer (aws_region s) p) c))
         | _ \<Rightarrow> Inl (RuntimeError ''Cognito authentication settings are incomplete'')))"

text \<open>\<open>get_token_verifier().verify(token)\<close>\<close>

definition verify_token ::
  "('t, 'e) auth_env_scheme \<Rightarrow> string \<Rightarrow> (('t, 'w) world_scheme, principal) act" where
  "verify_token E token =
     bnd (of_result (get_token_verifier (settings_of E))) (\<lambda>v. verify E v token)"

section \<open>Lemmas\<close>

lemma bnd_of_result [act_simps]:
  "bnd (of_result (Inr x)) f = f x" "bnd (of_result (Inl e)) f = throw e"
  by (auto simp: bnd_def of_result_def throw_def)

lemma map_of_known_roles: "map_of known_roles s = Some r \<longleftrightarrow> (s, r) \<in> set known_roles"
  by (auto simp: known_roles_def)

lemma roles_of_groups_set:
  "roles_of_groups gs = Inr rs \<Longrightarrow> r \<in> set rs \<longleftrightarrow> (\<exists>s. JStr s \<in> set gs \<and> (s, r) \<in> set known_roles)"
proof (induction gs arbitrary: rs)
  case (Cons g gs)
  then show ?case
    by (cases g) (auto split: sum.splits option.splits simp: map_of_known_roles [symmetric])
qed simp

lemma require_roles_Inr:
  "require_roles allowed p = Inr pr \<longleftrightarrow> p = Some pr \<and> roles pr \<inter> set allowed \<noteq> {}"
  by (auto simp: require_roles_def split: option.splits)

lemma verify_Inr:
  assumes "verify E v token w = (Inr p, w')"
  shows "\<exists>claims. decode_token E v token = Inr claims \<and> verify_claims (lib_of E) v claims = Inr p"
  using assms
  by (auto simp: verify_def bnd_def call_def of_result_def Let_def split: sum.splits outcome.splits prod.splits)

text \<open>Verifying a token never touches the table of an undisturbed process.\<close>

lemma keeps_verify_token [keeps_intros]:
  assumes "alone E"
  shows "keeps (\<lambda>w. Q (tbl w)) (verify_token E token)"
  unfolding verify_token_def verify_def
  by (intro keeps_intros keeps_call_alone assms) simp_all

end
