(* ===== verification/Api.thy ===== *)
theory Api
  imports Auth
begin

text \<open>
  \<open>shared/api.py\<close>: the middleware that every request of every service passes, the health
  endpoints, and the start and stop of a service. The rest of the web framework (routing, the
  conversion of an \<open>HTTPException\<close> into a response) is behind \<open>call_next\<close>, an argument.
\<close>

record http_request =
  req_method :: string
  req_path :: string
  req_authorization :: "string option"

record http_response =
  resp_status :: nat
  resp_body :: json
  resp_headers :: "(string \<times> string) list"

text \<open>The request counter and the latency histogram, as the sequences of their label values.\<close>

record 't app_world = "'t world" +
  http_requests :: "(string \<times> string \<times> string \<times> nat) list"
  http_duration :: "(string \<times> string \<times> string) list"

definition public_path :: "string \<Rightarrow> bool" where
  "public_path path \<longleftrightarrow>
     starts_with path ''/health/'' \<or> starts_with path ''/metrics'' \<or>
     path \<in> {''/docs'', ''/redoc'', ''/openapi.json''}"

definition count_request ::
  "string \<Rightarrow> http_request \<Rightarrow> http_response \<Rightarrow> (('t, 'w) app_world_scheme, unit) act" where
  "count_request service req resp = change (\<lambda>w.
     w\<lparr>http_requests := http_requests w @ [(service, req_method req, req_path req, resp_status resp)],
       http_duration := http_duration w @ [(service, req_method req, req_path req)]\<rparr>)"

definition unauthorized :: "string \<Rightarrow> http_response" where
  "unauthorized detail =
     \<lparr>resp_status = 401, resp_body = JObj [(''detail'', JStr detail)],
      resp_headers = [(''WWW-Authenticate'', ''Bearer'')]\<rparr>"

definition authenticate ::
  "('t, 'e) auth_env_scheme \<Rightarrow> string \<Rightarrow> http_request \<Rightarrow>
   (principal option \<Rightarrow> (('t, 'w) app_world_scheme, http_response) act) \<Rightarrow>
   (('t, 'w) app_world_scheme, http_response) act" where
  "authenticate E service req call_next =
     (if public_path (req_path req) then
        bnd (call_next None) (\<lambda>resp. bnd (count_request service req resp) (\<lambda>_. ret resp))
      else if auth_mode (settings_of E) = ''disabled'' then
        bnd (call_next (Some local_principal)) (\<lambda>resp.
        bnd (count_request service req resp) (\<lambda>_. ret resp))
      else
        (let authorization = (case req_authorization req of None \<Rightarrow> [] | Some a \<Rightarrow> a);
             (scheme, _, token) = partition_at (CHR '' '') authorization
         in if ascii_lower scheme \<noteq> ''bearer'' \<or> token = []
            then ret (unauthorized ''Bearer access token required'')
            else
              bnd (attempt (bnd (verify_token E token) (\<lambda>p. ret (Some p)))
                     (\<lambda>e. if is_jwt_error e \<or> is_runtime_error e then ret None else throw e)) (\<lambda>who.
              case who of
                None \<Rightarrow> ret (unauthorized ''Invalid or expired access token'')
              | Some p \<Rightarrow>
                  bnd (call_next (Some p)) (\<lambda>resp.
                  bnd (count_request service req resp) (\<lambda>_. ret resp)))))"

record health_response =
  health_service :: string
  health_status :: string
  health_timestamp :: int

definition liveness ::
  "('t, 'e) env_scheme \<Rightarrow> string \<Rightarrow> (('t, 'w) world_scheme, health_response) act" where
  "liveness E service = bnd (now_utc E) (\<lambda>now.
     ret \<lparr>health_service = service, health_status = ''ok'', health_timestamp = now\<rparr>)"

definition readiness ::
  "('t, 'e) env_scheme \<Rightarrow> string \<Rightarrow> (('t, 'w) world_scheme, health_response) act" where
  "readiness E service = bnd (now_utc E) (\<lambda>now.
     ret \<lparr>health_service = service, health_status = ''ready'', health_timestamp = now\<rparr>)"

text \<open>
  \<open>lifespan\<close>: start the service, serve, and stop it whether serving ended normally or with an
  exception. A failing start never serves and never stops.
\<close>

definition lifespan ::
  "('w, unit) act option \<Rightarrow> ('w, unit) act option \<Rightarrow> ('w, unit) act \<Rightarrow> ('w, unit) act" where
  "lifespan startup shutdown serve =
     (let stop = (case shutdown of None \<Rightarrow> ret () | Some s \<Rightarrow> s)
      in bnd (case startup of None \<Rightarrow> ret () | Some s \<Rightarrow> s) (\<lambda>_.
         bnd (attempt serve (\<lambda>e. bnd stop (\<lambda>_. throw e))) (\<lambda>_. stop)))"

section \<open>Properties\<close>

lemma attempt_InrD:
  "attempt m h w = (Inr x, w') \<Longrightarrow>
   m w = (Inr x, w') \<or> (\<exists>e w1. m w = (Inl e, w1) \<and> h e w1 = (Inr x, w'))"
  by (auto simp: attempt_def split: prod.splits sum.splits)

end
