(* ===== verification/Detection.thy ===== *)
theory Detection
  imports Prelude
begin

text \<open>
  \<open>services/incident/app/detection.py\<close>: the detector of critical samples and of repeated
  warnings per equipment and sensor. Its counter map is refined to a specification that only
  looks at the history of one sensor.
\<close>

section \<open>The detector\<close>

record detection_signal =
  signal_equipment_id :: string
  signal_sensor_type :: string
  signal_status :: string

record detector =
  warning_streak_threshold :: int
  warning_streaks :: "(string \<times> string) \<rightharpoonup> int"

definition AnomalyDetector :: "int \<Rightarrow> detector" where
  "AnomalyDetector threshold =
     \<lparr>warning_streak_threshold = threshold, warning_streaks = (\<lambda>_. None)\<rparr>"

text \<open>A \<open>defaultdict(int)\<close>: an absent key reads as zero.\<close>

definition streak :: "detector \<Rightarrow> string \<times> string \<Rightarrow> int" where
  "streak d key = (case warning_streaks d key of None \<Rightarrow> 0 | Some n \<Rightarrow> n)"

definition set_streak :: "string \<times> string \<Rightarrow> int \<Rightarrow> detector \<Rightarrow> detector" where
  "set_streak key n d = d\<lparr>warning_streaks := (warning_streaks d)(key \<mapsto> n)\<rparr>"

definition signal_key :: "detection_signal \<Rightarrow> string \<times> string" where
  "signal_key s = (signal_equipment_id s, signal_sensor_type s)"

definition evaluate :: "detection_signal \<Rightarrow> detector \<Rightarrow> string option \<times> detector" where
  "evaluate s d =
     (let key = signal_key s in
      if signal_status s = ''critical'' then (Some ''AUTO-CRITICAL'', set_streak key 0 d)
      else if signal_status s \<noteq> ''warning'' then (None, set_streak key 0 d)
      else
        (let d = set_streak key (streak d key + 1) d in
         if streak d key < warning_streak_threshold d then (None, d)
         else (Some ''AUTO-WARNING-STREAK'', set_streak key 0 d)))"

fun evaluate_all :: "detection_signal list \<Rightarrow> detector \<Rightarrow> string option list \<times> detector" where
  "evaluate_all [] d = ([], d)"
| "evaluate_all (s # ss) d =
     (let (t, d') = evaluate s d; (ts, d'') = evaluate_all ss d' in (t # ts, d''))"

section \<open>Specification\<close>

text \<open>
  The trigger of the last sample of one sensor's history: a critical sample always triggers, a
  warning does when it completes a multiple of \<open>n\<close> consecutive warnings.
\<close>

definition warnings_at_end :: "string list \<Rightarrow> nat" where
  "warnings_at_end h = length (takeWhile (\<lambda>s. s = ''warning'') (rev h))"

definition trigger_spec :: "nat \<Rightarrow> string list \<Rightarrow> string option" where
  "trigger_spec n h =
     (if h = [] then None
      else if last h = ''critical'' then Some ''AUTO-CRITICAL''
      else if last h = ''warning'' \<and> n dvd warnings_at_end h then Some ''AUTO-WARNING-STREAK''
      else None)"

definition history :: "string \<times> string \<Rightarrow> detection_signal list \<Rightarrow> string list" where
  "history key ss = map signal_status (filter (\<lambda>s. signal_key s = key) ss)"

lemma warnings_at_end_simps [simp]:
  "warnings_at_end [] = 0"
  "warnings_at_end (h @ [s]) = (if s = ''warning'' then Suc (warnings_at_end h) else 0)"
  by (simp_all add: warnings_at_end_def)

lemma history_simps [simp]:
  "history key [] = []"
  "history key (ss @ [s]) = history key ss @ (if signal_key s = key then [signal_status s] else [])"
  by (simp_all add: history_def)

lemma evaluate_all_append:
  "evaluate_all (ss @ ts) d =
     (let (xs, d') = evaluate_all ss d; (ys, d'') = evaluate_all ts d' in (xs @ ys, d''))"
  by (induction ss arbitrary: d) (auto simp: Let_def split: prod.splits)

lemma evaluate_all_length [simp]: "length (fst (evaluate_all ss d)) = length ss"
  by (induction ss arbitrary: d) (simp_all add: Let_def case_prod_beta)

section \<open>The counters represent the histories\<close>

definition represents :: "nat \<Rightarrow> detection_signal list \<Rightarrow> detector \<Rightarrow> bool" where
  "represents n ss d \<longleftrightarrow>
     warning_streak_threshold d = int n \<and>
     (\<forall>key. streak d key = int (warnings_at_end (history key ss) mod n))"

lemma streak_set_streak [simp]:
  "streak (set_streak key n d) key' = (if key' = key then n else streak d key')"
  "warning_streak_threshold (set_streak key n d) = warning_streak_threshold d"
  by (simp_all add: streak_def set_streak_def)

lemma evaluate_represents:
  assumes n: "0 < n" and r: "represents n ss d"
  shows "fst (evaluate s d) = trigger_spec n (history (signal_key s) (ss @ [s]))"
    and "represents n (ss @ [s]) (snd (evaluate s d))"
proof -
  define m where "m = warnings_at_end (history (signal_key s) ss)"
  have m: "streak d (signal_key s) = int (m mod n)" "warning_streak_threshold d = int n"
    using r by (simp_all add: represents_def m_def del: split_paired_All)
  have wrap: "Suc m mod n = (if int (m mod n) + 1 < int n then Suc (m mod n) else 0)"
  proof -
    have "m mod n < n" using n by simp
    then show ?thesis by (auto simp: mod_Suc)
  qed
  have dvd: "n dvd Suc m \<longleftrightarrow> \<not> int (m mod n) + 1 < int n"
    unfolding dvd_eq_mod_eq_0 wrap by simp
  show "fst (evaluate s d) = trigger_spec n (history (signal_key s) (ss @ [s]))"
    using dvd by (simp add: evaluate_def trigger_spec_def Let_def m m_def [symmetric])
  show "represents n (ss @ [s]) (snd (evaluate s d))"
    using r wrap by (auto simp: represents_def evaluate_def Let_def m m_def [symmetric])
qed

lemma evaluate_all_represents:
  "0 < n \<Longrightarrow> represents n ss (snd (evaluate_all ss (AnomalyDetector (int n))))"
proof (induction ss rule: rev_induct)
  case Nil
  then show ?case by (simp add: represents_def AnomalyDetector_def streak_def)
next
  case (snoc s ss)
  then show ?case
    using evaluate_represents(2) [of n ss "snd (evaluate_all ss (AnomalyDetector (int n)))" s]
    by (simp add: evaluate_all_append Let_def case_prod_beta)
qed

lemma streak_below: "represents n ss d \<Longrightarrow> 0 < n \<Longrightarrow> 0 \<le> streak d key \<and> streak d key < int n"
  by (simp add: represents_def del: split_paired_All)

section \<open>Properties\<close>

text \<open>
  C6. After any interleaving of samples from any number of sensors, the detector's
  answer to each sample is what the specification says of the history of that sensor alone: a
  critical sample triggers, a warning triggers exactly when it completes a multiple of the
  threshold of consecutive warnings of that sensor.
\<close>

theorem detector_refines:
  assumes "0 < n" "i < length ss"
  shows "fst (evaluate_all ss (AnomalyDetector (int n))) ! i =
    trigger_spec n (history (signal_key (ss ! i)) (take (Suc i) ss))"
proof -
  define d where "d = AnomalyDetector (int n)"
  have split: "ss = take i ss @ ss ! i # drop (Suc i) ss" using assms(2) by (simp add: id_take_nth_drop)
  have "fst (evaluate_all ss d) ! i = fst (evaluate (ss ! i) (snd (evaluate_all (take i ss) d)))"
    by (subst split, subst evaluate_all_append)
      (simp add: Let_def nth_append assms(2) less_imp_le case_prod_beta)
  then show ?thesis
    using evaluate_represents(1) [OF assms(1) evaluate_all_represents [OF assms(1)], where ss = "take i ss" and s = "ss ! i"]
    by (simp add: d_def take_Suc_conv_app_nth assms(2))
qed

definition sample_signal :: "string \<Rightarrow> detection_signal" where
  "sample_signal status =
     \<lparr>signal_equipment_id = ''PUMP-01'', signal_sensor_type = ''vibration'', signal_status = status\<rparr>"

lemma detector_refines_witness:
  "fst (evaluate_all (replicate 3 (sample_signal ''warning'')) (AnomalyDetector 3)) ! 2 =
     Some ''AUTO-WARNING-STREAK''"
  using detector_refines [of 3 2 "replicate 3 (sample_signal ''warning'')"]
  by (simp add: trigger_spec_def history_def warnings_at_end_def sample_signal_def numeral_3_eq_3
      numeral_2_eq_2 signal_key_def)

end
