(* ===== verification/Realtime.thy ===== *)
theory Realtime
  imports Events
begin

text \<open>
  \<open>shared/realtime.py\<close>: the Redis bus that carries dashboard updates between the processes.
  A message is kept as the value its JSON text denotes (\<open>realtime_value\<close>).
\<close>

text \<open>\<open>get_realtime_bus()\<close> refuses to start without a URL.\<close>

definition get_realtime_bus :: "('t, 'e) env_scheme \<Rightarrow> (('t, 'w) world_scheme, unit) act" where
  "get_realtime_bus E =
     check (is_set (redis_url (settings_of E)))
       (RuntimeError ''REDIS_URL is required for the Redis WebSocket broker'')"

definition bus_publish ::
  "('t, 'e) env_scheme \<Rightarrow> string \<Rightarrow> json \<Rightarrow> (('t, 'w) world_scheme, unit) act" where
  "bus_publish E channel message =
     call E (change (\<lambda>w. w\<lparr>redis_sent := redis_sent w @ [(channel, realtime_value message)]\<rparr>))"

text \<open>\<open>get_realtime_bus().publish(channel, message)\<close>\<close>

definition realtime_publish ::
  "('t, 'e) env_scheme \<Rightarrow> string \<Rightarrow> json \<Rightarrow> (('t, 'w) world_scheme, unit) act" where
  "realtime_publish E channel message =
     bnd (get_realtime_bus E) (\<lambda>_. bus_publish E channel message)"

text \<open>What the subscription hands to \<open>listen\<close>: the kind of message, its channel and its value.\<close>

record bus_message =
  bus_type :: string
  bus_channel :: string
  bus_data :: json

text \<open>One turn of the loop of \<open>listen\<close>, and the turns for the messages received so far.\<close>

definition listen_one ::
  "(string \<times> (json \<Rightarrow> ('w, unit) act)) list \<Rightarrow> bus_message \<Rightarrow> ('w, unit) act" where
  "listen_one handlers m =
     (if bus_type m \<noteq> ''message'' then ret ()
      else (case map_of handlers (bus_channel m) of
              None \<Rightarrow> ret ()
            | Some handler \<Rightarrow> handler (bus_data m)))"

definition listen ::
  "('t, 'e) env_scheme \<Rightarrow> (string \<times> (json \<Rightarrow> (('t, 'w) world_scheme, unit) act)) list \<Rightarrow>
   (('t, 'w) world_scheme, unit) act \<Rightarrow> bus_message list \<Rightarrow> (('t, 'w) world_scheme, unit) act" where
  "listen E handlers set_ready received =
     bnd (call E (ret ())) (\<lambda>_.
     bnd set_ready (\<lambda>_.
     bnd (each (listen_one handlers) received) (\<lambda>_. ret ())))"

definition bus_close :: "('t, 'e) env_scheme \<Rightarrow> (('t, 'w) world_scheme, unit) act" where
  "bus_close E = call E (ret ())"

lemma keeps_realtime_publish [keeps_intros]:
  assumes "alone E"
  shows "keeps (\<lambda>w. Q (tbl w)) (realtime_publish E channel message)"
  unfolding realtime_publish_def get_realtime_bus_def bus_publish_def
  by (intro keeps_intros keeps_call_change assms; simp)

text \<open>A value without decimals is published as it is.\<close>

lemma realtime_value_id: "json_native v \<Longrightarrow> realtime_value v = v"
proof (induction v)
  case (JList xs)
  then show ?case by (auto simp: list_all_iff map_idI)
next
  case (JObj d)
  then have "realtime_value (snd p) = snd p" if "p \<in> set d" for p
    using that by (cases p) (force simp: list_all_iff)
  then show ?case by (auto intro!: map_idI)
qed simp_all

end
