(* ===== verification/Entities.thy ===== *)
theory Entities
  imports Realtime Api "HOL-Library.Multiset"
begin

text \<open>
  The step every endpoint ends with: store an entity, then announce it as an event. What it
  does, for any kind of entity, in a run without failures.
\<close>

text \<open>Every entity other than one is as it was.\<close>

definition same_elsewhere :: "'t dynamo \<Rightarrow> 't \<Rightarrow> 't \<Rightarrow> string \<Rightarrow> string \<Rightarrow> bool" where
  "same_elsewhere D t t' kind eid \<longleftrightarrow>
     (\<forall>et eid'. et \<in> set entity_types \<longrightarrow> et \<noteq> kind \<or> eid' \<noteq> eid \<longrightarrow> view D t' et eid' = view D t et eid')"

lemma same_elsewhereD:
  "same_elsewhere D t t' kind eid \<Longrightarrow> et \<in> set entity_types \<Longrightarrow> et \<noteq> kind \<or> eid' \<noteq> eid \<Longrightarrow>
   view D t' et eid' = view D t et eid'"
  unfolding same_elsewhere_def by blast

text \<open>One event of the given type, payload, key and actor was published, and no other.\<close>

definition announced ::
  "('t, 'e) env_scheme \<Rightarrow> string \<Rightarrow> dict \<Rightarrow> string option \<Rightarrow> string option \<Rightarrow>
   ('t, 'w) world_scheme \<Rightarrow> ('t, 'w) world_scheme \<Rightarrow> bool" where
  "announced E et pl key actor w w' \<longleftrightarrow>
     (\<exists>e. event_type e = et \<and> payload e = pl \<and> actor_id e = actor \<and>
          producer e = service_name (settings_of E) \<and>
          kafka_sent w' = kafka_sent w @
            (if uses_kafka (bus_of E) then [kafka_form (lib_of E) key e] else []))"

lemma announced_tick [simp]:
  "announced E et pl key actor (w\<lparr>tick := n\<rparr>) w' = announced E et pl key actor w w'"
  unfolding announced_def by simp

lemma announce_quiet:
  fixes E :: "('t, 'e) env_scheme" and w :: "('t, 'w) world_scheme"
  assumes "quiet E" "can_publish E alert" "len_between 1 200 et"
  shows "\<exists>e w'. publish_event E et pl key actor alert w = (Inr e, w') \<and>
    announced E et pl key actor w w' \<and> tbl w' = tbl w \<and> redis_sent w' = redis_sent w \<and>
    world.more w' = world.more w"
  using publish_event_quiet [OF assms, of pl key actor w]
  by (fastforce simp: announced_def after_publish_def)

text \<open>Two or three steps with nothing read in between.\<close>

lemma bnd_two: "bnd a (\<lambda>_. b) w = (Inr x, w') \<Longrightarrow> bnd a (\<lambda>_. bnd b k) w = k x w'"
  by (simp add: bnd_assoc [symmetric] bnd_Inr)

lemma bnd_three:
  "bnd a (\<lambda>_. bnd b (\<lambda>_. c)) w = (Inr x, w') \<Longrightarrow> bnd a (\<lambda>_. bnd b (\<lambda>_. bnd c k)) w = k x w'"
  by (simp add: bnd_assoc [symmetric] bnd_Inr)

context stored_entity
begin

lemma save_announce:
  fixes E :: "('t, 'e) env_scheme" and w :: "('t, 'w) world_scheme"
  assumes q: "quiet E" and tok: "table_ok (dynamo_of E) (tbl w)" and x: "wf x"
    and p: "can_publish E alert" "len_between 1 200 et"
  shows "\<exists>e w'. bnd (repo_put E kind eid (dump (lib_of E) x)) (\<lambda>_.
      publish_event E et pl key actor alert) w = (Inr e, w') \<and>
    announced E et pl key actor w w' \<and> table_ok (dynamo_of E) (tbl w') \<and>
    load_as (validate (lib_of E)) (dynamo_of E) (tbl w') kind eid = Some x \<and>
    same_elsewhere (dynamo_of E) (tbl w) (tbl w') kind eid \<and> redis_sent w' = redis_sent w \<and>
    world.more w' = world.more w"
proof -
  obtain t' where
    s: "repo_put E kind eid (dump (lib_of E) x) w = (Inr (), w\<lparr>tick := tick w + 3, tbl := t'\<rparr>)"
    and t: "table_ok (dynamo_of E) t'" "load_as (validate (lib_of E)) (dynamo_of E) t' kind eid = Some x"
    "same_elsewhere (dynamo_of E) (tbl w) t' kind eid"
    using save [OF q tok x, of eid] unfolding same_elsewhere_def by blast
  define w1 where "w1 = w\<lparr>tick := tick w + 3, tbl := t'\<rparr>"
  obtain e w' where
    a: "publish_event E et pl key actor alert w1 = (Inr e, w')"
    "announced E et pl key actor w1 w'" "tbl w' = tbl w1" "redis_sent w' = redis_sent w1"
    "world.more w' = world.more w1"
    using announce_quiet [OF q p, of pl key actor w1] by blast
  show ?thesis using s a t
    by (intro exI [of _ e] exI [of _ w']) (simp add: bnd_Inr w1_def announced_def)
qed

end

lemma load_as_Some:
  "load_as f D t kind eid = Some x \<longleftrightarrow> (\<exists>v. view D t kind eid = Some v \<and> f v = Some x)"
  by (auto simp: load_as_def split: option.splits)

text \<open>The values of a listing that are read as entities, and the listing of them.\<close>

definition validated ::
  "(lib \<Rightarrow> json \<Rightarrow> 'a option) \<Rightarrow> ('t, 'e) env_scheme \<Rightarrow> json \<Rightarrow> ('w, 'a) act" where
  "validated validate E v = of_option ValidationError (validate (lib_of E) v)"

lemma validated_apply [act_simps]:
  "validated f E v w = (case f (lib_of E) v of None \<Rightarrow> (Inl ValidationError, w) | Some x \<Rightarrow> (Inr x, w))"
  by (cases "f (lib_of E) v") (simp_all add: validated_def act_simps)

lemma each_validated:
  "each (validated f E) vs w =
     (case all_some (map (f (lib_of E)) vs) of None \<Rightarrow> (Inl ValidationError, w) | Some xs \<Rightarrow> (Inr xs, w))"
  by (induction vs) (auto simp: act_simps bnd_def split: option.splits)

lemma each_validated_ok:
  "(\<And>v. v \<in> set vs \<Longrightarrow> f (lib_of E) v \<noteq> None) \<Longrightarrow>
   each (validated f E) vs w = (Inr (map (\<lambda>v. the (f (lib_of E) v)) vs), w)"
proof (induction vs)
  case (Cons v vs)
  then obtain x where "f (lib_of E) v = Some x" by fastforce
  then show ?case using Cons by (simp add: act_simps bnd_def)
qed (simp add: act_simps)

text \<open>\<open>sorted(xs, key=key, reverse=True)\<close>: descending, equal keys in their order.\<close>

definition sorted_descending :: "('a \<Rightarrow> int) \<Rightarrow> 'a list \<Rightarrow> 'a list" where
  "sorted_descending key xs = sort_key (\<lambda>x. - key x) xs"

lemma sorted_descending_facts:
  "mset (sorted_descending key xs) = mset xs"
  "sorted_wrt (\<lambda>x y. key y \<le> key x) (sorted_descending key xs)"
  "set (sorted_descending key xs) = set xs" "length (sorted_descending key xs) = length xs"
proof -
  have "sorted (map (\<lambda>x. - key x) (sorted_descending key xs))" by (simp add: sorted_descending_def)
  then show "sorted_wrt (\<lambda>x y. key y \<le> key x) (sorted_descending key xs)"
    by (simp add: sorted_map)
qed (simp_all add: sorted_descending_def)

text \<open>The 404 of an endpoint.\<close>

definition not_found :: "string \<Rightarrow> exn" where
  "not_found what = HTTPException 404 (JStr (what @ '' not found''))"

end
