(* ===== verification/IncidentModel.thy ===== *)
theory IncidentModel
  imports Api Detection Entities
begin

text \<open>
  The data of \<open>services/incident/app/main.py\<close>: the status machine of an incident, the models
  \<open>VirtualIncidentRequest\<close>, \<open>Incident\<close>, \<open>TelemetryRequest\<close> and \<open>TelemetryRecord\<close> with the way
  they are written and read, and the classification of a measurement.
\<close>

section \<open>Status\<close>

datatype IncidentStatus = DETECTED | ANALYZING | REVIEW_REQUIRED | APPROVED | IN_PROGRESS | RESOLVED

definition incident_statuses :: "(string \<times> IncidentStatus) list" where
  "incident_statuses =
     [(''detected'', DETECTED), (''analyzing'', ANALYZING), (''review_required'', REVIEW_REQUIRED),
      (''approved'', APPROVED), (''in_progress'', IN_PROGRESS), (''resolved'', RESOLVED)]"

fun status_value :: "IncidentStatus \<Rightarrow> string" where
  "status_value DETECTED = ''detected''"
| "status_value ANALYZING = ''analyzing''"
| "status_value REVIEW_REQUIRED = ''review_required''"
| "status_value APPROVED = ''approved''"
| "status_value IN_PROGRESS = ''in_progress''"
| "status_value RESOLVED = ''resolved''"

fun ALLOWED_TRANSITIONS :: "IncidentStatus \<Rightarrow> IncidentStatus set" where
  "ALLOWED_TRANSITIONS DETECTED = {ANALYZING}"
| "ALLOWED_TRANSITIONS ANALYZING = {REVIEW_REQUIRED, APPROVED}"
| "ALLOWED_TRANSITIONS REVIEW_REQUIRED = {APPROVED}"
| "ALLOWED_TRANSITIONS APPROVED = {IN_PROGRESS}"
| "ALLOWED_TRANSITIONS IN_PROGRESS = {RESOLVED}"
| "ALLOWED_TRANSITIONS RESOLVED = {}"

lemma incident_statuses_value [simp, codec_simps]: "map_of incident_statuses (status_value s) = Some s"
  by (cases s) (simp_all add: incident_statuses_def)

section \<open>Models\<close>

record virtual_incident_request =
  vi_equipment_id :: string
  vi_sensor_type :: string
  vi_measured_value :: pyfloat
  vi_threshold :: pyfloat
  vi_error_code :: string
  vi_log_excerpt :: string

record incident =
  inc_id :: string
  inc_equipment_id :: string
  inc_status :: IncidentStatus
  inc_severity :: string
  inc_detected_at :: int
  inc_payload :: virtual_incident_request
  inc_source :: string
  inc_telemetry_id :: "string option"

record telemetry_request =
  t_equipment_id :: string
  t_sensor_type :: string
  t_measured_value :: pyfloat
  t_unit :: string
  t_threshold :: pyfloat
  t_log_excerpt :: string

record telemetry_record = telemetry_request +
  t_id :: string
  t_status :: string
  t_received_at :: int

definition dump_virtual_incident :: "virtual_incident_request \<Rightarrow> json" where
  "dump_virtual_incident r = JObj
     [(''equipment_id'', JStr (vi_equipment_id r)),
      (''sensor_type'', JStr (vi_sensor_type r)),
      (''measured_value'', JFloat (vi_measured_value r)),
      (''threshold'', JFloat (vi_threshold r)),
      (''error_code'', JStr (vi_error_code r)),
      (''log_excerpt'', JStr (vi_log_excerpt r))]"

definition validate_virtual_incident :: "lib \<Rightarrow> json \<Rightarrow> virtual_incident_request option" where
  "validate_virtual_incident L v =
     field (required ''equipment_id'' read_str v) (\<lambda>eq.
     field (required ''sensor_type'' read_str v) (\<lambda>sensor.
     field (required ''measured_value'' (read_float L) v) (\<lambda>measured.
     field (required ''threshold'' (read_float L) v) (\<lambda>threshold.
     field (required ''error_code'' read_str v) (\<lambda>code.
     field (required ''log_excerpt'' (checked (len_between 0 2000) read_str) v) (\<lambda>excerpt.
       Some \<lparr>vi_equipment_id = eq, vi_sensor_type = sensor, vi_measured_value = measured,
             vi_threshold = threshold, vi_error_code = code, vi_log_excerpt = excerpt\<rparr>))))))"

definition dump_incident :: "lib \<Rightarrow> incident \<Rightarrow> json" where
  "dump_incident L i = JObj
     [(''id'', JStr (inc_id i)),
      (''equipment_id'', JStr (inc_equipment_id i)),
      (''status'', JStr (status_value (inc_status i))),
      (''severity'', JStr (inc_severity i)),
      (''detected_at'', JStr (format_datetime L (inc_detected_at i))),
      (''payload'', dump_virtual_incident (inc_payload i)),
      (''source'', JStr (inc_source i)),
      (''telemetry_id'', opt_str (inc_telemetry_id i))]"

definition validate_incident :: "lib \<Rightarrow> json \<Rightarrow> incident option" where
  "validate_incident L v =
     field (required ''id'' read_str v) (\<lambda>iid.
     field (required ''equipment_id'' read_str v) (\<lambda>eq.
     field (required ''status'' (read_enum incident_statuses) v) (\<lambda>st.
     field (required ''severity'' read_str v) (\<lambda>sev.
     field (required ''detected_at'' (read_datetime L) v) (\<lambda>detected.
     field (required ''payload'' (validate_virtual_incident L) v) (\<lambda>pl.
     field (defaulted ''source'' ''manual'' read_str v) (\<lambda>src.
     field (defaulted ''telemetry_id'' None (read_opt read_str) v) (\<lambda>tel.
       Some \<lparr>inc_id = iid, inc_equipment_id = eq, inc_status = st, inc_severity = sev,
             inc_detected_at = detected, inc_payload = pl, inc_source = src,
             inc_telemetry_id = tel\<rparr>))))))))"

definition validate_status_update :: "json \<Rightarrow> IncidentStatus option" where
  "validate_status_update v = required ''status'' (read_enum incident_statuses) v"

definition dump_telemetry :: "lib \<Rightarrow> telemetry_record \<Rightarrow> json" where
  "dump_telemetry L t = JObj
     [(''equipment_id'', JStr (t_equipment_id t)),
      (''sensor_type'', JStr (t_sensor_type t)),
      (''measured_value'', JFloat (t_measured_value t)),
      (''unit'', JStr (t_unit t)),
      (''threshold'', JFloat (t_threshold t)),
      (''log_excerpt'', JStr (t_log_excerpt t)),
      (''id'', JStr (t_id t)),
      (''status'', JStr (t_status t)),
      (''received_at'', JStr (format_datetime L (t_received_at t)))]"

definition validate_telemetry_request :: "lib \<Rightarrow> json \<Rightarrow> telemetry_request option" where
  "validate_telemetry_request L v =
     field (required ''equipment_id'' read_str v) (\<lambda>eq.
     field (required ''sensor_type'' read_str v) (\<lambda>sensor.
     field (required ''measured_value'' (read_float L) v) (\<lambda>measured.
     field (defaulted ''unit'' [] read_str v) (\<lambda>unit_text.
     field (required ''threshold'' (read_float L) v) (\<lambda>threshold.
     field (defaulted ''log_excerpt'' [] (checked (len_between 0 2000) read_str) v) (\<lambda>excerpt.
       Some \<lparr>t_equipment_id = eq, t_sensor_type = sensor, t_measured_value = measured,
             t_unit = unit_text, t_threshold = threshold, t_log_excerpt = excerpt\<rparr>))))))"

definition validate_telemetry :: "lib \<Rightarrow> json \<Rightarrow> telemetry_record option" where
  "validate_telemetry L v =
     field (validate_telemetry_request L v) (\<lambda>r.
     field (required ''id'' read_str v) (\<lambda>tid.
     field (required ''status'' read_str v) (\<lambda>st.
     field (required ''received_at'' (read_datetime L) v) (\<lambda>received.
       Some (telemetry_request.extend r
               (telemetry_record.fields tid st received))))))"

section \<open>Classification of a measurement\<close>

definition telemetry_ratio :: "pyfloat \<Rightarrow> pyfloat \<Rightarrow> pyfloat option" where
  "telemetry_ratio measured threshold =
     (if float_true threshold then float_div measured threshold else Some (Fin 0))"

definition telemetry_status :: "pyfloat \<Rightarrow> string" where
  "telemetry_status ratio =
     (if float_le (float_lit (6 / 5)) ratio then ''critical''
      else if float_le (Fin 1) ratio then ''warning'' else ''normal'')"

text \<open>The severity of a simulated incident compares with the product instead.\<close>

definition simulated_severity :: "virtual_incident_request \<Rightarrow> string" where
  "simulated_severity r =
     (if float_le (float_mul (vi_threshold r) (float_lit (6 / 5))) (vi_measured_value r)
      then ''critical'' else ''high'')"

section \<open>Well-formed models\<close>

definition wf_virtual_incident :: "virtual_incident_request \<Rightarrow> bool" where
  "wf_virtual_incident r \<longleftrightarrow>
     finite_double (vi_measured_value r) \<and> finite_double (vi_threshold r) \<and>
     len_between 0 2000 (vi_log_excerpt r)"

definition wf_incident :: "incident \<Rightarrow> bool" where
  "wf_incident i \<longleftrightarrow> wf_virtual_incident (inc_payload i)"

definition wf_telemetry_request :: "('a) telemetry_request_scheme \<Rightarrow> bool" where
  "wf_telemetry_request t \<longleftrightarrow>
     finite_double (t_measured_value t) \<and> finite_double (t_threshold t) \<and>
     len_between 0 2000 (t_log_excerpt t)"

lemmas blind_intros = field_blind required_blind defaulted_blind const_blind checked_blind
  read_opt_blind read_list_blind scalar_readers_blind

lemma virtual_incident_blind [simp, intro]: "key_order_blind (validate_virtual_incident L)"
  unfolding validate_virtual_incident_def by (intro blind_intros)

interpretation virtual_incident:
  entity_codec "\<lambda>L. dump_virtual_incident" validate_virtual_incident wf_virtual_incident
proof
  show "lib_ok L \<Longrightarrow> wf_virtual_incident r \<Longrightarrow>
      validate_virtual_incident L (dump_virtual_incident r) = Some r" for L r
    by (simp add: validate_virtual_incident_def dump_virtual_incident_def codec_simps
        wf_virtual_incident_def)
  show "lib_ok L \<Longrightarrow> wf_virtual_incident r \<Longrightarrow>
      validate_virtual_incident L (stored L (dump_virtual_incident r)) = Some r" for L r
    by (simp add: validate_virtual_incident_def dump_virtual_incident_def codec_simps
        wf_virtual_incident_def del: stored_simps(4))
  show "wf_virtual_incident r \<Longrightarrow> finite_numbers (dump_virtual_incident r)" for r
    by (simp add: dump_virtual_incident_def wf_virtual_incident_def finite_double_finite)
qed (rule virtual_incident_blind)

interpretation incident_store: stored_entity dump_incident validate_incident wf_incident "''incident''"
proof
  show "key_order_blind (validate_incident L)" for L
    unfolding validate_incident_def by (intro blind_intros virtual_incident_blind)
  show "lib_ok L \<Longrightarrow> wf_incident x \<Longrightarrow> validate_incident L (dump_incident L x) = Some x" for L x
    by (simp add: validate_incident_def dump_incident_def codec_simps wf_incident_def
        virtual_incident.read_dumped virtual_incident.read_stored)
  show "lib_ok L \<Longrightarrow> wf_incident x \<Longrightarrow> validate_incident L (stored L (dump_incident L x)) = Some x" for L x
    by (simp add: validate_incident_def dump_incident_def codec_simps wf_incident_def
        virtual_incident.read_dumped virtual_incident.read_stored)
  show "wf_incident x \<Longrightarrow> finite_numbers (dump_incident L x)" for L x
    by (cases "inc_telemetry_id x")
      (simp_all add: dump_incident_def wf_incident_def virtual_incident.dump_finite opt_str_def)
qed (simp add: entity_types_def)

lemma telemetry_request_blind [simp, intro]: "key_order_blind (validate_telemetry_request L)"
  unfolding validate_telemetry_request_def by (intro blind_intros)

interpretation telemetry_store:
  stored_entity dump_telemetry validate_telemetry wf_telemetry_request "''telemetry''"
proof
  show "key_order_blind (validate_telemetry L)" for L
    unfolding validate_telemetry_def by (intro blind_intros telemetry_request_blind)
  show "lib_ok L \<Longrightarrow> wf_telemetry_request x \<Longrightarrow> validate_telemetry L (dump_telemetry L x) = Some x" for L x
    by (simp add: validate_telemetry_def validate_telemetry_request_def dump_telemetry_def codec_simps
        wf_telemetry_request_def telemetry_request.extend_def telemetry_record.fields_def)
  show "lib_ok L \<Longrightarrow> wf_telemetry_request x \<Longrightarrow>
      validate_telemetry L (stored L (dump_telemetry L x)) = Some x" for L x
    by (simp add: validate_telemetry_def validate_telemetry_request_def dump_telemetry_def codec_simps
        wf_telemetry_request_def telemetry_request.extend_def telemetry_record.fields_def
        del: stored_simps(4))
  show "wf_telemetry_request x \<Longrightarrow> finite_numbers (dump_telemetry L x)" for L x
    by (simp add: dump_telemetry_def wf_telemetry_request_def finite_double_finite)
qed (simp add: entity_types_def)

end
