(* ===== verification/Incident.thy ===== *)
theory Incident
  imports IncidentModel
begin

text \<open>
  The operations of \<open>services/incident/app/main.py\<close>: the WebSocket connections and their
  authorization, the realtime updates, the ingestion of telemetry with automatic incidents, and
  the endpoints of incidents.
\<close>

section \<open>State of the service\<close>

text \<open>The two connection managers of the module; a set of sockets, kept without repetition.\<close>

datatype manager = telemetry_connections | incident_connections

text \<open>
  The listener task: not created, running, or ended. A task that ended is kept until the
  shutdown awaits it.
\<close>

datatype listener = NoListener | Listening | ListenerDone "exn + unit"

record 't incident_world = "'t app_world" +
  anomaly_detector :: detector
  connections :: "manager \<Rightarrow> string list"
  ws_sent :: "(string \<times> json) list"
  ws_closed :: "(string \<times> nat \<times> string) list"
  realtime_listener_task :: listener

section \<open>WebSocketConnectionManager\<close>

definition ws_connect ::
  "('t, 'e) env_scheme \<Rightarrow> manager \<Rightarrow> string \<Rightarrow> string option \<Rightarrow>
   (('t, 'w) incident_world_scheme, unit) act" where
  "ws_connect E m websocket subprotocol =
     bnd (call E (ret ())) (\<lambda>_.
     change (\<lambda>w. w\<lparr>connections := (connections w)(m := List.insert websocket (connections w m))\<rparr>))"

definition ws_disconnect :: "manager \<Rightarrow> string \<Rightarrow> (('t, 'w) incident_world_scheme, unit) act" where
  "ws_disconnect m websocket =
     change (\<lambda>w. w\<lparr>connections := (connections w)(m := remove1 websocket (connections w m))\<rparr>)"

definition send_json ::
  "('t, 'e) env_scheme \<Rightarrow> string \<Rightarrow> json \<Rightarrow> (('t, 'w) incident_world_scheme, unit) act" where
  "send_json E websocket message =
     call E (change (\<lambda>w. w\<lparr>ws_sent := ws_sent w @ [(websocket, message)]\<rparr>))"

text \<open>The failures of a send that mean the peer is gone.\<close>

fun peer_gone :: "exn \<Rightarrow> bool" where
  "peer_gone (OSError _) = True"
| "peer_gone WebSocketDisconnect = True"
| "peer_gone e = is_runtime_error e"

fun send_to_each ::
  "('t, 'e) env_scheme \<Rightarrow> json \<Rightarrow> string list \<Rightarrow> string list \<Rightarrow>
   (('t, 'w) incident_world_scheme, string list) act" where
  "send_to_each E message [] disconnected = ret disconnected"
| "send_to_each E message (websocket # rest) disconnected =
     bnd (attempt (bnd (send_json E websocket message) (\<lambda>_. ret disconnected))
            (\<lambda>e. if peer_gone e then ret (disconnected @ [websocket]) else throw e)) (\<lambda>gone.
     send_to_each E message rest gone)"

definition broadcast ::
  "('t, 'e) env_scheme \<Rightarrow> manager \<Rightarrow> json \<Rightarrow> (('t, 'w) incident_world_scheme, unit) act" where
  "broadcast E m message =
     bnd (read_state (\<lambda>w. connections w m)) (\<lambda>conns.
     bnd (send_to_each E message conns []) (\<lambda>disconnected.
     bnd (each (ws_disconnect m) disconnected) (\<lambda>_. ret ())))"

section \<open>Realtime updates\<close>

definition publish_realtime ::
  "('t, 'e) env_scheme \<Rightarrow> string \<Rightarrow> manager \<Rightarrow> json \<Rightarrow>
   (('t, 'w) incident_world_scheme, unit) act" where
  "publish_realtime E channel m model =
     (if websocket_broker (settings_of E) = ''redis'' then realtime_publish E channel model
      else broadcast E m model)"

definition realtime_handlers ::
  "('t, 'e) env_scheme \<Rightarrow> (string \<times> (json \<Rightarrow> (('t, 'w) incident_world_scheme, unit) act)) list" where
  "realtime_handlers E =
     [(''ax-sentinel.telemetry'', broadcast E telemetry_connections),
      (''ax-sentinel.incidents'', broadcast E incident_connections)]"

text \<open>
  Starting: the listener task runs and has subscribed (or the wait for it has timed out). The
  task hands the messages it receives to the managers, and ends when a handler or the
  subscription fails.
\<close>

definition start_realtime_listener ::
  "('t, 'e) env_scheme \<Rightarrow> (('t, 'w) incident_world_scheme, unit) act" where
  "start_realtime_listener E =
     (if websocket_broker (settings_of E) \<noteq> ''redis'' then ret ()
      else
        bnd (get_realtime_bus E) (\<lambda>_.
        bnd (change (\<lambda>w. w\<lparr>realtime_listener_task := Listening\<rparr>)) (\<lambda>_.
        call E (ret ()))))"

definition run_realtime_listener ::
  "('t, 'e) env_scheme \<Rightarrow> bus_message list \<Rightarrow> (('t, 'w) incident_world_scheme, unit) act" where
  "run_realtime_listener E received =
     attempt (listen E (realtime_handlers E) (ret ()) received)
       (\<lambda>e. change (\<lambda>w. w\<lparr>realtime_listener_task := ListenerDone (Inl e)\<rparr>))"

text \<open>
  Stopping: a running task is cancelled, which closes its subscription, and the cancellation is
  suppressed; the exception of a task that has failed is raised when it is awaited, before the
  bus is closed.
\<close>

definition await_listener ::
  "('t, 'e) env_scheme \<Rightarrow> (('t, 'w) incident_world_scheme, unit) act" where
  "await_listener E =
     bnd (read_state realtime_listener_task) (\<lambda>task.
     case task of
       NoListener \<Rightarrow> ret ()
     | Listening \<Rightarrow> call E (ret ())
     | ListenerDone r \<Rightarrow> of_result r)"

definition stop_realtime_listener ::
  "('t, 'e) env_scheme \<Rightarrow> (('t, 'w) incident_world_scheme, unit) act" where
  "stop_realtime_listener E =
     bnd (await_listener E) (\<lambda>_.
     bnd (change (\<lambda>w. w\<lparr>realtime_listener_task := NoListener\<rparr>)) (\<lambda>_.
     only_if (websocket_broker (settings_of E) = ''redis'')
       (bnd (get_realtime_bus E) (\<lambda>_. bus_close E))))"

section \<open>WebSocket endpoints\<close>

definition websocket_access_token :: "string \<Rightarrow> string option \<times> string option" where
  "websocket_access_token header =
     (let protocols = filter (\<lambda>v. v \<noteq> []) (map py_strip (split_on (CHR '','') header))
      in case protocols of
           p # token # _ \<Rightarrow>
             (if p = ''access-token'' then (Some token, Some ''access-token'') else (None, None))
         | _ \<Rightarrow> (None, None))"

definition ws_close ::
  "('t, 'e) env_scheme \<Rightarrow> string \<Rightarrow> nat \<Rightarrow> string \<Rightarrow>
   (('t, 'w) incident_world_scheme, unit) act" where
  "ws_close E websocket code reason =
     call E (change (\<lambda>w. w\<lparr>ws_closed := ws_closed w @ [(websocket, code, reason)]\<rparr>))"

definition authorize_websocket ::
  "('t, 'e) auth_env_scheme \<Rightarrow> string \<Rightarrow> string \<Rightarrow>
   (('t, 'w) incident_world_scheme, string option) act" where
  "authorize_websocket E websocket header =
     (if auth_mode (settings_of E) = ''disabled'' then ret None
      else
        (case websocket_access_token header of
           (None, _) \<Rightarrow>
             bnd (ws_close E websocket 4401 ''Access token required'') (\<lambda>_. ret None)
         | (Some token, subprotocol) \<Rightarrow>
             attempt (bnd (verify_token E token) (\<lambda>_. ret subprotocol))
               (\<lambda>e. if is_jwt_error e \<or> is_runtime_error e
                     then bnd (ws_close E websocket 4401 ''Invalid or expired access token'') (\<lambda>_. ret None)
                     else throw e)))"

text \<open>The peer sends \<open>n\<close> texts; then \<open>receive_text\<close> raises \<open>e\<close>.\<close>

fun receive_loop ::
  "('t, 'e) env_scheme \<Rightarrow> nat \<Rightarrow> exn \<Rightarrow> (('t, 'w) incident_world_scheme, unit) act" where
  "receive_loop E 0 e = throw e"
| "receive_loop E (Suc n) e = bnd (call E (ret ())) (\<lambda>_. receive_loop E n e)"

definition serve_websocket ::
  "('t, 'e) auth_env_scheme \<Rightarrow> manager \<Rightarrow> string \<Rightarrow> string \<Rightarrow> nat \<Rightarrow> exn \<Rightarrow>
   (('t, 'w) incident_world_scheme, unit) act" where
  "serve_websocket E m websocket header n e =
     bnd (authorize_websocket E websocket header) (\<lambda>subprotocol.
     if auth_mode (settings_of E) \<noteq> ''disabled'' \<and> subprotocol = None then ret ()
     else
       bnd (ws_connect E m websocket subprotocol) (\<lambda>_.
       attempt (receive_loop E n e)
         (\<lambda>x. if x = WebSocketDisconnect then ws_disconnect m websocket else throw x)))"

definition telemetry_websocket ::
  "('t, 'e) auth_env_scheme \<Rightarrow> string \<Rightarrow> string \<Rightarrow> nat \<Rightarrow> exn \<Rightarrow>
   (('t, 'w) incident_world_scheme, unit) act" where
  "telemetry_websocket E = serve_websocket E telemetry_connections"

definition incident_websocket ::
  "('t, 'e) auth_env_scheme \<Rightarrow> string \<Rightarrow> string \<Rightarrow> nat \<Rightarrow> exn \<Rightarrow>
   (('t, 'w) incident_world_scheme, unit) act" where
  "incident_websocket E = serve_websocket E incident_connections"

section \<open>Automatic incidents\<close>

definition run_detector ::
  "detection_signal \<Rightarrow> (('t, 'w) incident_world_scheme, string option) act" where
  "run_detector s w =
     (let (trigger, d) = evaluate s (anomaly_detector w)
      in (Inr trigger, w\<lparr>anomaly_detector := d\<rparr>))"

definition signal_of :: "telemetry_record \<Rightarrow> detection_signal" where
  "signal_of t =
     \<lparr>signal_equipment_id = t_equipment_id t, signal_sensor_type = t_sensor_type t,
      signal_status = t_status t\<rparr>"

definition open_incident_for :: "telemetry_record \<Rightarrow> incident \<Rightarrow> bool" where
  "open_incident_for t i \<longleftrightarrow>
     inc_status i \<noteq> RESOLVED \<and> inc_equipment_id i = t_equipment_id t \<and>
     vi_sensor_type (inc_payload i) = t_sensor_type t"

definition automatic_incident :: "telemetry_record \<Rightarrow> string \<Rightarrow> string \<Rightarrow> int \<Rightarrow> incident" where
  "automatic_incident t trigger_code iid now =
     \<lparr>inc_id = iid, inc_equipment_id = t_equipment_id t, inc_status = DETECTED,
      inc_severity = (if t_status t = ''critical'' then ''critical'' else ''high''),
      inc_detected_at = now,
      inc_payload =
        \<lparr>vi_equipment_id = t_equipment_id t, vi_sensor_type = t_sensor_type t,
         vi_measured_value = t_measured_value t, vi_threshold = t_threshold t,
         vi_error_code = trigger_code, vi_log_excerpt = t_log_excerpt t\<rparr>,
      inc_source = ''automatic'', inc_telemetry_id = Some (t_id t)\<rparr>"

definition create_automatic_incident ::
  "('t, 'e) env_scheme \<Rightarrow> telemetry_record \<Rightarrow>
   (('t, 'w) incident_world_scheme, incident option) act" where
  "create_automatic_incident E t =
     bnd (run_detector (signal_of t)) (\<lambda>trigger.
     case trigger of
       None \<Rightarrow> ret None
     | Some trigger_code \<Rightarrow>
         bnd (repo_list E ''incident'') (\<lambda>existing_values.
         bnd (each (validated validate_incident E) existing_values) (\<lambda>existing_incidents.
         if list_ex (open_incident_for t) existing_incidents then ret None
         else
           bnd (new_uuid E) (\<lambda>iid.
           bnd (now_utc E) (\<lambda>now.
           let incident = automatic_incident t trigger_code iid now;
               dumped = dump_incident (lib_of E) incident
           in bnd (repo_put E ''incident'' (inc_id incident) dumped) (\<lambda>_.
              bnd (publish_event E ''incident.detected'' (dict_of dumped) None None True) (\<lambda>_.
              bnd (publish_realtime E ''ax-sentinel.incidents'' incident_connections dumped) (\<lambda>_.
              ret (Some incident)))))))))"

section \<open>Telemetry endpoints\<close>

definition ingest_telemetry ::
  "('t, 'e) env_scheme \<Rightarrow> principal option \<Rightarrow> telemetry_request \<Rightarrow>
   (('t, 'w) incident_world_scheme, telemetry_record) act" where
  "ingest_telemetry E caller request =
     bnd (of_result (require_roles [OPERATOR_MANAGER, SYSTEM_ADMIN] caller)) (\<lambda>p.
     bnd (of_option ZeroDivisionError
            (telemetry_ratio (t_measured_value request) (t_threshold request))) (\<lambda>ratio.
     bnd (new_uuid E) (\<lambda>tid.
     bnd (now_utc E) (\<lambda>now.
     let telemetry = telemetry_request.extend request
                       (telemetry_record.fields tid (telemetry_status ratio) now);
         dumped = dump_telemetry (lib_of E) telemetry
     in bnd (repo_put E ''telemetry'' (t_id telemetry) dumped) (\<lambda>_.
        bnd (publish_event E ''telemetry.received'' (dict_of dumped)
               (Some (t_equipment_id telemetry)) (Some (subject p)) False) (\<lambda>_.
        bnd (publish_realtime E ''ax-sentinel.telemetry'' telemetry_connections dumped) (\<lambda>_.
        bnd (create_automatic_incident E telemetry) (\<lambda>_.
        ret telemetry))))))))"

definition list_telemetry ::
  "('t, 'e) env_scheme \<Rightarrow> int \<Rightarrow> (('t, 'w) world_scheme, telemetry_record list) act" where
  "list_telemetry E limit =
     bnd (check (1 \<le> limit \<and> limit \<le> 200) RequestValidationError) (\<lambda>_.
     bnd (repo_list E ''telemetry'') (\<lambda>values.
     bnd (each (validated validate_telemetry E) values) (\<lambda>records.
     ret (take (nat limit) (sorted_descending t_received_at records)))))"

section \<open>Incident endpoints\<close>

definition simulate_incident ::
  "('t, 'e) env_scheme \<Rightarrow> principal option \<Rightarrow> virtual_incident_request \<Rightarrow>
   (('t, 'w) incident_world_scheme, incident) act" where
  "simulate_incident E caller request =
     bnd (of_result (require_roles [OPERATOR_MANAGER, SYSTEM_ADMIN] caller)) (\<lambda>p.
     bnd (new_uuid E) (\<lambda>iid.
     bnd (now_utc E) (\<lambda>now.
     let incident =
           \<lparr>inc_id = iid, inc_equipment_id = vi_equipment_id request, inc_status = DETECTED,
            inc_severity = simulated_severity request, inc_detected_at = now,
            inc_payload = request, inc_source = ''manual'', inc_telemetry_id = None\<rparr>;
         dumped = dump_incident (lib_of E) incident
     in bnd (repo_put E ''incident'' (inc_id incident) dumped) (\<lambda>_.
        bnd (publish_event E ''incident.detected'' (dict_of dumped)
               (Some (inc_id incident)) (Some (subject p)) True) (\<lambda>_.
        bnd (publish_realtime E ''ax-sentinel.incidents'' incident_connections dumped) (\<lambda>_.
        ret incident))))))"

definition list_incidents ::
  "('t, 'e) env_scheme \<Rightarrow> (('t, 'w) world_scheme, incident list) act" where
  "list_incidents E =
     bnd (repo_list E ''incident'') (\<lambda>values.
     bnd (each (validated validate_incident E) values) (\<lambda>incidents.
     ret (sorted_descending inc_detected_at incidents)))"

definition get_incident ::
  "('t, 'e) env_scheme \<Rightarrow> string \<Rightarrow> (('t, 'w) world_scheme, incident) act" where
  "get_incident E incident_id =
     bnd (repo_get E ''incident'' incident_id) (\<lambda>value.
     case value of
       None \<Rightarrow> throw (not_found ''Incident'')
     | Some v \<Rightarrow> validated validate_incident E v)"

definition invalid_transition :: "IncidentStatus \<Rightarrow> IncidentStatus \<Rightarrow> exn" where
  "invalid_transition s s' =
     HTTPException 409
       (JStr (''Invalid transition: '' @ status_value s @ '' -> '' @ status_value s'))"

definition status_changed_payload :: "incident \<Rightarrow> IncidentStatus \<Rightarrow> dict" where
  "status_changed_payload i previous =
     [(''id'', JStr (inc_id i)), (''incident_id'', JStr (inc_id i)),
      (''equipment_id'', JStr (inc_equipment_id i)),
      (''previous_status'', JStr (status_value previous)),
      (''status'', JStr (status_value (inc_status i)))]"

definition update_incident_status ::
  "('t, 'e) env_scheme \<Rightarrow> principal option \<Rightarrow> string \<Rightarrow> IncidentStatus \<Rightarrow>
   (('t, 'w) incident_world_scheme, incident) act" where
  "update_incident_status E caller incident_id new_status =
     bnd (of_result (require_roles [OPERATOR_MANAGER, FIELD_WORKER, SYSTEM_ADMIN] caller)) (\<lambda>p.
     bnd (repo_get E ''incident'' incident_id) (\<lambda>value.
     case value of
       None \<Rightarrow> throw (not_found ''Incident'')
     | Some v \<Rightarrow>
         bnd (validated validate_incident E v) (\<lambda>incident.
         if new_status \<notin> ALLOWED_TRANSITIONS (inc_status incident)
         then throw (invalid_transition (inc_status incident) new_status)
         else
           let previous_status = inc_status incident;
               incident = incident\<lparr>inc_status := new_status\<rparr>;
               dumped = dump_incident (lib_of E) incident
           in bnd (repo_put E ''incident'' (inc_id incident) dumped) (\<lambda>_.
              bnd (publish_event E ''incident.status_changed''
                     (status_changed_payload incident previous_status)
                     (Some (inc_id incident)) (Some (subject p)) False) (\<lambda>_.
              bnd (publish_realtime E ''ax-sentinel.incidents'' incident_connections dumped) (\<lambda>_.
              ret incident))))))"

end
