(* ===== verification/IncidentFacts.thy ===== *)
theory IncidentFacts
  imports Incident
begin

text \<open>
  What the operations of the incident service do in a run without failures, and what a
  broadcast does when some peers are gone.
\<close>

section \<open>Broadcast\<close>

text \<open>The connections whose send at the given call numbers did, or did not, go through.\<close>

definition gone_from :: "('t, 'e) env_scheme \<Rightarrow> nat \<Rightarrow> 'a list \<Rightarrow> 'a list" where
  "gone_from E n conns = map snd (filter (\<lambda>(i, c). outcome_at E i \<noteq> Done) (enumerate n conns))"

definition reached_from :: "('t, 'e) env_scheme \<Rightarrow> nat \<Rightarrow> 'a list \<Rightarrow> 'a list" where
  "reached_from E n conns = map snd (filter (\<lambda>(i, c). outcome_at E i = Done) (enumerate n conns))"

text \<open>Every failure of a call is one the broadcast treats as a gone peer.\<close>

definition only_peers_fail :: "('t, 'e) env_scheme \<Rightarrow> bool" where
  "only_peers_fail E \<longleftrightarrow>
     (\<forall>n e. outcome_at E n = NotDone e \<or> outcome_at E n = DoneBut e \<longrightarrow> peer_gone e)"

lemma gone_from_Cons [simp]:
  "gone_from E n (c # cs) = (if outcome_at E n = Done then gone_from E (Suc n) cs else c # gone_from E (Suc n) cs)"
  "reached_from E n (c # cs) = (if outcome_at E n = Done then c # reached_from E (Suc n) cs else reached_from E (Suc n) cs)"
  "gone_from E n [] = []" "reached_from E n [] = []"
  by (simp_all add: gone_from_def reached_from_def)

lemma set_gone_reached: "set (gone_from E n cs) \<union> set (reached_from E n cs) = set cs"
  by (induction cs arbitrary: n) auto

lemma gone_reached_disjoint:
  "distinct cs \<Longrightarrow> set (gone_from E n cs) \<inter> set (reached_from E n cs) = {}"
proof (induction cs arbitrary: n)
  case (Cons c cs)
  then show ?case using set_gone_reached [of E "Suc n" cs] by auto
qed simp

lemma reached_all: "reliable E \<Longrightarrow> reached_from E n cs = cs"
  and gone_none: "reliable E \<Longrightarrow> gone_from E n cs = []"
  by (induction cs arbitrary: n) (simp_all add: reliable_def)

text \<open>What sending changes: the messages sent, and nothing else of the process.\<close>

definition only_sent ::
  "('t, 'w) incident_world_scheme \<Rightarrow> ('t, 'w) incident_world_scheme \<Rightarrow> bool" where
  "only_sent w w' \<longleftrightarrow>
     connections w' = connections w \<and> anomaly_detector w' = anomaly_detector w \<and>
     kafka_sent w' = kafka_sent w \<and> redis_sent w' = redis_sent w \<and>
     ws_closed w' = ws_closed w"

lemma send_json_cases:
  assumes "only_peers_fail E"
  obtains w' where
    "attempt (bnd (send_json E c msg) (\<lambda>_. ret acc)) (\<lambda>e. if peer_gone e then ret (acc @ [c]) else throw e) w =
       (Inr (acc @ (if outcome_at E (tick w) = Done then [] else [c])), w')"
    "tick w' = Suc (tick w)" "only_sent w w'"
    "outcome_at E (tick w) = Done \<Longrightarrow> ws_sent w' = ws_sent w @ [(c, msg)]"
    "set (ws_sent w) \<subseteq> set (ws_sent w')" "alone E \<Longrightarrow> tbl w' = tbl w"
  using assms
  by (cases "outcome_at E (tick w)")
    (auto simp: send_json_def call_def Let_def bnd_def attempt_def change_def ret_def only_sent_def
      only_peers_fail_def alone_def)

lemma send_to_each_run:
  assumes "only_peers_fail E"
  shows "\<exists>w'. send_to_each E msg cs acc w = (Inr (acc @ gone_from E (tick w) cs), w') \<and>
    only_sent w w' \<and> set (ws_sent w) \<subseteq> set (ws_sent w') \<and>
    (\<forall>c \<in> set (reached_from E (tick w) cs). (c, msg) \<in> set (ws_sent w')) \<and>
    (alone E \<longrightarrow> tbl w' = tbl w)"
proof (induction cs arbitrary: acc w)
  case Nil
  then show ?case by (simp add: ret_def only_sent_def)
next
  case (Cons c cs)
  obtain w1 where
    s: "attempt (bnd (send_json E c msg) (\<lambda>_. ret acc)) (\<lambda>e. if peer_gone e then ret (acc @ [c]) else throw e) w =
       (Inr (acc @ (if outcome_at E (tick w) = Done then [] else [c])), w1)"
    and f: "tick w1 = Suc (tick w)" "only_sent w w1"
    "outcome_at E (tick w) = Done \<Longrightarrow> ws_sent w1 = ws_sent w @ [(c, msg)]"
    "set (ws_sent w) \<subseteq> set (ws_sent w1)" "alone E \<Longrightarrow> tbl w1 = tbl w"
    by (rule send_json_cases [OF assms, where w = w and c = c and msg = msg and acc = acc], rule that)
  obtain w2 where
    r: "send_to_each E msg cs (acc @ (if outcome_at E (tick w) = Done then [] else [c])) w1 =
       (Inr ((acc @ (if outcome_at E (tick w) = Done then [] else [c])) @ gone_from E (tick w1) cs), w2)"
    "only_sent w1 w2" "set (ws_sent w1) \<subseteq> set (ws_sent w2)"
    "\<forall>c \<in> set (reached_from E (tick w1) cs). (c, msg) \<in> set (ws_sent w2)" "alone E \<longrightarrow> tbl w2 = tbl w1"
    using Cons.IH by metis
  have run: "send_to_each E msg (c # cs) acc w = (Inr (acc @ gone_from E (tick w) (c # cs)), w2)"
    using s r(1) f(1) by (cases "outcome_at E (tick w) = Done") (simp_all add: bnd_Inr)
  show ?case
    using f r(2-) by (intro exI [of _ w2] conjI run) (auto simp: only_sent_def split: if_splits)
qed

lemma disconnect_each:
  "\<exists>w'. each (ws_disconnect m) ds w = (Inr (map (\<lambda>_. ()) ds), w') \<and>
     connections w' m = fold remove1 ds (connections w m) \<and>
     (\<forall>m'. m' \<noteq> m \<longrightarrow> connections w' m' = connections w m') \<and>
     ws_sent w' = ws_sent w \<and> tbl w' = tbl w \<and> anomaly_detector w' = anomaly_detector w \<and>
     kafka_sent w' = kafka_sent w \<and> redis_sent w' = redis_sent w \<and> ws_closed w' = ws_closed w"
proof (induction ds arbitrary: w)
  case Nil
  then show ?case by (simp add: ret_def)
next
  case (Cons d ds)
  define w1 where "w1 = w\<lparr>connections := (connections w)(m := remove1 d (connections w m))\<rparr>"
  obtain w' where w': "each (ws_disconnect m) ds w1 = (Inr (map (\<lambda>_. ()) ds), w')"
     "connections w' m = fold remove1 ds (connections w1 m)"
     "\<forall>m'. m' \<noteq> m \<longrightarrow> connections w' m' = connections w1 m'"
     "ws_sent w' = ws_sent w1 \<and> tbl w' = tbl w1 \<and> anomaly_detector w' = anomaly_detector w1 \<and>
      kafka_sent w' = kafka_sent w1 \<and> redis_sent w' = redis_sent w1 \<and> ws_closed w' = ws_closed w1"
    using Cons.IH by metis
  have "each (ws_disconnect m) (d # ds) w = (Inr (map (\<lambda>_. ()) (d # ds)), w')"
    using w'(1) by (simp add: bnd_def ws_disconnect_def change_def ret_def w1_def)
  then show ?case using w'(2-) by (intro exI [of _ w']) (auto simp: w1_def)
qed

lemma fold_remove1:
  "distinct cs \<Longrightarrow> set (fold remove1 ds cs) = set cs - set ds \<and> distinct (fold remove1 ds cs)"
  by (induction ds arbitrary: cs) auto

lemma broadcast_run:
  assumes "only_peers_fail E" "distinct (connections w m)"
  shows "\<exists>w'. broadcast E m msg w = (Inr (), w') \<and>
    set (connections w' m) = set (reached_from E (tick w) (connections w m)) \<and>
    distinct (connections w' m) \<and>
    (\<forall>m'. m' \<noteq> m \<longrightarrow> connections w' m' = connections w m') \<and>
    (\<forall>c \<in> set (connections w' m). (c, msg) \<in> set (ws_sent w')) \<and>
    set (ws_sent w) \<subseteq> set (ws_sent w') \<and>
    (alone E \<longrightarrow> tbl w' = tbl w) \<and> anomaly_detector w' = anomaly_detector w \<and>
    kafka_sent w' = kafka_sent w \<and> redis_sent w' = redis_sent w \<and> ws_closed w' = ws_closed w"
proof -
  obtain w1 where
    s: "send_to_each E msg (connections w m) [] w = (Inr (gone_from E (tick w) (connections w m)), w1)"
    and f: "only_sent w w1" "set (ws_sent w) \<subseteq> set (ws_sent w1)"
    "\<forall>c \<in> set (reached_from E (tick w) (connections w m)). (c, msg) \<in> set (ws_sent w1)"
    "alone E \<longrightarrow> tbl w1 = tbl w"
    using send_to_each_run [OF assms(1), of msg "connections w m" "[]" w] by auto
  obtain w2 where
    d: "each (ws_disconnect m) (gone_from E (tick w) (connections w m)) w1 =
         (Inr (map (\<lambda>_. ()) (gone_from E (tick w) (connections w m))), w2)"
    and g: "connections w2 m = fold remove1 (gone_from E (tick w) (connections w m)) (connections w1 m)"
    "\<forall>m'. m' \<noteq> m \<longrightarrow> connections w2 m' = connections w1 m'"
    "ws_sent w2 = ws_sent w1" "tbl w2 = tbl w1" "anomaly_detector w2 = anomaly_detector w1"
    "kafka_sent w2 = kafka_sent w1" "redis_sent w2 = redis_sent w1" "ws_closed w2 = ws_closed w1"
    using disconnect_each [of m "gone_from E (tick w) (connections w m)" w1] by auto
  have run: "broadcast E m msg w = (Inr (), w2)"
    using s d by (simp add: broadcast_def bnd_def read_state_def ret_def)
  have set: "set (connections w2 m) = set (reached_from E (tick w) (connections w m))"
    using set_gone_reached [of E "tick w" "connections w m"] gone_reached_disjoint [OF assms(2), of E "tick w"]
      fold_remove1 [OF assms(2)] f(1) g(1) by (auto simp: only_sent_def)
  moreover have "distinct (connections w2 m)"
    using fold_remove1 [OF assms(2)] f(1) g(1) by (simp add: only_sent_def)
  ultimately show ?thesis using run f g(2-) by (intro exI [of _ w2]) (auto simp: only_sent_def)
qed

lemma only_peers_fail_reliable: "reliable E \<Longrightarrow> only_peers_fail E"
  by (simp add: only_peers_fail_def reliable_def)

section \<open>Realtime updates\<close>

text \<open>The broker of dashboard updates is usable: Redis needs its URL.\<close>

definition realtime_ok :: "('t, 'e) env_scheme \<Rightarrow> bool" where
  "realtime_ok E \<longleftrightarrow> (websocket_broker (settings_of E) = ''redis'' \<longrightarrow> is_set (redis_url (settings_of E)))"

definition managers_ok :: "('t, 'w) incident_world_scheme \<Rightarrow> bool" where
  "managers_ok w \<longleftrightarrow> (\<forall>m. distinct (connections w m))"

text \<open>An update reached the dashboards: through Redis, or every connected socket.\<close>

definition dashboards_told ::
  "('t, 'e) env_scheme \<Rightarrow> string \<Rightarrow> manager \<Rightarrow> json \<Rightarrow>
   ('t, 'w) incident_world_scheme \<Rightarrow> ('t, 'w) incident_world_scheme \<Rightarrow> bool" where
  "dashboards_told E channel m msg w w' \<longleftrightarrow>
     (if websocket_broker (settings_of E) = ''redis''
      then (channel, realtime_value msg) \<in> set (redis_sent w')
      else (\<forall>c \<in> set (connections w m). (c, msg) \<in> set (ws_sent w')))"

lemma dashboards_told_tick [simp]:
  "dashboards_told E channel m msg (w\<lparr>tick := n\<rparr>) w' = dashboards_told E channel m msg w w'"
  unfolding dashboards_told_def by simp

lemma publish_realtime_quiet:
  assumes q: "quiet E" and ok: "realtime_ok E" and ms: "managers_ok w"
  shows "\<exists>w'. publish_realtime E channel m msg w = (Inr (), w') \<and>
    tbl w' = tbl w \<and> anomaly_detector w' = anomaly_detector w \<and> kafka_sent w' = kafka_sent w \<and>
    (\<forall>m'. set (connections w' m') = set (connections w m')) \<and> managers_ok w' \<and>
    dashboards_told E channel m msg w w' \<and>
    set (ws_sent w) \<subseteq> set (ws_sent w') \<and> set (redis_sent w) \<subseteq> set (redis_sent w')"
proof (cases "websocket_broker (settings_of E) = ''redis''")
  case True
  then show ?thesis using ok ms
    by (auto simp: publish_realtime_def realtime_publish_def get_realtime_bus_def bus_publish_def
        realtime_ok_def check_def ret_def bnd_def quiet_call [OF q] change_def dashboards_told_def
        managers_ok_def)
next
  case False
  have rel: "reliable E" and al: "alone E" using q by (simp_all add: quiet_def)
  have dist: "distinct (connections w m)" using ms by (simp add: managers_ok_def)
  obtain w' where
    b: "broadcast E m msg w = (Inr (), w')"
      "set (connections w' m) = set (reached_from E (tick w) (connections w m))"
      "distinct (connections w' m)"
      "\<forall>m'. m' \<noteq> m \<longrightarrow> connections w' m' = connections w m'"
      "\<forall>c \<in> set (connections w' m). (c, msg) \<in> set (ws_sent w')" "set (ws_sent w) \<subseteq> set (ws_sent w')"
      "alone E \<longrightarrow> tbl w' = tbl w" "anomaly_detector w' = anomaly_detector w"
      "kafka_sent w' = kafka_sent w" "redis_sent w' = redis_sent w"
    using broadcast_run [OF only_peers_fail_reliable [OF rel] dist, of msg] by metis
  have same: "set (connections w' m') = set (connections w m')" for m'
    using b(2,4) by (cases "m' = m") (simp_all add: reached_all [OF rel])
  have dist': "distinct (connections w' m')" for m'
    using b(3,4) ms by (cases "m' = m") (simp_all add: managers_ok_def)
  show ?thesis using False b same dist' al
    by (intro exI [of _ w']) (auto simp: publish_realtime_def dashboards_told_def managers_ok_def)
qed

section \<open>Changing the status of an incident\<close>

abbreviation load_incident :: "('t, 'e) env_scheme \<Rightarrow> 't \<Rightarrow> string \<Rightarrow> incident option" where
  "load_incident E t iid \<equiv> load_as (validate_incident (lib_of E)) (dynamo_of E) t ''incident'' iid"

text \<open>Every stored incident is well formed and is stored under its own id.\<close>

definition incidents_ok :: "('t, 'e) env_scheme \<Rightarrow> 't \<Rightarrow> bool" where
  "incidents_ok E t \<longleftrightarrow> (\<forall>iid i. load_incident E t iid = Some i \<longrightarrow> wf_incident i \<and> inc_id i = iid)"

text \<open>What holds of the service between two requests.\<close>

definition incident_service_ok :: "('t, 'e) env_scheme \<Rightarrow> ('t, 'w) incident_world_scheme \<Rightarrow> bool" where
  "incident_service_ok E w \<longleftrightarrow>
     table_ok (dynamo_of E) (tbl w) \<and> incidents_ok E (tbl w) \<and> managers_ok w"

text \<open>A configuration under which the endpoints can announce what they did.\<close>

definition incident_config_ok :: "('t, 'e) env_scheme \<Rightarrow> bool" where
  "incident_config_ok E \<longleftrightarrow> quiet E \<and> can_publish E True \<and> realtime_ok E"

lemma incident_config_okD:
  assumes "incident_config_ok E"
  shows "quiet E" "can_publish E alert" "realtime_ok E" "lib_ok (lib_of E)"
  using assms by (auto simp: incident_config_ok_def can_publish_def quiet_def)

lemma more_fields:
  fixes w :: "('t, 'w) incident_world_scheme" and w' :: "('t, 'w) incident_world_scheme"
  assumes "world.more w' = world.more w"
  shows "connections w' = connections w" "anomaly_detector w' = anomaly_detector w"
    "ws_sent w' = ws_sent w" "ws_closed w' = ws_closed w" "managers_ok w' = managers_ok w"
  using assms by (cases w; cases w'; simp add: managers_ok_def)+

text \<open>Store an incident, announce it, and show it: the end of every writing endpoint.\<close>

lemma incident_saved:
  fixes E :: "('t, 'e) env_scheme" and w :: "('t, 'w) incident_world_scheme"
  assumes cfg: "incident_config_ok E" and ok: "incident_service_ok E w" and wf: "wf_incident i"
    and len: "len_between 1 200 et"
  shows "\<exists>w'. bnd (repo_put E ''incident'' (inc_id i) (dump_incident (lib_of E) i)) (\<lambda>_.
      bnd (publish_event E et pl key actor alert) (\<lambda>_.
      publish_realtime E ''ax-sentinel.incidents'' incident_connections
        (dump_incident (lib_of E) i))) w = (Inr (), w') \<and>
    incident_service_ok E w' \<and> announced E et pl key actor w w' \<and>
    load_incident E (tbl w') (inc_id i) = Some i \<and>
    same_elsewhere (dynamo_of E) (tbl w) (tbl w') ''incident'' (inc_id i) \<and>
    dashboards_told E ''ax-sentinel.incidents'' incident_connections (dump_incident (lib_of E) i) w w' \<and>
    anomaly_detector w' = anomaly_detector w"
proof -
  let ?D = "dynamo_of E"
  have tok: "table_ok ?D (tbl w)" and ios: "incidents_ok E (tbl w)" and ms: "managers_ok w"
    using ok by (simp_all add: incident_service_ok_def)
  obtain e w1 where s: "bnd (repo_put E ''incident'' (inc_id i) (dump_incident (lib_of E) i)) (\<lambda>_.
      publish_event E et pl key actor alert) w = (Inr e, w1)"
    and f: "announced E et pl key actor w w1" "table_ok ?D (tbl w1)"
    "load_incident E (tbl w1) (inc_id i) = Some i"
    "same_elsewhere ?D (tbl w) (tbl w1) ''incident'' (inc_id i)" "world.more w1 = world.more w"
    using incident_store.save_announce [OF incident_config_okD(1) [OF cfg] tok wf
        incident_config_okD(2) [OF cfg] len, of "inc_id i" pl key actor alert] by metis
  note m = more_fields [OF f(5)]
  obtain w2 where r: "publish_realtime E ''ax-sentinel.incidents'' incident_connections
        (dump_incident (lib_of E) i) w1 = (Inr (), w2)"
    and g: "tbl w2 = tbl w1" "anomaly_detector w2 = anomaly_detector w1" "kafka_sent w2 = kafka_sent w1"
    "managers_ok w2"
    "dashboards_told E ''ax-sentinel.incidents'' incident_connections (dump_incident (lib_of E) i) w1 w2"
    using publish_realtime_quiet [OF incident_config_okD(1,3) [OF cfg], of w1 "''ax-sentinel.incidents''"
        incident_connections "dump_incident (lib_of E) i"] ms m(5) by metis
  have "incidents_ok E (tbl w1)"
    unfolding incidents_ok_def
  proof (intro allI impI)
    fix iid j assume j: "load_incident E (tbl w1) iid = Some j"
    show "wf_incident j \<and> inc_id j = iid"
    proof (cases "iid = inc_id i")
      case True
      then show ?thesis using j f(3) wf by simp
    next
      case False
      then have "view ?D (tbl w1) ''incident'' iid = view ?D (tbl w) ''incident'' iid"
        using f(4) by (intro same_elsewhereD) (auto simp: entity_types_def)
      then show ?thesis using j ios unfolding incidents_ok_def load_as_def by simp
    qed
  qed
  moreover have "dashboards_told E ''ax-sentinel.incidents'' incident_connections
      (dump_incident (lib_of E) i) w w2"
    using g(5) by (simp add: dashboards_told_def m(1))
  moreover have "announced E et pl key actor w w2" using f(1) g(3) by (simp add: announced_def)
  ultimately show ?thesis using s r f(2-4) g(1,2,4) m(2)
    by (intro exI [of _ w2]) (auto simp: incident_service_ok_def bnd_two [OF s])
qed

lemma short_type [simp]: "len_between 1 200 ''incident.status_changed''" "len_between 1 200 ''incident.detected''"
  "len_between 1 200 ''telemetry.received''"
  by code_simp+

abbreviation status_writers :: "role list" where
  "status_writers \<equiv> [OPERATOR_MANAGER, FIELD_WORKER, SYSTEM_ADMIN]"

lemma update_refused:
  assumes "quiet E" "table_ok (dynamo_of E) (tbl w)" "require_roles status_writers caller = Inr p"
  shows "view (dynamo_of E) (tbl w) ''incident'' iid = None \<Longrightarrow>
      update_incident_status E caller iid new_status w =
        (Inl (not_found ''Incident''), w\<lparr>tick := Suc (tick w)\<rparr>)"
    and "view (dynamo_of E) (tbl w) ''incident'' iid = Some v \<Longrightarrow>
      validate_incident (lib_of E) v = None \<Longrightarrow>
      update_incident_status E caller iid new_status w =
        (Inl ValidationError, w\<lparr>tick := Suc (tick w)\<rparr>)"
    and "load_incident E (tbl w) iid = Some i \<Longrightarrow> new_status \<notin> ALLOWED_TRANSITIONS (inc_status i) \<Longrightarrow>
      update_incident_status E caller iid new_status w =
        (Inl (invalid_transition (inc_status i) new_status), w\<lparr>tick := Suc (tick w)\<rparr>)"
  using assms repo_get_quiet [OF assms(1,2), of "''incident''" iid]
  by (auto simp: update_incident_status_def bnd_def act_simps load_as_Some)

lemma update_accepted:
  assumes cfg: "incident_config_ok E" and ok: "incident_service_ok E w"
    and p: "require_roles status_writers caller = Inr p"
    and i: "load_incident E (tbl w) iid = Some i" and s: "new_status \<in> ALLOWED_TRANSITIONS (inc_status i)"
  shows "\<exists>w'. update_incident_status E caller iid new_status w = (Inr (i\<lparr>inc_status := new_status\<rparr>), w') \<and>
    incident_service_ok E w' \<and>
    load_incident E (tbl w') iid = Some (i\<lparr>inc_status := new_status\<rparr>) \<and>
    same_elsewhere (dynamo_of E) (tbl w) (tbl w') ''incident'' iid \<and>
    announced E ''incident.status_changed''
      (status_changed_payload (i\<lparr>inc_status := new_status\<rparr>) (inc_status i)) (Some iid) (Some (subject p)) w w' \<and>
    dashboards_told E ''ax-sentinel.incidents'' incident_connections
      (dump_incident (lib_of E) (i\<lparr>inc_status := new_status\<rparr>)) w w'"
proof -
  have q: "quiet E" and tok: "table_ok (dynamo_of E) (tbl w)"
    using incident_config_okD(1) [OF cfg] ok by (simp_all add: incident_service_ok_def)
  obtain v where v: "view (dynamo_of E) (tbl w) ''incident'' iid = Some v" "validate_incident (lib_of E) v = Some i"
    using i by (auto simp: load_as_Some)
  have iok: "wf_incident i" "inc_id i = iid"
    using ok i by (auto simp: incident_service_ok_def incidents_ok_def)
  define i' where "i' = i\<lparr>inc_status := new_status\<rparr>"
  have i': "wf_incident i'" "inc_id i' = iid" using iok by (simp_all add: i'_def wf_incident_def)
  define w1 where "w1 = w\<lparr>tick := Suc (tick w)\<rparr>"
  have ok1: "incident_service_ok E w1" using ok by (simp add: w1_def incident_service_ok_def managers_ok_def)
  obtain w' where
    run: "bnd (repo_put E ''incident'' (inc_id i') (dump_incident (lib_of E) i')) (\<lambda>_.
      bnd (publish_event E ''incident.status_changed'' (status_changed_payload i' (inc_status i))
             (Some (inc_id i')) (Some (subject p)) False) (\<lambda>_.
      publish_realtime E ''ax-sentinel.incidents'' incident_connections
        (dump_incident (lib_of E) i'))) w1 = (Inr (), w')"
    and f: "incident_service_ok E w'"
    "announced E ''incident.status_changed'' (status_changed_payload i' (inc_status i))
       (Some (inc_id i')) (Some (subject p)) w1 w'"
    "load_incident E (tbl w') (inc_id i') = Some i'"
    "same_elsewhere (dynamo_of E) (tbl w1) (tbl w') ''incident'' (inc_id i')"
    "dashboards_told E ''ax-sentinel.incidents'' incident_connections (dump_incident (lib_of E) i') w1 w'"
    using incident_saved [OF cfg ok1 i'(1) short_type(1), where pl = "status_changed_payload i' (inc_status i)"
        and key = "Some (inc_id i')" and actor = "Some (subject p)" and alert = False] by metis
  have "update_incident_status E caller iid new_status w = (Inr i', w')"
    using p v s repo_get_quiet [OF q tok, of "''incident''" iid]
    by (simp add: update_incident_status_def bnd_def [of "repo_get _ _ _"]
        bnd_def [of "validated _ _ _"] act_simps w1_def i'_def Let_def bnd_three [OF run, unfolded i'_def w1_def, simplified])
  then show ?thesis using f i'(2)
    by (intro exI [of _ w'])
      (simp add: w1_def i'_def)
qed

section \<open>Automatic incidents\<close>

lemma incident_service_ok_irrelevant [simp]:
  "incident_service_ok E (w\<lparr>tick := n\<rparr>) = incident_service_ok E w"
  "incident_service_ok E (w\<lparr>anomaly_detector := d\<rparr>) = incident_service_ok E w"
  by (simp_all add: incident_service_ok_def managers_ok_def)

lemma run_detector_apply [act_simps]:
  "run_detector s w =
     (Inr (fst (evaluate s (anomaly_detector w))),
      w\<lparr>anomaly_detector := snd (evaluate s (anomaly_detector w))\<rparr>)"
  by (simp add: run_detector_def case_prod_beta)

text \<open>The incidents a listing of the table's items reads as.\<close>

definition read_items :: "(lib \<Rightarrow> json \<Rightarrow> 'a option) \<Rightarrow> lib \<Rightarrow> dict list \<Rightarrow> 'a list" where
  "read_items validate L xs = map (\<lambda>it. the (validate L (the (dict_get it ''data'')))) xs"

definition items_readable :: "(lib \<Rightarrow> json \<Rightarrow> 'a option) \<Rightarrow> lib \<Rightarrow> dict list \<Rightarrow> bool" where
  "items_readable validate L xs \<longleftrightarrow>
     (\<forall>it \<in> set xs. \<exists>v x. dict_get it ''data'' = Some v \<and> validate L v = Some x)"

lemma list_validated:
  fixes E :: "('t, 'e) env_scheme" and w :: "('t, 'w) world_scheme"
  assumes "quiet E" "lists_as (dynamo_of E) (tbl w) et xs" "items_readable f (lib_of E) xs"
    "length xs < list_fuel E"
  shows "\<exists>n. bnd (repo_list E et) (\<lambda>values. each (validated f E) values) w =
    (Inr (read_items f (lib_of E) xs), w\<lparr>tick := n\<rparr>)"
proof -
  obtain n where n: "repo_list E et w = (Inr (map (\<lambda>it. the (dict_get it ''data'')) xs), w\<lparr>tick := n\<rparr>)"
    using repo_list_quiet [OF assms(1,2) _ assms(4)] assms(3) by (fastforce simp: items_readable_def)
  have "each (validated f E) (map (\<lambda>it. the (dict_get it ''data'')) xs) (w\<lparr>tick := n\<rparr>) =
      (Inr (map (\<lambda>v. the (f (lib_of E) v)) (map (\<lambda>it. the (dict_get it ''data'')) xs)), w\<lparr>tick := n\<rparr>)"
    using assms(3) by (intro each_validated_ok) (fastforce simp: items_readable_def)
  then show ?thesis using n by (auto simp: bnd_def read_items_def o_def)
qed

lemma list_validated_bnd:
  assumes "bnd m (\<lambda>values. each f values) w = (Inr xs, w')"
  shows "bnd m (\<lambda>values. bnd (each f values) k) w = k xs w'"
  using assms by (simp add: bnd_assoc [symmetric] bnd_Inr)

lemma create_automatic_incident_run:
  assumes cfg: "incident_config_ok E" and ok: "incident_service_ok E w" and wf: "wf_telemetry_request t"
    and l: "lists_as (dynamo_of E) (tbl w) ''incident'' xs" "items_readable validate_incident (lib_of E) xs"
      "length xs < list_fuel E"
  shows "case evaluate (signal_of t) (anomaly_detector w) of
      (None, d) \<Rightarrow> create_automatic_incident E t w = (Inr None, w\<lparr>anomaly_detector := d\<rparr>)
    | (Some code, d) \<Rightarrow>
        if \<exists>i \<in> set (read_items validate_incident (lib_of E) xs). open_incident_for t i
        then \<exists>n. create_automatic_incident E t w = (Inr None, w\<lparr>anomaly_detector := d, tick := n\<rparr>)
        else \<exists>iid now w'. let i = automatic_incident t code iid now in
          create_automatic_incident E t w = (Inr (Some i), w') \<and>
          incident_service_ok E w' \<and> anomaly_detector w' = d \<and>
          load_incident E (tbl w') iid = Some i \<and>
          same_elsewhere (dynamo_of E) (tbl w) (tbl w') ''incident'' iid \<and>
          announced E ''incident.detected'' (dict_of (dump_incident (lib_of E) i)) None None w w' \<and>
          dashboards_told E ''ax-sentinel.incidents'' incident_connections
            (dump_incident (lib_of E) i) w w'"
proof (cases "evaluate (signal_of t) (anomaly_detector w)")
  case (Pair trigger d)
  define w0 where "w0 = w\<lparr>anomaly_detector := d\<rparr>"
  define r where "r = read_items validate_incident (lib_of E) xs"
  show ?thesis
  proof (cases trigger)
    case None
    then show ?thesis using Pair by (simp add: create_automatic_incident_def bnd_def act_simps)
  next
    case (Some code)
    obtain n where n: "bnd (repo_list E ''incident'') (\<lambda>values. each (validated validate_incident E) values) w0 =
        (Inr r, w0\<lparr>tick := n\<rparr>)"
      using list_validated [OF incident_config_okD(1) [OF cfg], of w0 "''incident''" xs validate_incident] l
      by (auto simp: w0_def r_def)
    have head: "create_automatic_incident E t w =
       (if list_ex (open_incident_for t) r then ret None
        else
          bnd (new_uuid E) (\<lambda>iid.
          bnd (now_utc E) (\<lambda>now.
          let incident = automatic_incident t code iid now;
              dumped = dump_incident (lib_of E) incident
          in bnd (repo_put E ''incident'' (inc_id incident) dumped) (\<lambda>_.
             bnd (publish_event E ''incident.detected'' (dict_of dumped) None None True) (\<lambda>_.
             bnd (publish_realtime E ''ax-sentinel.incidents'' incident_connections dumped) (\<lambda>_.
             ret (Some incident))))))) (w0\<lparr>tick := n\<rparr>)"
      using Pair Some unfolding create_automatic_incident_def
      by (simp add: bnd_def [of "run_detector _"] act_simps list_validated_bnd [OF n] flip: w0_def)
    show ?thesis
    proof (cases "\<exists>i \<in> set r. open_incident_for t i")
      case True
      then show ?thesis using Pair Some head by (auto simp: list_ex_iff ret_def w0_def r_def)
    next
      case False
      define i where "i = automatic_incident t code (uuid_at E n) (now_at E (Suc n))"
      define w1 where "w1 = w0\<lparr>tick := Suc (Suc n)\<rparr>"
      have ok1: "incident_service_ok E w1" using ok by (simp add: w1_def w0_def)
      have wfi: "wf_incident i" using wf
        by (simp add: i_def automatic_incident_def wf_incident_def wf_virtual_incident_def wf_telemetry_request_def)
      have iid: "inc_id i = uuid_at E n" by (simp add: i_def automatic_incident_def)
      obtain w' where
        run: "bnd (repo_put E ''incident'' (inc_id i) (dump_incident (lib_of E) i)) (\<lambda>_.
          bnd (publish_event E ''incident.detected'' (dict_of (dump_incident (lib_of E) i)) None None True) (\<lambda>_.
          publish_realtime E ''ax-sentinel.incidents'' incident_connections
            (dump_incident (lib_of E) i))) w1 = (Inr (), w')"
        and f: "incident_service_ok E w'"
        "announced E ''incident.detected'' (dict_of (dump_incident (lib_of E) i)) None None w1 w'"
        "load_incident E (tbl w') (inc_id i) = Some i"
        "same_elsewhere (dynamo_of E) (tbl w1) (tbl w') ''incident'' (inc_id i)"
        "dashboards_told E ''ax-sentinel.incidents'' incident_connections (dump_incident (lib_of E) i) w1 w'"
        "anomaly_detector w' = anomaly_detector w1"
        using incident_saved [OF cfg ok1 wfi short_type(2)] by metis
      have "create_automatic_incident E t w = (Inr (Some i), w')"
        using False unfolding head
        by (simp add: list_ex_iff bnd_def [of "new_uuid _"] bnd_def [of "now_utc _"] new_uuid_def now_utc_def
            Let_def ret_def bnd_three [OF run] flip: i_def w1_def)
      moreover have "announced E ''incident.detected'' (dict_of (dump_incident (lib_of E) i)) None None w w'"
        using f(2) by (simp add: w1_def w0_def announced_def)
      moreover have "dashboards_told E ''ax-sentinel.incidents'' incident_connections
          (dump_incident (lib_of E) i) w w'"
        using f(5) by (simp add: w1_def w0_def dashboards_told_def)
      ultimately show ?thesis using Pair Some False f(1,3,4,6) unfolding iid
        by (simp add: r_def [symmetric] Let_def) (auto simp: i_def w1_def w0_def)
    qed
  qed
qed

section \<open>Ingestion and simulation\<close>

lemma telemetry_ratio_total: "\<exists>r. telemetry_ratio m t = Some r"
  by (cases m; cases t) (auto simp: telemetry_ratio_def float_true_def)

lemma incidents_ok_elsewhere:
  assumes "same_elsewhere (dynamo_of E) t t' kind eid" "kind \<noteq> ''incident''"
  shows "incidents_ok E t' = incidents_ok E t"
proof -
  have "view (dynamo_of E) t' ''incident'' iid = view (dynamo_of E) t ''incident'' iid" for iid
    using assms by (intro same_elsewhereD) (auto simp: entity_types_def)
  then show ?thesis by (simp add: incidents_ok_def load_as_def)
qed

definition telemetry_of :: "telemetry_request \<Rightarrow> pyfloat \<Rightarrow> string \<Rightarrow> int \<Rightarrow> telemetry_record" where
  "telemetry_of request ratio tid now =
     telemetry_request.extend request (telemetry_record.fields tid (telemetry_status ratio) now)"

lemma telemetry_of_simps [simp]:
  "t_id (telemetry_of q r tid now) = tid" "t_status (telemetry_of q r tid now) = telemetry_status r"
  "t_equipment_id (telemetry_of q r tid now) = t_equipment_id q"
  "t_sensor_type (telemetry_of q r tid now) = t_sensor_type q"
  "t_measured_value (telemetry_of q r tid now) = t_measured_value q"
  "t_threshold (telemetry_of q r tid now) = t_threshold q"
  "wf_telemetry_request (telemetry_of q r tid now) = wf_telemetry_request q"
  by (simp_all add: telemetry_of_def telemetry_request.extend_def telemetry_record.fields_def
      wf_telemetry_request_def)

lemma telemetry_saved:
  fixes E :: "('t, 'e) env_scheme" and w :: "('t, 'w) incident_world_scheme"
  assumes cfg: "incident_config_ok E" and ok: "incident_service_ok E w" and wf: "wf_telemetry_request t"
  shows "\<exists>w'. bnd (repo_put E ''telemetry'' (t_id t) (dump_telemetry (lib_of E) t)) (\<lambda>_.
      bnd (publish_event E ''telemetry.received'' pl key actor False) (\<lambda>_.
      publish_realtime E ''ax-sentinel.telemetry'' telemetry_connections
        (dump_telemetry (lib_of E) t))) w = (Inr (), w') \<and>
    incident_service_ok E w' \<and> announced E ''telemetry.received'' pl key actor w w' \<and>
    load_as (validate_telemetry (lib_of E)) (dynamo_of E) (tbl w') ''telemetry'' (t_id t) = Some t \<and>
    same_elsewhere (dynamo_of E) (tbl w) (tbl w') ''telemetry'' (t_id t) \<and>
    dashboards_told E ''ax-sentinel.telemetry'' telemetry_connections (dump_telemetry (lib_of E) t) w w' \<and>
    anomaly_detector w' = anomaly_detector w"
proof -
  let ?D = "dynamo_of E"
  have tok: "table_ok ?D (tbl w)" and ios: "incidents_ok E (tbl w)" and ms: "managers_ok w"
    using ok by (simp_all add: incident_service_ok_def)
  obtain e w1 where s: "bnd (repo_put E ''telemetry'' (t_id t) (dump_telemetry (lib_of E) t)) (\<lambda>_.
      publish_event E ''telemetry.received'' pl key actor False) w = (Inr e, w1)"
    and f: "announced E ''telemetry.received'' pl key actor w w1" "table_ok ?D (tbl w1)"
    "load_as (validate_telemetry (lib_of E)) ?D (tbl w1) ''telemetry'' (t_id t) = Some t"
    "same_elsewhere ?D (tbl w) (tbl w1) ''telemetry'' (t_id t)" "world.more w1 = world.more w"
    using telemetry_store.save_announce [OF incident_config_okD(1) [OF cfg] tok wf
        incident_config_okD(2) [OF cfg] short_type(3), of "t_id t" pl key actor False] by metis
  note m = more_fields [OF f(5)]
  obtain w2 where r: "publish_realtime E ''ax-sentinel.telemetry'' telemetry_connections
        (dump_telemetry (lib_of E) t) w1 = (Inr (), w2)"
    and g: "tbl w2 = tbl w1" "anomaly_detector w2 = anomaly_detector w1" "kafka_sent w2 = kafka_sent w1"
    "managers_ok w2"
    "dashboards_told E ''ax-sentinel.telemetry'' telemetry_connections (dump_telemetry (lib_of E) t) w1 w2"
    using publish_realtime_quiet [OF incident_config_okD(1,3) [OF cfg], of w1 "''ax-sentinel.telemetry''"
        telemetry_connections "dump_telemetry (lib_of E) t"] ms m(5) by metis
  have "dashboards_told E ''ax-sentinel.telemetry'' telemetry_connections
      (dump_telemetry (lib_of E) t) w w2"
    using g(5) by (simp add: dashboards_told_def m(1))
  moreover have "announced E ''telemetry.received'' pl key actor w w2"
    using f(1) g(3) by (simp add: announced_def)
  moreover have "incidents_ok E (tbl w1)" using ios incidents_ok_elsewhere [OF f(4)] by simp
  ultimately show ?thesis using s r f(2-4) g(1,2,4) m(2)
    by (intro exI [of _ w2]) (auto simp: incident_service_ok_def bnd_two [OF s])
qed

lemma ingest_telemetry_run:
  assumes cfg: "incident_config_ok E" and ok: "incident_service_ok E w"
    and wf: "wf_telemetry_request request"
    and p: "require_roles [OPERATOR_MANAGER, SYSTEM_ADMIN] caller = Inr p"
    and r: "telemetry_ratio (t_measured_value request) (t_threshold request) = Some ratio"
  shows "\<exists>tid now w1. let t = telemetry_of request ratio tid now in
    ingest_telemetry E caller request w =
      (case create_automatic_incident E t w1 of (Inl e, w2) \<Rightarrow> (Inl e, w2) | (Inr _, w2) \<Rightarrow> (Inr t, w2)) \<and>
    incident_service_ok E w1 \<and> anomaly_detector w1 = anomaly_detector w \<and>
    load_as (validate_telemetry (lib_of E)) (dynamo_of E) (tbl w1) ''telemetry'' tid = Some t \<and>
    same_elsewhere (dynamo_of E) (tbl w) (tbl w1) ''telemetry'' tid \<and>
    announced E ''telemetry.received'' (dict_of (dump_telemetry (lib_of E) t))
      (Some (t_equipment_id request)) (Some (subject p)) w w1 \<and>
    dashboards_told E ''ax-sentinel.telemetry'' telemetry_connections (dump_telemetry (lib_of E) t) w w1"
proof -
  define tid now where "tid = uuid_at E (tick w)" and "now = now_at E (Suc (tick w))"
  define t where "t = telemetry_of request ratio tid now"
  define w0 where "w0 = w\<lparr>tick := Suc (Suc (tick w))\<rparr>"
  have ok0: "incident_service_ok E w0" and wft: "wf_telemetry_request t"
    using ok wf by (simp_all add: w0_def t_def)
  have tsimps: "t_id t = tid" "t_equipment_id t = t_equipment_id request" by (simp_all add: t_def)
  obtain w1 where
    run: "bnd (repo_put E ''telemetry'' (t_id t) (dump_telemetry (lib_of E) t)) (\<lambda>_.
      bnd (publish_event E ''telemetry.received'' (dict_of (dump_telemetry (lib_of E) t))
             (Some (t_equipment_id request)) (Some (subject p)) False) (\<lambda>_.
      publish_realtime E ''ax-sentinel.telemetry'' telemetry_connections
        (dump_telemetry (lib_of E) t))) w0 = (Inr (), w1)"
    and f: "incident_service_ok E w1"
    "announced E ''telemetry.received'' (dict_of (dump_telemetry (lib_of E) t))
       (Some (t_equipment_id request)) (Some (subject p)) w0 w1"
    "load_as (validate_telemetry (lib_of E)) (dynamo_of E) (tbl w1) ''telemetry'' (t_id t) = Some t"
    "same_elsewhere (dynamo_of E) (tbl w0) (tbl w1) ''telemetry'' (t_id t)"
    "dashboards_told E ''ax-sentinel.telemetry'' telemetry_connections (dump_telemetry (lib_of E) t) w0 w1"
    "anomaly_detector w1 = anomaly_detector w0"
    using telemetry_saved [OF cfg ok0 wft] by metis
  have "ingest_telemetry E caller request w = bnd (create_automatic_incident E t) (\<lambda>_. ret t) w1"
    using p r tsimps
    by (simp add: ingest_telemetry_def act_simps bnd_def [of "new_uuid _"] bnd_def [of "now_utc _"]
        new_uuid_def now_utc_def Let_def bnd_three [OF run, unfolded tsimps]
        telemetry_of_def [symmetric] flip: tid_def now_def t_def w0_def)
  then have "ingest_telemetry E caller request w =
      (case create_automatic_incident E t w1 of (Inl e, w2) \<Rightarrow> (Inl e, w2) | (Inr _, w2) \<Rightarrow> (Inr t, w2))"
    by (simp add: bnd_def ret_def split: prod.splits sum.splits)
  then show ?thesis using f tsimps(1)
    by (intro exI [of _ tid] exI [of _ now] exI [of _ w1])
      (simp add: w0_def Let_def del: prod.case_distrib flip: t_def)
qed

lemma simulate_incident_run:
  assumes cfg: "incident_config_ok E" and ok: "incident_service_ok E w" and wf: "wf_virtual_incident request"
    and p: "require_roles [OPERATOR_MANAGER, SYSTEM_ADMIN] caller = Inr p"
  shows "\<exists>i w'. simulate_incident E caller request w = (Inr i, w') \<and>
    inc_status i = DETECTED \<and> inc_payload i = request \<and> inc_severity i = simulated_severity request \<and>
    incident_service_ok E w' \<and> load_incident E (tbl w') (inc_id i) = Some i \<and>
    same_elsewhere (dynamo_of E) (tbl w) (tbl w') ''incident'' (inc_id i) \<and>
    announced E ''incident.detected'' (dict_of (dump_incident (lib_of E) i))
      (Some (inc_id i)) (Some (subject p)) w w' \<and>
    dashboards_told E ''ax-sentinel.incidents'' incident_connections (dump_incident (lib_of E) i) w w'"
proof -
  define i where "i =
    \<lparr>inc_id = uuid_at E (tick w), inc_equipment_id = vi_equipment_id request, inc_status = DETECTED,
     inc_severity = simulated_severity request, inc_detected_at = now_at E (Suc (tick w)),
     inc_payload = request, inc_source = ''manual'', inc_telemetry_id = None\<rparr>"
  define w0 where "w0 = w\<lparr>tick := Suc (Suc (tick w))\<rparr>"
  have iid: "inc_id i = uuid_at E (tick w)" by (simp add: i_def)
  have ok0: "incident_service_ok E w0" and wfi: "wf_incident i"
    using ok wf by (simp_all add: w0_def i_def wf_incident_def)
  obtain w' where
    run: "bnd (repo_put E ''incident'' (inc_id i) (dump_incident (lib_of E) i)) (\<lambda>_.
      bnd (publish_event E ''incident.detected'' (dict_of (dump_incident (lib_of E) i))
             (Some (inc_id i)) (Some (subject p)) True) (\<lambda>_.
      publish_realtime E ''ax-sentinel.incidents'' incident_connections
        (dump_incident (lib_of E) i))) w0 = (Inr (), w')"
    and f: "incident_service_ok E w'"
    "announced E ''incident.detected'' (dict_of (dump_incident (lib_of E) i))
       (Some (inc_id i)) (Some (subject p)) w0 w'"
    "load_incident E (tbl w') (inc_id i) = Some i"
    "same_elsewhere (dynamo_of E) (tbl w0) (tbl w') ''incident'' (inc_id i)"
    "dashboards_told E ''ax-sentinel.incidents'' incident_connections (dump_incident (lib_of E) i) w0 w'"
    using incident_saved [OF cfg ok0 wfi short_type(2)] by metis
  have "simulate_incident E caller request w = (Inr i, w')"
    using p by (simp add: simulate_incident_def act_simps bnd_def [of "new_uuid _"] bnd_def [of "now_utc _"]
        new_uuid_def now_utc_def Let_def bnd_three [OF run, unfolded iid] flip: i_def w0_def)
  then show ?thesis using f
    by (intro exI [of _ i] exI [of _ w']) (simp add: w0_def, simp add: i_def)
qed

end
