(* ===== verification/IncidentProperties.thy ===== *)
theory IncidentProperties
  imports IncidentFacts
begin

text \<open>
  The properties of the incident service: what its endpoints do on every branch, the life cycle
  an incident can go through, the classification of measurements, and who is told.
\<close>

section \<open>Sample state\<close>

definition sample_incident_world :: "dict list \<Rightarrow> dict list incident_world" where
  "sample_incident_world t =
     \<lparr>tick = 0, tbl = t, producer_open = False, queue_url = None, topic_arn = None,
      kafka_sent = [], sqs_sent = [], sns_sent = [], redis_sent = [],
      http_requests = [], http_duration = [],
      anomaly_detector = AnomalyDetector 3, connections = (\<lambda>_. [''dashboard'']),
      ws_sent = [], ws_closed = [], realtime_listener_task = NoListener\<rparr>"

definition sample_vi :: virtual_incident_request where
  "sample_vi =
     \<lparr>vi_equipment_id = ''PUMP-01'', vi_sensor_type = ''vibration'', vi_measured_value = Fin 12,
      vi_threshold = Fin 8, vi_error_code = ''E1'', vi_log_excerpt = ''''\<rparr>"

definition sample_incident :: "IncidentStatus \<Rightarrow> incident" where
  "sample_incident s =
     \<lparr>inc_id = ''i1'', inc_equipment_id = ''PUMP-01'', inc_status = s, inc_severity = ''high'',
      inc_detected_at = 5, inc_payload = sample_vi, inc_source = ''manual'', inc_telemetry_id = None\<rparr>"

definition sample_incident_table :: "IncidentStatus \<Rightarrow> dict list" where
  "sample_incident_table s =
     [sample_item ''incident'' ''i1'' 1
        (JObj (dict_of (dump_incident sample_lib (sample_incident s))))]"

definition sample_principal :: "role \<Rightarrow> principal" where
  "sample_principal r = \<lparr>subject = ''u1'', username = ''kim'', roles = {r}\<rparr>"

lemma finite_double_int: "\<bar>n\<bar> \<le> 2 ^ 53 \<Longrightarrow> finite_double (Fin (of_int n))"
  using to_float_between [of n "of_int n" n] is_double_int [of n]
  by (auto simp: finite_double_def to_float_def is_double_def Let_def split: if_splits)

lemma sample_vi_wf: "wf_virtual_incident sample_vi"
  using finite_double_int [of 12] finite_double_int [of 8]
  by (simp add: wf_virtual_incident_def sample_vi_def len_between_def py_len_def)

lemma sample_incident_wf: "wf_incident (sample_incident s)"
  by (simp add: wf_incident_def sample_incident_def sample_vi_wf)

lemma sample_incident_load:
  "load_incident sample_env (sample_incident_table s) iid =
     (if iid = ''i1'' then Some (sample_incident s) else None)"
  using incident_store.read_stored [OF sample_lib_ok sample_incident_wf [of s]]
  by (auto simp: load_as_def sample_incident_table_def dump_incident_def entity_key_def)

lemma sample_incident_ok: "incident_service_ok sample_env (sample_incident_world (sample_incident_table s))"
  using sample_incident_load [of s] sample_incident_wf [of s]
  by (auto simp: incident_service_ok_def incidents_ok_def managers_ok_def sample_incident_world_def
      sample_incident_table_def sample_item_ok sample_incident_def intro!: sample_table_ok
      split: if_splits)

lemma sample_incident_config: "incident_config_ok sample_env"
  by (simp add: incident_config_ok_def sample_quiet can_publish_def realtime_ok_def default_settings_def
      supported_bus_def)

section \<open>Measurements\<close>

text \<open>
  C17. A finite measurement against a positive threshold always gets a status. It is
  not \<open>normal\<close> exactly when the measurement reaches the threshold, although the code compares a
  rounded quotient with 1. It is \<open>critical\<close> exactly when the measurement exceeds
  10808639105689189 / 9007199254740992 times the threshold, the midpoint between the double that
  the literal 1.2 denotes and the double before it, and \<open>warning\<close> between the two. So it is critical
  whenever the measurement reaches 1.2 times the threshold, and only when the measurement is
  within \<open>2\<^sup>-\<^sup>5\<^sup>2\<close> thresholds of that or above it.
\<close>

theorem telemetry_alarm:
  assumes "is_double x" "is_double y" "0 < y"
  shows "\<exists>r. telemetry_ratio (Fin x) (Fin y) = Some r \<and>
    (telemetry_status r = ''normal'' \<longleftrightarrow> x < y) \<and>
    (telemetry_status r = ''warning'' \<longleftrightarrow>
       y \<le> x \<and> x \<le> 10808639105689189 / 9007199254740992 * y) \<and>
    (telemetry_status r = ''critical'' \<longleftrightarrow> 10808639105689189 / 9007199254740992 * y < x) \<and>
    (6 / 5 * y \<le> x \<longrightarrow> telemetry_status r = ''critical'') \<and>
    (telemetry_status r = ''critical'' \<longrightarrow> (6 / 5 - 1 / 2 ^ 52) * y < x)"
proof -
  have r: "telemetry_ratio (Fin x) (Fin y) = Some (to_float (x / y))"
    using assms(3) by (simp add: telemetry_ratio_def float_true_def)
  have one: "float_le (Fin 1) (to_float (x / y)) \<longleftrightarrow> y \<le> x"
    using rnd_ratio_ge_one [OF assms] by (auto simp: to_float_def Let_def)
  have top: "float_le (float_lit (6 / 5)) (to_float (x / y)) \<longleftrightarrow> below_1_2 * y < x"
    unfolding reaches_1_2 using assms(3) by (rule pos_less_divide_eq)
  have "y < x" if "below_1_2 * y < x" using that assms(3) by simp
  then have status: "telemetry_status (to_float (x / y)) =
      (if below_1_2 * y < x then ''critical'' else if y \<le> x then ''warning'' else ''normal'')"
    by (simp add: telemetry_status_def one top)
  have "below_1_2 * y < 6 / 5 * y" "(6 / 5 - 1 / 2 ^ 52) * y < below_1_2 * y"
    using assms(3) by (intro mult_strict_right_mono; simp)+
  then have "6 / 5 * y \<le> x \<longrightarrow> below_1_2 * y < x" "below_1_2 * y < x \<longrightarrow> (6 / 5 - 1 / 2 ^ 52) * y < x"
    by linarith+
  then show ?thesis using r status \<open>below_1_2 * y < x \<Longrightarrow> y < x\<close> by (auto split: if_splits)
qed

lemma telemetry_alarm_witness:
  "(\<exists>r. telemetry_ratio (Fin 12) (Fin 8) = Some r \<and> telemetry_status r = ''critical'') \<and>
   (\<exists>r. telemetry_ratio (Fin 9) (Fin 8) = Some r \<and> telemetry_status r = ''warning'')"
  using telemetry_alarm [of 12 8] telemetry_alarm [of 9 8] is_double_int [of 12] is_double_int [of 9]
    is_double_int [of 8] by auto

text \<open>The severity of a simulated incident is decided by another comparison: with a negative
  threshold the two disagree.\<close>

lemma severity_disagreement:
  "\<exists>r. telemetry_ratio (Fin (- 10)) (Fin (- 5)) = Some r \<and> telemetry_status r = ''critical'' \<and>
     simulated_severity (sample_vi\<lparr>vi_measured_value := Fin (- 10), vi_threshold := Fin (- 5)\<rparr>) = ''high''"
proof -
  have two: "to_float 2 = Fin 2" using is_double_int [of 2] by (simp add: to_float_def is_double_def)
  have "float_le (to_float (- 7)) (to_float (- 5 * (5404319552844595 / 4503599627370496)))"
    by (rule to_float_mono) simp
  moreover have "to_float (- 7) = Fin (- 7)"
    using is_double_int [of "- 7"] by (simp add: to_float_def is_double_def)
  ultimately have lo: "float_le (Fin (- 7)) (to_float (- 5 * (5404319552844595 / 4503599627370496)))" by simp
  have "\<not> float_le (to_float (- 5 * (5404319552844595 / 4503599627370496))) (Fin (- 10))"
  proof
    assume "float_le (to_float (- 5 * (5404319552844595 / 4503599627370496))) (Fin (- 10))"
    from float_le_trans [OF lo this] show False by simp
  qed
  then show ?thesis
    by (simp add: telemetry_ratio_def float_true_def two telemetry_status_def float_lit_1_2
        simulated_severity_def)
qed

section \<open>Ingestion\<close>

text \<open>
  C10. For an authorised caller and a finite measurement, ingestion never
  fails on the ratio: the classified record is stored, announced under its equipment and shown
  on the dashboards, and no other entity changes; then the automatic incident is decided on
  the state that results, and the record is returned unless that decision raised.
\<close>

theorem ingest_telemetry_effects:
  assumes "incident_config_ok E" "incident_service_ok E w" "wf_telemetry_request request"
    and "require_roles [OPERATOR_MANAGER, SYSTEM_ADMIN] caller = Inr p"
  shows "\<exists>ratio tid now w1. let t = telemetry_of request ratio tid now in
    telemetry_ratio (t_measured_value request) (t_threshold request) = Some ratio \<and>
    ingest_telemetry E caller request w =
      (case create_automatic_incident E t w1 of (Inl e, w2) \<Rightarrow> (Inl e, w2) | (Inr _, w2) \<Rightarrow> (Inr t, w2)) \<and>
    incident_service_ok E w1 \<and> anomaly_detector w1 = anomaly_detector w \<and>
    load_as (validate_telemetry (lib_of E)) (dynamo_of E) (tbl w1) ''telemetry'' tid = Some t \<and>
    same_elsewhere (dynamo_of E) (tbl w) (tbl w1) ''telemetry'' tid \<and>
    announced E ''telemetry.received'' (dict_of (dump_telemetry (lib_of E) t))
      (Some (t_equipment_id request)) (Some (subject p)) w w1 \<and>
    dashboards_told E ''ax-sentinel.telemetry'' telemetry_connections (dump_telemetry (lib_of E) t) w w1"
proof -
  obtain ratio where r: "telemetry_ratio (t_measured_value request) (t_threshold request) = Some ratio"
    using telemetry_ratio_total by blast
  show ?thesis using ingest_telemetry_run [OF assms r] r unfolding Let_def by blast
qed

definition sample_request :: telemetry_request where
  "sample_request =
     \<lparr>t_equipment_id = ''PUMP-01'', t_sensor_type = ''vibration'', t_measured_value = Fin 12,
      t_unit = ''mm/s'', t_threshold = Fin 8, t_log_excerpt = ''''\<rparr>"

lemma sample_request_wf: "wf_telemetry_request sample_request"
  using finite_double_int [of 12] finite_double_int [of 8]
  by (simp add: wf_telemetry_request_def sample_request_def len_between_def py_len_def)

lemma ingest_telemetry_effects_witness:
  "\<exists>ratio tid now t'. load_as (validate_telemetry sample_lib) mem_dynamo t' ''telemetry'' tid =
     Some (telemetry_of sample_request ratio tid now) \<and> load_incident sample_env t' ''i1'' \<noteq> None"
proof -
  have "\<exists>ratio tid now t'.
      load_as (validate_telemetry sample_lib) mem_dynamo t' ''telemetry'' tid =
        Some (telemetry_of sample_request ratio tid now) \<and>
      same_elsewhere mem_dynamo (sample_incident_table DETECTED) t' ''telemetry'' tid"
    using ingest_telemetry_effects [OF sample_incident_config sample_incident_ok [of DETECTED] sample_request_wf,
        of "Some (sample_principal SYSTEM_ADMIN)" "sample_principal SYSTEM_ADMIN"]
    by (simp add: require_roles_def sample_principal_def sample_incident_world_def Let_def) blast
  moreover have "view mem_dynamo t' ''incident'' ''i1'' = view mem_dynamo (sample_incident_table DETECTED) ''incident'' ''i1''"
    if "same_elsewhere mem_dynamo (sample_incident_table DETECTED) t' ''telemetry'' tid" for t' tid
    using that by (rule same_elsewhereD) (simp_all add: entity_types_def)
  ultimately show ?thesis using sample_incident_load [of DETECTED "''i1''"]
    by (fastforce simp: load_as_def)
qed

section \<open>Automatic incidents\<close>

text \<open>
  C18. Whether a telemetry record opens an incident: nothing happens when
  the detector does not trigger; nothing is stored, announced or shown when some listed incident
  of the same equipment and sensor is not resolved; otherwise one new incident in status
  \<open>detected\<close>, carrying the record and the trigger, is stored, announced as an alert and shown.
\<close>

theorem automatic_incident_decision:
  assumes "incident_config_ok E" "incident_service_ok E w" "wf_telemetry_request t"
    and "lists_as (dynamo_of E) (tbl w) ''incident'' xs" "items_readable validate_incident (lib_of E) xs"
      "length xs < list_fuel E"
  shows "case evaluate (signal_of t) (anomaly_detector w) of
      (None, d) \<Rightarrow> create_automatic_incident E t w = (Inr None, w\<lparr>anomaly_detector := d\<rparr>)
    | (Some code, d) \<Rightarrow>
        if \<exists>i \<in> set (read_items validate_incident (lib_of E) xs). open_incident_for t i
        then \<exists>n. create_automatic_incident E t w = (Inr None, w\<lparr>anomaly_detector := d, tick := n\<rparr>)
        else \<exists>iid now w'. let i = automatic_incident t code iid now in
          create_automatic_incident E t w = (Inr (Some i), w') \<and>
          incident_service_ok E w' \<and> anomaly_detector w' = d \<and>
          load_incident E (tbl w') iid = Some i \<and>
          same_elsewhere (dynamo_of E) (tbl w) (tbl w') ''incident'' iid \<and>
          announced E ''incident.detected'' (dict_of (dump_incident (lib_of E) i)) None None w w' \<and>
          dashboards_told E ''ax-sentinel.incidents'' incident_connections
            (dump_incident (lib_of E) i) w w'"
  by (rule create_automatic_incident_run [OF assms])

definition sample_critical :: telemetry_record where
  "sample_critical = telemetry_of sample_request (Fin 2) ''t1'' 7"

lemma sample_listing:
  "lists_as mem_dynamo (sample_incident_table s) ''incident'' (sample_incident_table s)"
proof -
  have "filter (\<lambda>it. dict_get it ''entity_type'' = Some (JStr ''incident'')) (sample_incident_table s) =
      sample_incident_table s"
    by (simp add: sample_incident_table_def sample_item_def make_item_def dict_get_def)
  then show ?thesis using mem_lists_as [of "sample_incident_table s" "''incident''"] by simp
qed

lemma sample_readable:
  "items_readable validate_incident sample_lib (sample_incident_table s)"
  "read_items validate_incident sample_lib (sample_incident_table s) = [sample_incident s]"
proof -
  have "validate_incident sample_lib
      (stored sample_lib (JObj (dict_of (dump_incident sample_lib (sample_incident s))))) =
      Some (sample_incident s)"
    using incident_store.read_stored [OF sample_lib_ok sample_incident_wf [of s]]
    by (simp add: dump_incident_def)
  then show "items_readable validate_incident sample_lib (sample_incident_table s)"
    "read_items validate_incident sample_lib (sample_incident_table s) = [sample_incident s]"
    by (simp_all add: items_readable_def read_items_def sample_incident_table_def)
qed

lemma sample_trigger:
  "\<exists>d. evaluate (signal_of sample_critical) (AnomalyDetector 3) = (Some ''AUTO-CRITICAL'', d)"
proof -
  have "t_status sample_critical = ''critical''"
    using is_double_int [of 2] by (simp add: sample_critical_def telemetry_status_def float_lit_1_2)
  then show ?thesis by (simp add: evaluate_def signal_of_def Let_def)
qed

lemma automatic_incident_decision_witness:
  "\<exists>i w'. create_automatic_incident sample_env sample_critical
      (sample_incident_world (sample_incident_table RESOLVED)) = (Inr (Some i), w') \<and>
    inc_status i = DETECTED \<and> load_incident sample_env (tbl w') (inc_id i) = Some i"
proof -
  let ?w = "sample_incident_world (sample_incident_table RESOLVED)"
  obtain d where d: "evaluate (signal_of sample_critical) (anomaly_detector ?w) = (Some ''AUTO-CRITICAL'', d)"
    using sample_trigger by (auto simp: sample_incident_world_def)
  have "\<not> open_incident_for sample_critical (sample_incident RESOLVED)"
    by (simp add: open_incident_for_def sample_incident_def)
  moreover have "wf_telemetry_request sample_critical"
    using sample_request_wf by (simp add: sample_critical_def)
  moreover have tbl: "tbl ?w = sample_incident_table RESOLVED" "length (sample_incident_table RESOLVED) < 100"
    by (simp_all add: sample_incident_world_def sample_incident_table_def)
  ultimately have "\<exists>iid now w'. let i = automatic_incident sample_critical ''AUTO-CRITICAL'' iid now in
      create_automatic_incident sample_env sample_critical ?w = (Inr (Some i), w') \<and>
      load_incident sample_env (tbl w') iid = Some i"
    using automatic_incident_decision [OF sample_incident_config sample_incident_ok [of RESOLVED],
        of sample_critical "sample_incident_table RESOLVED"] d sample_listing [of RESOLVED]
      sample_readable [of RESOLVED] unfolding Let_def
    by simp blast
  then show ?thesis by (fastforce simp: Let_def automatic_incident_def)
qed

section \<open>Changing the status\<close>

text \<open>
  C16. The status endpoint on every branch: a caller without a role is refused
  before anything is read; an unknown incident is 404; an unreadable one an error; a transition
  outside the table is 409, nothing stored and nothing announced; an allowed one stores the
  incident with only its status changed, leaves every other entity alone, announces the change
  once with the previous status and shows it.
\<close>

theorem update_status_branches:
  assumes "incident_config_ok E" "incident_service_ok E w"
  shows "case require_roles [OPERATOR_MANAGER, FIELD_WORKER, SYSTEM_ADMIN] caller of
      Inl e \<Rightarrow> update_incident_status E caller iid new w = (Inl e, w)
    | Inr p \<Rightarrow>
       (case view (dynamo_of E) (tbl w) ''incident'' iid of
          None \<Rightarrow> update_incident_status E caller iid new w = (Inl (not_found ''Incident''), w\<lparr>tick := Suc (tick w)\<rparr>)
        | Some v \<Rightarrow>
           (case validate_incident (lib_of E) v of
              None \<Rightarrow> update_incident_status E caller iid new w = (Inl ValidationError, w\<lparr>tick := Suc (tick w)\<rparr>)
            | Some i \<Rightarrow>
                if new \<notin> ALLOWED_TRANSITIONS (inc_status i)
                then update_incident_status E caller iid new w =
                  (Inl (invalid_transition (inc_status i) new), w\<lparr>tick := Suc (tick w)\<rparr>)
                else \<exists>w'. update_incident_status E caller iid new w = (Inr (i\<lparr>inc_status := new\<rparr>), w') \<and>
                  incident_service_ok E w' \<and>
                  load_incident E (tbl w') iid = Some (i\<lparr>inc_status := new\<rparr>) \<and>
                  same_elsewhere (dynamo_of E) (tbl w) (tbl w') ''incident'' iid \<and>
                  announced E ''incident.status_changed''
                    (status_changed_payload (i\<lparr>inc_status := new\<rparr>) (inc_status i))
                    (Some iid) (Some (subject p)) w w' \<and>
                  dashboards_told E ''ax-sentinel.incidents'' incident_connections
                    (dump_incident (lib_of E) (i\<lparr>inc_status := new\<rparr>)) w w'))"
proof (cases "require_roles status_writers caller")
  case (Inl e)
  then show ?thesis by (simp add: update_incident_status_def act_simps)
next
  case (Inr p)
  have q: "quiet E" "table_ok (dynamo_of E) (tbl w)"
    using assms by (simp_all add: incident_config_ok_def incident_service_ok_def)
  note refused = update_refused [OF q Inr, of iid]
  note accepted = update_accepted [OF assms Inr, of iid]
  show ?thesis using Inr refused accepted by (auto simp: load_as_Some split: option.splits)
qed

lemma update_status_branches_witness:
  "(\<exists>w'. update_incident_status sample_env (Some (sample_principal FIELD_WORKER)) ''i1'' ANALYZING
      (sample_incident_world (sample_incident_table DETECTED)) = (Inr (sample_incident ANALYZING), w'))"
proof -
  have "\<exists>v. view mem_dynamo (sample_incident_table DETECTED) ''incident'' ''i1'' = Some v \<and>
      validate_incident sample_lib v = Some (sample_incident DETECTED)"
    using sample_incident_load [of DETECTED "''i1''"] by (simp add: load_as_Some)
  moreover have "tbl (sample_incident_world (sample_incident_table DETECTED)) = sample_incident_table DETECTED"
    by (simp add: sample_incident_world_def)
  ultimately show ?thesis
    using update_status_branches [OF sample_incident_config sample_incident_ok [of DETECTED],
        of "Some (sample_principal FIELD_WORKER)" "''i1''" ANALYZING]
    by (auto simp: require_roles_def sample_principal_def sample_incident_def)
qed

section \<open>The life cycle of an incident\<close>

inductive incident_step :: "IncidentStatus \<Rightarrow> IncidentStatus \<Rightarrow> bool" where
  "s' \<in> ALLOWED_TRANSITIONS s \<Longrightarrow> incident_step s s'"

inductive_cases incident_step_from: "incident_step s s'"

inductive_simps incident_step_simps:
  "incident_step DETECTED s'" "incident_step ANALYZING s'" "incident_step REVIEW_REQUIRED s'"
  "incident_step APPROVED s'" "incident_step IN_PROGRESS s'" "incident_step RESOLVED s'"

fun progress :: "IncidentStatus \<Rightarrow> nat" where
  "progress DETECTED = 0" | "progress ANALYZING = 1" | "progress REVIEW_REQUIRED = 2"
| "progress APPROVED = 3" | "progress IN_PROGRESS = 4" | "progress RESOLVED = 5"

lemma progress_increases: "incident_step s s' \<Longrightarrow> progress s < progress s'"
  by (cases s) (auto simp: incident_step_simps)

lemma step_below_approved:
  "incident_step s s' \<Longrightarrow> progress s < progress APPROVED \<Longrightarrow> progress s' < progress APPROVED \<or> s' = APPROVED"
  by (cases s) (auto simp: incident_step_simps)

text \<open>A run of steps from a state before the approval to one after it meets the approval.\<close>

lemma steps_meet_approved:
  "successively incident_step (s # ss) \<Longrightarrow> progress s < progress APPROVED \<Longrightarrow>
   progress APPROVED < progress (last (s # ss)) \<Longrightarrow> APPROVED \<in> set ss"
proof (induction ss arbitrary: s)
  case (Cons s' ss)
  then have "progress s' < progress APPROVED \<or> s' = APPROVED"
    by (intro step_below_approved) simp_all
  then show ?case using Cons by fastforce
qed simp

text \<open>
  C30. The transition table has no cycle: every allowed step strictly advances an
  incident, so a path of steps never returns; it ends in \<open>resolved\<close> only, from which nothing
  leads on; and every path of steps that starts with an incident that is detected, analyzed or
  under review and ends with one in progress or resolved has the incident approved on its way.
\<close>

theorem incident_life_cycle:
  "(incident_step\<^sup>+\<^sup>+ s s' \<longrightarrow> progress s < progress s' \<and> s \<noteq> s') \<and>
   ((\<nexists>s'. incident_step s s') \<longleftrightarrow> s = RESOLVED) \<and>
   (\<forall>path. path \<noteq> [] \<and> successively incident_step path \<and>
      hd path \<in> {DETECTED, ANALYZING, REVIEW_REQUIRED} \<and> last path \<in> {IN_PROGRESS, RESOLVED} \<longrightarrow>
      APPROVED \<in> set path)"
proof -
  have up: "progress s < progress s'" if "incident_step\<^sup>+\<^sup>+ s s'"
    using that by (induction rule: tranclp_induct) (auto dest: progress_increases)
  have stuck: "(\<nexists>s'. incident_step s s') \<longleftrightarrow> s = RESOLVED"
    by (cases s) (auto simp: incident_step_simps)
  have approved: "APPROVED \<in> set path"
    if path: "path \<noteq> []" "successively incident_step path"
      "hd path \<in> {DETECTED, ANALYZING, REVIEW_REQUIRED}" "last path \<in> {IN_PROGRESS, RESOLVED}" for path
  proof -
    obtain a ss where "path = a # ss" using path(1) by (cases path) auto
    moreover have "progress (hd path) < progress APPROVED" "progress APPROVED < progress (last path)"
      using path(3,4) by auto
    ultimately show ?thesis using path(2) steps_meet_approved [of a ss] by simp
  qed
  show ?thesis using up stuck approved by fastforce
qed

lemma incident_life_cycle_witness:
  "incident_step\<^sup>+\<^sup>+ DETECTED ANALYZING \<and> DETECTED \<noteq> ANALYZING \<and> \<not> incident_step\<^sup>+\<^sup>+ RESOLVED DETECTED \<and>
   (let path = [DETECTED, ANALYZING, REVIEW_REQUIRED, APPROVED, IN_PROGRESS]
    in successively incident_step path \<and> APPROVED \<in> set path)"
proof -
  let ?path = "[DETECTED, ANALYZING, REVIEW_REQUIRED, APPROVED, IN_PROGRESS]"
  have "incident_step\<^sup>+\<^sup>+ DETECTED ANALYZING" by (rule tranclp.r_into_trancl) (simp add: incident_step_simps)
  moreover have steps: "successively incident_step ?path" by (simp add: incident_step_simps)
  moreover have "APPROVED \<in> set ?path"
    using conjunct2 [OF conjunct2 [OF incident_life_cycle [of DETECTED ANALYZING]], rule_format, of ?path] steps
    by simp
  ultimately show ?thesis
    using incident_life_cycle [of DETECTED ANALYZING] incident_life_cycle [of RESOLVED DETECTED]
    by (auto simp: Let_def)
qed

text \<open>Requests to the status endpoint, one after the other; a refused one changes nothing.\<close>

type_synonym status_request = "principal option \<times> string \<times> IncidentStatus"

fun serve_updates ::
  "('t, 'e) env_scheme \<Rightarrow> status_request list \<Rightarrow> ('t, 'w) incident_world_scheme \<Rightarrow>
   ('t, 'w) incident_world_scheme" where
  "serve_updates E [] w = w"
| "serve_updates E ((caller, iid, new) # rs) w =
     serve_updates E rs (snd (update_incident_status E caller iid new w))"

definition authorised :: "principal option \<Rightarrow> bool" where
  "authorised caller \<longleftrightarrow> (\<exists>p. require_roles status_writers caller = Inr p)"

lemma update_one:
  assumes cfg: "incident_config_ok E" and ok: "incident_service_ok E w" and i: "load_incident E (tbl w) iid = Some i"
    and w'_def: "w' = snd (update_incident_status E caller iid' new w)"
  shows "incident_service_ok E w' \<and>
    (load_incident E (tbl w') iid = Some i \<or>
     load_incident E (tbl w') iid = Some (i\<lparr>inc_status := new\<rparr>) \<and> iid' = iid \<and> authorised caller \<and>
     incident_step (inc_status i) new)"
proof (cases "require_roles status_writers caller")
  case (Inl e)
  then have "w' = w" by (simp add: w'_def update_incident_status_def act_simps)
  then show ?thesis using ok i by simp
next
  case (Inr p)
  have q: "quiet E" "table_ok (dynamo_of E) (tbl w)"
    using assms by (simp_all add: incident_config_ok_def incident_service_ok_def)
  note refused = update_refused [OF q Inr, of iid']
  show ?thesis
  proof (cases "\<exists>j. load_incident E (tbl w) iid' = Some j \<and> new \<in> ALLOWED_TRANSITIONS (inc_status j)")
    case True
    then obtain j where j: "load_incident E (tbl w) iid' = Some j" "new \<in> ALLOWED_TRANSITIONS (inc_status j)"
      by blast
    from update_accepted [OF cfg ok Inr this]
    have a: "incident_service_ok E w'" "load_incident E (tbl w') iid' = Some (j\<lparr>inc_status := new\<rparr>)"
      "same_elsewhere (dynamo_of E) (tbl w) (tbl w') ''incident'' iid'" by (auto simp: w'_def)
    show ?thesis
    proof (cases "iid' = iid")
      case True
      then show ?thesis using a i j Inr by (auto simp: authorised_def incident_step.simps)
    next
      case False
      then have "view (dynamo_of E) (tbl w') ''incident'' iid = view (dynamo_of E) (tbl w) ''incident'' iid"
        using a(3) by (intro same_elsewhereD) (auto simp: entity_types_def)
      then show ?thesis using a(1) i by (simp add: load_as_def)
    qed
  next
    case False
    have "w' = w\<lparr>tick := Suc (tick w)\<rparr>"
    proof (cases "view (dynamo_of E) (tbl w) ''incident'' iid'")
      case None
      then show ?thesis using refused(1) by (simp add: w'_def)
    next
      case (Some v)
      then show ?thesis using refused(2,3) False
        by (cases "validate_incident (lib_of E) v") (auto simp: w'_def load_as_Some)
    qed
    then show ?thesis using ok i by simp
  qed
qed

text \<open>
  C3. Whatever sequence of requests the status endpoint serves, in
  whatever order and by whomever, an incident only moves along the life cycle, nothing but its
  status changes, it never disappears, and it is taken into work or resolved only if an
  authorised caller has asked for its approval (or it was approved before).
\<close>

theorem served_updates_follow_life_cycle:
  assumes "incident_config_ok E" "incident_service_ok E w" "load_incident E (tbl w) iid = Some i"
  shows "\<exists>i'. load_incident E (tbl (serve_updates E rs w)) iid = Some i' \<and>
    i' = i\<lparr>inc_status := inc_status i'\<rparr> \<and> incident_step\<^sup>*\<^sup>* (inc_status i) (inc_status i') \<and>
    (progress (inc_status i) < progress APPROVED \<and> progress APPROVED \<le> progress (inc_status i') \<longrightarrow>
       (\<exists>caller. (caller, iid, APPROVED) \<in> set rs \<and> authorised caller))"
  using assms(2,3)
proof (induction rs arbitrary: w i)
  case Nil
  then show ?case by simp
next
  case (Cons r rs)
  obtain caller iid' new where r: "r = (caller, iid', new)" by (cases r)
  define w1 where "w1 = snd (update_incident_status E caller iid' new w)"
  have one: "incident_service_ok E w1"
    "load_incident E (tbl w1) iid = Some i \<or>
     load_incident E (tbl w1) iid = Some (i\<lparr>inc_status := new\<rparr>) \<and> iid' = iid \<and> authorised caller \<and>
     incident_step (inc_status i) new"
    using update_one [OF assms(1) Cons.prems w1_def] by simp_all
  have served: "serve_updates E (r # rs) w = serve_updates E rs w1" by (simp add: r w1_def)
  from one(2) show ?case
  proof (elim disjE conjE)
    assume "load_incident E (tbl w1) iid = Some i"
    from Cons.IH [OF one(1) this] show ?thesis unfolding served by auto
  next
    assume a: "load_incident E (tbl w1) iid = Some (i\<lparr>inc_status := new\<rparr>)" "iid' = iid" "authorised caller"
      "incident_step (inc_status i) new"
    from Cons.IH [OF one(1) a(1)] obtain i' where
      i': "load_incident E (tbl (serve_updates E rs w1)) iid = Some i'"
      "i' = i\<lparr>inc_status := inc_status i'\<rparr>" "incident_step\<^sup>*\<^sup>* new (inc_status i')"
      "progress new < progress APPROVED \<and> progress APPROVED \<le> progress (inc_status i') \<longrightarrow>
         (\<exists>caller. (caller, iid, APPROVED) \<in> set rs \<and> authorised caller)" by auto
    have "progress (inc_status i) < progress APPROVED \<Longrightarrow> progress new < progress APPROVED \<or> new = APPROVED"
      using a(4) by (rule step_below_approved)
    then show ?thesis unfolding served using i' a r
      by (intro exI [of _ i'] conjI) (auto intro: converse_rtranclp_into_rtranclp)
  qed
qed

lemma served_updates_follow_life_cycle_witness:
  "\<exists>i'. load_incident sample_env
      (tbl (serve_updates sample_env [(Some (sample_principal FIELD_WORKER), ''i1'', ANALYZING)]
        (sample_incident_world (sample_incident_table DETECTED)))) ''i1'' = Some i' \<and>
    incident_step\<^sup>*\<^sup>* DETECTED (inc_status i')"
  using served_updates_follow_life_cycle [OF sample_incident_config sample_incident_ok [of DETECTED],
      of "''i1''" "sample_incident DETECTED"
        "[(Some (sample_principal FIELD_WORKER), ''i1'', ANALYZING)]"]
    sample_incident_load [of DETECTED "''i1''"]
  by (auto simp: sample_incident_world_def sample_incident_def)

section \<open>Dashboards\<close>

text \<open>
  C29. A broadcast never fails because peers are gone: afterwards the
  manager holds exactly the connections whose send went through, each of them has been sent the
  message, and the connections of the other manager are as they were.
\<close>

theorem broadcast_reaches_the_living:
  assumes "only_peers_fail E" "distinct (connections w m)"
  shows "\<exists>w'. broadcast E m msg w = (Inr (), w') \<and>
    set (connections w' m) = set (reached_from E (tick w) (connections w m)) \<and>
    distinct (connections w' m) \<and>
    (\<forall>m'. m' \<noteq> m \<longrightarrow> connections w' m' = connections w m') \<and>
    (\<forall>c \<in> set (connections w' m). (c, msg) \<in> set (ws_sent w'))"
  using broadcast_run [OF assms, of msg] by metis

definition lossy_env :: "dict list env" where
  "lossy_env = sample_env\<lparr>outcome_at := (\<lambda>n. if n = 1 then NotDone WebSocketDisconnect else Done)\<rparr>"

lemma broadcast_reaches_the_living_witness:
  "\<exists>w'. broadcast lossy_env incident_connections (JInt 1)
      ((sample_incident_world [])\<lparr>connections := (\<lambda>_. [''a'', ''b'', ''c''])\<rparr>) = (Inr (), w') \<and>
    set (connections w' incident_connections) = {''a'', ''c''} \<and>
    (''c'', JInt 1) \<in> set (ws_sent w')"
proof -
  let ?w = "(sample_incident_world [])\<lparr>connections := (\<lambda>_. [''a'', ''b'', ''c''])\<rparr>"
  have "only_peers_fail lossy_env" by (simp add: only_peers_fail_def lossy_env_def)
  then have "\<exists>w'. broadcast lossy_env incident_connections (JInt 1) ?w = (Inr (), w') \<and>
      set (connections w' incident_connections) =
        set (reached_from lossy_env (tick ?w) (connections ?w incident_connections)) \<and>
      (\<forall>c \<in> set (connections w' incident_connections). (c, JInt 1) \<in> set (ws_sent w'))"
    using broadcast_reaches_the_living [of lossy_env ?w incident_connections "JInt 1"] by auto
  moreover have "set (reached_from lossy_env (tick ?w) (connections ?w incident_connections)) = {''a'', ''c''}"
    by (simp add: lossy_env_def sample_incident_world_def)
  ultimately show ?thesis by (metis insertCI)
qed

text \<open>A token presented in the WebSocket handshake that the configured verifier accepts.\<close>

definition presents_valid_token :: "('t, 'e) auth_env_scheme \<Rightarrow> string \<Rightarrow> bool" where
  "presents_valid_token E header \<longleftrightarrow>
     (\<exists>token v claims p.
        websocket_access_token header = (Some token, Some ''access-token'') \<and>
        get_token_verifier (settings_of E) = Inr v \<and> decode_token E v token = Inr claims \<and>
        verify_claims (lib_of E) v claims = Inr p)"

lemma websocket_access_token_form:
  "websocket_access_token header = (Some token, sp) \<Longrightarrow> sp = Some ''access-token''"
  by (auto simp: websocket_access_token_def Let_def split: list.splits if_splits)

lemma keeps_connections [keeps_intros]:
  "keeps (\<lambda>w. connections w = c) (verify_token E token)"
  "keeps (\<lambda>w. connections w = c) (ws_close E websocket code reason)"
  unfolding verify_token_def verify_def ws_close_def
  by (intro keeps_intros keeps_call keeps_change; simp)+

lemma authorize_keeps_connections: "keeps (\<lambda>w. connections w = c) (authorize_websocket E websocket header)"
  unfolding authorize_websocket_def
  by (cases "websocket_access_token header"; cases "fst (websocket_access_token header)")
    (auto intro!: keeps_intros)

lemma authorize_accepts:
  assumes "authorize_websocket E websocket header w = (Inr (Some sp), w')"
  shows "presents_valid_token E header"
proof -
  have mode: "auth_mode (settings_of E) \<noteq> ''disabled''"
    using assms by (auto simp: authorize_websocket_def ret_def)
  obtain token sp' where t: "websocket_access_token header = (Some token, sp')"
    using assms mode
    by (cases "websocket_access_token header"; cases "fst (websocket_access_token header)")
      (auto simp: authorize_websocket_def bnd_def ret_def split: prod.splits sum.splits)
  obtain p w1 where "verify_token E token w = (Inr p, w1)"
  proof (cases "verify_token E token w")
    case (Pair r w1)
    then show ?thesis using assms mode t that
      by (cases r) (auto simp: authorize_websocket_def attempt_def bnd_def ret_def throw_def
          split: if_splits prod.splits sum.splits)
  qed
  then obtain v where v: "get_token_verifier (settings_of E) = Inr v" "verify E v token w = (Inr p, w1)"
    by (auto simp: verify_token_def bnd_def of_result_def split: sum.splits)
  then show ?thesis using verify_Inr [OF v(2)] t websocket_access_token_form [OF t]
    unfolding presents_valid_token_def by blast
qed

text \<open>
  C19. With authentication switched on, and whatever fails on the way, a socket
  whose handshake does not present a token that the configured verifier accepts is never added
  to the connections of any manager, so no broadcast reaches it.
\<close>

theorem websocket_needs_token:
  assumes "auth_mode (settings_of E) \<noteq> ''disabled''" "\<not> presents_valid_token E header"
  shows "connections (snd (serve_websocket E m websocket header n e w)) = connections w"
proof -
  obtain r w1 where a: "authorize_websocket E websocket header w = (r, w1)" by fastforce
  have "connections w1 = connections w"
    using keepsD [OF authorize_keeps_connections, of w "connections w" E websocket header] a by simp
  moreover have "r \<noteq> Inr (Some sp)" for sp using authorize_accepts a assms(2) by blast
  ultimately show ?thesis using a assms(1)
    by (cases r) (auto simp: serve_websocket_def bnd_def ret_def)
qed

definition keycloak_env :: "dict list auth_env" where
  "keycloak_env = env.extend
     (sample_env\<lparr>settings_of := default_settings\<lparr>auth_mode := ''keycloak'', oidc_issuer := Some ''https://kc/realm'',
        oidc_jwks_url := Some ''https://kc/jwks'', oidc_client_id := Some ''ax''\<rparr>\<rparr>)
     (auth_env.fields (\<lambda>jwks_url token issuer audience.
        if token = ''good'' then Inr [(''sub'', JStr ''u1''), (''realm_access'',
          JObj [(''roles'', JList [JStr ''field_worker''])])]
        else Inl (PyJWTError ''bad signature'')))"

lemma websocket_needs_token_witness:
  "connections (snd (serve_websocket keycloak_env telemetry_connections ''s1'' ''access-token, bad'' 0
      WebSocketDisconnect (sample_incident_world []))) = connections (sample_incident_world [])"
proof (rule websocket_needs_token)
  show "auth_mode (settings_of keycloak_env) \<noteq> ''disabled''"
    by (simp add: keycloak_env_def env.extend_def auth_env.fields_def)
  have "websocket_access_token ''access-token, bad'' = (Some ''bad'', Some ''access-token'')" by code_simp
  then show "\<not> presents_valid_token keycloak_env ''access-token, bad''"
    by (auto simp: presents_valid_token_def keycloak_env_def env.extend_def auth_env.fields_def
        get_token_verifier_def default_settings_def)
qed

section \<open>Listings\<close>

text \<open>
  C31. The telemetry listing with a limit of 1 to 200 returns that many of the
  stored records at most, newest first, and every stored record that is left out is no newer
  than every record returned; any other limit is refused.
\<close>

theorem list_telemetry_newest:
  assumes "quiet E" "lists_as (dynamo_of E) (tbl w) ''telemetry'' xs"
    "items_readable validate_telemetry (lib_of E) xs" "length xs < list_fuel E"
  defines "all_records \<equiv> read_items validate_telemetry (lib_of E) xs"
  shows "if 1 \<le> limit \<and> limit \<le> 200
     then \<exists>n rs rest. list_telemetry E limit w = (Inr rs, w\<lparr>tick := n\<rparr>) \<and>
       mset (rs @ rest) = mset all_records \<and> length rs = min (nat limit) (length all_records) \<and>
       sorted_wrt (\<lambda>a b. t_received_at b \<le> t_received_at a) rs \<and>
       (\<forall>a \<in> set rs. \<forall>b \<in> set rest. t_received_at b \<le> t_received_at a)
     else list_telemetry E limit w = (Inl RequestValidationError, w)"
proof (cases "1 \<le> limit \<and> limit \<le> 200")
  case False
  then have "list_telemetry E limit w = (Inl RequestValidationError, w)"
    by (auto simp: list_telemetry_def check_def throw_def bnd_def ret_def)
  then show ?thesis by (simp only: False if_False)
next
  case True
  define s where "s = sorted_descending t_received_at all_records"
  note sorted = sorted_descending_facts [of t_received_at all_records, folded s_def]
  obtain n where n: "bnd (repo_list E ''telemetry'') (\<lambda>values. each (validated validate_telemetry E) values) w =
      (Inr all_records, w\<lparr>tick := n\<rparr>)"
    using list_validated [OF assms(1,2,3,4)] by (auto simp: all_records_def)
  have run: "list_telemetry E limit w = (Inr (take (nat limit) s), w\<lparr>tick := n\<rparr>)"
    using True by (simp add: list_telemetry_def check_def list_validated_bnd [OF n] ret_def s_def)
  have split: "sorted_wrt (\<lambda>a b. t_received_at b \<le> t_received_at a) (take (nat limit) s @ drop (nat limit) s)"
    using sorted(2) by simp
  have "mset (take (nat limit) s @ drop (nat limit) s) = mset all_records" using sorted(1) by simp
  then show ?thesis
    using True run split sorted(4)
    by (simp only: True if_True simp_thms sorted_wrt_append)
      (intro exI [of _ n] exI [of _ "take (nat limit) s"] exI [of _ "drop (nat limit) s"], simp)
qed

lemma list_telemetry_newest_witness:
  "\<exists>n. list_telemetry sample_env 5 (sample_incident_world []) = (Inr [], (sample_incident_world [])\<lparr>tick := n\<rparr>)"
proof -
  have "lists_as mem_dynamo (tbl (sample_incident_world [])) ''telemetry'' []"
    using mem_lists_as [of "[]"] by (simp add: sample_incident_world_def)
  then show ?thesis
    using list_telemetry_newest [OF sample_quiet, of "sample_incident_world []" "[]" 5]
    by (auto simp: items_readable_def read_items_def)
qed

end
