(* ===== verification/SharedProperties.thy ===== *)
theory SharedProperties
  imports IncidentProperties
begin

text \<open>
  The properties of the shared library: the repository, the event publisher, the token verifiers
  and the request middleware.
\<close>

section \<open>The repository\<close>

text \<open>
  C4. A put that finds version \<open>n\<close> of an entity, and whatever other writers do to
  the table between its read and its write, either stores the value as version \<open>n + 1\<close> over
  exactly the state it read, touching no other entity, or raises \<open>ConcurrentUpdateError\<close> and
  leaves the table as the others left it; it does the first exactly when the stored version has
  not moved in between.
\<close>

theorem put_is_optimistic:
  fixes E :: "('t, 'e) env_scheme" and w :: "('t, 'w) world_scheme"
  assumes "reliable E" "dynamo_ok (dynamo_of E)"
    and "storable (dynamodb_value (float_repr (lib_of E)) data)"
    and "t1 = others E (Suc (tick w)) (tbl w)" "t2 = others E (Suc (Suc (tick w))) t1"
    and "table_ok (dynamo_of E) t1" "table_ok (dynamo_of E) t2" "k = entity_key et eid"
  shows "if version_tag (dynamo_of E) t1 k = version_tag (dynamo_of E) t2 k
     then \<exists>t' it'. repo_put E et eid data w = (Inr (), w\<lparr>tick := tick w + 3, tbl := t'\<rparr>) \<and>
            get_item (dynamo_of E) t' k = Some it' \<and> item_ok it' \<and>
            dict_get it' ''version'' = Some (JDec (of_int (version_number (dynamo_of E) t1 k + 1))) \<and>
            (\<exists>d. dict_get it' ''data'' = Some d \<and> same_value (stored (lib_of E) data) d) \<and>
            (\<forall>k'. k' \<noteq> k \<longrightarrow> get_item (dynamo_of E) t' k' = get_item (dynamo_of E) t2 k')
     else \<exists>m. repo_put E et eid data w =
            (Inl (ConcurrentUpdateError m), w\<lparr>tick := tick w + 3, tbl := t2\<rparr>)"
  by (rule repo_put_run [OF assms])

text \<open>Another writer stores version 2 between the read and the write of a put.\<close>

definition racing_env :: "dict list env" where
  "racing_env = sample_env\<lparr>others := (\<lambda>n t. if n = 2 then [sample_item ''incident'' ''i1'' 2 JNull] else t)\<rparr>"

lemma put_is_optimistic_witness:
  "\<exists>m. repo_put racing_env ''incident'' ''i1'' (JInt 7) (sample_world [sample_item ''incident'' ''i1'' 1 JNull]) =
     (Inl (ConcurrentUpdateError m),
      (sample_world [sample_item ''incident'' ''i1'' 1 JNull])\<lparr>tick := 3, tbl := [sample_item ''incident'' ''i1'' 2 JNull]\<rparr>)"
proof -
  let ?w = "sample_world [sample_item ''incident'' ''i1'' 1 JNull]" and ?k = "entity_key ''incident'' ''i1''"
  have env: "reliable racing_env" "dynamo_ok (dynamo_of racing_env)" "dynamo_of racing_env = mem_dynamo"
    by (simp_all add: racing_env_def reliable_def sample_env_def mem_dynamo_ok)
  have t: "others racing_env (Suc (tick ?w)) (tbl ?w) = tbl ?w"
    "others racing_env (Suc (Suc (tick ?w))) (tbl ?w) = [sample_item ''incident'' ''i1'' 2 JNull]"
    by (simp_all add: racing_env_def)
  have ok: "table_ok (dynamo_of racing_env) (tbl ?w)"
    "table_ok (dynamo_of racing_env) [sample_item ''incident'' ''i1'' 2 JNull]"
    unfolding env(3) by (auto intro!: sample_table_ok simp: sample_item_ok)
  have tag: "version_tag mem_dynamo [sample_item ''incident'' ''i1'' v JNull] ?k = Some (Some (JDec (of_int v)))" for v
    using made_item_facts(2) [of sample_lib "''incident''" "''i1''" 0 "v - 1" JNull "sample_item ''incident'' ''i1'' v JNull"]
    by (simp add: version_tag_def sample_item_def)
  have "\<exists>m. repo_put racing_env ''incident'' ''i1'' (JInt 7) ?w =
      (Inl (ConcurrentUpdateError m), ?w\<lparr>tick := tick ?w + 3, tbl := [sample_item ''incident'' ''i1'' 2 JNull]\<rparr>)"
    using put_is_optimistic [OF env(1,2) _ t(1) [symmetric] t(2) [symmetric] ok refl, of "JInt 7" "''incident''" "''i1''"]
    by (simp add: env(3) tag)
  then show ?thesis by (simp add: numeral_3_eq_3)
qed

text \<open>
  C24. Without other writers, a value put under an id is the value got from it, up to
  the order of keys and the number type of the store; the version grows by one, and every other
  entity is as before.
\<close>

theorem put_then_get:
  fixes E :: "('t, 'e) env_scheme" and w :: "('t, 'w) world_scheme"
  assumes "quiet E" "table_ok (dynamo_of E) (tbl w)" "finite_numbers data" "et \<in> set entity_types"
  shows "\<exists>d w' w''. bnd (repo_put E et eid data) (\<lambda>_. repo_get E et eid) w = (Inr (Some d), w'') \<and>
    repo_put E et eid data w = (Inr (), w') \<and> tbl w'' = tbl w' \<and>
    same_value (stored (lib_of E) data) d \<and>
    version_number (dynamo_of E) (tbl w') (entity_key et eid) =
      version_number (dynamo_of E) (tbl w) (entity_key et eid) + 1 \<and>
    same_elsewhere (dynamo_of E) (tbl w) (tbl w') et eid"
proof -
  obtain t' d where r: "repo_put E et eid data w = (Inr (), w\<lparr>tick := tick w + 3, tbl := t'\<rparr>)"
    "table_ok (dynamo_of E) t'" "view (dynamo_of E) t' et eid = Some d" "same_value (stored (lib_of E) data) d"
    "version_number (dynamo_of E) t' (entity_key et eid) =
      version_number (dynamo_of E) (tbl w) (entity_key et eid) + 1"
    "\<forall>k. k \<noteq> entity_key et eid \<longrightarrow> get_item (dynamo_of E) t' k = get_item (dynamo_of E) (tbl w) k"
    using repo_put_quiet [OF assms(1,2) dynamodb_value_storable [OF assms(3)]] by blast
  have g: "repo_get E et eid (w\<lparr>tick := tick w + 3, tbl := t'\<rparr>) =
      (Inr (Some d), w\<lparr>tick := tick w + 4, tbl := t'\<rparr>)"
    using repo_get_quiet [OF assms(1), of "w\<lparr>tick := tick w + 3, tbl := t'\<rparr>" et eid] r(2,3)
    by (simp add: eval_nat_numeral)
  have "same_elsewhere (dynamo_of E) (tbl w) t' et eid"
    unfolding same_elsewhere_def
  proof (intro allI impI)
    fix et' eid' assume "et' \<in> set entity_types" "et' \<noteq> et \<or> eid' \<noteq> eid"
    then have "entity_key et' eid' \<noteq> entity_key et eid" using assms(4) by (intro entity_key_other)
    from r(6) [rule_format, OF this]
    show "view (dynamo_of E) t' et' eid' = view (dynamo_of E) (tbl w) et' eid'" by (simp add: view_def)
  qed
  then show ?thesis using r g by (intro exI) (auto simp: bnd_Inr)
qed

lemma put_then_get_witness:
  "\<exists>d w' w''. bnd (repo_put sample_env ''feedback'' ''f1'' (JObj [(''n'', JInt 5)]))
      (\<lambda>_. repo_get sample_env ''feedback'' ''f1'') (sample_world []) = (Inr (Some d), w'') \<and>
    same_value (JObj [(''n'', JDec 5)]) d"
proof -
  have "table_ok (dynamo_of sample_env) (tbl (sample_world []))" by (simp add: sample_table_ok_empty)
  moreover have "''feedback'' \<in> set entity_types" by (simp add: entity_types_def)
  ultimately show ?thesis
    using put_then_get [OF sample_quiet, of "sample_world []" "JObj [(''n'', JInt 5)]" "''feedback''" "''f1''"]
    by auto
qed

text \<open>
  C25. The paged listing returns the data of every indexed item of the type, each
  once and in index order, whatever pages the service cuts; it needs at most one page per item.
\<close>

theorem list_is_complete:
  fixes E :: "('t, 'e) env_scheme" and w :: "('t, 'w) world_scheme"
  assumes "quiet E" "lists_as (dynamo_of E) (tbl w) et xs"
    and "\<And>it. it \<in> set xs \<Longrightarrow> dict_get it ''data'' \<noteq> None" "length xs < list_fuel E"
  shows "\<exists>n. repo_list E et w = (Inr (map (\<lambda>it. the (dict_get it ''data'')) xs), w\<lparr>tick := n\<rparr>)"
  by (rule repo_list_quiet [OF assms])

lemma list_is_complete_witness:
  "\<exists>n. repo_list sample_env ''incident'' (sample_world (sample_incident_table DETECTED)) =
     (Inr [stored sample_lib (dump_incident sample_lib (sample_incident DETECTED))],
      (sample_world (sample_incident_table DETECTED))\<lparr>tick := n\<rparr>)"
proof -
  let ?t = "sample_incident_table DETECTED"
  have d: "dict_get it ''data'' = Some (stored sample_lib (dump_incident sample_lib (sample_incident DETECTED)))"
    if "it \<in> set ?t" for it
    using that by (simp add: sample_incident_table_def dump_incident_def)
  have l: "lists_as (dynamo_of sample_env) (tbl (sample_world ?t)) ''incident'' ?t"
    using sample_listing [of DETECTED] by simp
  have "length ?t < list_fuel sample_env" "map (\<lambda>it. the (dict_get it ''data'')) ?t =
      [stored sample_lib (dump_incident sample_lib (sample_incident DETECTED))]"
    using d by (simp_all add: sample_incident_table_def)
  moreover have "dict_get it ''data'' \<noteq> None" if "it \<in> set ?t" for it using d [OF that] by simp
  ultimately show ?thesis using list_is_complete [OF sample_quiet l] by metis
qed

section \<open>Events\<close>

text \<open>
  C28. Whatever its type, an event is sent to one of the topics the worker
  subscribes to, and never to the dead-letter topic.
\<close>

theorem every_event_is_consumed:
  "topic_for et \<in> set KAFKA_TOPICS \<and> topic_for et \<noteq> KAFKA_DLQ_TOPIC \<and> distinct KAFKA_TOPICS"
proof -
  have "snd pt \<in> set KAFKA_TOPICS" if "pt \<in> set TOPIC_BY_PREFIX" for pt
    using that by (auto simp: TOPIC_BY_PREFIX_def KAFKA_TOPICS_list)
  moreover have "''ax.audit.events.v1'' \<in> set KAFKA_TOPICS" by (simp add: KAFKA_TOPICS_list)
  ultimately have "topic_for et \<in> set KAFKA_TOPICS" using find_topic_cases [of et] by (metis snd_conv)
  moreover have "KAFKA_DLQ_TOPIC \<notin> set KAFKA_TOPICS" "distinct KAFKA_TOPICS"
    by (simp_all add: KAFKA_TOPICS_list KAFKA_DLQ_TOPIC_def)
  ultimately show ?thesis by metis
qed

text \<open>
  C26. Under a usable configuration, publishing sends the event, with the given
  type, payload and actor and this service as producer, exactly once to each bus that is
  configured: one Kafka message on its topic and key, one SQS message with its JSON text, one
  SNS message, with the type in its subject and the same text, when it is an alert; with the bus disabled nothing is sent. It never touches the
  table.
\<close>

theorem publish_sends_once:
  assumes "quiet E" "can_publish E alert" "len_between 1 200 et"
  shows "\<exists>e w'. publish_event E et pl key actor alert w = (Inr e, w') \<and>
    event_type e = et \<and> payload e = pl \<and> actor_id e = actor \<and>
    producer e = service_name (settings_of E) \<and>
    after_publish w w' (if uses_kafka (bus_of E) then [kafka_form (lib_of E) key e] else []) \<and>
    (alert \<and> bus_of E \<noteq> ''disabled'' \<longrightarrow>
       (\<exists>a. sns_sent w' = sns_sent w @
          [\<lparr>sns_arn = a, sns_subject = ''AX Sentinel: '' @ et,
            sns_text = json_text (lib_of E) (dump_envelope (lib_of E) e)\<rparr>])) \<and>
    (uses_sqs (bus_of E) \<longrightarrow>
       (\<exists>u. sqs_sent w' = sqs_sent w @ [(u, json_text (lib_of E) (dump_envelope (lib_of E) e))])) \<and>
    (bus_of E = ''disabled'' \<longrightarrow> sqs_sent w' = sqs_sent w \<and> sns_sent w' = sns_sent w)"
  by (rule publish_event_quiet [OF assms])

definition dual_env :: "dict list env" where
  "dual_env = sample_env\<lparr>settings_of := default_settings\<lparr>event_bus := ''dual''\<rparr>,
     topic_arns := [''arn:aws:sns:ap:1:axsentinel-alerts'']\<rparr>"

lemma publish_sends_once_witness:
  "\<exists>e w'. publish_event dual_env ''incident.detected'' [(''id'', JStr ''i1'')] None None True (sample_world []) =
      (Inr e, w') \<and> kafka_sent w' = [kafka_form sample_lib None e] \<and> length (sqs_sent w') = 1 \<and>
      length (sns_sent w') = 1"
proof -
  have "quiet dual_env" using sample_quiet
    by (simp add: dual_env_def quiet_def reliable_def alone_def)
  moreover have "find_topic_arn dual_env \<noteq> None"
    by (simp add: dual_env_def find_topic_arn_def default_settings_def after_last_def)
  then have "can_publish dual_env True"
    by (simp add: can_publish_def dual_env_def supported_bus_def)
  moreover have "len_between 1 200 ''incident.detected''" by code_simp
  ultimately show ?thesis
    using publish_sends_once [of dual_env True "''incident.detected''" "[(''id'', JStr ''i1'')]" None None "sample_world []"]
    by (fastforce simp: dual_env_def uses_kafka_def uses_sqs_def after_publish_def sample_world_def)
qed

text \<open>
  C27. What a consumer reads, from the Kafka value or from the JSON text on the
  queue, is the envelope that was published; the defaults of a missing id, time or correlation
  are not used.
\<close>

theorem envelope_roundtrip:
  assumes "lib_ok L" "len_between 1 200 (event_type e)"
  shows "validate_envelope L fresh_id now fresh_corr (dump_envelope L e) = Some e \<and>
    (json_native (JObj (payload e)) \<longrightarrow>
       (case json_parse L (json_text L (dump_envelope L e)) of
          None \<Rightarrow> None | Some v \<Rightarrow> validate_envelope L fresh_id now fresh_corr v) = Some e)"
proof -
  have "json_native (opt_str s)" for s by (cases s) (simp_all add: opt_str_def)
  then have "json_native (dump_envelope L e)" if "json_native (JObj (payload e))"
    using that by (simp add: dump_envelope_def)
  then show ?thesis using dump_envelope_read [OF assms, of fresh_id now fresh_corr] assms(1) by auto
qed

lemma envelope_roundtrip_witness:
  "validate_envelope sample_lib ''x'' 0 ''y''
     (dump_envelope sample_lib
       \<lparr>event_id = ''e1'', event_type = ''telemetry.received'', event_version = 1, occurred_at = 3,
        producer = ''incident-service'', correlation_id = ''c1'', causation_id = None,
        actor_id = Some ''u1'', payload = [(''n'', JInt 2)]\<rparr>) \<noteq> None"
proof -
  have "len_between 1 200 ''telemetry.received''" by code_simp
  then show ?thesis using envelope_roundtrip [OF sample_lib_ok] by simp
qed

section \<open>Access tokens\<close>

text \<open>
  C9. A verified principal rests on claims that \<open>jwt.decode\<close> returned for the key set,
  the issuer and (for OIDC) the audience that the settings name: of a Cognito token only an access token of this client's is accepted; and the
  principal has a role exactly if the token claims it by its name, as a Cognito group or a
  Keycloak realm role. No other claim gives a role.
\<close>

theorem verified_principal:
  assumes "verify_token E token w = (Inr p, w')"
  shows "\<exists>v claims groups. get_token_verifier (settings_of E) = Inr v \<and>
    decode_token E v token = Inr claims \<and> claimed_roles claims = Inr groups \<and>
    (\<forall>r. r \<in> roles p \<longleftrightarrow> (\<exists>s. JStr s \<in> set groups \<and> (s, r) \<in> set known_roles)) \<and>
    (case v of
       CognitoTokenVerifier issuer client_id \<Rightarrow>
         dict_get claims ''token_use'' = Some (JStr ''access'') \<and>
         dict_get claims ''client_id'' = Some (JStr client_id) \<and>
         cognito_client_id (settings_of E) = Some client_id \<and>
         (\<exists>pool. cognito_user_pool_id (settings_of E) = Some pool \<and>
            issuer = ''https://cognito-idp.'' @ aws_region (settings_of E) @ ''.amazonaws.com/'' @ pool) \<and>
         jwt_decode E (issuer @ ''/.well-known/jwks.json'') token issuer None = Inr claims
     | OidcTokenVerifier issuer jwks_url client_id \<Rightarrow>
         oidc_issuer (settings_of E) = Some issuer \<and> oidc_jwks_url (settings_of E) = Some jwks_url \<and>
         oidc_client_id (settings_of E) = Some client_id \<and>
         jwt_decode E jwks_url token (rstrip_char (CHR ''/'') issuer) (Some client_id) = Inr claims)"
proof -
  obtain v where v: "get_token_verifier (settings_of E) = Inr v" "verify E v token w = (Inr p, w')"
    using assms by (auto simp: verify_token_def bnd_def of_result_def split: sum.splits)
  obtain claims where c: "decode_token E v token = Inr claims" "verify_claims (lib_of E) v claims = Inr p"
    using verify_Inr [OF v(2)] by blast
  have pc: "principal_from_claims (lib_of E) claims = Inr p"
    using c(2) by (cases v) (auto split: if_splits)
  then obtain groups rs where g: "claimed_roles claims = Inr groups" "roles_of_groups groups = Inr rs"
    "roles p = set rs"
    by (auto simp: principal_from_claims_def split: sum.splits option.splits)
  have who: "case v of
       CognitoTokenVerifier issuer client_id \<Rightarrow>
         dict_get claims ''token_use'' = Some (JStr ''access'') \<and>
         dict_get claims ''client_id'' = Some (JStr client_id) \<and>
         cognito_client_id (settings_of E) = Some client_id \<and>
         (\<exists>pool. cognito_user_pool_id (settings_of E) = Some pool \<and>
            issuer = ''https://cognito-idp.'' @ aws_region (settings_of E) @ ''.amazonaws.com/'' @ pool) \<and>
         jwt_decode E (issuer @ ''/.well-known/jwks.json'') token issuer None = Inr claims
     | OidcTokenVerifier issuer jwks_url client_id \<Rightarrow>
         oidc_issuer (settings_of E) = Some issuer \<and> oidc_jwks_url (settings_of E) = Some jwks_url \<and>
         oidc_client_id (settings_of E) = Some client_id \<and>
         jwt_decode E jwks_url token (rstrip_char (CHR ''/'') issuer) (Some client_id) = Inr claims"
    using c v(1)
    by (cases v)
      (auto simp: get_token_verifier_def cognito_issuer_def cognito_jwks_url_def split: if_splits option.splits)
  show ?thesis using v(1) c(1) g who roles_of_groups_set [OF g(2)]
    by (intro exI [of _ v] exI [of _ claims] exI [of _ groups]) simp
qed

lemma verified_principal_witness:
  "\<exists>p w'. verify_token keycloak_env ''good'' (sample_world []) = (Inr p, w') \<and> roles p = {FIELD_WORKER}"
proof -
  have "\<exists>p w'. verify_token keycloak_env ''good'' (sample_world []) = (Inr p, w') \<and>
      get_token_verifier (settings_of keycloak_env) = Inr (OidcTokenVerifier ''https://kc/realm'' ''https://kc/jwks'' ''ax'') \<and>
      decode_token keycloak_env (OidcTokenVerifier ''https://kc/realm'' ''https://kc/jwks'' ''ax'') ''good'' =
        Inr [(''sub'', JStr ''u1''), (''realm_access'', JObj [(''roles'', JList [JStr ''field_worker''])])]"
    by (simp add: verify_token_def verify_def keycloak_env_def env.extend_def auth_env.fields_def
        get_token_verifier_def default_settings_def act_simps bnd_def call_def of_result_def sample_env_def
        Let_def principal_from_claims_def claimed_roles_def keycloak_roles_def dict_get_or_def dict_get_def
        py_iter_def known_roles_def)
  then obtain p w' where p: "verify_token keycloak_env ''good'' (sample_world []) = (Inr p, w')"
    "get_token_verifier (settings_of keycloak_env) = Inr (OidcTokenVerifier ''https://kc/realm'' ''https://kc/jwks'' ''ax'')"
    "decode_token keycloak_env (OidcTokenVerifier ''https://kc/realm'' ''https://kc/jwks'' ''ax'') ''good'' =
        Inr [(''sub'', JStr ''u1''), (''realm_access'', JObj [(''roles'', JList [JStr ''field_worker''])])]"
    by blast
  have "r \<in> roles p \<longleftrightarrow> r = FIELD_WORKER" for r
    using verified_principal [OF p(1)] p(2,3)
    by (auto simp: claimed_roles_def keycloak_roles_def dict_get_or_def dict_get_def py_iter_def known_roles_def)
  then show ?thesis using p(1) by blast
qed

text \<open>The token of an \<open>Authorization: Bearer\<close> header.\<close>

definition bearer_token :: "http_request \<Rightarrow> string option" where
  "bearer_token req =
     (let (scheme, _, token) =
            partition_at (CHR '' '') (case req_authorization req of None \<Rightarrow> [] | Some a \<Rightarrow> a)
      in if ascii_lower scheme = ''bearer'' \<and> token \<noteq> [] then Some token else None)"

text \<open>
  C5. With authentication switched on, a request to a path that is not public
  reaches its endpoint only with the principal of a verified bearer token, and then the answer is
  the endpoint's own, counted once; without a token, or with one that is refused, it is 401
  whatever the endpoint is, and the endpoint is not run; another failure of the verifier is
  passed on.
\<close>

theorem authenticate_no_bypass:
  assumes "\<not> public_path (req_path req)" "auth_mode (settings_of E) \<noteq> ''disabled''"
  shows "authenticate E service req call_next w =
    (case bearer_token req of
       None \<Rightarrow> (Inr (unauthorized ''Bearer access token required''), w)
     | Some token \<Rightarrow>
         (case verify_token E token w of
            (Inr p, w1) \<Rightarrow>
              bnd (call_next (Some p)) (\<lambda>resp. bnd (count_request service req resp) (\<lambda>_. ret resp)) w1
          | (Inl e, w1) \<Rightarrow>
              if is_jwt_error e \<or> is_runtime_error e
              then (Inr (unauthorized ''Invalid or expired access token''), w1) else (Inl e, w1)))"
proof -
  obtain scheme sep token where parts:
    "partition_at (CHR '' '') (case req_authorization req of None \<Rightarrow> [] | Some a \<Rightarrow> a) = (scheme, sep, token)"
    by (metis prod.collapse)
  show ?thesis using assms parts
    by (auto simp: authenticate_def bearer_token_def Let_def ret_def bnd_def attempt_def throw_def
        split: prod.splits sum.splits)
qed

definition sample_app_world :: "dict list app_world" where
  "sample_app_world =
     \<lparr>tick = 0, tbl = [], producer_open = False, queue_url = None, topic_arn = None,
      kafka_sent = [], sqs_sent = [], sns_sent = [], redis_sent = [],
      http_requests = [], http_duration = []\<rparr>"

lemma authenticate_no_bypass_witness:
  "authenticate keycloak_env ''incident-service''
      \<lparr>req_method = ''GET'', req_path = ''/api/v1/incidents'', req_authorization = Some ''Basic x''\<rparr>
      (\<lambda>_. ret \<lparr>resp_status = 200, resp_body = JNull, resp_headers = []\<rparr>) sample_app_world =
    (Inr (unauthorized ''Bearer access token required''), sample_app_world)"
proof -
  let ?req = "\<lparr>req_method = ''GET'', req_path = ''/api/v1/incidents'', req_authorization = Some ''Basic x''\<rparr>"
  have "\<not> public_path (req_path ?req)" "bearer_token ?req = None"
    by (simp_all add: public_path_def starts_with_def bearer_token_def partition_at_def ascii_lower_def
        lower_char_def)
  moreover have "auth_mode (settings_of keycloak_env) \<noteq> ''disabled''"
    by (simp add: keycloak_env_def env.extend_def auth_env.fields_def)
  ultimately show ?thesis
    using authenticate_no_bypass [of ?req keycloak_env "''incident-service''"
      "\<lambda>_. ret \<lparr>resp_status = 200, resp_body = JNull, resp_headers = []\<rparr>" sample_app_world] by simp
qed

end
