(* ===== verification/Remote.thy ===== *)
theory Remote
  imports Entities
begin

text \<open>
  The services a process talks to beside the table: other services over HTTP, and the object
  store of \<open>shared/object_store.py\<close>. What another service answers, and what it does to the
  table meanwhile, is a parameter.
\<close>

section \<open>HTTP clients\<close>

record http_call =
  call_method :: string
  call_url :: string
  call_headers :: "(string \<times> string) list"
  call_body :: json

record 't http_env = "'t auth_env" +
  http_reply :: "http_call \<Rightarrow> 't \<Rightarrow> (nat \<times> json option) \<times> 't"

text \<open>The status code and, when it is JSON, the body of the response.\<close>

definition http_send ::
  "('t, 'e) http_env_scheme \<Rightarrow> http_call \<Rightarrow> (('t, 'w) world_scheme, nat \<times> json option) act" where
  "http_send E c = call E (\<lambda>w.
     let (r, t') = http_reply E c (tbl w) in (Inr r, w\<lparr>tbl := t'\<rparr>))"

definition raise_for_status :: "nat \<Rightarrow> ('w, unit) act" where
  "raise_for_status code = check (200 \<le> code \<and> code \<le> 299) (HTTPStatusError code)"

definition response_json :: "json option \<Rightarrow> ('w, json) act" where
  "response_json body = of_option (ValueError ''response is not JSON'') body"

section \<open>The object store\<close>

record stored_object =
  object_body :: string
  object_type :: string
  object_encryption :: string

record 't store_world = "'t app_world" +
  objects :: "string \<rightharpoonup> stored_object"

text \<open>\<open>get_document_store().put(key=key, body=body, content_type=content_type)\<close>\<close>

definition store_put ::
  "('t, 'e) env_scheme \<Rightarrow> string \<Rightarrow> string \<Rightarrow> string \<Rightarrow> (('t, 'w) store_world_scheme, unit) act" where
  "store_put E key body content_type =
     call E (change (\<lambda>w. w\<lparr>objects := (objects w)(key \<mapsto>
       \<lparr>object_body = body, object_type = content_type, object_encryption = ''AES256''\<rparr>)\<rparr>))"

section \<open>Uploaded files\<close>

record upload =
  up_filename :: "string option"
  up_content_type :: "string option"
  up_content :: string

text \<open>\<open>a or b\<close> on an optional string.\<close>

definition str_or :: "string option \<Rightarrow> string \<Rightarrow> string" where
  "str_or s dflt = (case s of Some (c # cs) \<Rightarrow> c # cs | _ \<Rightarrow> dflt)"

text \<open>\<open>PurePosixPath(s).name\<close>: the last component that is neither empty nor a dot.\<close>

definition path_name :: "string \<Rightarrow> string" where
  "path_name s =
     (let parts = filter (\<lambda>part. part \<noteq> [] \<and> part \<noteq> ''.'') (split_on (CHR ''/'') s)
      in if parts = [] then [] else last parts)"

lemma split_on_no_sep: "part \<in> set (split_on c s) \<Longrightarrow> c \<notin> set part"
  by (induction s arbitrary: part) (auto split: list.splits if_splits)

lemma path_name_no_slash: "CHR ''/'' \<notin> set (path_name s)"
proof -
  define parts where "parts = filter (\<lambda>part. part \<noteq> [] \<and> part \<noteq> ''.'') (split_on (CHR ''/'') s)"
  have "last parts \<in> set (split_on (CHR ''/'') s)" if "parts \<noteq> []"
    using last_in_set [OF that] by (simp add: parts_def)
  then show ?thesis
    by (auto simp: path_name_def parts_def [symmetric] Let_def dest: split_on_no_sep)
qed

end
