(* ===== verification/WorkOrder.thy ===== *)
theory WorkOrder
  imports Remote "HOL-Library.List_Lexorder" "HOL-Library.Char_ord"
begin

text \<open>
  \<open>services/work_order/app/main.py\<close>: approvals of analyses, the work orders they open, the
  evidence of the work, and the completion of an order together with its incident.
\<close>

section \<open>Models\<close>

datatype ApprovalDecision = APPROVE | APPROVE_WITH_CHANGES | REJECT

definition approval_decisions :: "(string \<times> ApprovalDecision) list" where
  "approval_decisions =
     [(''approve'', APPROVE), (''approve_with_changes'', APPROVE_WITH_CHANGES), (''reject'', REJECT)]"

fun decision_value :: "ApprovalDecision \<Rightarrow> string" where
  "decision_value APPROVE = ''approve''"
| "decision_value APPROVE_WITH_CHANGES = ''approve_with_changes''"
| "decision_value REJECT = ''reject''"

lemma approval_decisions_value [simp, codec_simps]: "map_of approval_decisions (decision_value d) = Some d"
  by (cases d) (simp_all add: approval_decisions_def)

record approval_request =
  ap_analysis_id :: string
  ap_incident_id :: string
  ap_decision :: ApprovalDecision
  ap_reviewer_id :: string
  ap_comment :: string
  ap_checklist :: "string list"

record approval_record = approval_request +
  ap_id :: string

record work_order =
  wo_id :: string
  wo_incident_id :: string
  wo_analysis_id :: string
  wo_status :: string
  wo_assignee_id :: "string option"
  wo_checklist :: "string list"
  wo_completed_items :: "string list"
  wo_photo_keys :: "string list"
  wo_field_note :: "string option"
  wo_actual_cause :: "string option"
  wo_recovery_confirmed :: bool

record work_order_completion =
  co_completed_items :: "string list"
  co_photo_keys :: "string list"
  co_field_note :: string
  co_actual_cause :: string
  co_recovery_confirmed :: bool

record work_evidence =
  ev_key :: string
  ev_filename :: string
  ev_content_type :: string

definition validate_approval_request :: "json \<Rightarrow> approval_request option" where
  "validate_approval_request v =
     field (required ''analysis_id'' read_str v) (\<lambda>aid.
     field (required ''incident_id'' read_str v) (\<lambda>iid.
     field (required ''decision'' (read_enum approval_decisions) v) (\<lambda>decision.
     field (required ''reviewer_id'' read_str v) (\<lambda>reviewer.
     field (required ''comment'' (checked (len_between 3 2000) read_str) v) (\<lambda>note.
     field (defaulted ''checklist'' [] (read_list read_str) v) (\<lambda>items.
       Some \<lparr>ap_analysis_id = aid, ap_incident_id = iid, ap_decision = decision,
             ap_reviewer_id = reviewer, ap_comment = note, ap_checklist = items\<rparr>))))))"

definition dump_approval :: "lib \<Rightarrow> approval_record \<Rightarrow> json" where
  "dump_approval L a = JObj
     [(''analysis_id'', JStr (ap_analysis_id a)),
      (''incident_id'', JStr (ap_incident_id a)),
      (''decision'', JStr (decision_value (ap_decision a))),
      (''reviewer_id'', JStr (ap_reviewer_id a)),
      (''comment'', JStr (ap_comment a)),
      (''checklist'', str_list (ap_checklist a)),
      (''id'', JStr (ap_id a))]"

definition validate_approval :: "lib \<Rightarrow> json \<Rightarrow> approval_record option" where
  "validate_approval L v =
     field (validate_approval_request v) (\<lambda>r.
     field (required ''id'' read_str v) (\<lambda>aid.
       Some (approval_request.extend r (approval_record.fields aid))))"

definition dump_work_order :: "lib \<Rightarrow> work_order \<Rightarrow> json" where
  "dump_work_order L o' = JObj
     [(''id'', JStr (wo_id o')),
      (''incident_id'', JStr (wo_incident_id o')),
      (''analysis_id'', JStr (wo_analysis_id o')),
      (''status'', JStr (wo_status o')),
      (''assignee_id'', opt_str (wo_assignee_id o')),
      (''checklist'', str_list (wo_checklist o')),
      (''completed_items'', str_list (wo_completed_items o')),
      (''photo_keys'', str_list (wo_photo_keys o')),
      (''field_note'', opt_str (wo_field_note o')),
      (''actual_cause'', opt_str (wo_actual_cause o')),
      (''recovery_confirmed'', JBool (wo_recovery_confirmed o'))]"

definition validate_work_order :: "lib \<Rightarrow> json \<Rightarrow> work_order option" where
  "validate_work_order L v =
     field (required ''id'' read_str v) (\<lambda>oid.
     field (required ''incident_id'' read_str v) (\<lambda>iid.
     field (required ''analysis_id'' read_str v) (\<lambda>aid.
     field (required ''status'' read_str v) (\<lambda>st.
     field (defaulted ''assignee_id'' None (read_opt read_str) v) (\<lambda>assignee.
     field (required ''checklist'' (read_list read_str) v) (\<lambda>items.
     field (defaulted ''completed_items'' [] (read_list read_str) v) (\<lambda>completed.
     field (defaulted ''photo_keys'' [] (read_list read_str) v) (\<lambda>photos.
     field (defaulted ''field_note'' None (read_opt read_str) v) (\<lambda>note.
     field (defaulted ''actual_cause'' None (read_opt read_str) v) (\<lambda>cause.
     field (defaulted ''recovery_confirmed'' False (read_bool L) v) (\<lambda>confirmed.
       Some \<lparr>wo_id = oid, wo_incident_id = iid, wo_analysis_id = aid, wo_status = st,
             wo_assignee_id = assignee, wo_checklist = items, wo_completed_items = completed,
             wo_photo_keys = photos, wo_field_note = note, wo_actual_cause = cause,
             wo_recovery_confirmed = confirmed\<rparr>)))))))))))"

definition validate_completion :: "lib \<Rightarrow> json \<Rightarrow> work_order_completion option" where
  "validate_completion L v =
     field (required ''completed_items'' (read_list read_str) v) (\<lambda>completed.
     field (required ''photo_keys'' (checked (\<lambda>ks. 1 \<le> length ks) (read_list read_str)) v) (\<lambda>photos.
     field (required ''field_note'' (checked (len_between 3 4000) read_str) v) (\<lambda>note.
     field (required ''actual_cause'' (checked (len_between 3 2000) read_str) v) (\<lambda>cause.
     field (required ''recovery_confirmed'' (read_bool L) v) (\<lambda>confirmed.
       Some \<lparr>co_completed_items = completed, co_photo_keys = photos, co_field_note = note,
             co_actual_cause = cause, co_recovery_confirmed = confirmed\<rparr>)))))"

definition wf_approval :: "'a approval_request_scheme \<Rightarrow> bool" where
  "wf_approval a \<longleftrightarrow> len_between 3 2000 (ap_comment a)"

abbreviation any_work_order :: "work_order \<Rightarrow> bool" where
  "any_work_order \<equiv> \<lambda>_. True"

interpretation approval_store: stored_entity dump_approval validate_approval wf_approval "''approval''"
proof
  show "key_order_blind (validate_approval L)" for L
    unfolding validate_approval_def validate_approval_request_def
    by (intro field_blind required_blind defaulted_blind const_blind checked_blind
        read_opt_blind read_list_blind scalar_readers_blind)
  show "lib_ok L \<Longrightarrow> wf_approval x \<Longrightarrow> validate_approval L (dump_approval L x) = Some x" for L x
    by (simp add: validate_approval_def validate_approval_request_def dump_approval_def codec_simps
        wf_approval_def approval_request.extend_def approval_record.fields_def)
  show "lib_ok L \<Longrightarrow> wf_approval x \<Longrightarrow> validate_approval L (stored L (dump_approval L x)) = Some x" for L x
    by (simp add: validate_approval_def validate_approval_request_def dump_approval_def codec_simps
        wf_approval_def approval_request.extend_def approval_record.fields_def)
  show "wf_approval x \<Longrightarrow> finite_numbers (dump_approval L x)" for L x
    by (simp add: dump_approval_def)
qed (simp add: entity_types_def)

interpretation work_order_store: stored_entity dump_work_order validate_work_order any_work_order "''work_order''"
proof
  show "key_order_blind (validate_work_order L)" for L
    unfolding validate_work_order_def
    by (intro field_blind required_blind defaulted_blind const_blind checked_blind
        read_opt_blind read_list_blind scalar_readers_blind)
  show "lib_ok L \<Longrightarrow> any_work_order x \<Longrightarrow> validate_work_order L (dump_work_order L x) = Some x" for L x
    by (simp add: validate_work_order_def dump_work_order_def codec_simps)
  show "lib_ok L \<Longrightarrow> any_work_order x \<Longrightarrow> validate_work_order L (stored L (dump_work_order L x)) = Some x" for L x
    by (simp add: validate_work_order_def dump_work_order_def codec_simps)
  show "any_work_order x \<Longrightarrow> finite_numbers (dump_work_order L x)" for L x
    by (simp add: dump_work_order_def)
qed (simp add: entity_types_def)

section \<open>Approvals\<close>

definition default_checklist :: "string list" where
  "default_checklist =
     [utf8_bytes [236, 158, 145, 236, 151, 133, 32, 236, 160, 132, 32, 236, 132, 164, 235, 185,
        132, 32, 236, 151, 144, 235, 132, 136, 236, 167, 128, 32, 236, 176, 168, 235, 139, 168,
        32, 236, 131, 129, 237, 131, 156, 32, 237, 153, 149, 236, 157, 184],
      utf8_bytes [234, 182, 140, 236, 158, 165, 32, 236, 160, 144, 234, 178, 128, 32, 237, 149,
        173, 235, 170, 169, 32, 236, 136, 152, 237, 150, 137],
      utf8_bytes [236, 130, 172, 236, 167, 132, 234, 179, 188, 32, 236, 158, 145, 236, 151, 133,
        32, 235, 169, 148, 235, 170, 168, 32, 235, 147, 177, 235, 161, 157],
      utf8_bytes [236, 139, 156, 237, 151, 152, 32, 234, 176, 128, 235, 143, 153, 32, 237, 155,
        132, 32, 236, 160, 149, 236, 131, 129, 32, 235, 179, 181, 234, 181, 172, 32, 237, 153,
        149, 236, 157, 184]]"

definition approval_from :: "approval_request \<Rightarrow> string \<Rightarrow> approval_record" where
  "approval_from request aid = approval_request.extend request (approval_record.fields aid)"

definition order_from :: "approval_request \<Rightarrow> string \<Rightarrow> work_order" where
  "order_from request oid =
     \<lparr>wo_id = oid, wo_incident_id = ap_incident_id request, wo_analysis_id = ap_analysis_id request,
      wo_status = ''open'', wo_assignee_id = None,
      wo_checklist = (if ap_checklist request \<noteq> [] then ap_checklist request else default_checklist),
      wo_completed_items = [], wo_photo_keys = [], wo_field_note = None, wo_actual_cause = None,
      wo_recovery_confirmed = False\<rparr>"

definition modified_needs_checklist :: exn where
  "modified_needs_checklist =
     HTTPException 422 (JStr ''A modified approval requires an updated checklist'')"

text \<open>The response is a \<open>WorkOrder\<close> or an \<open>ApprovalRecord\<close>.\<close>

definition decide_action_plan ::
  "('t, 'e) env_scheme \<Rightarrow> principal option \<Rightarrow> approval_request \<Rightarrow>
   (('t, 'w) world_scheme, work_order + approval_record) act" where
  "decide_action_plan E caller request =
     bnd (of_result (require_roles [OPERATOR_MANAGER, SYSTEM_ADMIN] caller)) (\<lambda>p.
     bnd (new_uuid E) (\<lambda>aid.
     let approval = approval_from request aid;
         dumped = dump_approval (lib_of E) approval
     in bnd (repo_put E ''approval'' (ap_id approval) dumped) (\<lambda>_.
        bnd (publish_event E ''approval.decided'' (dict_of dumped)
               (Some (ap_incident_id approval)) (Some (subject p)) False) (\<lambda>_.
        if ap_decision request = REJECT then ret (Inr approval)
        else if ap_decision request = APPROVE_WITH_CHANGES \<and> ap_checklist request = []
        then throw modified_needs_checklist
        else
          bnd (new_uuid E) (\<lambda>oid.
          let order = order_from request oid;
              dumped = dump_work_order (lib_of E) order
          in bnd (repo_put E ''work_order'' (wo_id order) dumped) (\<lambda>_.
             bnd (publish_event E ''work_order.created'' (dict_of dumped)
                    (Some (wo_incident_id order)) (Some (subject p)) False) (\<lambda>_.
             ret (Inl order))))))))"

section \<open>Reading\<close>

definition get_work_order ::
  "('t, 'e) env_scheme \<Rightarrow> string \<Rightarrow> (('t, 'w) world_scheme, work_order) act" where
  "get_work_order E work_order_id =
     bnd (repo_get E ''work_order'' work_order_id) (\<lambda>value.
     case value of
       None \<Rightarrow> throw (not_found ''Work order'')
     | Some v \<Rightarrow> validated validate_work_order E v)"

definition list_work_orders ::
  "('t, 'e) env_scheme \<Rightarrow> (('t, 'w) world_scheme, work_order list) act" where
  "list_work_orders E =
     bnd (repo_list E ''work_order'') (\<lambda>values. each (validated validate_work_order E) values)"

definition list_approvals ::
  "('t, 'e) env_scheme \<Rightarrow> (('t, 'w) world_scheme, approval_record list) act" where
  "list_approvals E =
     bnd (repo_list E ''approval'') (\<lambda>values. each (validated validate_approval E) values)"

section \<open>Evidence\<close>

definition upload_work_evidence ::
  "('t, 'e) env_scheme \<Rightarrow> principal option \<Rightarrow> string \<Rightarrow> upload \<Rightarrow>
   (('t, 'w) store_world_scheme, work_evidence) act" where
  "upload_work_evidence E caller work_order_id file =
     bnd (of_result (require_roles [FIELD_WORKER, SYSTEM_ADMIN] caller)) (\<lambda>_.
     bnd (repo_get E ''work_order'' work_order_id) (\<lambda>value.
     if value = None then throw (not_found ''Work order'')
     else
       let content_type = str_or (up_content_type file) ''application/octet-stream''
       in if \<not> starts_with content_type ''image/''
          then throw (HTTPException 415 (JStr ''Only image evidence is accepted''))
          else if 10 * 1024 * 1024 < length (up_content file)
          then throw (HTTPException 413 (JStr ''Evidence image exceeds 10 MiB''))
          else
            let safe_name = path_name (str_or (up_filename file) ''evidence.jpg'')
            in bnd (new_uuid E) (\<lambda>u.
               let key = ''work-evidence/'' @ work_order_id @ ''/'' @ u @ ''-'' @ safe_name
               in bnd (store_put E key (up_content file) content_type) (\<lambda>_.
                  ret \<lparr>ev_key = key, ev_filename = safe_name, ev_content_type = content_type\<rparr>))))"

section \<open>Completion\<close>

definition missing_items :: "work_order \<Rightarrow> work_order_completion \<Rightarrow> string set" where
  "missing_items order completion =
     set (wo_checklist order) - set (co_completed_items completion)"

definition checklist_incomplete :: "string set \<Rightarrow> exn" where
  "checklist_incomplete missing =
     HTTPException 409
       (JObj [(''message'', JStr ''Checklist is incomplete''),
              (''missing'', str_list (sorted_list_of_set missing))])"

definition completed_order :: "work_order \<Rightarrow> work_order_completion \<Rightarrow> work_order" where
  "completed_order order completion =
     order\<lparr>wo_status := ''resolved'',
           wo_completed_items := co_completed_items completion,
           wo_photo_keys := co_photo_keys completion,
           wo_field_note := Some (co_field_note completion),
           wo_actual_cause := Some (co_actual_cause completion),
           wo_recovery_confirmed := True\<rparr>"

text \<open>The incident of the order: the incident service is asked, or its record is overwritten.\<close>

definition resolve_remotely ::
  "('t, 'e) http_env_scheme \<Rightarrow> string option \<Rightarrow> string \<Rightarrow> string \<Rightarrow>
   (('t, 'w) world_scheme, unit) act" where
  "resolve_remotely E authorization url incident_id =
     bnd (http_send E
            \<lparr>call_method = ''PATCH'',
             call_url = url @ ''/api/v1/incidents/'' @ incident_id @ ''/status'',
             call_headers = [(''Authorization'', case authorization of None \<Rightarrow> [] | Some a \<Rightarrow> a)],
             call_body = JObj [(''status'', JStr ''resolved'')]\<rparr>) (\<lambda>(code, _).
     raise_for_status code)"

definition resolve_locally ::
  "('t, 'e) env_scheme \<Rightarrow> string \<Rightarrow> (('t, 'w) world_scheme, unit) act" where
  "resolve_locally E incident_id =
     bnd (repo_get E ''incident'' incident_id) (\<lambda>incident.
     case incident of
       None \<Rightarrow> ret ()
     | Some (JObj d) \<Rightarrow>
         (let v' = JObj (dict_set ''status'' (JStr ''resolved'') d)
          in bnd (repo_put E ''incident'' incident_id v') (\<lambda>_.
             only_if (websocket_broker (settings_of E) = ''redis'')
               (realtime_publish E ''ax-sentinel.incidents'' v')))
     | Some _ \<Rightarrow> throw (TypeError ''object does not support item assignment''))"

definition resolve_incident ::
  "('t, 'e) http_env_scheme \<Rightarrow> string option \<Rightarrow> string \<Rightarrow> (('t, 'w) world_scheme, unit) act" where
  "resolve_incident E authorization incident_id =
     (case incident_service_url (settings_of E) of
        Some (c # url) \<Rightarrow> resolve_remotely E authorization (c # url) incident_id
      | _ \<Rightarrow> resolve_locally E incident_id)"

definition complete_work_order ::
  "('t, 'e) http_env_scheme \<Rightarrow> principal option \<Rightarrow> string option \<Rightarrow> string \<Rightarrow>
   work_order_completion \<Rightarrow> (('t, 'w) world_scheme, work_order) act" where
  "complete_work_order E caller authorization work_order_id completion =
     bnd (of_result (require_roles [FIELD_WORKER, SYSTEM_ADMIN] caller)) (\<lambda>p.
     bnd (repo_get E ''work_order'' work_order_id) (\<lambda>value.
     case value of
       None \<Rightarrow> throw (not_found ''Work order'')
     | Some v \<Rightarrow>
         if \<not> co_recovery_confirmed completion
         then throw (HTTPException 409 (JStr ''Recovery must be confirmed''))
         else
           bnd (validated validate_work_order E v) (\<lambda>order.
           if missing_items order completion \<noteq> {}
           then throw (checklist_incomplete (missing_items order completion))
           else
             let order = completed_order order completion;
                 dumped = dump_work_order (lib_of E) order
             in bnd (repo_put E ''work_order'' (wo_id order) dumped) (\<lambda>_.
                bnd (resolve_incident E authorization (wo_incident_id order)) (\<lambda>_.
                bnd (publish_event E ''work_order.completed'' (dict_of dumped)
                       (Some (wo_incident_id order)) (Some (subject p)) False) (\<lambda>_.
                ret order))))))"

end
