(* ===== verification/WorkOrderProperties.thy ===== *)
theory WorkOrderProperties
  imports WorkOrder IncidentProperties
begin

text \<open>
  The properties of the work order service: the branches of an approval, the evidence that is
  accepted, and the completion of an order with what it does to the incident.
\<close>

section \<open>Overwriting a stored record\<close>

text \<open>What came from the table may go back to it: storing preserves equality up to key order.\<close>

lemma stored_same: "same_value a b \<Longrightarrow> same_value (stored L a) (stored L b)"
proof (induction rule: same_value.induct)
  case (same_list xs ys)
  have "list_all2 same_value (map (stored L) xs) (map (stored L) ys)"
    using same_list by (auto simp: list_all2_conv_all_nth)
  then show ?case by (simp add: same_value.same_list)
next
  case (same_obj xs ys)
  have "rel_option same_value (map_option (stored L) (map_of xs k)) (map_option (stored L) (map_of ys k))" for k
    using same_obj.IH [of k] by (cases "map_of xs k"; cases "map_of ys k") auto
  then show ?case by (auto intro: same_value.same_obj)
qed auto

lemma same_dict_set:
  assumes "same_value (JObj xs) (JObj ys)"
  shows "same_value (JObj (dict_set k v xs)) (JObj (dict_set k v ys))"
proof (rule same_value.same_obj)
  fix j
  have "rel_option same_value (map_of xs j) (map_of ys j)" using assms by (auto elim: same_obj_l)
  then show "rel_option same_value (map_of (dict_set k v xs) j) (map_of (dict_set k v ys) j)"
    by (simp add: dict_set_def update_conv')
qed

lemma set_dict_set: "set (dict_set k v d) \<subseteq> insert (k, v) (set d)"
  unfolding dict_set_def by (induction d) auto

lemma finite_dict_set: "finite_numbers v \<Longrightarrow> finite_numbers (JObj (dict_set k (JStr s) (dict_of v)))"
  using set_dict_set [of k "JStr s" "dict_of v"]
  by (cases v) (auto simp: list_all_iff dict_of_def dict_set_def)

lemma read_float_stored_twice [codec_simps]:
  assumes "lib_ok L" "finite_double f"
  shows "read_float L (stored L (stored L (JFloat f))) = Some f"
proof -
  obtain x where x: "f = Fin x" "to_float x = Fin x" using assms(2) by (cases f) (auto simp: finite_double_def)
  then have r: "to_float (float_repr L x) = Fin x" using assms(1) by (simp add: lib_ok_repr)
  show ?thesis
  proof (cases "is_integral (float_repr L x)")
    case True
    then obtain n where "float_repr L x = of_int n" by (metis is_integral_def)
    then show ?thesis using x r by (simp add: stored_def json_default_def decimal_of_float_def)
  next
    case False
    then show ?thesis using x r by (simp add: stored_def json_default_def decimal_of_float_def)
  qed
qed

lemma stored_again:
  assumes "lib_ok L" "wf_incident i"
  shows "validate_incident L (stored L (stored L (dump_incident L i))) = Some i"
  using assms
  by (simp add: validate_incident_def dump_incident_def validate_virtual_incident_def
      dump_virtual_incident_def codec_simps wf_incident_def wf_virtual_incident_def del: stored_simps(4))

lemma resolved_record:
  assumes "same_value (stored L (dump_incident L i)) v"
  shows "same_value (stored L (dump_incident L (i\<lparr>inc_status := RESOLVED\<rparr>)))
    (JObj (dict_set ''status'' (JStr ''resolved'') (dict_of v)))"
proof -
  obtain xs where xs: "stored L (dump_incident L i) = JObj xs" by (simp add: dump_incident_def)
  then obtain ys where ys: "v = JObj ys" using assms by (auto elim: same_obj_l)
  have "stored L (dump_incident L (i\<lparr>inc_status := RESOLVED\<rparr>)) = JObj (dict_set ''status'' (JStr ''resolved'') xs)"
    using xs by (auto simp: dump_incident_def dict_set_def)
  then show ?thesis using same_dict_set assms xs ys by simp
qed

text \<open>The record of an incident in the table is the one a service wrote for it.\<close>

definition incident_record :: "('t, 'e) env_scheme \<Rightarrow> 't \<Rightarrow> string \<Rightarrow> incident \<Rightarrow> bool" where
  "incident_record E t iid i \<longleftrightarrow> wf_incident i \<and>
     (\<exists>v. view (dynamo_of E) t ''incident'' iid = Some v \<and> finite_numbers v \<and>
          same_value (stored (lib_of E) (dump_incident (lib_of E) i)) v)"

lemma resolve_locally_run:
  fixes E :: "('t, 'e) env_scheme" and w :: "('t, 'w) world_scheme"
  assumes q: "quiet E" and tok: "table_ok (dynamo_of E) (tbl w)" and ro: "realtime_ok E"
    and i: "incident_record E (tbl w) iid i"
  shows "\<exists>w'. resolve_locally E iid w = (Inr (), w') \<and> table_ok (dynamo_of E) (tbl w') \<and>
    load_incident E (tbl w') iid = Some (i\<lparr>inc_status := RESOLVED\<rparr>) \<and>
    same_elsewhere (dynamo_of E) (tbl w) (tbl w') ''incident'' iid \<and>
    kafka_sent w' = kafka_sent w \<and> world.more w' = world.more w"
proof -
  obtain v where v: "view (dynamo_of E) (tbl w) ''incident'' iid = Some v" "finite_numbers v"
    "same_value (stored (lib_of E) (dump_incident (lib_of E) i)) v" and wf: "wf_incident i"
    using i by (auto simp: incident_record_def)
  define i' where "i' = i\<lparr>inc_status := RESOLVED\<rparr>"
  define v' where "v' = JObj (dict_set ''status'' (JStr ''resolved'') (dict_of v))"
  obtain dict where dict: "v = JObj dict"
    using v(3) by (auto simp: stored_def dump_incident_def elim: same_obj_l)
  have L: "lib_ok (lib_of E)" using q by (simp add: quiet_def)
  have same: "same_value (stored (lib_of E) (dump_incident (lib_of E) i')) v'"
    using resolved_record [OF v(3)] by (simp add: i'_def v'_def)
  have wf': "wf_incident i'" using wf by (simp add: i'_def wf_incident_def)
  have "finite_numbers v'" unfolding v'_def using v(2) by (rule finite_dict_set)
  then have "storable (dynamodb_value (float_repr (lib_of E)) v')" by (rule dynamodb_value_storable)
  moreover define w1 where "w1 = w\<lparr>tick := Suc (tick w)\<rparr>"
  ultimately obtain t' d where
    p: "repo_put E ''incident'' iid v' w1 = (Inr (), w1\<lparr>tick := tick w1 + 3, tbl := t'\<rparr>)"
    "table_ok (dynamo_of E) t'" "view (dynamo_of E) t' ''incident'' iid = Some d"
    "same_value (stored (lib_of E) v') d"
    "\<forall>k. k \<noteq> entity_key ''incident'' iid \<longrightarrow> get_item (dynamo_of E) t' k = get_item (dynamo_of E) (tbl w1) k"
    using repo_put_quiet [OF q, of w1 v' "''incident''" iid] tok by (auto simp: w1_def)
  have "validate_incident (lib_of E) d = Some i'"
    using key_order_blindD [OF incident_store.blind p(4)] key_order_blindD [OF incident_store.blind stored_same [OF same]]
      stored_again [OF L wf'] by metis
  then have load: "load_incident E t' iid = Some i'" using p(3) by (simp add: load_as_Some)
  have else': "same_elsewhere (dynamo_of E) (tbl w) t' ''incident'' iid"
    unfolding same_elsewhere_def
  proof (intro allI impI)
    fix et eid' assume "et \<in> set entity_types" "et \<noteq> ''incident'' \<or> eid' \<noteq> iid"
    then have "entity_key et eid' \<noteq> entity_key ''incident'' iid"
      by (intro entity_key_other) (auto simp: entity_types_def)
    from p(5) [rule_format, OF this]
    show "view (dynamo_of E) t' et eid' = view (dynamo_of E) (tbl w) et eid'"
      by (simp add: view_def w1_def)
  qed
  have run: "resolve_locally E iid w = only_if (websocket_broker (settings_of E) = ''redis'')
      (realtime_publish E ''ax-sentinel.incidents'' v') (w1\<lparr>tick := tick w1 + 3, tbl := t'\<rparr>)"
    using repo_get_quiet [OF q tok, of "''incident''" iid] v(1) p(1)
    by (simp add: resolve_locally_def bnd_def Let_def v'_def w1_def dict)
  show ?thesis
  proof (cases "websocket_broker (settings_of E) = ''redis''")
    case True
    then show ?thesis using run ro p(2) load else'
      by (simp add: realtime_publish_def get_realtime_bus_def bus_publish_def realtime_ok_def act_simps
          quiet_call [OF q] check_simps w1_def i'_def)
  next
    case False
    then show ?thesis using run p(2) load else'
      by (intro exI [of _ "w1\<lparr>tick := tick w1 + 3, tbl := t'\<rparr>"]) (simp add: act_simps w1_def i'_def)
  qed
qed

section \<open>Approvals\<close>

abbreviation load_order :: "('t, 'e) env_scheme \<Rightarrow> 't \<Rightarrow> string \<Rightarrow> work_order option" where
  "load_order E t oid \<equiv> load_as (validate_work_order (lib_of E)) (dynamo_of E) t ''work_order'' oid"

abbreviation load_approval :: "('t, 'e) env_scheme \<Rightarrow> 't \<Rightarrow> string \<Rightarrow> approval_record option" where
  "load_approval E t aid \<equiv> load_as (validate_approval (lib_of E)) (dynamo_of E) t ''approval'' aid"

lemma order_event_types [simp]:
  "len_between 1 200 ''approval.decided''" "len_between 1 200 ''work_order.created''"
  "len_between 1 200 ''work_order.completed''"
  by code_simp+

lemma approval_from_simps [simp]:
  "ap_id (approval_from r aid) = aid" "ap_incident_id (approval_from r aid) = ap_incident_id r"
  "wf_approval (approval_from r aid) = wf_approval r"
  by (simp_all add: approval_from_def approval_request.extend_def approval_record.fields_def wf_approval_def)

lemma order_from_simps [simp]:
  "wo_id (order_from r oid) = oid" "wo_incident_id (order_from r oid) = ap_incident_id r"
  "wo_checklist (order_from r oid) \<noteq> []" "wo_status (order_from r oid) = ''open''"
  by (simp_all add: order_from_def default_checklist_def)

lemma approval_saved:
  assumes "quiet E" "can_publish E False" "table_ok (dynamo_of E) (tbl w)" "wf_approval a"
  shows "\<exists>e w'. bnd (repo_put E ''approval'' (ap_id a) (dump_approval (lib_of E) a)) (\<lambda>_.
      publish_event E ''approval.decided'' pl key actor False) w = (Inr e, w') \<and>
    announced E ''approval.decided'' pl key actor w w' \<and> table_ok (dynamo_of E) (tbl w') \<and>
    load_approval E (tbl w') (ap_id a) = Some a \<and>
    same_elsewhere (dynamo_of E) (tbl w) (tbl w') ''approval'' (ap_id a)"
  using approval_store.save_announce [OF assms(1,3,4,2) order_event_types(1), of "ap_id a" pl key actor]
  by blast

lemma order_saved:
  assumes "quiet E" "can_publish E False" "table_ok (dynamo_of E) (tbl w)"
  shows "\<exists>e w'. bnd (repo_put E ''work_order'' (wo_id x) (dump_work_order (lib_of E) x)) (\<lambda>_.
      publish_event E ''work_order.created'' pl key actor False) w = (Inr e, w') \<and>
    announced E ''work_order.created'' pl key actor w w' \<and> table_ok (dynamo_of E) (tbl w') \<and>
    load_order E (tbl w') (wo_id x) = Some x \<and>
    same_elsewhere (dynamo_of E) (tbl w) (tbl w') ''work_order'' (wo_id x)"
  using work_order_store.save_announce [OF assms(1,3) TrueI assms(2) order_event_types(2),
      of "wo_id x" x pl key actor] by blast

lemma table_ok_tick [simp]: "tbl (w\<lparr>tick := n\<rparr>) = tbl w"
  by simp

lemma decide_run:
  assumes q: "quiet E" and can: "can_publish E False" and tok: "table_ok (dynamo_of E) (tbl w)"
    and wf: "wf_approval request" and p: "require_roles [OPERATOR_MANAGER, SYSTEM_ADMIN] caller = Inr p"
  shows "\<exists>aid w1. let a = approval_from request aid in
    load_approval E (tbl w1) aid = Some a \<and> table_ok (dynamo_of E) (tbl w1) \<and>
    same_elsewhere (dynamo_of E) (tbl w) (tbl w1) ''approval'' aid \<and>
    announced E ''approval.decided'' (dict_of (dump_approval (lib_of E) a))
      (Some (ap_incident_id request)) (Some (subject p)) w w1 \<and>
    (if ap_decision request = REJECT then decide_action_plan E caller request w = (Inr (Inr a), w1)
     else if ap_decision request = APPROVE_WITH_CHANGES \<and> ap_checklist request = []
     then decide_action_plan E caller request w = (Inl modified_needs_checklist, w1)
     else \<exists>oid w2. let x = order_from request oid in
       decide_action_plan E caller request w = (Inr (Inl x), w2) \<and> wo_checklist x \<noteq> [] \<and>
       load_order E (tbl w2) oid = Some x \<and>
       same_elsewhere (dynamo_of E) (tbl w1) (tbl w2) ''work_order'' oid \<and>
       announced E ''work_order.created'' (dict_of (dump_work_order (lib_of E) x))
         (Some (ap_incident_id request)) (Some (subject p)) w1 w2)"
proof -
  define aid where "aid = uuid_at E (tick w)"
  define a where "a = approval_from request aid"
  define w0 where "w0 = w\<lparr>tick := Suc (tick w)\<rparr>"
  have a: "ap_id a = aid" "ap_incident_id a = ap_incident_id request" "wf_approval a"
    using wf by (simp_all add: a_def)
  have tok0: "table_ok (dynamo_of E) (tbl w0)" using tok by (simp add: w0_def)
  obtain e w1 where
    s: "bnd (repo_put E ''approval'' aid (dump_approval (lib_of E) a)) (\<lambda>_.
      publish_event E ''approval.decided'' (dict_of (dump_approval (lib_of E) a))
        (Some (ap_incident_id request)) (Some (subject p)) False) w0 = (Inr e, w1)"
    and f: "announced E ''approval.decided'' (dict_of (dump_approval (lib_of E) a))
        (Some (ap_incident_id request)) (Some (subject p)) w0 w1"
    "table_ok (dynamo_of E) (tbl w1)" "load_approval E (tbl w1) aid = Some a"
    "same_elsewhere (dynamo_of E) (tbl w0) (tbl w1) ''approval'' aid"
    using approval_saved [OF q can tok0 a(3)] unfolding a(1) by metis
  have head: "decide_action_plan E caller request w =
     (if ap_decision request = REJECT then ret (Inr a)
      else if ap_decision request = APPROVE_WITH_CHANGES \<and> ap_checklist request = []
      then throw modified_needs_checklist
      else
        bnd (new_uuid E) (\<lambda>oid.
        let order = order_from request oid;
            dumped = dump_work_order (lib_of E) order
        in bnd (repo_put E ''work_order'' (wo_id order) dumped) (\<lambda>_.
           bnd (publish_event E ''work_order.created'' (dict_of dumped)
                  (Some (wo_incident_id order)) (Some (subject p)) False) (\<lambda>_.
           ret (Inl order))))) w1"
    using p a(1,2)
    by (simp add: decide_action_plan_def act_simps bnd_def [of "new_uuid _"] new_uuid_def Let_def
        bnd_two [OF s] flip: aid_def a_def w0_def)
  show ?thesis
  proof (cases "ap_decision request = REJECT \<or> ap_decision request = APPROVE_WITH_CHANGES \<and> ap_checklist request = []")
    case True
    then show ?thesis using head f
      by (intro exI [of _ aid] exI [of _ w1])
        (auto simp: Let_def act_simps w0_def simp flip: a_def)
  next
    case False
    define x where "x = order_from request (uuid_at E (tick w1))"
    define w2 where "w2 = w1\<lparr>tick := Suc (tick w1)\<rparr>"
    have x: "wo_id x = uuid_at E (tick w1)" "wo_incident_id x = ap_incident_id request" by (simp_all add: x_def)
    have tok2: "table_ok (dynamo_of E) (tbl w2)" using f(2) by (simp add: w2_def)
    obtain e' w3 where
      s': "bnd (repo_put E ''work_order'' (wo_id x) (dump_work_order (lib_of E) x)) (\<lambda>_.
        publish_event E ''work_order.created'' (dict_of (dump_work_order (lib_of E) x))
          (Some (wo_incident_id x)) (Some (subject p)) False) w2 = (Inr e', w3)"
      and g: "announced E ''work_order.created'' (dict_of (dump_work_order (lib_of E) x))
          (Some (wo_incident_id x)) (Some (subject p)) w2 w3"
      "load_order E (tbl w3) (wo_id x) = Some x"
      "same_elsewhere (dynamo_of E) (tbl w2) (tbl w3) ''work_order'' (wo_id x)"
      using order_saved [OF q can tok2] by metis
    have "decide_action_plan E caller request w = (Inr (Inl x), w3)"
      using False x unfolding head
      by (auto simp: bnd_def [of "new_uuid _"] new_uuid_def Let_def bnd_two [OF s', unfolded x] act_simps
          simp flip: x_def w2_def)
    then show ?thesis using False f g x
      by (intro exI [of _ aid] exI [of _ w1])
        (auto simp: Let_def w0_def w2_def a_def [symmetric] x_def)
  qed
qed

text \<open>
  C20. A decision by an authorised reviewer always leaves an approval
  record and its announcement behind, also when the answer is the 422 for a modification without
  a checklist; a rejection answers with the record and opens nothing; every other decision opens
  one work order for the incident with a non-empty checklist, stored and announced, and changes
  no other entity. Without the role nothing happens.
\<close>

theorem decide_action_plan_branches:
  assumes "quiet E" "can_publish E False" "table_ok (dynamo_of E) (tbl w)" "wf_approval request"
  shows "case require_roles [OPERATOR_MANAGER, SYSTEM_ADMIN] caller of
      Inl e \<Rightarrow> decide_action_plan E caller request w = (Inl e, w)
    | Inr p \<Rightarrow>
      \<exists>aid w1. let a = approval_from request aid in
        load_approval E (tbl w1) aid = Some a \<and> table_ok (dynamo_of E) (tbl w1) \<and>
        same_elsewhere (dynamo_of E) (tbl w) (tbl w1) ''approval'' aid \<and>
        announced E ''approval.decided'' (dict_of (dump_approval (lib_of E) a))
          (Some (ap_incident_id request)) (Some (subject p)) w w1 \<and>
        (if ap_decision request = REJECT then decide_action_plan E caller request w = (Inr (Inr a), w1)
         else if ap_decision request = APPROVE_WITH_CHANGES \<and> ap_checklist request = []
         then decide_action_plan E caller request w = (Inl modified_needs_checklist, w1)
         else \<exists>oid w2. let x = order_from request oid in
           decide_action_plan E caller request w = (Inr (Inl x), w2) \<and> wo_checklist x \<noteq> [] \<and>
           load_order E (tbl w2) oid = Some x \<and>
           same_elsewhere (dynamo_of E) (tbl w1) (tbl w2) ''work_order'' oid \<and>
           announced E ''work_order.created'' (dict_of (dump_work_order (lib_of E) x))
             (Some (ap_incident_id request)) (Some (subject p)) w1 w2)"
proof (cases "require_roles [OPERATOR_MANAGER, SYSTEM_ADMIN] caller")
  case (Inl e)
  then show ?thesis by (simp add: decide_action_plan_def act_simps)
next
  case (Inr p)
  show ?thesis using decide_run [OF assms Inr] unfolding Inr sum.case .
qed

definition sample_approval :: "ApprovalDecision \<Rightarrow> approval_request" where
  "sample_approval d =
     \<lparr>ap_analysis_id = ''a1'', ap_incident_id = ''i1'', ap_decision = d, ap_reviewer_id = ''r1'',
      ap_comment = ''looks right'', ap_checklist = []\<rparr>"

lemma sample_approval_wf: "wf_approval (sample_approval d)"
  unfolding wf_approval_def sample_approval_def by simp code_simp

lemma sample_can_publish: "can_publish sample_env alert"
  by (simp add: can_publish_def default_settings_def supported_bus_def)

lemma decide_action_plan_branches_witness:
  "\<exists>aid w1. decide_action_plan sample_env (Some (sample_principal SYSTEM_ADMIN))
      (sample_approval APPROVE_WITH_CHANGES) (sample_world []) = (Inl modified_needs_checklist, w1) \<and>
    load_approval sample_env (tbl w1) aid = Some (approval_from (sample_approval APPROVE_WITH_CHANGES) aid)"
  using decide_action_plan_branches [OF sample_quiet sample_can_publish, of "sample_world []"
      "sample_approval APPROVE_WITH_CHANGES" "Some (sample_principal SYSTEM_ADMIN)"]
    sample_approval_wf [of APPROVE_WITH_CHANGES] sample_table_ok_empty
  by (auto simp: require_roles_def sample_principal_def sample_approval_def Let_def)

section \<open>Completion\<close>

text \<open>
  C21. An order is completed only by a caller with the role, if it exists, the
  recovery is confirmed, the record is readable and every item of its checklist is reported done;
  each refusal says which of these failed (the missing items in order) and leaves the table and
  the events as they were.
\<close>

theorem completion_refused:
  assumes "quiet E" "table_ok (dynamo_of E) (tbl w)"
  shows "case require_roles [FIELD_WORKER, SYSTEM_ADMIN] caller of
      Inl e \<Rightarrow> complete_work_order E caller auth oid c w = (Inl e, w)
    | Inr p \<Rightarrow>
       (let refused = (\<lambda>e. complete_work_order E caller auth oid c w = (Inl e, w\<lparr>tick := Suc (tick w)\<rparr>)) in
        case view (dynamo_of E) (tbl w) ''work_order'' oid of
          None \<Rightarrow> refused (not_found ''Work order'')
        | Some v \<Rightarrow>
            if \<not> co_recovery_confirmed c
            then refused (HTTPException 409 (JStr ''Recovery must be confirmed''))
            else
              (case validate_work_order (lib_of E) v of
                 None \<Rightarrow> refused ValidationError
               | Some x \<Rightarrow>
                   \<not> set (wo_checklist x) \<subseteq> set (co_completed_items c) \<longrightarrow>
                   refused (checklist_incomplete (set (wo_checklist x) - set (co_completed_items c)))))"
proof (cases "require_roles [FIELD_WORKER, SYSTEM_ADMIN] caller")
  case (Inl e)
  then show ?thesis by (simp add: complete_work_order_def act_simps)
next
  case (Inr p)
  show ?thesis using Inr repo_get_quiet [OF assms, of "''work_order''" oid]
    by (auto simp: complete_work_order_def act_simps bnd_def Let_def missing_items_def split: option.splits)
qed

definition sample_order :: work_order where
  "sample_order = (order_from (sample_approval APPROVE) ''o1'')\<lparr>wo_checklist := [''lock out'', ''test run'']\<rparr>"

definition sample_order_table :: "dict list" where
  "sample_order_table =
     [sample_item ''work_order'' ''o1'' 1 (JObj (dict_of (dump_work_order sample_lib sample_order))),
      sample_item ''incident'' ''i1'' 1 (JObj (dict_of (dump_incident sample_lib (sample_incident DETECTED))))]"

definition sample_completion :: "string list \<Rightarrow> work_order_completion" where
  "sample_completion done_items =
     \<lparr>co_completed_items = done_items, co_photo_keys = [''k1''], co_field_note = ''all done'',
      co_actual_cause = ''worn seal'', co_recovery_confirmed = True\<rparr>"

definition sample_http_env :: "string option \<Rightarrow> dict list http_env" where
  "sample_http_env url =
     \<lparr>settings_of = default_settings\<lparr>incident_service_url := url, event_bus := ''kafka''\<rparr>,
      lib_of = sample_lib, dynamo_of = mem_dynamo, others = (\<lambda>_ t. t), outcome_at = (\<lambda>_. Done),
      now_at = int, uuid_at = (\<lambda>n. ''id-'' @ str_of_nat n),
      queue_url_of = (\<lambda>q. ''http://sqs/'' @ q), topic_arns = [], list_fuel = 100,
      jwt_decode = (\<lambda>jwks_url token issuer audience. Inl (PyJWTError ''none'')),
      http_reply = (\<lambda>c t. ((409, None), t))\<rparr>"

lemma sample_http_simps [simp]:
  "dynamo_of (sample_http_env url) = mem_dynamo" "lib_of (sample_http_env url) = sample_lib"
  "settings_of (sample_http_env url) = default_settings\<lparr>incident_service_url := url, event_bus := ''kafka''\<rparr>"
  "http_reply (sample_http_env url) = (\<lambda>c t. ((409, None), t))"
  "outcome_at (sample_http_env url) = (\<lambda>_. Done)" "others (sample_http_env url) = (\<lambda>_ t. t)"
  by (simp_all add: sample_http_env_def)

lemma sample_http_quiet: "quiet (sample_http_env url)"
  by (simp add: quiet_def reliable_def alone_def mem_dynamo_ok sample_lib_ok)

lemma sample_order_loads:
  "view mem_dynamo sample_order_table ''work_order'' ''o1'' =
     Some (stored sample_lib (dump_work_order sample_lib sample_order))"
  "validate_work_order sample_lib (stored sample_lib (dump_work_order sample_lib sample_order)) = Some sample_order"
  "view mem_dynamo sample_order_table ''incident'' ''i1'' =
     Some (stored sample_lib (dump_incident sample_lib (sample_incident DETECTED)))"
  "table_ok mem_dynamo sample_order_table"
  using work_order_store.read_stored [OF sample_lib_ok, of sample_order]
  by (auto simp: sample_order_table_def dump_work_order_def dump_incident_def entity_key_def
      sample_item_ok ascii_upper_def upper_char_def intro!: sample_table_ok)

lemma completion_refused_witness:
  "complete_work_order (sample_http_env None) (Some (sample_principal FIELD_WORKER)) None ''o1''
      (sample_completion [''lock out'']) (sample_world sample_order_table) =
    (Inl (checklist_incomplete {''test run''}), (sample_world sample_order_table)\<lparr>tick := 1\<rparr>)"
  using completion_refused [OF sample_http_quiet [of None], of "sample_world sample_order_table"
      "Some (sample_principal FIELD_WORKER)" None "''o1''" "sample_completion [''lock out'']"]
    sample_order_loads
  by (simp add: require_roles_def sample_principal_def sample_completion_def sample_order_def Let_def
      insert_Diff_if)

lemma completion_started:
  fixes E :: "('t, 'e) http_env_scheme" and w :: "('t, 'w) world_scheme"
  assumes q: "quiet E" and tok: "table_ok (dynamo_of E) (tbl w)"
    and p: "require_roles [FIELD_WORKER, SYSTEM_ADMIN] caller = Inr p"
    and x: "load_order E (tbl w) oid = Some x" "wo_id x = oid"
    and c: "co_recovery_confirmed c" "set (wo_checklist x) \<subseteq> set (co_completed_items c)"
  shows "\<exists>n t'. let x' = completed_order x c; w1 = w\<lparr>tick := n, tbl := t'\<rparr> in
    complete_work_order E caller auth oid c w =
      bnd (resolve_incident E auth (wo_incident_id x)) (\<lambda>_.
      bnd (publish_event E ''work_order.completed'' (dict_of (dump_work_order (lib_of E) x'))
        (Some (wo_incident_id x)) (Some (subject p)) False) (\<lambda>_. ret x')) w1 \<and>
    table_ok (dynamo_of E) t' \<and> load_order E t' oid = Some x' \<and>
    same_elsewhere (dynamo_of E) (tbl w) t' ''work_order'' oid"
proof -
  obtain v where v: "view (dynamo_of E) (tbl w) ''work_order'' oid = Some v"
    "validate_work_order (lib_of E) v = Some x" using x(1) by (auto simp: load_as_Some)
  define x' where "x' = completed_order x c"
  have x': "wo_id x' = oid" "wo_incident_id x' = wo_incident_id x" using x(2)
    by (simp_all add: x'_def completed_order_def)
  define w0 where "w0 = w\<lparr>tick := Suc (tick w)\<rparr>"
  have "table_ok (dynamo_of E) (tbl w0)" using tok by (simp add: w0_def)
  from work_order_store.save [OF q this TrueI, of oid x'] obtain t' where
    s: "repo_put E ''work_order'' oid (dump_work_order (lib_of E) x') w0 =
      (Inr (), w0\<lparr>tick := tick w0 + 3, tbl := t'\<rparr>)"
    and t: "table_ok (dynamo_of E) t'" "load_order E t' oid = Some x'"
    "same_elsewhere (dynamo_of E) (tbl w0) t' ''work_order'' oid" unfolding same_elsewhere_def by blast
  have "complete_work_order E caller auth oid c w =
      bnd (resolve_incident E auth (wo_incident_id x)) (\<lambda>_.
      bnd (publish_event E ''work_order.completed'' (dict_of (dump_work_order (lib_of E) x'))
        (Some (wo_incident_id x)) (Some (subject p)) False) (\<lambda>_. ret x')) (w\<lparr>tick := 4 + tick w, tbl := t'\<rparr>)"
    using p v c x' repo_get_quiet [OF q tok, of "''work_order''" oid] s
    by (simp add: complete_work_order_def act_simps bnd_def [of "repo_get _ _ _"]
        bnd_def [of "validated _ _ _"] missing_items_def Let_def x'_def [symmetric] w0_def
        bnd_def [of "repo_put _ _ _ _"])
  then show ?thesis using t by (auto simp: Let_def x'_def w0_def)
qed

text \<open>
  C7. An accepted completion, when the incident is kept in the same
  table, stores the order as resolved with what was reported, sets the incident of the order to
  resolved whatever its status was (the transition table of the incident service is not
  consulted), announces the completion once, and changes no other entity.
\<close>

theorem completion_resolves_incident:
  fixes E :: "('t, 'e) http_env_scheme" and w :: "('t, 'w) world_scheme"
  assumes "quiet E" "can_publish E False" "realtime_ok E" "table_ok (dynamo_of E) (tbl w)"
    and "\<not> is_set (incident_service_url (settings_of E))"
    and "require_roles [FIELD_WORKER, SYSTEM_ADMIN] caller = Inr p"
    and "load_order E (tbl w) oid = Some x" "wo_id x = oid"
    and "co_recovery_confirmed c" "set (wo_checklist x) \<subseteq> set (co_completed_items c)"
    and "incident_record E (tbl w) (wo_incident_id x) i"
  shows "\<exists>w'. complete_work_order E caller auth oid c w = (Inr (completed_order x c), w') \<and>
    load_order E (tbl w') oid = Some (completed_order x c) \<and>
    load_incident E (tbl w') (wo_incident_id x) = Some (i\<lparr>inc_status := RESOLVED\<rparr>) \<and>
    (\<forall>et eid. et \<in> set entity_types \<longrightarrow>
       (et, eid) \<noteq> (''work_order'', oid) \<longrightarrow> (et, eid) \<noteq> (''incident'', wo_incident_id x) \<longrightarrow>
       view (dynamo_of E) (tbl w') et eid = view (dynamo_of E) (tbl w) et eid) \<and>
    announced E ''work_order.completed''
      (dict_of (dump_work_order (lib_of E) (completed_order x c)))
      (Some (wo_incident_id x)) (Some (subject p)) w w'"
proof -
  let ?D = "dynamo_of E" and ?x = "completed_order x c" and ?iid = "wo_incident_id x"
  obtain n t' where
    head: "complete_work_order E caller auth oid c w =
      bnd (resolve_incident E auth ?iid) (\<lambda>_.
      bnd (publish_event E ''work_order.completed'' (dict_of (dump_work_order (lib_of E) ?x))
        (Some ?iid) (Some (subject p)) False) (\<lambda>_. ret ?x)) (w\<lparr>tick := n, tbl := t'\<rparr>)"
    and f: "table_ok ?D t'" "load_order E t' oid = Some ?x"
    "same_elsewhere ?D (tbl w) t' ''work_order'' oid"
    using completion_started [OF assms(1,4,6-10), of auth] unfolding Let_def by blast
  define w1 where "w1 = w\<lparr>tick := n, tbl := t'\<rparr>"
  have "view ?D t' ''incident'' ?iid = view ?D (tbl w) ''incident'' ?iid"
    using f(3) by (rule same_elsewhereD) (simp_all add: entity_types_def)
  then have "incident_record E (tbl w1) ?iid i" using assms(11) by (simp add: incident_record_def w1_def)
  from resolve_locally_run [OF assms(1) _ assms(3) this] f(1) obtain w2 where
    r: "resolve_locally E ?iid w1 = (Inr (), w2)"
    and g: "load_incident E (tbl w2) ?iid = Some (i\<lparr>inc_status := RESOLVED\<rparr>)"
    "same_elsewhere ?D (tbl w1) (tbl w2) ''incident'' ?iid" "kafka_sent w2 = kafka_sent w1"
    by (auto simp: w1_def)
  have local: "resolve_incident E auth ?iid = resolve_locally E ?iid"
    using assms(5) by (auto simp: resolve_incident_def is_set_def split: option.splits list.splits)
  obtain e w3 where
    a: "publish_event E ''work_order.completed'' (dict_of (dump_work_order (lib_of E) ?x))
        (Some ?iid) (Some (subject p)) False w2 = (Inr e, w3)"
    "announced E ''work_order.completed'' (dict_of (dump_work_order (lib_of E) ?x))
      (Some ?iid) (Some (subject p)) w2 w3" "tbl w3 = tbl w2"
    using announce_quiet [OF assms(1,2) order_event_types(3)] by metis
  have run: "complete_work_order E caller auth oid c w = (Inr ?x, w3)"
    unfolding head local using r a(1) by (simp add: bnd_Inr act_simps flip: w1_def)
  have "view ?D (tbl w2) ''work_order'' oid = view ?D t' ''work_order'' oid"
    using same_elsewhereD [OF g(2), of "''work_order''" oid] by (simp add: entity_types_def w1_def)
  then have order: "load_order E (tbl w3) oid = Some ?x" using f(2) a(3) by (simp add: load_as_def)
  have other: "view ?D (tbl w3) et eid = view ?D (tbl w) et eid"
    if "et \<in> set entity_types" "(et, eid) \<noteq> (''work_order'', oid)" "(et, eid) \<noteq> (''incident'', ?iid)" for et eid
    using same_elsewhereD [OF f(3) that(1), of eid] same_elsewhereD [OF g(2) that(1), of eid] that(2,3) a(3)
    by (auto simp: w1_def)
  have "announced E ''work_order.completed'' (dict_of (dump_work_order (lib_of E) ?x))
      (Some ?iid) (Some (subject p)) w w3"
    using a(2) g(3) by (simp add: announced_def w1_def)
  then show ?thesis using run order other g(1) a(3) by (intro exI [of _ w3]) auto
qed

lemma sample_http_config: "can_publish (sample_http_env url) False" "realtime_ok (sample_http_env url)"
  by (simp_all add: can_publish_def realtime_ok_def default_settings_def supported_bus_def)

lemma sample_completion_facts:
  "load_order (sample_http_env url) sample_order_table ''o1'' = Some sample_order"
  "wo_id sample_order = ''o1''" "wo_incident_id sample_order = ''i1''"
  "co_recovery_confirmed (sample_completion [''test run'', ''lock out''])"
  "set (wo_checklist sample_order) \<subseteq> set (co_completed_items (sample_completion [''test run'', ''lock out'']))"
  "require_roles [FIELD_WORKER, SYSTEM_ADMIN] (Some (sample_principal FIELD_WORKER)) =
      Inr (sample_principal FIELD_WORKER)"
  using sample_order_loads(1,2)
  by (simp_all add: load_as_Some sample_order_def sample_completion_def sample_approval_def
      require_roles_def sample_principal_def)

lemma sample_incident_record:
  "incident_record (sample_http_env url) sample_order_table ''i1'' (sample_incident DETECTED)"
proof -
  have "to_float 12 = Fin 12" "to_float 8 = Fin 8"
    using finite_double_int [of 12] finite_double_int [of 8] by (simp_all add: finite_double_def)
  then have "finite_numbers (stored sample_lib (dump_incident sample_lib (sample_incident DETECTED)))"
    by (simp add: dump_incident_def dump_virtual_incident_def sample_incident_def sample_vi_def
        opt_str_def sample_lib_def is_finite_float_def)
  then show ?thesis using sample_order_loads(3) sample_incident_wf [of DETECTED]
    by (simp add: incident_record_def)
qed

lemma completion_resolves_incident_witness:
  "\<exists>w' :: dict list world. load_incident (sample_http_env None) (tbl w') ''i1'' = Some ((sample_incident DETECTED)\<lparr>inc_status := RESOLVED\<rparr>) \<and>
    load_order (sample_http_env None) (tbl w') ''o1'' =
      Some (completed_order sample_order (sample_completion [''test run'', ''lock out'']))"
proof -
  have ok: "table_ok (dynamo_of (sample_http_env None)) (tbl (sample_world sample_order_table))"
    using sample_order_loads(4) by simp
  have unset: "\<not> is_set (incident_service_url (settings_of (sample_http_env None)))" by (simp add: is_set_def)
  note facts = sample_completion_facts
  have loads: "load_order (sample_http_env None) (tbl (sample_world sample_order_table)) ''o1'' = Some sample_order"
    using facts(1) by simp
  have kept: "incident_record (sample_http_env None) (tbl (sample_world sample_order_table))
      (wo_incident_id sample_order) (sample_incident DETECTED)"
    using sample_incident_record facts(3) by simp
  from completion_resolves_incident [OF sample_http_quiet sample_http_config ok unset facts(6)
      loads facts(2,4,5) kept, of None]
  show ?thesis unfolding facts(3) by blast
qed

text \<open>
  C22. When the incident service is another process and refuses the change
  (any answer outside 2xx), completion fails with that status, but the order is already stored
  as resolved, and its completion is not announced.
\<close>

theorem completion_remote_failure:
  fixes E :: "('t, 'e) http_env_scheme" and w :: "('t, 'w) world_scheme"
  assumes "quiet E" "table_ok (dynamo_of E) (tbl w)"
    and "incident_service_url (settings_of E) = Some url" "url \<noteq> []"
    and "require_roles [FIELD_WORKER, SYSTEM_ADMIN] caller = Inr p"
    and "load_order E (tbl w) oid = Some x" "wo_id x = oid"
    and "co_recovery_confirmed c" "set (wo_checklist x) \<subseteq> set (co_completed_items c)"
    and "\<And>req t. http_reply E req t = ((code, body), t)" "code < 200 \<or> 299 < code"
  shows "\<exists>w'. complete_work_order E caller auth oid c w = (Inl (HTTPStatusError code), w') \<and>
    load_order E (tbl w') oid = Some (completed_order x c) \<and>
    same_elsewhere (dynamo_of E) (tbl w) (tbl w') ''work_order'' oid \<and>
    kafka_sent w' = kafka_sent w"
proof -
  obtain n t' where
    head: "complete_work_order E caller auth oid c w =
      bnd (resolve_incident E auth (wo_incident_id x)) (\<lambda>_.
      bnd (publish_event E ''work_order.completed''
             (dict_of (dump_work_order (lib_of E) (completed_order x c)))
        (Some (wo_incident_id x)) (Some (subject p)) False) (\<lambda>_. ret (completed_order x c)))
        (w\<lparr>tick := n, tbl := t'\<rparr>)"
    and f: "load_order E t' oid = Some (completed_order x c)"
    "same_elsewhere (dynamo_of E) (tbl w) t' ''work_order'' oid"
    using completion_started [OF assms(1,2,5-9), of auth] unfolding Let_def by blast
  have "resolve_incident E auth (wo_incident_id x) (w\<lparr>tick := n, tbl := t'\<rparr>) =
      (Inl (HTTPStatusError code), w\<lparr>tick := Suc n, tbl := t'\<rparr>)"
    using assms(3,4,10,11) quietD(1) [OF assms(1)]
    by (cases url)
      (auto simp: resolve_incident_def resolve_remotely_def http_send_def quiet_call [OF assms(1)]
        bnd_def raise_for_status_def check_def throw_def)
  then show ?thesis using f unfolding head
    by (intro exI [of _ "w\<lparr>tick := Suc n, tbl := t'\<rparr>"]) (simp add: bnd_def)
qed

lemma completion_remote_failure_witness:
  "\<exists>w'. complete_work_order (sample_http_env (Some ''http://incident'')) (Some (sample_principal FIELD_WORKER))
      None ''o1'' (sample_completion [''test run'', ''lock out'']) (sample_world sample_order_table) =
        (Inl (HTTPStatusError 409), w') \<and> kafka_sent w' = kafka_sent (sample_world sample_order_table)"
proof -
  let ?E = "sample_http_env (Some ''http://incident'')"
  have ok: "table_ok (dynamo_of ?E) (tbl (sample_world sample_order_table))"
    using sample_order_loads(4) by simp
  have url: "incident_service_url (settings_of ?E) = Some ''http://incident''" "''http://incident'' \<noteq> []"
    by simp_all
  have reply: "http_reply ?E req t = ((409, None), t)" for req t by simp
  have code: "409 < (200 :: nat) \<or> 299 < (409 :: nat)" by simp
  note facts = sample_completion_facts
  have loads: "load_order ?E (tbl (sample_world sample_order_table)) ''o1'' = Some sample_order"
    using facts(1) by simp
  from completion_remote_failure [OF sample_http_quiet ok url facts(6)
      loads facts(2,4,5) reply code, of None]
  show ?thesis by blast
qed

section \<open>Evidence\<close>

lemma store_put_Inr:
  "store_put E key body ct w = (Inr (), w') \<Longrightarrow>
   objects w' = (objects w)(key \<mapsto> \<lparr>object_body = body, object_type = ct, object_encryption = ''AES256''\<rparr>)"
  by (auto simp: store_put_def call_def change_def Let_def split: outcome.splits)

lemma call_keeps_objects:
  "repo_get E et eid w = (r, w') \<Longrightarrow> objects w' = objects w" "new_uuid E w = (r', w') \<Longrightarrow> objects w' = objects w"
  by (auto simp: repo_get_def table_get_def call_def bnd_def read_state_def new_uuid_def item_data_def
      of_option_def ret_def throw_def Let_def split: outcome.splits option.splits if_splits)

text \<open>
  C23. Evidence that is accepted, whatever fails meanwhile, comes from a caller with
  the role, is an image of at most 10 MiB, and is stored encrypted under exactly one new key: in
  the folder of its order, with a file name that cannot leave it.
\<close>

theorem evidence_accepted:
  assumes "upload_work_evidence E caller oid file w = (Inr ev, w')"
  shows "(\<exists>p. caller = Some p \<and> roles p \<inter> {FIELD_WORKER, SYSTEM_ADMIN} \<noteq> {}) \<and>
    starts_with (ev_content_type ev) ''image/'' \<and> length (up_content file) \<le> 10 * 1024 * 1024 \<and>
    CHR ''/'' \<notin> set (ev_filename ev) \<and>
    (\<exists>u. ev_key ev = ''work-evidence/'' @ oid @ ''/'' @ u @ ''-'' @ ev_filename ev) \<and>
    objects w' = (objects w)(ev_key ev \<mapsto>
      \<lparr>object_body = up_content file, object_type = ev_content_type ev, object_encryption = ''AES256''\<rparr>)"
proof -
  obtain p where p: "require_roles [FIELD_WORKER, SYSTEM_ADMIN] caller = Inr p"
    using assms by (cases "require_roles [FIELD_WORKER, SYSTEM_ADMIN] caller")
      (auto simp: upload_work_evidence_def act_simps)
  define ct where "ct = str_or (up_content_type file) ''application/octet-stream''"
  define name where "name = path_name (str_or (up_filename file) ''evidence.jpg'')"
  from assms p obtain found w1 where g: "repo_get E ''work_order'' oid w = (Inr found, w1)"
    by (auto simp: upload_work_evidence_def act_simps elim: bnd_InrE)
  with assms p have image: "starts_with ct ''image/''" "length (up_content file) \<le> 10 * 1024 * 1024"
    and rest: "bnd (new_uuid E) (\<lambda>u.
       bnd (store_put E (''work-evidence/'' @ oid @ ''/'' @ u @ ''-'' @ name) (up_content file) ct) (\<lambda>_.
       ret \<lparr>ev_key = ''work-evidence/'' @ oid @ ''/'' @ u @ ''-'' @ name, ev_filename = name,
            ev_content_type = ct\<rparr>)) w1 = (Inr ev, w')"
    by (auto simp: upload_work_evidence_def act_simps bnd_Inr Let_def ct_def name_def split: if_splits)
  from rest obtain u w2 where u: "new_uuid E w1 = (Inr u, w2)"
    and "bnd (store_put E (''work-evidence/'' @ oid @ ''/'' @ u @ ''-'' @ name) (up_content file) ct) (\<lambda>_.
       ret \<lparr>ev_key = ''work-evidence/'' @ oid @ ''/'' @ u @ ''-'' @ name, ev_filename = name,
            ev_content_type = ct\<rparr>) w2 = (Inr ev, w')" by (rule bnd_InrE)
  then have s: "store_put E (''work-evidence/'' @ oid @ ''/'' @ u @ ''-'' @ name) (up_content file) ct w2 = (Inr (), w')"
    "ev = \<lparr>ev_key = ''work-evidence/'' @ oid @ ''/'' @ u @ ''-'' @ name, ev_filename = name, ev_content_type = ct\<rparr>"
    by (auto simp: ret_def elim!: bnd_InrE)
  have "objects w2 = objects w" using call_keeps_objects(1) [OF g] call_keeps_objects(2) [OF u] by simp
  then show ?thesis using p image store_put_Inr [OF s(1)] s(2) path_name_no_slash
    by (auto simp: require_roles_Inr name_def)
qed

definition sample_store_world :: "dict list \<Rightarrow> dict list store_world" where
  "sample_store_world t =
     \<lparr>tick = 0, tbl = t, producer_open = False, queue_url = None, topic_arn = None,
      kafka_sent = [], sqs_sent = [], sns_sent = [], redis_sent = [],
      http_requests = [], http_duration = [], objects = (\<lambda>_. None)\<rparr>"

definition sample_photo :: upload where
  "sample_photo =
     \<lparr>up_filename = Some ''../../seal.jpg'', up_content_type = Some ''image/jpeg'', up_content = ''JFIF''\<rparr>"

lemma evidence_accepted_witness:
  "\<exists>ev w'. upload_work_evidence sample_env (Some (sample_principal FIELD_WORKER)) ''o1'' sample_photo
      (sample_store_world sample_order_table) = (Inr ev, w') \<and> CHR ''/'' \<notin> set (ev_filename ev)"
proof -
  have get: "repo_get sample_env ''work_order'' ''o1'' (sample_store_world sample_order_table) =
      (Inr (Some (stored sample_lib (dump_work_order sample_lib sample_order))),
       (sample_store_world sample_order_table)\<lparr>tick := 1\<rparr>)"
    using repo_get_quiet [OF sample_quiet, of "sample_store_world sample_order_table" "''work_order''" "''o1''"]
      sample_order_loads by (simp add: sample_store_world_def)
  have "\<exists>ev w'. upload_work_evidence sample_env (Some (sample_principal FIELD_WORKER)) ''o1'' sample_photo
      (sample_store_world sample_order_table) = (Inr ev, w')"
    using get by (simp add: upload_work_evidence_def require_roles_def sample_principal_def act_simps
        bnd_def sample_photo_def str_or_def starts_with_def Let_def new_uuid_def store_put_def
        quiet_call [OF sample_quiet])
  then show ?thesis using evidence_accepted by metis
qed

end
