(* ===== verification/EventWorker.thy ===== *)
theory EventWorker
  imports Entities
begin

text \<open>
  \<open>services/event_worker/app/main.py\<close>: the Kafka worker (at-least-once consumption with bounded
  retries and a dead-letter topic), the SQS worker it replaces, and the endpoints that report on
  them. The Kafka consumer is a parameter with documented laws (\<open>consumer_ok\<close>).
\<close>

section \<open>The Kafka consumer\<close>

type_synonym topic_partition = "string \<times> nat"

record kafka_record =
  rec_topic :: string
  rec_partition :: nat
  rec_offset :: nat
  rec_key :: "string option"
  rec_value :: json

definition rec_tp :: "kafka_record \<Rightarrow> topic_partition" where
  "rec_tp r = (rec_topic r, rec_partition r)"

type_synonym batches = "(topic_partition \<times> kafka_record list) list"

text \<open>
  \<open>poll\<close> (the number stands for everything that decides what is fetched), \<open>seek\<close>, \<open>commit\<close>, and
  the observations the laws are about: the next offset to fetch, the committed offset, and the
  records of a partition by offset.
\<close>

record 'k consumer_ops =
  op_poll :: "nat \<Rightarrow> 'k \<Rightarrow> batches \<times> 'k"
  op_seek :: "topic_partition \<Rightarrow> nat \<Rightarrow> 'k \<Rightarrow> 'k"
  op_commit :: "'k \<Rightarrow> 'k"
  position_of :: "'k \<Rightarrow> topic_partition \<Rightarrow> nat"
  committed_of :: "'k \<Rightarrow> topic_partition \<Rightarrow> nat"
  log_of :: "'k \<Rightarrow> topic_partition \<Rightarrow> kafka_record list"

definition batch_ok :: "'k consumer_ops \<Rightarrow> 'k \<Rightarrow> 'k \<Rightarrow> topic_partition \<Rightarrow> kafka_record list \<Rightarrow> bool" where
  "batch_ok C k k' tp rs \<longleftrightarrow>
     rs = take (length rs) (drop (position_of C k tp) (log_of C k' tp)) \<and>
     position_of C k' tp = position_of C k tp + length rs"

text \<open>
  A poll returns for some partitions the next records from the position on and moves the position
  behind them; it moves no other position and commits nothing; records may have arrived. A seek
  sets one position. A commit commits the positions. A record knows where it is.
\<close>

definition consumer_ok :: "'k consumer_ops \<Rightarrow> bool" where
  "consumer_ok C \<longleftrightarrow>
     (\<forall>n k. case op_poll C n k of (bs, k') \<Rightarrow>
        distinct (map fst bs) \<and>
        (\<forall>(tp, rs) \<in> set bs. batch_ok C k k' tp rs) \<and>
        (\<forall>tp. tp \<notin> fst ` set bs \<longrightarrow> position_of C k' tp = position_of C k tp) \<and>
        committed_of C k' = committed_of C k \<and>
        (\<forall>tp. \<exists>new. log_of C k' tp = log_of C k tp @ new)) \<and>
     (\<forall>tp n k. position_of C (op_seek C tp n k) = (position_of C k)(tp := n) \<and>
        committed_of C (op_seek C tp n k) = committed_of C k \<and>
        log_of C (op_seek C tp n k) = log_of C k) \<and>
     (\<forall>k. committed_of C (op_commit C k) = position_of C k \<and>
        position_of C (op_commit C k) = position_of C k \<and> log_of C (op_commit C k) = log_of C k) \<and>
     (\<forall>k tp i. i < length (log_of C k tp) \<longrightarrow>
        rec_tp (log_of C k tp ! i) = tp \<and> rec_offset (log_of C k tp ! i) = i)"

section \<open>State of the worker\<close>

text \<open>
  \<open>consumer_open\<close>, \<open>dlq_open\<close> and \<open>task_running\<close> say whether the worker has its consumer, its
  dead-letter producer and its task; \<open>events_processed\<close> and \<open>events_failed\<close> are the counters, as
  the sequences of their labels.
\<close>

record ('t, 'k) worker_world = "'t app_world" +
  consumer :: 'k
  consumer_open :: bool
  dlq_open :: bool
  attempts :: "(string \<times> nat \<times> nat) \<rightharpoonup> nat"
  task_running :: bool
  stopping :: bool
  worker_queue_url :: "string option"
  sqs_deleted :: "(string \<times> string) list"
  events_processed :: "(string \<times> string \<times> string) list"
  events_failed :: "(string \<times> string) list"

text \<open>
  Parameters: the consumer, \<open>str(error)\<close>, the decoding of key bytes, and the SQS client
  (what a receive returns and the attributes of the queue).
\<close>

record ('t, 'k) worker_env = "'t auth_env" +
  consumer_ops_of :: "'k consumer_ops"
  exn_text :: "exn \<Rightarrow> string"
  decode_replace :: "string \<Rightarrow> string"
  sqs_receive :: "nat \<Rightarrow> dict list"
  sqs_attributes :: "nat \<Rightarrow> dict"

definition count_processed ::
  "string \<Rightarrow> string \<Rightarrow> string \<Rightarrow> (('t, 'k, 'w) worker_world_scheme, unit) act" where
  "count_processed broker et res =
     change (\<lambda>w. w\<lparr>events_processed := events_processed w @ [(broker, et, res)]\<rparr>)"

definition count_failed ::
  "string \<Rightarrow> string \<Rightarrow> (('t, 'k, 'w) worker_world_scheme, unit) act" where
  "count_failed broker reason =
     change (\<lambda>w. w\<lparr>events_failed := events_failed w @ [(broker, reason)]\<rparr>)"

section \<open>Processed events\<close>

record processed_event =
  pe_id :: string
  pe_event_type :: string
  pe_result :: string
  pe_payload :: dict
  pe_receive_count :: int
  pe_processed_at :: int
  pe_broker :: string
  pe_topic :: "string option"
  pe_partition :: "int option"
  pe_offset :: "int option"
  pe_producer :: "string option"
  pe_correlation_id :: "string option"

definition dump_processed_event :: "lib \<Rightarrow> processed_event \<Rightarrow> json" where
  "dump_processed_event L e = JObj
     [(''id'', JStr (pe_id e)),
      (''event_type'', JStr (pe_event_type e)),
      (''result'', JStr (pe_result e)),
      (''payload'', JObj (pe_payload e)),
      (''receive_count'', JInt (pe_receive_count e)),
      (''processed_at'', JStr (format_datetime L (pe_processed_at e))),
      (''broker'', JStr (pe_broker e)),
      (''topic'', opt_str (pe_topic e)),
      (''partition'', opt_int (pe_partition e)),
      (''offset'', opt_int (pe_offset e)),
      (''producer'', opt_str (pe_producer e)),
      (''correlation_id'', opt_str (pe_correlation_id e))]"

definition validate_processed_event :: "lib \<Rightarrow> json \<Rightarrow> processed_event option" where
  "validate_processed_event L v =
     field (required ''id'' read_str v) (\<lambda>eid.
     field (required ''event_type'' read_str v) (\<lambda>et.
     field (required ''result'' read_str v) (\<lambda>res.
     field (required ''payload'' read_dict v) (\<lambda>pl.
     field (defaulted ''receive_count'' 1 (read_int L) v) (\<lambda>receives.
     field (required ''processed_at'' (read_datetime L) v) (\<lambda>processed.
     field (defaulted ''broker'' ''sqs'' read_str v) (\<lambda>broker.
     field (defaulted ''topic'' None (read_opt read_str) v) (\<lambda>topic.
     field (defaulted ''partition'' None (read_opt (read_int L)) v) (\<lambda>part.
     field (defaulted ''offset'' None (read_opt (read_int L)) v) (\<lambda>off.
     field (defaulted ''producer'' None (read_opt read_str) v) (\<lambda>by_service.
     field (defaulted ''correlation_id'' None (read_opt read_str) v) (\<lambda>corr.
       Some \<lparr>pe_id = eid, pe_event_type = et, pe_result = res, pe_payload = pl,
             pe_receive_count = receives, pe_processed_at = processed, pe_broker = broker,
             pe_topic = topic, pe_partition = part, pe_offset = off,
             pe_producer = by_service, pe_correlation_id = corr\<rparr>))))))))))))"

text \<open>\<open>EventEnvelope.model_validate(v)\<close>, the defaults taken from fresh values.\<close>

definition read_envelope :: "('t, 'e) env_scheme \<Rightarrow> json \<Rightarrow> (('t, 'w) world_scheme, envelope) act" where
  "read_envelope E v =
     bnd (new_uuid E) (\<lambda>fresh_id.
     bnd (now_utc E) (\<lambda>now.
     bnd (new_uuid E) (\<lambda>fresh_correlation.
     of_option ValidationError (validate_envelope (lib_of E) fresh_id now fresh_correlation v))))"

section \<open>One Kafka record\<close>

definition kafka_processed_event :: "envelope \<Rightarrow> kafka_record \<Rightarrow> int \<Rightarrow> processed_event" where
  "kafka_processed_event e r now =
     \<lparr>pe_id = event_id e, pe_event_type = event_type e, pe_result = ''processed'',
      pe_payload = payload e, pe_receive_count = 1, pe_processed_at = now, pe_broker = ''kafka'',
      pe_topic = Some (rec_topic r), pe_partition = Some (int (rec_partition r)),
      pe_offset = Some (int (rec_offset r)), pe_producer = Some (producer e),
      pe_correlation_id = Some (correlation_id e)\<rparr>"

definition process_record ::
  "('t, 'k, 'e) worker_env_scheme \<Rightarrow> kafka_record \<Rightarrow> (('t, 'k, 'w) worker_world_scheme, unit) act" where
  "process_record E r =
     bnd (read_envelope E (rec_value r)) (\<lambda>e.
     bnd (repo_get E ''processed_event'' (event_id e)) (\<lambda>existing.
     bnd (only_if (existing = None)
            (bnd (now_utc E) (\<lambda>now.
             repo_put E ''processed_event'' (event_id e)
               (dump_processed_event (lib_of E) (kafka_processed_event e r now))))) (\<lambda>_.
     count_processed ''kafka'' (event_type e)
       (if existing = None then ''processed'' else ''duplicate''))))"

section \<open>Dead letters\<close>

fun exn_type_name :: "exn \<Rightarrow> string" where
  "exn_type_name (HTTPException _ _) = ''HTTPException''"
| "exn_type_name (ConcurrentUpdateError _) = ''ConcurrentUpdateError''"
| "exn_type_name (ClientError _) = ''ClientError''"
| "exn_type_name ValidationError = ''ValidationError''"
| "exn_type_name RequestValidationError = ''RequestValidationError''"
| "exn_type_name (ValueError _) = ''ValueError''"
| "exn_type_name (RuntimeError _) = ''RuntimeError''"
| "exn_type_name (KeyError _) = ''KeyError''"
| "exn_type_name (TypeError _) = ''TypeError''"
| "exn_type_name (AttributeError _) = ''AttributeError''"
| "exn_type_name (OSError _) = ''OSError''"
| "exn_type_name ZeroDivisionError = ''ZeroDivisionError''"
| "exn_type_name (PyJWTError _) = ''PyJWTError''"
| "exn_type_name (HTTPStatusError _) = ''HTTPStatusError''"
| "exn_type_name (KafkaError _) = ''KafkaError''"
| "exn_type_name WebSocketDisconnect = ''WebSocketDisconnect''"
| "exn_type_name ListingUnfinished = ''ListingUnfinished''"

definition dead_letter_id :: "kafka_record \<Rightarrow> string" where
  "dead_letter_id r =
     ''dlq-'' @ rec_topic r @ ''-'' @ str_of_nat (rec_partition r) @ ''-'' @ str_of_nat (rec_offset r)"

definition dead_letter_payload ::
  "('t, 'k, 'e) worker_env_scheme \<Rightarrow> kafka_record \<Rightarrow> exn \<Rightarrow> nat \<Rightarrow> dict" where
  "dead_letter_payload E r e n =
     [(''source_topic'', JStr (rec_topic r)),
      (''source_partition'', JInt (int (rec_partition r))),
      (''source_offset'', JInt (int (rec_offset r))),
      (''original_key'', opt_str (map_option (decode_replace E) (rec_key r))),
      (''original_value'', rec_value r),
      (''error_type'', JStr (exn_type_name e)),
      (''error_message'', JStr (py_take 1000 (exn_text E e))),
      (''attempts'', JInt (int n))]"

text \<open>\<open>causation_id=original_envelope.get("event_id")\<close>: a value that is no string is refused.\<close>

definition causation_of :: "dict \<Rightarrow> string option option" where
  "causation_of original = read_opt read_str (get_null original ''event_id'')"

definition dead_letter_envelope ::
  "('t, 'k, 'e) worker_env_scheme \<Rightarrow> kafka_record \<Rightarrow> exn \<Rightarrow> nat \<Rightarrow>
   (('t, 'k, 'w) worker_world_scheme, envelope) act" where
  "dead_letter_envelope E r e n =
     (let original = dict_of (rec_value r) in
      bnd (new_uuid E) (\<lambda>eid.
      bnd (new_uuid E) (\<lambda>corr.
      bnd (now_utc E) (\<lambda>now.
      bnd (of_option ValidationError (causation_of original)) (\<lambda>caused_by.
      ret \<lparr>event_id = eid, event_type = ''event.processing_failed'', event_version = 1,
           occurred_at = now, producer = ''event-worker'',
           correlation_id = py_str (lib_of E) (py_or (get_null original ''correlation_id'') (JStr corr)),
           causation_id = caused_by, actor_id = None,
           payload = dead_letter_payload E r e n\<rparr>)))))"

definition publish_dead_letter ::
  "('t, 'k, 'e) worker_env_scheme \<Rightarrow> string \<Rightarrow> json \<Rightarrow> (('t, 'k, 'w) worker_world_scheme, unit) act" where
  "publish_dead_letter E key message =
     bnd (read_state dlq_open) (\<lambda>opened.
     bnd (check opened (RuntimeError ''Kafka DLQ producer has not started'')) (\<lambda>_.
     kafka_send E
       \<lparr>msg_topic = KAFKA_DLQ_TOPIC, msg_key = key, msg_value = message, msg_headers = []\<rparr>))"

definition dead_lettered_event :: "kafka_record \<Rightarrow> envelope \<Rightarrow> nat \<Rightarrow> int \<Rightarrow> processed_event" where
  "dead_lettered_event r message n now =
     \<lparr>pe_id = dead_letter_id r, pe_event_type = ''event.processing_failed'',
      pe_result = ''dead_lettered'', pe_payload = payload message, pe_receive_count = int n,
      pe_processed_at = now, pe_broker = ''kafka'', pe_topic = Some (rec_topic r),
      pe_partition = Some (int (rec_partition r)), pe_offset = Some (int (rec_offset r)),
      pe_producer = Some ''event-worker'', pe_correlation_id = Some (correlation_id message)\<rparr>"

definition dead_letter ::
  "('t, 'k, 'e) worker_env_scheme \<Rightarrow> kafka_record \<Rightarrow> exn \<Rightarrow> nat \<Rightarrow>
   (('t, 'k, 'w) worker_world_scheme, unit) act" where
  "dead_letter E r e n =
     bnd (dead_letter_envelope E r e n) (\<lambda>message.
     bnd (publish_dead_letter E (dead_letter_id r) (dump_envelope (lib_of E) message)) (\<lambda>_.
     bnd (now_utc E) (\<lambda>now.
     bnd (repo_put E ''processed_event'' (dead_letter_id r)
            (dump_processed_event (lib_of E) (dead_lettered_event r message n now))) (\<lambda>_.
     count_processed ''kafka'' ''event.processing_failed'' ''dead_lettered''))))"

section \<open>Retries\<close>

definition record_key :: "kafka_record \<Rightarrow> string \<times> nat \<times> nat" where
  "record_key r = (rec_topic r, rec_partition r, rec_offset r)"

definition max_attempts :: "('t, 'e) env_scheme \<Rightarrow> nat" where
  "max_attempts E = nat (max 1 (kafka_max_processing_attempts (settings_of E)))"

definition attempts_so_far :: "('t, 'k, 'w) worker_world_scheme \<Rightarrow> kafka_record \<Rightarrow> nat" where
  "attempts_so_far w r = (case attempts w (record_key r) of None \<Rightarrow> 0 | Some n \<Rightarrow> n)"

definition set_attempts ::
  "kafka_record \<Rightarrow> nat option \<Rightarrow> (('t, 'k, 'w) worker_world_scheme, unit) act" where
  "set_attempts r n = change (\<lambda>w. w\<lparr>attempts := (attempts w)(record_key r := n)\<rparr>)"

definition process_record_with_retry ::
  "('t, 'k, 'e) worker_env_scheme \<Rightarrow> kafka_record \<Rightarrow> (('t, 'k, 'w) worker_world_scheme, bool) act" where
  "process_record_with_retry E r =
     attempt
       (bnd (process_record E r) (\<lambda>_. bnd (set_attempts r None) (\<lambda>_. ret True)))
       (\<lambda>e.
          bnd (read_state (\<lambda>w. attempts_so_far w r + 1)) (\<lambda>n.
          bnd (set_attempts r (Some n)) (\<lambda>_.
          bnd (count_failed ''kafka'' ''processing_error'') (\<lambda>_.
          if n < max_attempts E then ret False
          else
            bnd (dead_letter E r e n) (\<lambda>_.
            bnd (set_attempts r None) (\<lambda>_. ret True))))))"

section \<open>The polling loop\<close>

definition required_consumer :: "(('t, 'k, 'w) worker_world_scheme, unit) act" where
  "required_consumer =
     bnd (read_state consumer_open) (\<lambda>opened.
     check opened (RuntimeError ''Kafka event worker has not started''))"

definition poll_records ::
  "('t, 'k, 'e) worker_env_scheme \<Rightarrow> (('t, 'k, 'w) worker_world_scheme, batches) act" where
  "poll_records E =
     bnd required_consumer (\<lambda>_.
     call E (\<lambda>w.
       let (bs, k) = op_poll (consumer_ops_of E) (tick w) (consumer w)
       in (Inr bs, w\<lparr>consumer := k\<rparr>)))"

definition seek_to_record ::
  "('t, 'k, 'e) worker_env_scheme \<Rightarrow> kafka_record \<Rightarrow> (('t, 'k, 'w) worker_world_scheme, unit) act" where
  "seek_to_record E r =
     bnd required_consumer (\<lambda>_.
     call E (change (\<lambda>w.
       w\<lparr>consumer := op_seek (consumer_ops_of E) (rec_tp r) (rec_offset r) (consumer w)\<rparr>)))"

definition commit_offsets ::
  "('t, 'k, 'e) worker_env_scheme \<Rightarrow> (('t, 'k, 'w) worker_world_scheme, unit) act" where
  "commit_offsets E =
     bnd required_consumer (\<lambda>_.
     call E (change (\<lambda>w. w\<lparr>consumer := op_commit (consumer_ops_of E) (consumer w)\<rparr>)))"

text \<open>The two loops over a poll's result, with the flags \<open>processed_any\<close> and \<open>batch_failed\<close>.\<close>

fun process_batch ::
  "('t, 'k, 'e) worker_env_scheme \<Rightarrow> kafka_record list \<Rightarrow> bool \<times> bool \<Rightarrow>
   (('t, 'k, 'w) worker_world_scheme, bool \<times> bool) act" where
  "process_batch E [] flags = ret flags"
| "process_batch E (r # rs) (processed_any, batch_failed) =
     bnd (process_record_with_retry E r) (\<lambda>handled.
     if \<not> handled then bnd (seek_to_record E r) (\<lambda>_. ret (processed_any, True))
     else process_batch E rs (True, batch_failed))"

fun process_batches ::
  "('t, 'k, 'e) worker_env_scheme \<Rightarrow> batches \<Rightarrow> bool \<times> bool \<Rightarrow>
   (('t, 'k, 'w) worker_world_scheme, bool \<times> bool) act" where
  "process_batches E [] flags = ret flags"
| "process_batches E ((tp, rs) # bs) flags =
     bnd (process_batch E rs flags) (\<lambda>flags'. process_batches E bs flags')"

definition commit_if ::
  "('t, 'k, 'e) worker_env_scheme \<Rightarrow> bool \<times> bool \<Rightarrow> (('t, 'k, 'w) worker_world_scheme, unit) act" where
  "commit_if E flags = only_if (fst flags \<and> \<not> snd flags) (commit_offsets E)"

definition poll_failed :: "exn \<Rightarrow> (('t, 'k, 'w) worker_world_scheme, unit) act" where
  "poll_failed e =
     count_failed ''kafka'' (if is_value_error e then ''invalid_message'' else ''processing_error'')"

definition poll_cycle ::
  "('t, 'k, 'e) worker_env_scheme \<Rightarrow> (('t, 'k, 'w) worker_world_scheme, unit) act" where
  "poll_cycle E =
     attempt
       (bnd (poll_records E) (\<lambda>bs.
        bnd (process_batches E bs (False, False)) (\<lambda>flags.
        commit_if E flags)))
       poll_failed"

text \<open>\<open>while not stopping\<close>, for as many turns as are looked at.\<close>

fun poll_loop ::
  "('t, 'k, 'e) worker_env_scheme \<Rightarrow> nat \<Rightarrow> (('t, 'k, 'w) worker_world_scheme, unit) act" where
  "poll_loop E 0 = ret ()"
| "poll_loop E (Suc n) =
     bnd (read_state stopping) (\<lambda>stop.
     if stop then ret () else bnd (poll_cycle E) (\<lambda>_. poll_loop E n))"

section \<open>Start and stop\<close>

definition kafka_start ::
  "('t, 'k, 'e) worker_env_scheme \<Rightarrow> (('t, 'k, 'w) worker_world_scheme, unit) act" where
  "kafka_start E =
     bnd (call E (ret ())) (\<lambda>_.
     bnd (change (\<lambda>w. w\<lparr>consumer_open := True\<rparr>)) (\<lambda>_.
     bnd (call E (ret ())) (\<lambda>_.
     bnd (change (\<lambda>w. w\<lparr>dlq_open := True\<rparr>)) (\<lambda>_.
     change (\<lambda>w. w\<lparr>stopping := False, task_running := True\<rparr>)))))"

definition kafka_stop ::
  "('t, 'k, 'e) worker_env_scheme \<Rightarrow> (('t, 'k, 'w) worker_world_scheme, unit) act" where
  "kafka_stop E =
     bnd (change (\<lambda>w. w\<lparr>stopping := True, task_running := False\<rparr>)) (\<lambda>_.
     bnd (read_state consumer_open) (\<lambda>opened.
     bnd (only_if opened
            (bnd (call E (ret ())) (\<lambda>_. change (\<lambda>w. w\<lparr>consumer_open := False\<rparr>)))) (\<lambda>_.
     bnd (read_state dlq_open) (\<lambda>dlq.
     only_if dlq
       (bnd (call E (ret ())) (\<lambda>_. change (\<lambda>w. w\<lparr>dlq_open := False\<rparr>)))))))"

end
