(* ===== verification/SqsWorker.thy ===== *)
theory SqsWorker
  imports EventWorker
begin

text \<open>
  The SQS half of \<open>services/event_worker/app/main.py\<close>: reading a queue message, processing it
  (stored first, deleted from the queue after), the polling loop, and the endpoints of the
  worker, which serve whichever of the two workers is configured.
\<close>

section \<open>Reading a queue message\<close>

text \<open>\<open>k in v\<close> for a string: a key, an element, a substring, or a \<open>TypeError\<close>.\<close>

definition py_in :: "string \<Rightarrow> json \<Rightarrow> exn + bool" where
  "py_in k v =
     (case v of
        JObj d \<Rightarrow> Inr (dict_get d k \<noteq> None)
      | JList xs \<Rightarrow> Inr (JStr k \<in> set xs)
      | JStr s \<Rightarrow> Inr (has_substring k s)
      | _ \<Rightarrow> Inl (TypeError ''argument is not iterable''))"

definition set_item :: "string \<Rightarrow> json \<Rightarrow> json \<Rightarrow> exn + json" where
  "set_item k x v =
     (case v of
        JObj d \<Rightarrow> Inr (JObj (dict_set k x d))
      | _ \<Rightarrow> Inl (TypeError ''object does not support item assignment''))"

definition event_value :: "lib \<Rightarrow> dict \<Rightarrow> string \<Rightarrow> ('w, json) act" where
  "event_value L message body =
     bnd (of_option (ValueError ''Invalid AX Sentinel event envelope'') (json_parse L body)) (\<lambda>v.
     bnd (of_result (py_in ''producer'' v)) (\<lambda>has_producer.
     bnd (of_result (if has_producer then Inr v else set_item ''producer'' (JStr ''legacy-sqs'') v)) (\<lambda>v.
     bnd (of_result (py_in ''event_id'' v)) (\<lambda>has_id.
     of_result
       (if \<not> has_id \<and> truthy (get_null message ''MessageId'')
        then set_item ''event_id'' (JStr (py_str L (get_null message ''MessageId''))) v
        else Inr v)))))"

definition receive_count_of :: "dict \<Rightarrow> exn + int" where
  "receive_count_of message =
     (case dict_get_or message ''Attributes'' (JObj []) of
        JObj d \<Rightarrow> py_int (dict_get_or d ''ApproximateReceiveCount'' (JStr ''1''))
      | _ \<Rightarrow> Inl (AttributeError ''get''))"

definition parse_event_message ::
  "('t, 'e) env_scheme \<Rightarrow> dict \<Rightarrow> (('t, 'w) world_scheme, envelope \<times> int) act" where
  "parse_event_message E message =
     (case dict_get message ''Body'' of
        Some (JStr body) \<Rightarrow>
          bnd (event_value (lib_of E) message body) (\<lambda>v.
          bnd (attempt (read_envelope E v)
                 (\<lambda>e. throw (if e = ValidationError
                             then ValueError ''Invalid AX Sentinel event envelope'' else e))) (\<lambda>envelope.
          bnd (of_result (receive_count_of message)) (\<lambda>receives.
          ret (envelope, receives))))
      | _ \<Rightarrow> throw (ValueError ''SQS message body is missing''))"

section \<open>Processing\<close>

definition known_event_types :: "string set" where
  "known_event_types =
     {''telemetry.received'', ''incident.detected'', ''incident.status_changed'',
      ''analysis.completed'', ''document.registered'', ''approval.decided'',
      ''work_order.created'', ''work_order.completed'', ''feedback.submitted''}"

definition required_queue_url :: "(('t, 'k, 'w) worker_world_scheme, string) act" where
  "required_queue_url =
     bnd (read_state worker_queue_url) (\<lambda>url.
     of_option (RuntimeError ''Event worker has not started'') url)"

definition sqs_processed_event :: "envelope \<Rightarrow> string \<Rightarrow> int \<Rightarrow> int \<Rightarrow> processed_event" where
  "sqs_processed_event e res receives now =
     \<lparr>pe_id = event_id e, pe_event_type = event_type e, pe_result = res, pe_payload = payload e,
      pe_receive_count = receives, pe_processed_at = now, pe_broker = ''sqs'', pe_topic = None,
      pe_partition = None, pe_offset = None, pe_producer = Some (producer e),
      pe_correlation_id = Some (correlation_id e)\<rparr>"

definition process_message ::
  "('t, 'e) env_scheme \<Rightarrow> dict \<Rightarrow> (('t, 'k, 'w) worker_world_scheme, unit) act" where
  "process_message E message =
     bnd (parse_event_message E message) (\<lambda>(e, receives).
     let message_id = py_strip (py_str (lib_of E) (dict_get_or message ''MessageId'' (JStr [])));
         receipt_handle = py_strip (py_str (lib_of E) (dict_get_or message ''ReceiptHandle'' (JStr [])));
         res = (if event_type e \<in> known_event_types then ''processed'' else ''ignored'')
     in bnd (check (message_id \<noteq> [] \<and> receipt_handle \<noteq> [])
               (ValueError ''SQS message identifiers are missing'')) (\<lambda>_.
        bnd (now_utc E) (\<lambda>now.
        bnd (repo_put E ''processed_event'' (event_id e)
               (dump_processed_event (lib_of E) (sqs_processed_event e res receives now))) (\<lambda>_.
        bnd required_queue_url (\<lambda>url.
        bnd (call E (change (\<lambda>w. w\<lparr>sqs_deleted := sqs_deleted w @ [(url, receipt_handle)]\<rparr>))) (\<lambda>_.
        count_processed ''sqs'' (event_type e) res))))))"

section \<open>The polling loop\<close>

definition receive ::
  "('t, 'k, 'e) worker_env_scheme \<Rightarrow> (('t, 'k, 'w) worker_world_scheme, dict list) act" where
  "receive E =
     bnd required_queue_url (\<lambda>_. call E (read_state (\<lambda>w. sqs_receive E (tick w))))"

definition process_or_count ::
  "('t, 'e) env_scheme \<Rightarrow> dict \<Rightarrow> (('t, 'k, 'w) worker_world_scheme, unit) act" where
  "process_or_count E message =
     attempt (process_message E message)
       (\<lambda>e. count_failed ''sqs'' (if is_value_error e then ''invalid_message'' else ''processing_error''))"

definition sqs_poll_cycle ::
  "('t, 'k, 'e) worker_env_scheme \<Rightarrow> (('t, 'k, 'w) worker_world_scheme, unit) act" where
  "sqs_poll_cycle E =
     attempt
       (bnd (receive E) (\<lambda>messages.
        bnd (each (process_or_count E) messages) (\<lambda>_. ret ())))
       (\<lambda>e. count_failed ''sqs'' ''poll_error'')"

fun sqs_poll_loop ::
  "('t, 'k, 'e) worker_env_scheme \<Rightarrow> nat \<Rightarrow> (('t, 'k, 'w) worker_world_scheme, unit) act" where
  "sqs_poll_loop E 0 = ret ()"
| "sqs_poll_loop E (Suc n) =
     bnd (read_state stopping) (\<lambda>stop.
     if stop then ret () else bnd (sqs_poll_cycle E) (\<lambda>_. sqs_poll_loop E n))"

definition sqs_start ::
  "('t, 'e) env_scheme \<Rightarrow> (('t, 'k, 'w) worker_world_scheme, unit) act" where
  "sqs_start E =
     bnd (call E (ret ())) (\<lambda>_.
     bnd (change (\<lambda>w.
       w\<lparr>worker_queue_url := Some (queue_url_of E (events_queue (settings_of E)))\<rparr>)) (\<lambda>_.
     change (\<lambda>w. w\<lparr>stopping := False, task_running := True\<rparr>)))"

definition sqs_stop :: "(('t, 'k, 'w) worker_world_scheme, unit) act" where
  "sqs_stop = change (\<lambda>w. w\<lparr>stopping := True, task_running := False\<rparr>)"

section \<open>Endpoints\<close>

record worker_status =
  ws_running :: bool
  ws_broker :: string
  ws_consumer_group :: "string option"
  ws_topics :: "string list"
  ws_queue_name :: "string option"
  ws_approximate_messages :: int
  ws_approximate_in_flight :: int

definition kafka_status ::
  "('t, 'k, 'e) worker_env_scheme \<Rightarrow> (('t, 'k, 'w) worker_world_scheme, worker_status) act" where
  "kafka_status E =
     read_state (\<lambda>w.
       \<lparr>ws_running = task_running w, ws_broker = ''kafka'',
        ws_consumer_group = Some (kafka_consumer_group (settings_of E)), ws_topics = KAFKA_TOPICS,
        ws_queue_name = None, ws_approximate_messages = 0, ws_approximate_in_flight = 0\<rparr>)"

definition sqs_status ::
  "('t, 'k, 'e) worker_env_scheme \<Rightarrow> (('t, 'k, 'w) worker_world_scheme, worker_status) act" where
  "sqs_status E =
     bnd required_queue_url (\<lambda>_.
     bnd (call E (read_state (\<lambda>w. sqs_attributes E (tick w)))) (\<lambda>attributes.
     bnd (of_result
            (case dict_get_or attributes ''Attributes'' (JObj []) of
               JObj d \<Rightarrow> Inr d | _ \<Rightarrow> Inl (AttributeError ''get''))) (\<lambda>values.
     bnd (read_state task_running) (\<lambda>running.
     bnd (of_result (py_int (dict_get_or values ''ApproximateNumberOfMessages'' (JStr ''0'')))) (\<lambda>waiting.
     bnd (of_result (py_int (dict_get_or values ''ApproximateNumberOfMessagesNotVisible'' (JStr ''0'')))) (\<lambda>in_flight.
     ret \<lparr>ws_running = running, ws_broker = ''sqs'', ws_consumer_group = None, ws_topics = [],
          ws_queue_name = Some (events_queue (settings_of E)),
          ws_approximate_messages = waiting, ws_approximate_in_flight = in_flight\<rparr>))))))"

text \<open>The module builds one worker, by the configured bus, and hands it to the service.\<close>

definition worker_start ::
  "('t, 'k, 'e) worker_env_scheme \<Rightarrow> (('t, 'k, 'w) worker_world_scheme, unit) act" where
  "worker_start E = (if uses_kafka (bus_of E) then kafka_start E else sqs_start E)"

definition worker_stop ::
  "('t, 'k, 'e) worker_env_scheme \<Rightarrow> (('t, 'k, 'w) worker_world_scheme, unit) act" where
  "worker_stop E = (if uses_kafka (bus_of E) then kafka_stop E else sqs_stop)"

definition worker_status_endpoint ::
  "('t, 'k, 'e) worker_env_scheme \<Rightarrow> principal option \<Rightarrow>
   (('t, 'k, 'w) worker_world_scheme, worker_status) act" where
  "worker_status_endpoint E caller =
     bnd (of_result (require_roles [SYSTEM_ADMIN, OPERATOR_MANAGER] caller)) (\<lambda>_.
     if uses_kafka (bus_of E) then kafka_status E else sqs_status E)"

definition processed_events ::
  "('t, 'e) env_scheme \<Rightarrow> principal option \<Rightarrow> int \<Rightarrow>
   (('t, 'w) world_scheme, processed_event list) act" where
  "processed_events E caller limit =
     bnd (of_result (require_roles [SYSTEM_ADMIN, OPERATOR_MANAGER] caller)) (\<lambda>_.
     bnd (check (1 \<le> limit \<and> limit \<le> 500) RequestValidationError) (\<lambda>_.
     bnd (repo_list E ''processed_event'') (\<lambda>values.
     bnd (each (validated validate_processed_event E) values) (\<lambda>events.
     ret (take (nat limit) (sorted_descending pe_processed_at events))))))"

end
