(* ===== verification/EventWorkerFacts.thy ===== *)
theory EventWorkerFacts
  imports SqsWorker
begin

text \<open>
  What the worker's steps keep and achieve, whatever calls fail: a record that was handled stays
  handled, a step that reports success has handled its record, and only the polling steps move
  the consumer.
\<close>

section \<open>Handled records\<close>

text \<open>
  A record is handled once its event is recorded, or a dead letter for it has been sent. Its
  event id is the one its value carries.
\<close>

definition recorded :: "('t, 'e) env_scheme \<Rightarrow> 't \<Rightarrow> string \<Rightarrow> bool" where
  "recorded E t eid \<longleftrightarrow> view (dynamo_of E) t ''processed_event'' eid \<noteq> None"

definition dead_lettered :: "('t, 'w) world_scheme \<Rightarrow> kafka_record \<Rightarrow> bool" where
  "dead_lettered w r \<longleftrightarrow>
     (\<exists>m \<in> set (kafka_sent w). msg_topic m = KAFKA_DLQ_TOPIC \<and> msg_key m = dead_letter_id r)"

definition handled :: "('t, 'e) env_scheme \<Rightarrow> ('t, 'w) world_scheme \<Rightarrow> kafka_record \<Rightarrow> bool" where
  "handled E w r \<longleftrightarrow>
     (\<exists>eid. dict_get (dict_of (rec_value r)) ''event_id'' = Some (JStr eid) \<and> recorded E (tbl w) eid) \<or>
     dead_lettered w r"

text \<open>Values published by the services carry their event id.\<close>

definition carries_id :: "kafka_record \<Rightarrow> bool" where
  "carries_id r \<longleftrightarrow> dict_get (dict_of (rec_value r)) ''event_id'' \<noteq> None"

lemma handled_tick [simp]: "handled E (w\<lparr>tick := n\<rparr>) r = handled E w r"
  by (simp add: handled_def dead_lettered_def)

lemma handled_irrelevant [simp]:
  "handled E (w\<lparr>consumer := k\<rparr>) r = handled E w r"
  "handled E (w\<lparr>attempts := a\<rparr>) r = handled E w r"
  "handled E (w\<lparr>events_processed := ep\<rparr>) r = handled E w r"
  "handled E (w\<lparr>events_failed := ef\<rparr>) r = handled E w r"
  by (simp_all add: handled_def dead_lettered_def)

lemma handled_sent: "handled E w r \<Longrightarrow> handled E (w\<lparr>kafka_sent := kafka_sent w @ ms\<rparr>) r"
  by (auto simp: handled_def dead_lettered_def)

text \<open>
  Other processes (the other members of the consumer group, the services) write to the table
  between the worker's calls; none of them deletes an entity.
\<close>

definition others_keep :: "('t, 'e) env_scheme \<Rightarrow> bool" where
  "others_keep E \<longleftrightarrow>
     (\<forall>n t et eid. view (dynamo_of E) t et eid \<noteq> None \<longrightarrow>
        view (dynamo_of E) (others E n t) et eid \<noteq> None)"

lemma others_keep_alone: "alone E \<Longrightarrow> others_keep E"
  by (simp add: others_keep_def alone_def)

lemma others_keepD:
  "others_keep E \<Longrightarrow> view (dynamo_of E) t et eid \<noteq> None \<Longrightarrow>
   view (dynamo_of E) (others E n t) et eid \<noteq> None"
  unfolding others_keep_def by blast

lemma handled_others:
  assumes "others_keep E" "handled E w r"
  shows "handled E (w\<lparr>tick := k, tbl := others E n (tbl w)\<rparr>) r"
  using assms(2) others_keepD [OF assms(1)] by (fastforce simp: handled_def dead_lettered_def recorded_def)

lemma keeps_call_others:
  assumes "keeps P op" "\<And>w n. P w \<Longrightarrow> P (w\<lparr>tick := Suc n, tbl := others E n (tbl w)\<rparr>)"
  shows "keeps P (call E op)"
proof (rule keepsI)
  fix w
  assume "P w"
  then have p: "P (w\<lparr>tick := Suc (tick w), tbl := others E (tick w) (tbl w)\<rparr>)" by (rule assms(2))
  from keepsD [OF assms(1) p] p show "P (snd (call E op w))"
    by (auto simp: call_def Let_def split: outcome.splits)
qed

section \<open>A write never removes an entity\<close>

lemma put_item_keeps_view:
  assumes "dynamo_ok D" "put_item D t (make_item L et' eid' now v data) c = Inr t'" "view D t et eid \<noteq> None"
  shows "view D t' et eid \<noteq> None"
proof (cases "entity_key et eid = entity_key et' eid'")
  case True
  then show ?thesis using put_item_Inr [OF assms(1,2)] made_item_facts(1) by (fastforce simp: view_def)
next
  case False
  from put_item_Inr [OF assms(1,2)]
  have "\<forall>k. k \<noteq> key_of (make_item L et' eid' now v data) \<longrightarrow> get_item D t' k = get_item D t k" by blast
  from this [rule_format, of "entity_key et eid"] False
  have "get_item D t' (entity_key et eid) = get_item D t (entity_key et eid)" by simp
  then show ?thesis using assms(3) by (simp add: view_def)
qed

lemma table_put_keeps_view:
  assumes "dynamo_ok (dynamo_of E)" "others_keep E"
  shows "keeps (\<lambda>w. view (dynamo_of E) (tbl w) et eid \<noteq> None)
    (table_put E (make_item L et' eid' now v data) c)"
  unfolding table_put_def using put_item_keeps_view [OF assms(1)] others_keepD [OF assms(2)]
  by (intro keeps_call_others keepsI) (auto split: sum.split)

lemma repo_put_keeps_view [keeps_intros]:
  assumes "dynamo_ok (dynamo_of E)" "others_keep E"
  shows "keeps (\<lambda>w. view (dynamo_of E) (tbl w) et eid \<noteq> None) (repo_put E et' eid' data)"
  unfolding repo_put_def table_get_def conflict_as_concurrent_update_def Let_def
  using others_keepD [OF assms(2)]
  by (intro keeps_intros keeps_call_others table_put_keeps_view [OF assms]; simp)

lemma repo_put_stores:
  assumes "dynamo_ok (dynamo_of E)" "repo_put E et eid data w = (Inr (), w')"
  shows "view (dynamo_of E) (tbl w') et eid \<noteq> None"
proof -
  obtain now v c w1 where "attempt (table_put E (make_item (lib_of E) et eid now v data) c)
      (conflict_as_concurrent_update et eid) w1 = (Inr (), w')"
    using assms(2) by (auto simp: repo_put_def Let_def elim!: bnd_InrE)
  then have "table_put E (make_item (lib_of E) et eid now v data) c w1 = (Inr (), w')"
    by (auto simp: attempt_def conflict_as_concurrent_update_def throw_def split: prod.splits sum.splits if_splits)
  then obtain t t' where "put_item (dynamo_of E) t (make_item (lib_of E) et eid now v data) c = Inr t'" "tbl w' = t'"
    by (auto simp: table_put_def call_def Let_def split: outcome.splits sum.splits)
  then show ?thesis using put_item_Inr [OF assms(1)] made_item_facts(1) by (fastforce simp: view_def)
qed

lemma repo_get_found:
  assumes "repo_get E et eid w = (Inr (Some v), w')"
  shows "view (dynamo_of E) (tbl w') et eid \<noteq> None"
  using assms
  by (auto simp: repo_get_def table_get_def call_def bnd_def read_state_def item_data_def of_option_def
      ret_def throw_def Let_def view_def split: outcome.splits option.splits if_splits prod.splits sum.splits)

section \<open>What a step keeps\<close>

lemma keeps_kafka_send_handled: "others_keep E \<Longrightarrow> keeps (\<lambda>w. handled E w r) (kafka_send E m)"
  unfolding kafka_send_def
  by (intro keeps_call_others keeps_change) (simp_all add: handled_sent handled_others)

lemma keeps_repo_put_handled:
  assumes "dynamo_ok (dynamo_of E)" "others_keep E"
  shows "keeps (\<lambda>w. handled E w r) (repo_put E et eid data)"
proof (rule keepsI)
  fix w :: "('a, 'c) world_scheme"
  assume "handled E w r"
  moreover have "kafka_sent (snd (repo_put E et eid data w)) = kafka_sent w"
  proof -
    have "keeps (\<lambda>x. kafka_sent x = kafka_sent w) (repo_put E et eid data)"
      unfolding repo_put_def table_get_def table_put_def conflict_as_concurrent_update_def Let_def
      by (intro keeps_intros keeps_call; simp add: keeps_def split: sum.split)
    from keepsD [OF this refl] show ?thesis .
  qed
  moreover have "recorded E (tbl (snd (repo_put E et eid data w))) i" if "recorded E (tbl w) i" for i
    using keepsD [OF repo_put_keeps_view [OF assms], of w "''processed_event''" i et eid data] that
    by (simp add: recorded_def)
  ultimately show "handled E (snd (repo_put E et eid data w)) r"
    by (auto simp: handled_def dead_lettered_def)
qed

lemma keeps_step_handled:
  assumes "dynamo_ok (dynamo_of E)" "others_keep E"
  shows "keeps (\<lambda>w. handled E w r) (read_envelope E v)"
    "keeps (\<lambda>w. handled E w r) (repo_get E et eid)"
    "keeps (\<lambda>w. handled E w r) (count_processed b et' res)"
    "keeps (\<lambda>w. handled E w r) (count_failed b reason)"
    "keeps (\<lambda>w. handled E w r) (set_attempts r' n)"
proof -
  show "keeps (\<lambda>w. handled E w r) (read_envelope E v)"
    unfolding read_envelope_def by (intro keeps_intros; simp)
  show "keeps (\<lambda>w. handled E w r) (repo_get E et eid)"
    unfolding repo_get_def table_get_def item_data_def
    by (intro keeps_intros keeps_call_others; simp add: handled_others [OF assms(2)])
  show "keeps (\<lambda>w. handled E w r) (count_processed b et' res)"
    "keeps (\<lambda>w. handled E w r) (count_failed b reason)"
    "keeps (\<lambda>w. handled E w r) (set_attempts r' n)"
    unfolding count_processed_def count_failed_def set_attempts_def
    by (intro keeps_change; simp)+
qed

lemmas handled_intros = keeps_intros keeps_step_handled keeps_repo_put_handled keeps_kafka_send_handled

lemma keeps_process_record_handled:
  assumes "dynamo_ok (dynamo_of E)" "others_keep E"
  shows "keeps (\<lambda>w. handled E w r) (process_record E r')"
  unfolding process_record_def by (intro handled_intros assms; simp)

lemma keeps_dead_letter_handled:
  assumes "dynamo_ok (dynamo_of E)" "others_keep E"
  shows "keeps (\<lambda>w. handled E w r) (dead_letter E r' e n)"
  unfolding dead_letter_def dead_letter_envelope_def publish_dead_letter_def Let_def
  by (intro handled_intros assms; simp)

lemma keeps_retry_handled:
  assumes "dynamo_ok (dynamo_of E)" "others_keep E"
  shows "keeps (\<lambda>w. handled E w r) (process_record_with_retry E r')"
  unfolding process_record_with_retry_def
  by (intro handled_intros keeps_process_record_handled keeps_dead_letter_handled assms)

lemma keeps_repo_consumer:
  "keeps (\<lambda>w. consumer w = k) (repo_get E et eid)"
  "keeps (\<lambda>w. consumer w = k) (repo_put E et eid data)"
  unfolding repo_get_def repo_put_def table_get_def table_put_def item_data_def
    conflict_as_concurrent_update_def Let_def
  by (intro keeps_intros keeps_call; simp add: keeps_def split: sum.split)+

lemma keeps_step_consumer:
  "keeps (\<lambda>w. consumer w = k) (read_envelope E v)"
  "keeps (\<lambda>w. consumer w = k) (count_processed b et res)"
  "keeps (\<lambda>w. consumer w = k) (count_failed b reason)"
  "keeps (\<lambda>w. consumer w = k) (set_attempts r n)"
  "keeps (\<lambda>w. consumer w = k) (kafka_send E m)"
  unfolding read_envelope_def count_processed_def count_failed_def set_attempts_def kafka_send_def
  by (intro keeps_intros keeps_call keeps_change; simp)+

lemmas consumer_intros = keeps_intros keeps_repo_consumer keeps_step_consumer

lemma keeps_process_record_consumer: "keeps (\<lambda>w. consumer w = k) (process_record E r)"
  unfolding process_record_def by (intro consumer_intros; simp)

lemma keeps_dead_letter_consumer: "keeps (\<lambda>w. consumer w = k) (dead_letter E r e n)"
  unfolding dead_letter_def dead_letter_envelope_def publish_dead_letter_def Let_def
  by (intro consumer_intros; simp)

lemma keeps_retry_consumer:
  "keeps (\<lambda>w. consumer w = k) (process_record_with_retry E r)"
  unfolding process_record_with_retry_def
  by (intro consumer_intros keeps_process_record_consumer keeps_dead_letter_consumer)

section \<open>Success means handled\<close>

lemma validate_envelope_id:
  assumes "validate_envelope L i t c v = Some e" "dict_get (dict_of v) ''event_id'' \<noteq> None"
  shows "dict_get (dict_of v) ''event_id'' = Some (JStr (event_id e))"
proof -
  from assms(1) obtain eid where f: "defaulted ''event_id'' i read_str v = Some eid" and "event_id e = eid"
    unfolding validate_envelope_def by (elim field_SomeE) (rule that, assumption, simp only: option.inject, erule subst, simp)
  then show ?thesis using assms(2)
    by (cases v) (auto simp: defaulted_def read_str_def dict_get_def dict_of_def
        split: option.splits json.splits)
qed

lemma read_envelope_id:
  assumes "read_envelope E v w = (Inr e, w')" "dict_get (dict_of v) ''event_id'' \<noteq> None"
  shows "dict_get (dict_of v) ''event_id'' = Some (JStr (event_id e))"
  using assms(1) validate_envelope_id [OF _ assms(2)]
  by (auto simp: read_envelope_def of_option_def ret_def throw_def elim!: bnd_InrE split: option.splits)

lemma process_record_handles:
  assumes ok: "dynamo_ok (dynamo_of E)" "others_keep E" and "carries_id r"
    and run: "process_record E r w = (Inr (), w')"
  shows "handled E w' r"
proof -
  from run obtain e w1 existing w2 w3 where
    e: "read_envelope E (rec_value r) w = (Inr e, w1)"
    and g: "repo_get E ''processed_event'' (event_id e) w1 = (Inr existing, w2)"
    and p: "only_if (existing = None)
       (bnd (now_utc E) (\<lambda>now.
        repo_put E ''processed_event'' (event_id e)
          (dump_processed_event (lib_of E) (kafka_processed_event e r now)))) w2 = (Inr (), w3)"
    and c: "count_processed ''kafka'' (event_type e)
       (if existing = None then ''processed'' else ''duplicate'') w3 = (Inr (), w')"
    unfolding process_record_def by (elim bnd_InrE) (rule that, assumption+, simp_all)
  have id: "dict_get (dict_of (rec_value r)) ''event_id'' = Some (JStr (event_id e))"
    using read_envelope_id [OF e] assms(3) by (simp add: carries_id_def)
  have "recorded E (tbl w3) (event_id e)"
  proof (cases existing)
    case None
    then show ?thesis using p repo_put_stores [OF ok(1)]
      by (auto simp: recorded_def only_if_def elim!: bnd_InrE)
  next
    case (Some v)
    then show ?thesis using repo_get_found g p by (auto simp: recorded_def only_if_def ret_def)
  qed
  then have "handled E w3 r" using id by (auto simp: handled_def)
  then show ?thesis using c by (auto simp: count_processed_def change_def)
qed

lemma kafka_send_Inr:
  "kafka_send E m w = (Inr (), w') \<Longrightarrow> kafka_sent w' = kafka_sent w @ [m]"
  by (auto simp: kafka_send_def call_def change_def Let_def split: outcome.splits)

lemma dead_letter_handles:
  assumes ok: "dynamo_ok (dynamo_of E)" "others_keep E" and run: "dead_letter E r e n w = (Inr (), w')"
  shows "handled E w' r"
proof -
  from run obtain message w1 w2 where
    p: "publish_dead_letter E (dead_letter_id r) (dump_envelope (lib_of E) message) w1 = (Inr (), w2)"
    and rest: "bnd (now_utc E) (\<lambda>now.
       bnd (repo_put E ''processed_event'' (dead_letter_id r)
              (dump_processed_event (lib_of E) (dead_lettered_event r message n now))) (\<lambda>_.
       count_processed ''kafka'' ''event.processing_failed'' ''dead_lettered'')) w2 = (Inr (), w')"
    unfolding dead_letter_def by - (erule bnd_InrE, erule bnd_InrE, rule that, simp_all)
  from p obtain w0 where "kafka_send E
      \<lparr>msg_topic = KAFKA_DLQ_TOPIC, msg_key = dead_letter_id r,
       msg_value = dump_envelope (lib_of E) message, msg_headers = []\<rparr> w0 = (Inr (), w2)"
    unfolding publish_dead_letter_def by (elim bnd_InrE) blast
  then have "dead_lettered w2 r" by (auto simp: dead_lettered_def dest: kafka_send_Inr)
  then have "handled E w2 r" by (simp add: handled_def)
  moreover have "keeps (\<lambda>w. handled E w r) (bnd (now_utc E) (\<lambda>now.
       bnd (repo_put E ''processed_event'' (dead_letter_id r)
              (dump_processed_event (lib_of E) (dead_lettered_event r message n now))) (\<lambda>_.
       count_processed ''kafka'' ''event.processing_failed'' ''dead_lettered'')))"
    by (intro handled_intros ok; simp)
  ultimately show ?thesis using rest by (auto dest: keepsD)
qed

lemma retry_handles:
  assumes ok: "dynamo_ok (dynamo_of E)" "others_keep E" and "carries_id r"
    and run: "process_record_with_retry E r w = (Inr True, w')"
  shows "handled E w' r"
proof (cases "process_record E r w")
  case (Pair res w1)
  show ?thesis
  proof (cases res)
    case (Inr u)
    then have "handled E w1 r" using process_record_handles [OF assms(1-3)] Pair by simp
    then show ?thesis using run Pair Inr
      by (auto simp: process_record_with_retry_def attempt_def bnd_def set_attempts_def change_def ret_def)
  next
    case (Inl e)
    define n where "n = attempts_so_far w1 r + 1"
    define w2 where "w2 = w1\<lparr>attempts := (attempts w1)(record_key r := Some n),
      events_failed := events_failed w1 @ [(''kafka'', ''processing_error'')]\<rparr>"
    have step: "process_record_with_retry E r w =
        (if n < max_attempts E then ret False
         else bnd (dead_letter E r e n) (\<lambda>_. bnd (set_attempts r None) (\<lambda>_. ret True))) w2"
      using Pair Inl
      by (simp add: process_record_with_retry_def attempt_def bnd_def set_attempts_def change_def ret_def
          read_state_def count_failed_def n_def w2_def)
    with run have "bnd (dead_letter E r e n) (\<lambda>_. bnd (set_attempts r None) (\<lambda>_. ret True)) w2 = (Inr True, w')"
      by (auto simp: ret_def split: if_splits)
    then obtain w3 where "dead_letter E r e n w2 = (Inr (), w3)"
      "bnd (set_attempts r None) (\<lambda>_. ret True) w3 = (Inr True, w')" by - (erule bnd_InrE, rule that, simp_all)
    then show ?thesis using dead_letter_handles [OF ok]
      by (auto simp: bnd_def set_attempts_def change_def ret_def)
  qed
qed

section \<open>The consumer\<close>

lemma consumer_ok_poll:
  assumes "consumer_ok C" "op_poll C n k = (bs, k')"
  shows "distinct (map fst bs)" "(tp, rs) \<in> set bs \<Longrightarrow> batch_ok C k k' tp rs"
    "tp \<notin> fst ` set bs \<Longrightarrow> position_of C k' tp = position_of C k tp"
    "committed_of C k' = committed_of C k" "\<exists>new. log_of C k' tp = log_of C k tp @ new"
proof -
  have laws: "distinct (map fst bs) \<and> (\<forall>x \<in> set bs. case x of (tp, rs) \<Rightarrow> batch_ok C k k' tp rs) \<and>
      (\<forall>tp. tp \<notin> fst ` set bs \<longrightarrow> position_of C k' tp = position_of C k tp) \<and>
      committed_of C k' = committed_of C k \<and> (\<forall>tp. \<exists>new. log_of C k' tp = log_of C k tp @ new)"
    using assms(1) [unfolded consumer_ok_def, THEN conjunct1, THEN spec, of n, THEN spec, of k]
    unfolding assms(2) prod.case .
  show "distinct (map fst bs)" "committed_of C k' = committed_of C k"
    "\<exists>new. log_of C k' tp = log_of C k tp @ new" using laws by blast+
  show "batch_ok C k k' tp rs" if "(tp, rs) \<in> set bs" using laws that by blast
  show "position_of C k' tp = position_of C k tp" if "tp \<notin> fst ` set bs" using laws that by blast
qed

lemma consumer_ok_seek:
  assumes "consumer_ok C"
  shows "position_of C (op_seek C tp n k) = (position_of C k)(tp := n)"
    "committed_of C (op_seek C tp n k) = committed_of C k" "log_of C (op_seek C tp n k) = log_of C k"
  using assms [unfolded consumer_ok_def, THEN conjunct2, THEN conjunct1] by blast+

lemma consumer_ok_commit:
  assumes "consumer_ok C"
  shows "committed_of C (op_commit C k) = position_of C k" "position_of C (op_commit C k) = position_of C k"
    "log_of C (op_commit C k) = log_of C k"
  using assms [unfolded consumer_ok_def, THEN conjunct2, THEN conjunct2, THEN conjunct1] by blast+

lemma consumer_ok_log:
  assumes "consumer_ok C" "i < length (log_of C k tp)"
  shows "rec_tp (log_of C k tp ! i) = tp" "rec_offset (log_of C k tp ! i) = i"
  using assms(1) [unfolded consumer_ok_def, THEN conjunct2, THEN conjunct2, THEN conjunct2] assms(2)
  by blast+

abbreviation position :: "('t, 'k, 'e) worker_env_scheme \<Rightarrow> ('t, 'k, 'w) worker_world_scheme \<Rightarrow> topic_partition \<Rightarrow> nat" where
  "position E w \<equiv> position_of (consumer_ops_of E) (consumer w)"

abbreviation committed :: "('t, 'k, 'e) worker_env_scheme \<Rightarrow> ('t, 'k, 'w) worker_world_scheme \<Rightarrow> topic_partition \<Rightarrow> nat" where
  "committed E w \<equiv> committed_of (consumer_ops_of E) (consumer w)"

abbreviation log_at :: "('t, 'k, 'e) worker_env_scheme \<Rightarrow> ('t, 'k, 'w) worker_world_scheme \<Rightarrow> topic_partition \<Rightarrow> kafka_record list" where
  "log_at E w \<equiv> log_of (consumer_ops_of E) (consumer w)"

text \<open>Up to a bound per partition, every record exists and is handled, or is still pending.\<close>

definition covered ::
  "('t, 'k, 'e) worker_env_scheme \<Rightarrow> ('t, 'k, 'w) worker_world_scheme \<Rightarrow> (topic_partition \<Rightarrow> nat) \<Rightarrow>
   kafka_record set \<Rightarrow> bool" where
  "covered E w below pending \<longleftrightarrow>
     (\<forall>tp i. i < below tp \<longrightarrow> i < length (log_at E w tp) \<and>
        (handled E w (log_at E w tp ! i) \<or> log_at E w tp ! i \<in> pending))"

lemma coveredD:
  "covered E w below pending \<Longrightarrow> i < below tp \<Longrightarrow>
   i < length (log_at E w tp) \<and> (handled E w (log_at E w tp ! i) \<or> log_at E w tp ! i \<in> pending)"
  unfolding covered_def by blast

lemma coveredI:
  "(\<And>tp i. i < below tp \<Longrightarrow> i < length (log_at E w tp) \<and>
      (handled E w (log_at E w tp ! i) \<or> log_at E w tp ! i \<in> pending)) \<Longrightarrow> covered E w below pending"
  by (simp add: covered_def)

lemma covered_mono:
  assumes "covered E w below P" "consumer w' = consumer w"
    "\<And>r. handled E w r \<Longrightarrow> handled E w' r" "\<And>r. r \<in> P \<Longrightarrow> handled E w' r \<or> r \<in> P'"
  shows "covered E w' below P'"
  using assms by (metis covered_def)

lemma covered_same:
  assumes "covered E w below P" "log_of (consumer_ops_of E) (consumer w') = log_of (consumer_ops_of E) (consumer w)"
    "\<And>r. handled E w r \<Longrightarrow> handled E w' r"
  shows "covered E w' below P"
  by (rule coveredI) (use coveredD [OF assms(1)] assms(2,3) in auto)

section \<open>One batch\<close>

text \<open>
  The records of a batch that are still to do: they belong to one partition, their offsets
  increase, and they lie below the position.
\<close>

definition to_do ::
  "('t, 'k, 'e) worker_env_scheme \<Rightarrow> ('t, 'k, 'w) worker_world_scheme \<Rightarrow> topic_partition \<Rightarrow>
   kafka_record list \<Rightarrow> bool" where
  "to_do E w tp rs \<longleftrightarrow>
     (\<forall>r \<in> set rs. rec_tp r = tp \<and> rec_offset r < position E w tp \<and> carries_id r) \<and>
     sorted_wrt (\<lambda>a b. rec_offset a < rec_offset b) rs"

text \<open>What holds between the records: both the position and the committed offset are covered.\<close>

definition safe ::
  "('t, 'k, 'e) worker_env_scheme \<Rightarrow> ('t, 'k, 'w) worker_world_scheme \<Rightarrow> kafka_record set \<Rightarrow> bool" where
  "safe E w pending \<longleftrightarrow> covered E w (position E w) pending \<and> covered E w (committed E w) {}"

lemma safe_retry:
  assumes "dynamo_ok (dynamo_of E)" "others_keep E" "safe E w P"
    "process_record_with_retry E r w = (res, w')"
  shows "safe E w' P" "consumer w' = consumer w"
proof -
  have c: "consumer w' = consumer w"
    using keepsD [OF keeps_retry_consumer [of "consumer w" E r] refl] assms(4) by simp
  have "handled E w' x" if "handled E w x" for x
    using keepsD [OF keeps_retry_handled [OF assms(1,2), where r' = r] that] assms(4) by simp
  then show "safe E w' P" "consumer w' = consumer w"
    using assms(3) c covered_same unfolding safe_def by (metis (no_types, lifting))+
qed

lemma safe_done:
  assumes "safe E w (insert r P)" "handled E w r"
  shows "safe E w P"
  using assms unfolding safe_def covered_def by (metis insert_iff)

lemma seek_to_record_Inr:
  assumes "seek_to_record E r w = (Inr (), w')"
  shows "consumer w' = op_seek (consumer_ops_of E) (rec_tp r) (rec_offset r) (consumer w)"
  using assms
  by (auto simp: seek_to_record_def required_consumer_def call_def change_def check_def read_state_def
      ret_def throw_def Let_def elim!: bnd_InrE split: outcome.splits if_splits)

lemma keeps_seek_handled:
  assumes "others_keep E"
  shows "keeps (\<lambda>w. handled E w r) (seek_to_record E r')"
  unfolding seek_to_record_def required_consumer_def
  by (intro keeps_intros keeps_call_others keeps_change; simp add: handled_others [OF assms])

text \<open>A seek back to a record leaves only records before it below the position.\<close>

lemma safe_seek:
  assumes C: "consumer_ok (consumer_ops_of E)" and "others_keep E"
    and s: "safe E w (set (r # rs) \<union> P)" and t: "to_do E w tp (r # rs)"
    and run: "seek_to_record E r w = (Inr (), w')"
  shows "safe E w' P"
proof -
  let ?C = "consumer_ops_of E"
  from t have r: "rec_tp r = tp" "rec_offset r < position E w tp"
    and after: "\<And>x. x \<in> set (r # rs) \<Longrightarrow> rec_tp x = tp \<and> rec_offset r \<le> rec_offset x"
    unfolding to_do_def by (auto intro: less_imp_le)
  have c: "consumer w' = op_seek ?C tp (rec_offset r) (consumer w)"
    using seek_to_record_Inr [OF run] r by simp
  have log: "log_at E w' = log_at E w" and com: "committed E w' = committed E w"
    and pos: "position E w' = (position E w)(tp := rec_offset r)"
    using consumer_ok_seek [OF C] c by simp_all
  have kept: "handled E w' x" if "handled E w x" for x
    using keepsD [OF keeps_seek_handled [OF assms(2), where r' = r] that] run by simp
  have "covered E w' (position E w') P"
  proof (rule coveredI)
    fix q i
    assume i: "i < position E w' q"
    have "i < position E w q"
      using i r by (cases "q = tp") (simp_all add: pos)
    with s have old: "i < length (log_at E w q)"
      "handled E w (log_at E w q ! i) \<or> log_at E w q ! i \<in> set (r # rs) \<union> P"
      unfolding safe_def by (blast dest: coveredD)+
    have "log_at E w q ! i \<notin> set (r # rs)"
    proof
      assume "log_at E w q ! i \<in> set (r # rs)"
      from after [OF this] consumer_ok_log [OF C old(1)] have "q = tp" "rec_offset r \<le> i" by simp_all
      then show False using i by (simp add: pos)
    qed
    then show "i < length (log_at E w' q) \<and> (handled E w' (log_at E w' q ! i) \<or> log_at E w' q ! i \<in> P)"
      using old kept unfolding log by blast
  qed
  moreover have "covered E w' (committed E w) {}"
    using s kept log unfolding safe_def by (blast intro: covered_same)
  ultimately show ?thesis by (simp add: safe_def com)
qed

end
