(* ===== verification/EventWorkerLoop.thy ===== *)
theory EventWorkerLoop
  imports EventWorkerFacts
begin

text \<open>
  The polling loop of the Kafka worker: a cycle that runs through keeps every record below the
  position and below the committed offset handled; it sends dead letters for polled records only,
  and a cycle without a failure does not seek.
\<close>

section \<open>The records of a poll\<close>

lemma process_batch_safe:
  assumes ok: "dynamo_ok (dynamo_of E)" "others_keep E" "consumer_ok (consumer_ops_of E)"
  shows "safe E w (set rs \<union> P) \<Longrightarrow> to_do E w tp rs \<Longrightarrow>
    process_batch E rs flags w = (Inr flags', w') \<Longrightarrow>
    safe E w' P \<and> (\<forall>q. q \<noteq> tp \<longrightarrow> position E w' q = position E w q)"
proof (induction rs arbitrary: flags w)
  case Nil
  then show ?case by (simp add: ret_def)
next
  case (Cons r rs)
  obtain a b where flags: "flags = (a, b)" by (cases flags)
  from Cons.prems(3) obtain done_it w1 where
    retry: "process_record_with_retry E r w = (Inr done_it, w1)"
    and rest: "(if \<not> done_it then bnd (seek_to_record E r) (\<lambda>_. ret (a, True))
        else process_batch E rs (True, b)) w1 = (Inr flags', w')"
    unfolding flags process_batch.simps by - (erule bnd_InrE, rule that, simp_all)
  note kept = safe_retry [OF ok(1,2) Cons.prems(1) retry]
  have id: "carries_id r" using Cons.prems(2) by (simp add: to_do_def)
  show ?case
  proof (cases done_it)
    case True
    have "handled E w1 r" using retry_handles [OF ok(1,2) id] retry True by simp
    then have "safe E w1 (set rs \<union> P)" using kept(1) safe_done [of E w1 r "set rs \<union> P"] by simp
    moreover have "to_do E w1 tp rs" using Cons.prems(2) kept(2) by (simp add: to_do_def)
    ultimately show ?thesis using Cons.IH [of w1 "(True, b)"] rest True kept(2) by simp
  next
    case False
    with rest obtain w2 where seek: "seek_to_record E r w1 = (Inr (), w2)" and "w' = w2"
      by (auto simp: ret_def elim!: bnd_InrE)
    have t1: "to_do E w1 tp (r # rs)" using Cons.prems(2) kept(2) by (simp add: to_do_def)
    have "safe E w' P"
      using safe_seek [OF ok(3,2) kept(1) t1 seek] \<open>w' = w2\<close> by simp
    moreover have "position E w' q = position E w q" if "q \<noteq> tp" for q
      using that t1 kept(2) seek_to_record_Inr [OF seek] consumer_ok_seek(1) [OF ok(3)] \<open>w' = w2\<close>
      by (simp add: to_do_def)
    ultimately show ?thesis by blast
  qed
qed

definition pending_of :: "batches \<Rightarrow> kafka_record set" where
  "pending_of bs = (\<Union>(tp, rs) \<in> set bs. set rs)"

definition all_to_do ::
  "('t, 'k, 'e) worker_env_scheme \<Rightarrow> ('t, 'k, 'w) worker_world_scheme \<Rightarrow> batches \<Rightarrow> bool" where
  "all_to_do E w bs \<longleftrightarrow> distinct (map fst bs) \<and> (\<forall>(tp, rs) \<in> set bs. to_do E w tp rs)"

lemma process_batches_safe:
  assumes ok: "dynamo_ok (dynamo_of E)" "others_keep E" "consumer_ok (consumer_ops_of E)"
  shows "safe E w (pending_of bs) \<Longrightarrow> all_to_do E w bs \<Longrightarrow>
    process_batches E bs flags w = (Inr flags', w') \<Longrightarrow> safe E w' {}"
proof (induction bs arbitrary: flags w)
  case Nil
  then show ?case by (simp add: ret_def pending_of_def)
next
  case (Cons b bs)
  obtain tp rs where b: "b = (tp, rs)" by (cases b)
  from Cons.prems(3) obtain flags1 w1 where
    batch: "process_batch E rs flags w = (Inr flags1, w1)"
    and rest: "process_batches E bs flags1 w1 = (Inr flags', w')"
    unfolding b process_batches.simps by (rule bnd_InrE)
  have "safe E w (set rs \<union> pending_of bs)" using Cons.prems(1) by (simp add: pending_of_def b)
  from process_batch_safe [OF ok this _ batch, of tp] Cons.prems(2)
  have both: "safe E w1 (pending_of bs) \<and> (\<forall>q. q \<noteq> tp \<longrightarrow> position E w1 q = position E w q)"
    by (simp add: all_to_do_def b)
  then have s: "safe E w1 (pending_of bs)" ..
  have pos: "\<And>q. q \<noteq> tp \<Longrightarrow> position E w1 q = position E w q" using both by blast
  have "to_do E w1 q qs" if q: "(q, qs) \<in> set bs" for q qs
  proof -
    have "q \<noteq> tp" using Cons.prems(2) q by (force simp: all_to_do_def b)
    moreover have "to_do E w q qs" using Cons.prems(2) q by (auto simp: all_to_do_def b)
    ultimately show ?thesis using pos by (simp add: to_do_def)
  qed
  then have "all_to_do E w1 bs" using Cons.prems(2) by (auto simp: all_to_do_def b)
  from Cons.IH [OF s this rest] show ?case .
qed

section \<open>A poll\<close>

lemma poll_records_Inr:
  assumes "poll_records E w = (Inr bs, w')"
  shows "op_poll (consumer_ops_of E) (Suc (tick w)) (consumer w) = (bs, consumer w')"
    "w' = w\<lparr>tick := Suc (tick w), tbl := others E (tick w) (tbl w), consumer := consumer w'\<rparr>"
  using assms
  by (auto simp: poll_records_def required_consumer_def call_def check_def read_state_def
      ret_def throw_def Let_def elim!: bnd_InrE split: outcome.splits if_splits prod.splits)

lemma batch_okD:
  assumes "batch_ok C k k' tp rs"
  shows "position_of C k' tp = position_of C k tp + length rs"
    "i < length rs \<Longrightarrow> position_of C k tp + i < length (log_of C k' tp)"
    "i < length rs \<Longrightarrow> rs ! i = log_of C k' tp ! (position_of C k tp + i)"
proof -
  let ?log = "log_of C k' tp" and ?p = "position_of C k tp"
  have rs: "rs = take (length rs) (drop ?p ?log)" using assms unfolding batch_ok_def by blast
  then have len: "length rs = min (length rs) (length ?log - ?p)" by (metis length_drop length_take min.commute)
  show "position_of C k' tp = ?p + length rs" using assms unfolding batch_ok_def by blast
  show bound: "?p + i < length ?log" if "i < length rs" using that len by linarith
  show "rs ! i = ?log ! (?p + i)" if "i < length rs"
  proof -
    have "rs ! i = take (length rs) (drop ?p ?log) ! i" using rs by metis
    also have "\<dots> = ?log ! (?p + i)" using that bound [OF that] by simp
    finally show ?thesis .
  qed
qed

lemma batch_to_do:
  assumes C: "consumer_ok (consumer_ops_of E)"
    and b: "batch_ok (consumer_ops_of E) k (consumer w) tp rs"
    and ids: "\<And>i. i < length (log_at E w tp) \<Longrightarrow> carries_id (log_at E w tp ! i)"
  shows "to_do E w tp rs"
proof -
  note d = batch_okD [OF b]
  have at: "rec_tp (rs ! i) = tp \<and> rec_offset (rs ! i) = position_of (consumer_ops_of E) k tp + i"
    if "i < length rs" for i
    using consumer_ok_log [OF C d(2) [OF that]] d(3) [OF that] by simp
  have "rec_tp r = tp \<and> rec_offset r < position E w tp \<and> carries_id r" if r: "r \<in> set rs" for r
  proof -
    obtain i where i: "i < length rs" "r = rs ! i" using r by (auto simp: in_set_conv_nth)
    then show ?thesis using at [OF i(1)] ids [OF d(2) [OF i(1)]] d(3) [OF i(1)] d(1) by simp
  qed
  moreover have "sorted_wrt (\<lambda>a b. rec_offset a < rec_offset b) rs"
    unfolding sorted_wrt_iff_nth_less using at by simp
  ultimately show ?thesis by (simp add: to_do_def)
qed

definition ids_in ::
  "('t, 'k, 'e) worker_env_scheme \<Rightarrow> ('t, 'k, 'w) worker_world_scheme \<Rightarrow> bool" where
  "ids_in E w \<longleftrightarrow> (\<forall>tp i. i < length (log_at E w tp) \<longrightarrow> carries_id (log_at E w tp ! i))"

lemma poll_safe:
  assumes C: "consumer_ok (consumer_ops_of E)" and "others_keep E"
    and s: "safe E w {}" and run: "poll_records E w = (Inr bs, w')" and ids: "ids_in E w'"
  shows "safe E w' (pending_of bs)" "all_to_do E w' bs"
proof -
  let ?C = "consumer_ops_of E"
  note op = poll_records_Inr [OF run]
  note laws = consumer_ok_poll [OF C op(1)]
  have kept: "handled E w' r" if "handled E w r" for r
    by (subst op(2)) (simp add: handled_others [OF assms(2) that])
  have log: "i < length (log_at E w' q) \<and> log_at E w' q ! i = log_at E w q ! i"
    if "i < length (log_at E w q)" for q i
    using laws(5) [of q] that by (auto simp: nth_append)
  show "all_to_do E w' bs"
    using laws(1) batch_to_do [OF C laws(2)] ids by (auto simp: all_to_do_def ids_in_def)
  have "covered E w' (position E w') (pending_of bs)"
  proof (rule coveredI)
    fix q i
    assume i: "i < position E w' q"
    show "i < length (log_at E w' q) \<and> (handled E w' (log_at E w' q ! i) \<or> log_at E w' q ! i \<in> pending_of bs)"
    proof (cases "i < position E w q")
      case True
      with s have "i < length (log_at E w q)" "handled E w (log_at E w q ! i)"
        unfolding safe_def by (blast dest: coveredD)+
      then show ?thesis using log kept by simp
    next
      case False
      with i laws(3) [of q] obtain rs where rs: "(q, rs) \<in> set bs" by fastforce
      note d = batch_okD [OF laws(2) [OF rs]]
      let ?j = "i - position E w q"
      have j: "?j < length rs" "position E w q + ?j = i" using False i d(1) by simp_all
      then have "log_at E w' q ! i \<in> set rs" using d(3) [OF j(1)] by (metis nth_mem)
      then show ?thesis using d(2) [OF j(1)] j rs by (auto simp: pending_of_def)
    qed
  qed
  moreover have "covered E w' (committed E w') {}"
  proof (rule coveredI)
    fix q i
    assume "i < committed E w' q"
    with s have "i < length (log_at E w q)" "handled E w (log_at E w q ! i)"
      unfolding safe_def laws(4) by (blast dest: coveredD)+
    then show "i < length (log_at E w' q) \<and> (handled E w' (log_at E w' q ! i) \<or> log_at E w' q ! i \<in> {})"
      using log kept by simp
  qed
  ultimately show "safe E w' (pending_of bs)" by (simp add: safe_def)
qed

section \<open>A commit\<close>

lemma commit_offsets_consumer:
  "consumer (snd (commit_offsets E w)) = consumer w \<or>
   consumer (snd (commit_offsets E w)) = op_commit (consumer_ops_of E) (consumer w)"
  by (auto simp: commit_offsets_def required_consumer_def call_def change_def check_def read_state_def
      bnd_def ret_def throw_def Let_def split: outcome.splits)

lemma keeps_commit_handled:
  assumes "others_keep E"
  shows "keeps (\<lambda>w. handled E w r) (commit_if E flags)"
  unfolding commit_if_def commit_offsets_def required_consumer_def
  by (intro keeps_intros keeps_call_others keeps_change; simp add: handled_others [OF assms])

lemma commit_safe:
  assumes C: "consumer_ok (consumer_ops_of E)" and "others_keep E" and s: "safe E w {}"
  shows "safe E (snd (commit_if E flags w)) {}"
proof -
  let ?w = "snd (commit_if E flags w)" and ?C = "consumer_ops_of E"
  have kept: "handled E ?w r" if "handled E w r" for r
    by (rule keepsD [OF keeps_commit_handled [OF assms(2)] that])
  have "consumer ?w = consumer w \<or> consumer ?w = op_commit ?C (consumer w)"
    using commit_offsets_consumer by (auto simp: commit_if_def only_if_def ret_def)
  then have "log_at E ?w = log_at E w" "position E ?w = position E w"
    and "committed E ?w = committed E w \<or> committed E ?w = position E w"
    using consumer_ok_commit [OF C] by auto
  then show ?thesis
    using s kept unfolding safe_def by (auto intro: covered_same)
qed

section \<open>Runs of the loop\<close>

text \<open>
  A cycle is calm when its poll, and the processing of what it polled, run through: records may
  fail and be retried or dead-lettered, but no dead letter and no seek fails.
\<close>

definition calm ::
  "('t, 'k, 'e) worker_env_scheme \<Rightarrow> ('t, 'k, 'w) worker_world_scheme \<Rightarrow> bool" where
  "calm E w = (case bnd (poll_records E) (\<lambda>bs. process_batches E bs (False, False)) w of
     (Inr _, _) \<Rightarrow> True | (Inl _, _) \<Rightarrow> False)"

inductive worker_run ::
  "('t, 'k, 'e) worker_env_scheme \<Rightarrow> ('t, 'k, 'w) worker_world_scheme \<Rightarrow>
   ('t, 'k, 'w) worker_world_scheme \<Rightarrow> bool" for E w where
  run_start: "worker_run E w w"
| run_cycle: "worker_run E w w' \<Longrightarrow> calm E w' \<Longrightarrow> worker_run E w (snd (poll_cycle E w'))"

lemma poll_failed_safe [simp]: "safe E (snd (poll_failed e w)) P = safe E w P"
  by (simp add: poll_failed_def count_failed_def change_def safe_def covered_def)

lemma poll_cycle_calm:
  assumes "calm E w"
  obtains bs w1 flags w2 where "poll_records E w = (Inr bs, w1)"
    "process_batches E bs (False, False) w1 = (Inr flags, w2)"
    "\<And>P. safe E (snd (poll_cycle E w)) P = safe E (snd (commit_if E flags w2)) P"
    "log_at E (snd (poll_cycle E w)) = log_at E (snd (commit_if E flags w2))"
proof -
  from assms obtain flags w2 where
    "bnd (poll_records E) (\<lambda>bs. process_batches E bs (False, False)) w = (Inr flags, w2)"
    by (auto simp: calm_def split: prod.splits sum.splits)
  then obtain bs w1 where p: "poll_records E w = (Inr bs, w1)"
    "process_batches E bs (False, False) w1 = (Inr flags, w2)" by (rule bnd_InrE)
  then have "poll_cycle E w = attempt (commit_if E flags) poll_failed w2"
    by (simp add: poll_cycle_def attempt_def bnd_def)
  then have "safe E (snd (poll_cycle E w)) P = safe E (snd (commit_if E flags w2)) P"
    "log_at E (snd (poll_cycle E w)) = log_at E (snd (commit_if E flags w2))" for P
    by (simp_all add: attempt_def poll_failed_def count_failed_def change_def safe_def covered_def
        split: prod.split sum.split)
  with p show ?thesis by (rule that)
qed

lemma keeps_seek_log:
  assumes "consumer_ok (consumer_ops_of E)"
  shows "keeps (\<lambda>w. log_at E w = L) (seek_to_record E r)"
  unfolding seek_to_record_def required_consumer_def
  by (intro keeps_intros keeps_call keeps_change; simp add: consumer_ok_seek [OF assms])

lemma keeps_commit_log:
  assumes "consumer_ok (consumer_ops_of E)"
  shows "keeps (\<lambda>w. log_at E w = L) (commit_if E flags)"
  unfolding commit_if_def commit_offsets_def required_consumer_def
  by (intro keeps_intros keeps_call keeps_change; simp add: consumer_ok_commit [OF assms])

lemma keeps_retry_log: "keeps (\<lambda>w. log_at E w = L) (process_record_with_retry E r)"
  by (rule keepsI) (simp add: keepsD [OF keeps_retry_consumer refl])

lemma keeps_batch_log:
  assumes "consumer_ok (consumer_ops_of E)"
  shows "keeps (\<lambda>w. log_at E w = L) (process_batch E rs flags)"
proof (induction rs arbitrary: flags)
  case Nil
  show ?case by (simp add: keeps_intros)
next
  case (Cons r rs)
  obtain a b where flags: "flags = (a, b)" by (cases flags)
  show ?case unfolding flags process_batch.simps
    by (intro keeps_intros keeps_retry_log keeps_seek_log [OF assms] Cons.IH)
qed

lemma keeps_batches_log:
  assumes "consumer_ok (consumer_ops_of E)"
  shows "keeps (\<lambda>w. log_at E w = L) (process_batches E bs flags)"
proof (induction bs arbitrary: flags)
  case Nil
  show ?case by (simp add: keeps_intros)
next
  case (Cons b bs)
  obtain tp rs where b: "b = (tp, rs)" by (cases b)
  show ?case unfolding b process_batches.simps
    by (intro keeps_intros keeps_batch_log [OF assms] Cons.IH)
qed

lemma poll_cycle_log:
  assumes "consumer_ok (consumer_ops_of E)" "poll_records E w = (Inr bs, w1)"
    "process_batches E bs (False, False) w1 = (Inr flags, w2)"
  shows "log_at E (snd (commit_if E flags w2)) = log_at E w1"
    "\<exists>new. log_at E w1 tp = log_at E w tp @ new"
proof -
  have "log_at E w2 = log_at E w1"
    using keepsD [OF keeps_batches_log [OF assms(1), of "log_at E w1" bs "(False, False)"] refl] assms(3)
    by simp
  then show "log_at E (snd (commit_if E flags w2)) = log_at E w1"
    using keepsD [OF keeps_commit_log [OF assms(1), of "log_at E w1" flags], of w2] by simp
  show "\<exists>new. log_at E w1 tp = log_at E w tp @ new"
    using consumer_ok_poll(5) [OF assms(1) poll_records_Inr(1) [OF assms(2)]] .
qed

lemma ids_in_earlier:
  assumes "ids_in E w'" "\<And>tp. \<exists>new. log_at E w' tp = log_at E w tp @ new"
  shows "ids_in E w"
  unfolding ids_in_def
proof (intro allI impI)
  fix tp i
  assume i: "i < length (log_at E w tp)"
  obtain new where new: "log_at E w' tp = log_at E w tp @ new" using assms(2) by blast
  then have "i < length (log_at E w' tp)" "log_at E w' tp ! i = log_at E w tp ! i"
    using i by (simp_all add: nth_append)
  then show "carries_id (log_at E w tp ! i)" using assms(1) unfolding ids_in_def by metis
qed

lemma worker_run_safe:
  assumes ok: "dynamo_ok (dynamo_of E)" "others_keep E" "consumer_ok (consumer_ops_of E)"
    and s: "safe E w {}"
  shows "worker_run E w w' \<Longrightarrow> ids_in E w' \<Longrightarrow> safe E w' {}"
proof (induction rule: worker_run.induct)
  case run_start
  show ?case by (rule s)
next
  case (run_cycle w')
  from poll_cycle_calm [OF run_cycle.hyps(2)] obtain bs w1 flags w2 where
    p: "poll_records E w' = (Inr bs, w1)" and b: "process_batches E bs (False, False) w1 = (Inr flags, w2)"
    and c: "safe E (snd (poll_cycle E w')) {} = safe E (snd (commit_if E flags w2)) {}"
    and l: "log_at E (snd (poll_cycle E w')) = log_at E (snd (commit_if E flags w2))" by metis
  note logs = poll_cycle_log [OF ok(3) p b]
  have ids: "ids_in E w1" using run_cycle.prems unfolding ids_in_def l logs(1) .
  then have "safe E w' {}" using run_cycle.IH ids_in_earlier logs(2) by blast
  from poll_safe [OF ok(3,2) this p ids] have "safe E w1 (pending_of bs)" "all_to_do E w1 bs" .
  from process_batches_safe [OF ok this b] have "safe E w2 {}" .
  then show ?case unfolding c by (rule commit_safe [OF ok(3,2)])
qed

section \<open>Dead letters of a batch\<close>

text \<open>Every message is among those sent before, or has one of the given keys.\<close>

definition letters_from ::
  "kafka_message set \<Rightarrow> string set \<Rightarrow> ('t, 'w) world_scheme \<Rightarrow> bool" where
  "letters_from S K w \<longleftrightarrow> (\<forall>m \<in> set (kafka_sent w). m \<in> S \<or> msg_key m \<in> K)"

lemma letters_irrelevant [simp]:
  "letters_from S K (w\<lparr>tick := n\<rparr>) = letters_from S K w"
  "letters_from S K (w\<lparr>tbl := t\<rparr>) = letters_from S K w"
  by (simp_all add: letters_from_def)

lemma letters_irrelevant_worker [simp]:
  "letters_from S K (w\<lparr>consumer := k\<rparr>) = letters_from S K w"
  "letters_from S K (w\<lparr>attempts := a\<rparr>) = letters_from S K w"
  "letters_from S K (w\<lparr>events_processed := ep\<rparr>) = letters_from S K w"
  "letters_from S K (w\<lparr>events_failed := ef\<rparr>) = letters_from S K w"
  by (simp_all add: letters_from_def)

lemma keeps_step_letters:
  "keeps (letters_from S K) (repo_get E et eid)"
  "keeps (letters_from S K) (repo_put E et eid data)"
  "keeps (letters_from S K) (read_envelope E v)"
  "keeps (letters_from S K) (count_processed b et' res)"
  "keeps (letters_from S K) (count_failed b reason)"
  "keeps (letters_from S K) (set_attempts r n)"
  unfolding repo_get_def repo_put_def table_get_def table_put_def item_data_def
    conflict_as_concurrent_update_def Let_def read_envelope_def count_processed_def count_failed_def
    set_attempts_def
  by (intro keeps_intros keeps_call keeps_change; simp add: keeps_def split: sum.split)+

lemma keeps_seek_letters: "keeps (letters_from S K) (seek_to_record E r)"
  unfolding seek_to_record_def required_consumer_def
  by (intro keeps_intros keeps_call keeps_change; simp)

lemma keeps_send_letters: "msg_key m \<in> K \<Longrightarrow> keeps (letters_from S K) (kafka_send E m)"
  unfolding kafka_send_def by (intro keeps_call keeps_change; auto simp: letters_from_def)

lemma keeps_retry_letters:
  assumes "dead_letter_id r \<in> K"
  shows "keeps (letters_from S K) (process_record_with_retry E r)"
  unfolding process_record_with_retry_def process_record_def dead_letter_def dead_letter_envelope_def
    publish_dead_letter_def Let_def
  by (intro keeps_intros keeps_step_letters keeps_send_letters; simp add: assms)

lemma keeps_batch_letters:
  "dead_letter_id ` set rs \<subseteq> K \<Longrightarrow> keeps (letters_from S K) (process_batch E rs flags)"
proof (induction rs arbitrary: flags)
  case Nil
  show ?case by (simp add: keeps_intros)
next
  case (Cons r rs)
  obtain a b where flags: "flags = (a, b)" by (cases flags)
  show ?case unfolding flags process_batch.simps
    using Cons.prems by (intro keeps_intros keeps_retry_letters keeps_seek_letters Cons.IH) auto
qed

lemma keeps_batches_letters:
  "dead_letter_id ` pending_of bs \<subseteq> K \<Longrightarrow> keeps (letters_from S K) (process_batches E bs flags)"
proof (induction bs arbitrary: flags)
  case Nil
  show ?case by (simp add: keeps_intros)
next
  case (Cons b bs)
  obtain tp rs where b: "b = (tp, rs)" by (cases b)
  show ?case unfolding b process_batches.simps
    using Cons.prems by (intro keeps_intros keeps_batch_letters Cons.IH) (auto simp: b pending_of_def)
qed

text \<open>The key of a dead letter names its record: topic, partition and offset.\<close>

lemma no_dash: "CHR ''-'' \<notin> set (str_of_nat n)"
  using str_of_nat_digits [of "CHR ''-''" n] by (auto simp: digit_val_def)

lemma dead_letter_id_inj:
  assumes "dead_letter_id r = dead_letter_id r'"
  shows "rec_tp r = rec_tp r' \<and> rec_offset r = rec_offset r'"
proof -
  have "rec_topic r @ ''-'' @ str_of_nat (rec_partition r) = rec_topic r' @ ''-'' @ str_of_nat (rec_partition r') \<and>
      str_of_nat (rec_offset r) = str_of_nat (rec_offset r')"
    using assms
      append_sep_inject [OF no_dash no_dash, of "rec_topic r @ ''-'' @ str_of_nat (rec_partition r)"
        "rec_offset r" "rec_topic r' @ ''-'' @ str_of_nat (rec_partition r')" "rec_offset r'"]
    by (simp add: dead_letter_id_def)
  then show ?thesis
    using append_sep_inject [OF no_dash no_dash, of "rec_topic r" "rec_partition r" "rec_topic r'" "rec_partition r'"]
    by (auto simp: rec_tp_def dest: str_of_nat_inj)
qed

text \<open>Where the flags report no failure, nothing was sought.\<close>

lemma process_batch_unsought:
  "process_batch E rs flags w = (Inr (a, False), w') \<Longrightarrow> consumer w' = consumer w \<and> \<not> snd flags"
proof (induction rs arbitrary: flags w)
  case (Cons r rs)
  obtain b c where flags: "flags = (b, c)" by (cases flags)
  from Cons.prems obtain done_it w1 where
    retry: "process_record_with_retry E r w = (Inr done_it, w1)"
    and rest: "(if \<not> done_it then bnd (seek_to_record E r) (\<lambda>_. ret (b, True))
        else process_batch E rs (True, c)) w1 = (Inr (a, False), w')"
    unfolding flags process_batch.simps by - (erule bnd_InrE, rule that, simp_all)
  have "consumer w1 = consumer w" using keepsD [OF keeps_retry_consumer refl] retry by (metis snd_conv)
  moreover have done_it: "done_it" using rest by (auto simp: ret_def elim!: bnd_InrE split: if_splits)
  ultimately show ?case using Cons.IH [of "(True, c)" w1] rest flags by simp
qed (simp add: ret_def)

lemma process_batches_unsought:
  "process_batches E bs flags w = (Inr (a, False), w') \<Longrightarrow> consumer w' = consumer w \<and> \<not> snd flags"
proof (induction bs arbitrary: flags w)
  case (Cons b bs)
  obtain tp rs where b: "b = (tp, rs)" by (cases b)
  from Cons.prems obtain fl w1 where one: "process_batch E rs flags w = (Inr fl, w1)"
    and rest: "process_batches E bs fl w1 = (Inr (a, False), w')"
    unfolding b process_batches.simps by (rule bnd_InrE)
  from Cons.IH [OF rest] have "consumer w' = consumer w1" "fl = (fst fl, False)"
    by (auto simp: prod_eq_iff)
  then show ?case using process_batch_unsought [of E rs flags w "fst fl" w1] one by simp
qed (simp add: ret_def)

text \<open>A poll hands out records from the position on, and never moves a position back.\<close>

lemma polled_records:
  assumes "consumer_ok (consumer_ops_of E)" "poll_records E w = (Inr bs, w')"
  shows "(tp, rs) \<in> set bs \<Longrightarrow> i < length rs \<Longrightarrow>
      rec_tp (rs ! i) = tp \<and> rec_offset (rs ! i) = position E w tp + i \<and>
      position E w' tp = position E w tp + length rs"
    and "position E w q \<le> position E w' q"
    and "r \<in> pending_of bs \<Longrightarrow> position E w (rec_tp r) \<le> rec_offset r"
proof -
  let ?C = "consumer_ops_of E"
  note poll = poll_records_Inr(1) [OF assms(2)]
  show at: "rec_tp (rs ! i) = tp \<and> rec_offset (rs ! i) = position E w tp + i \<and>
      position E w' tp = position E w tp + length rs" if b: "(tp, rs) \<in> set bs" "i < length rs" for tp rs i
  proof -
    note d = batch_okD [OF consumer_ok_poll(2) [OF assms(1) poll b(1)]]
    show ?thesis using consumer_ok_log [OF assms(1) d(2) [OF b(2)]] d(1) d(3) [OF b(2)] by simp
  qed
  show "position E w q \<le> position E w' q"
  proof (cases "q \<in> fst ` set bs")
    case True
    then obtain rs where "(q, rs) \<in> set bs" by force
    from batch_okD(1) [OF consumer_ok_poll(2) [OF assms(1) poll this]] show ?thesis by simp
  next
    case False
    from consumer_ok_poll(3) [OF assms(1) poll this] show ?thesis by simp
  qed
  assume "r \<in> pending_of bs"
  then obtain tp rs where b: "(tp, rs) \<in> set bs" "r \<in> set rs" by (auto simp: pending_of_def)
  then obtain i where "i < length rs" "r = rs ! i" by (auto simp: in_set_conv_nth)
  with at [OF b(1)] show "position E w (rec_tp r) \<le> rec_offset r" by simp
qed

end
