(* ===== verification/EventWorkerProperties.thy ===== *)
theory EventWorkerProperties
  imports EventWorkerLoop Sample
begin

text \<open>
  The properties of the event worker: what processing a record does, what becomes of a record
  that cannot be processed, and what a committed offset and a deleted queue message stand for.
\<close>

section \<open>One record\<close>

text \<open>What the values of a record are read as, the defaults being the fresh values of the moment.\<close>

definition envelope_of ::
  "('t, 'e) env_scheme \<Rightarrow> ('t, 'w) world_scheme \<Rightarrow> json \<Rightarrow> envelope option" where
  "envelope_of E w v =
     validate_envelope (lib_of E) (uuid_at E (tick w)) (now_at E (tick w + 1)) (uuid_at E (tick w + 2)) v"

lemma read_envelope_eq:
  "read_envelope E v w =
     (case envelope_of E w v of None \<Rightarrow> Inl ValidationError | Some e \<Rightarrow> Inr e, w\<lparr>tick := tick w + 3\<rparr>)"
  by (simp add: read_envelope_def envelope_of_def new_uuid_def now_utc_def bnd_def of_option_def ret_def
      throw_def split: option.split)

lemma processed_event_finite:
  "finite_numbers (JObj (pe_payload x)) \<Longrightarrow> finite_numbers (dump_processed_event L x)"
  by (simp add: dump_processed_event_def opt_str_def opt_int_def split: option.split)

lemma processed_event_kind [simp]: "''processed_event'' \<in> set entity_types"
  by (simp add: entity_types_def)

text \<open>Storing a processed event in a run without failures.\<close>

lemma put_processed_event:
  fixes E :: "('t, 'e) env_scheme" and w :: "('t, 'w) world_scheme"
  assumes "quiet E" "table_ok (dynamo_of E) (tbl w)" "finite_numbers (JObj (pe_payload x))"
  shows "\<exists>t' d. repo_put E ''processed_event'' eid (dump_processed_event (lib_of E) x) w =
      (Inr (), w\<lparr>tick := tick w + 3, tbl := t'\<rparr>) \<and> table_ok (dynamo_of E) t' \<and>
    view (dynamo_of E) t' ''processed_event'' eid = Some d \<and>
    same_value (stored (lib_of E) (dump_processed_event (lib_of E) x)) d \<and>
    same_elsewhere (dynamo_of E) (tbl w) t' ''processed_event'' eid"
proof -
  obtain t' d where r: "repo_put E ''processed_event'' eid (dump_processed_event (lib_of E) x) w =
      (Inr (), w\<lparr>tick := tick w + 3, tbl := t'\<rparr>)" "table_ok (dynamo_of E) t'"
    "view (dynamo_of E) t' ''processed_event'' eid = Some d"
    "same_value (stored (lib_of E) (dump_processed_event (lib_of E) x)) d"
    "\<forall>k. k \<noteq> entity_key ''processed_event'' eid \<longrightarrow>
       get_item (dynamo_of E) t' k = get_item (dynamo_of E) (tbl w) k"
    using repo_put_quiet [OF assms(1,2) dynamodb_value_storable [OF processed_event_finite [OF assms(3)]]]
    by blast
  have "same_elsewhere (dynamo_of E) (tbl w) t' ''processed_event'' eid"
    unfolding same_elsewhere_def
  proof (intro allI impI)
    fix et' eid' assume "et' \<in> set entity_types" "et' \<noteq> ''processed_event'' \<or> eid' \<noteq> eid"
    then have "entity_key et' eid' \<noteq> entity_key ''processed_event'' eid" by (intro entity_key_other) simp_all
    from r(5) [rule_format, OF this]
    show "view (dynamo_of E) t' et' eid' = view (dynamo_of E) (tbl w) et' eid'" by (simp add: view_def)
  qed
  then show ?thesis using r by blast
qed

lemma process_record_run:
  fixes E :: "('t, 'k, 'e) worker_env_scheme" and w :: "('t, 'k, 'w) worker_world_scheme"
  assumes "quiet E" "table_ok (dynamo_of E) (tbl w)"
    and "\<And>e. envelope_of E w (rec_value r) = Some e \<Longrightarrow> finite_numbers (JObj (payload e))"
  shows "case envelope_of E w (rec_value r) of
      None \<Rightarrow> process_record E r w = (Inl ValidationError, w\<lparr>tick := tick w + 3\<rparr>)
    | Some e \<Rightarrow>
        (case view (dynamo_of E) (tbl w) ''processed_event'' (event_id e) of
           Some _ \<Rightarrow> \<exists>n. process_record E r w =
             (Inr (), w\<lparr>tick := n, events_processed := events_processed w @ [(''kafka'', event_type e, ''duplicate'')]\<rparr>)
         | None \<Rightarrow> \<exists>n t' now d. process_record E r w =
             (Inr (), w\<lparr>tick := n, tbl := t',
                events_processed := events_processed w @ [(''kafka'', event_type e, ''processed'')]\<rparr>) \<and>
             view (dynamo_of E) t' ''processed_event'' (event_id e) = Some d \<and>
             same_value (stored (lib_of E) (dump_processed_event (lib_of E) (kafka_processed_event e r now))) d \<and>
             table_ok (dynamo_of E) t' \<and>
             same_elsewhere (dynamo_of E) (tbl w) t' ''processed_event'' (event_id e))"
proof (cases "envelope_of E w (rec_value r)")
  case None
  then show ?thesis by (simp add: process_record_def bnd_def read_envelope_eq)
next
  case (Some e)
  let ?w1 = "w\<lparr>tick := tick w + 3\<rparr>" and ?w2 = "w\<lparr>tick := tick w + 4\<rparr>" and ?w3 = "w\<lparr>tick := 5 + tick w\<rparr>"
  have get: "repo_get E ''processed_event'' (event_id e) ?w1 =
      (Inr (view (dynamo_of E) (tbl w) ''processed_event'' (event_id e)), ?w2)"
    using repo_get_quiet [OF assms(1), of ?w1] assms(2) by (simp add: eval_nat_numeral)
  show ?thesis
  proof (cases "view (dynamo_of E) (tbl w) ''processed_event'' (event_id e)")
    case (Some v)
    then show ?thesis using \<open>envelope_of E w (rec_value r) = Some e\<close> get
      by (auto simp: process_record_def bnd_def read_envelope_eq only_if_def ret_def count_processed_def change_def)
  next
    case None
    define now where "now = now_at E (tick w + 4)"
    let ?x = "kafka_processed_event e r now"
    have "finite_numbers (JObj (pe_payload ?x))"
      using assms(3) [OF Some] by (simp add: kafka_processed_event_def)
    then obtain t' d where put: "repo_put E ''processed_event'' (event_id e) (dump_processed_event (lib_of E) ?x) ?w3 =
        (Inr (), ?w3\<lparr>tick := tick ?w3 + 3, tbl := t'\<rparr>)"
      and t': "table_ok (dynamo_of E) t'"
        "view (dynamo_of E) t' ''processed_event'' (event_id e) = Some d"
        "same_value (stored (lib_of E) (dump_processed_event (lib_of E) ?x)) d"
        "same_elsewhere (dynamo_of E) (tbl w) t' ''processed_event'' (event_id e)"
      using put_processed_event [OF assms(1), of ?w3 ?x "event_id e"] assms(2) by (simp del: finite_numbers.simps) blast
    have "process_record E r w = (Inr (), w\<lparr>tick := tick w + 8, tbl := t',
        events_processed := events_processed w @ [(''kafka'', event_type e, ''processed'')]\<rparr>)"
      using Some None get put
      by (simp add: process_record_def bnd_def read_envelope_eq only_if_def count_processed_def change_def
          now_utc_def now_def)
    then show ?thesis using Some None t' by auto
  qed
qed

text \<open>
  C32. In a run without failures, a record whose value is no envelope is
  refused with nothing changed. Otherwise its event is recorded under the event id, with the
  record's topic, partition and offset and the envelope's payload, no other entity changes, and
  one event is counted as processed; but when the event is recorded already, the table stays as
  it is and the event is counted as a duplicate.
\<close>

theorem process_record_effects:
  fixes E :: "('t, 'k, 'e) worker_env_scheme" and w :: "('t, 'k, 'w) worker_world_scheme"
  assumes "quiet E" "table_ok (dynamo_of E) (tbl w)"
    and "\<And>e. envelope_of E w (rec_value r) = Some e \<Longrightarrow> finite_numbers (JObj (payload e))"
  shows "case envelope_of E w (rec_value r) of
      None \<Rightarrow> process_record E r w = (Inl ValidationError, w\<lparr>tick := tick w + 3\<rparr>)
    | Some e \<Rightarrow>
        (case view (dynamo_of E) (tbl w) ''processed_event'' (event_id e) of
           Some _ \<Rightarrow> \<exists>n. process_record E r w =
             (Inr (), w\<lparr>tick := n, events_processed := events_processed w @ [(''kafka'', event_type e, ''duplicate'')]\<rparr>)
         | None \<Rightarrow> \<exists>n t' now d. process_record E r w =
             (Inr (), w\<lparr>tick := n, tbl := t',
                events_processed := events_processed w @ [(''kafka'', event_type e, ''processed'')]\<rparr>) \<and>
             view (dynamo_of E) t' ''processed_event'' (event_id e) = Some d \<and>
             same_value (stored (lib_of E) (dump_processed_event (lib_of E) (kafka_processed_event e r now))) d \<and>
             table_ok (dynamo_of E) t' \<and>
             same_elsewhere (dynamo_of E) (tbl w) t' ''processed_event'' (event_id e))"
  by (rule process_record_run [OF assms])

section \<open>A concrete worker\<close>

text \<open>
  A consumer in memory, of one partition, that fetches one record per poll; an environment
  in which every call succeeds; a worker that has started.
\<close>

type_synonym mem_position = "(topic_partition \<Rightarrow> nat) \<times> (topic_partition \<Rightarrow> nat)"

definition mem_consumer :: "topic_partition \<Rightarrow> kafka_record list \<Rightarrow> mem_position consumer_ops" where
  "mem_consumer tp rs =
     \<lparr>op_poll = (\<lambda>_ (p, c). if p tp < length rs then ([(tp, [rs ! p tp])], (p(tp := Suc (p tp)), c)) else ([], (p, c))),
      op_seek = (\<lambda>q n (p, c). (p(q := n), c)), op_commit = (\<lambda>(p, c). (p, p)),
      position_of = fst, committed_of = snd, log_of = (\<lambda>_. (\<lambda>_. [])(tp := rs))\<rparr>"

lemma mem_consumer_ok:
  assumes "\<And>i. i < length rs \<Longrightarrow> rec_tp (rs ! i) = tp \<and> rec_offset (rs ! i) = i"
  shows "consumer_ok (mem_consumer tp rs)"
  unfolding consumer_ok_def mem_consumer_def batch_ok_def
  using assms by (auto simp: take_Suc_conv_app_nth Cons_nth_drop_Suc [symmetric])

definition sample_worker_env :: "settings \<Rightarrow> 'k consumer_ops \<Rightarrow> (dict list, 'k) worker_env" where
  "sample_worker_env s C =
     \<lparr>settings_of = s, lib_of = sample_lib, dynamo_of = mem_dynamo,
      others = (\<lambda>_ t. t), outcome_at = (\<lambda>_. Done),
      now_at = int, uuid_at = (\<lambda>n. ''id-'' @ str_of_nat n),
      queue_url_of = (\<lambda>q. ''http://sqs/'' @ q), topic_arns = [], list_fuel = 100,
      jwt_decode = (\<lambda>_ _ _ _. Inl (PyJWTError [])), consumer_ops_of = C, exn_text = exn_type_name,
      decode_replace = id, sqs_receive = (\<lambda>_. []), sqs_attributes = (\<lambda>_. [])\<rparr>"

definition sample_worker :: "dict list \<Rightarrow> 'k \<Rightarrow> (dict list, 'k) worker_world" where
  "sample_worker t k =
     \<lparr>tick = 0, tbl = t, producer_open = False, queue_url = None, topic_arn = None,
      kafka_sent = [], sqs_sent = [], sns_sent = [], redis_sent = [],
      http_requests = [], http_duration = [], consumer = k, consumer_open = True, dlq_open = True,
      attempts = Map.empty, task_running = True, stopping = False, worker_queue_url = Some ''q'',
      sqs_deleted = [], events_processed = [], events_failed = []\<rparr>"

lemma sample_worker_env_simps [simp]:
  "settings_of (sample_worker_env s C) = s" "lib_of (sample_worker_env s C) = sample_lib"
  "dynamo_of (sample_worker_env s C) = mem_dynamo" "consumer_ops_of (sample_worker_env s C) = C"
  "uuid_at (sample_worker_env s C) = (\<lambda>n. ''id-'' @ str_of_nat n)"
  by (simp_all add: sample_worker_env_def)

lemma sample_worker_simps [simp]:
  "tick (sample_worker t k) = 0" "tbl (sample_worker t k) = t" "kafka_sent (sample_worker t k) = []"
  "consumer (sample_worker t k) = k" "consumer_open (sample_worker t k)" "dlq_open (sample_worker t k)"
  "attempts (sample_worker t k) = Map.empty" "worker_queue_url (sample_worker t k) = Some ''q''"
  "sqs_deleted (sample_worker t k) = []" "\<not> stopping (sample_worker t k)"
  "events_processed (sample_worker t k) = []" "events_failed (sample_worker t k) = []"
  by (simp_all add: sample_worker_def)

lemma sample_worker_quiet: "quiet (sample_worker_env s C)"
  by (simp add: quiet_def reliable_def alone_def sample_worker_env_def mem_dynamo_ok sample_lib_ok)

text \<open>A record that carries an event, one that is not an event, one without a usable event id.\<close>

abbreviation sample_tp :: topic_partition where
  "sample_tp \<equiv> (''ax.incident.events.v1'', 0)"

definition record_at :: "nat \<Rightarrow> json \<Rightarrow> kafka_record" where
  "record_at n v =
     \<lparr>rec_topic = ''ax.incident.events.v1'', rec_partition = 0, rec_offset = n, rec_key = None, rec_value = v\<rparr>"

lemma record_at_simps [simp]:
  "rec_topic (record_at n v) = ''ax.incident.events.v1''" "rec_partition (record_at n v) = 0"
  "rec_offset (record_at n v) = n" "rec_value (record_at n v) = v" "rec_key (record_at n v) = None"
  by (simp_all add: record_at_def)

definition event_named :: "string \<Rightarrow> json" where
  "event_named eid = JObj
     [(''event_id'', JStr eid), (''event_type'', JStr ''incident.detected''),
      (''producer'', JStr ''incident-service''), (''payload'', JObj [])]"

lemma event_named_envelope:
  "validate_envelope sample_lib i t c (event_named eid) = Some
     \<lparr>event_id = eid, event_type = ''incident.detected'', event_version = 1, occurred_at = t,
      producer = ''incident-service'', correlation_id = c, causation_id = None, actor_id = None,
      payload = []\<rparr>"
proof -
  have "len_between 1 200 ''incident.detected''" by code_simp
  then show ?thesis
    by (simp add: validate_envelope_def event_named_def codec_simps checked_def read_str_def read_dict_def)
qed

lemma process_record_effects_witness:
  "\<exists>w'. process_record (sample_worker_env default_settings (mem_consumer sample_tp [])) (record_at 0 (event_named ''e1''))
      (sample_worker [] (\<lambda>_. 0, \<lambda>_. 0)) = (Inr (), w') \<and>
    events_processed w' = [(''kafka'', ''incident.detected'', ''processed'')] \<and>
    view mem_dynamo (tbl w') ''processed_event'' ''e1'' \<noteq> None"
proof -
  let ?E = "sample_worker_env default_settings (mem_consumer sample_tp [])"
  let ?w = "sample_worker [] (\<lambda>_. 0, \<lambda>_. 0) :: (dict list, mem_position) worker_world"
  have "table_ok (dynamo_of ?E) (tbl ?w)" by (simp add: sample_table_ok_empty)
  from process_record_effects [OF sample_worker_quiet this, of "record_at 0 (event_named ''e1'')"]
  show ?thesis by (auto simp: envelope_of_def event_named_envelope)
qed

section \<open>Records that cannot be processed\<close>

text \<open>A value that no fresh values turn into an envelope.\<close>

definition not_an_event :: "lib \<Rightarrow> json \<Rightarrow> bool" where
  "not_an_event L v \<longleftrightarrow> (\<forall>i t c. validate_envelope L i t c v = None)"

text \<open>A failed attempt before the last one.\<close>

lemma retry_fails:
  assumes "not_an_event (lib_of E) (rec_value r)" "attempts_so_far w r + 1 < max_attempts E"
  shows "process_record_with_retry E r w = (Inr False, w\<lparr>tick := tick w + 3,
    attempts := (attempts w)(record_key r \<mapsto> attempts_so_far w r + 1),
    events_failed := events_failed w @ [(''kafka'', ''processing_error'')]\<rparr>)"
  using assms
  by (simp add: process_record_with_retry_def process_record_def read_envelope_eq envelope_of_def
      not_an_event_def attempt_def bnd_def read_state_def set_attempts_def count_failed_def change_def
      ret_def attempts_so_far_def)

lemma retries_fail:
  assumes "not_an_event (lib_of E) (rec_value r)"
  shows "attempts_so_far w r + k < max_attempts E \<Longrightarrow>
    each (\<lambda>_. process_record_with_retry E r) (replicate k ()) w =
      (Inr (replicate k False), w\<lparr>tick := tick w + 3 * k,
        attempts := (if k = 0 then attempts w
          else (attempts w)(record_key r \<mapsto> attempts_so_far w r + k)),
        events_failed := events_failed w @ replicate k (''kafka'', ''processing_error'')\<rparr>)"
proof (induction k arbitrary: w)
  case 0
  then show ?case by (simp add: ret_def)
next
  case (Suc k)
  define w1 where "w1 = w\<lparr>tick := tick w + 3,
    attempts := (attempts w)(record_key r \<mapsto> attempts_so_far w r + 1),
    events_failed := events_failed w @ [(''kafka'', ''processing_error'')]\<rparr>"
  have one: "process_record_with_retry E r w = (Inr False, w1)"
    using retry_fails [OF assms, of w] Suc.prems by (simp add: w1_def)
  have at: "attempts_so_far w1 r = attempts_so_far w r + 1" by (simp add: w1_def attempts_so_far_def)
  then have "attempts_so_far w1 r + k < max_attempts E" using Suc.prems by simp
  from Suc.IH [OF this] show ?case
    by (cases "k = 0") (simp_all add: one bnd_def ret_def attempts_so_far_def w1_def)
qed

text \<open>The last attempt sends the dead letter.\<close>

lemma last_attempt:
  fixes E :: "('t, 'k, 'e) worker_env_scheme" and w :: "('t, 'k, 'w) worker_world_scheme"
  assumes q: "quiet E" and tok: "table_ok (dynamo_of E) (tbl w)" and o: "dlq_open w"
    and v: "not_an_event (lib_of E) (rec_value r)" "finite_numbers (rec_value r)"
    and c: "causation_of (dict_of (rec_value r)) = Some caused"
    and n: "n = attempts_so_far w r + 1" "max_attempts E \<le> n"
  shows "\<exists>m w' d. process_record_with_retry E r w = (Inr True, w') \<and>
    payload m = dead_letter_payload E r ValidationError n \<and>
    event_type m = ''event.processing_failed'' \<and> causation_id m = caused \<and>
    kafka_sent w' = kafka_sent w @
      [\<lparr>msg_topic = KAFKA_DLQ_TOPIC, msg_key = dead_letter_id r,
        msg_value = dump_envelope (lib_of E) m, msg_headers = []\<rparr>] \<and>
    consumer w' = consumer w \<and> attempts w' = (attempts w)(record_key r := None) \<and>
    table_ok (dynamo_of E) (tbl w') \<and> consumer_open w' = consumer_open w \<and> dlq_open w' \<and>
    stopping w' = stopping w \<and>
    events_failed w' = events_failed w @ [(''kafka'', ''processing_error'')] \<and>
    view (dynamo_of E) (tbl w') ''processed_event'' (dead_letter_id r) = Some d \<and>
    same_elsewhere (dynamo_of E) (tbl w) (tbl w') ''processed_event'' (dead_letter_id r)"
proof -
  define w2 where "w2 = w\<lparr>tick := tick w + 3, attempts := (attempts w)(record_key r \<mapsto> n),
    events_failed := events_failed w @ [(''kafka'', ''processing_error'')]\<rparr>"
  have step: "process_record_with_retry E r w =
      bnd (dead_letter E r ValidationError n) (\<lambda>_. bnd (set_attempts r None) (\<lambda>_. ret True)) w2"
    using v(1) n
    by (simp add: process_record_with_retry_def process_record_def read_envelope_eq envelope_of_def
        not_an_event_def attempt_def bnd_def read_state_def set_attempts_def count_failed_def change_def
        ret_def attempts_so_far_def w2_def)
  define m where "m = \<lparr>event_id = uuid_at E (tick w + 3), event_type = ''event.processing_failed'',
    event_version = 1, occurred_at = now_at E (5 + tick w), producer = ''event-worker'',
    correlation_id = py_str (lib_of E)
      (py_or (get_null (dict_of (rec_value r)) ''correlation_id'') (JStr (uuid_at E (4 + tick w)))),
    causation_id = caused, actor_id = None, payload = dead_letter_payload E r ValidationError n\<rparr>"
  define w3 where "w3 = w2\<lparr>tick := 8 + tick w, kafka_sent := kafka_sent w @
      [\<lparr>msg_topic = KAFKA_DLQ_TOPIC, msg_key = dead_letter_id r,
        msg_value = dump_envelope (lib_of E) m, msg_headers = []\<rparr>]\<rparr>"
  let ?x = "dead_lettered_event r m n (now_at E (tick w + 7))"
  have "finite_numbers (JObj (pe_payload ?x))"
    using v(2) by (simp add: dead_lettered_event_def m_def dead_letter_payload_def opt_str_def
        split: option.split)
  moreover have "table_ok (dynamo_of E) (tbl w3)" using tok by (simp add: w3_def w2_def)
  ultimately obtain t' d where put: "repo_put E ''processed_event'' (dead_letter_id r)
      (dump_processed_event (lib_of E) ?x) w3 = (Inr (), w3\<lparr>tick := tick w3 + 3, tbl := t'\<rparr>)"
    and t': "table_ok (dynamo_of E) t'"
      "view (dynamo_of E) t' ''processed_event'' (dead_letter_id r) = Some d"
      "same_elsewhere (dynamo_of E) (tbl w3) t' ''processed_event'' (dead_letter_id r)"
    using put_processed_event [OF q, of w3 ?x "dead_letter_id r"] by blast
  have letter: "dead_letter_envelope E r ValidationError n w2 = (Inr m, w2\<lparr>tick := tick w + 6\<rparr>)"
    using c by (simp add: dead_letter_envelope_def Let_def new_uuid_def now_utc_def bnd_def of_option_def
        ret_def m_def w2_def)
  have send: "publish_dead_letter E (dead_letter_id r) (dump_envelope (lib_of E) m) (w2\<lparr>tick := tick w + 6\<rparr>) =
      (Inr (), w3\<lparr>tick := tick w + 7\<rparr>)"
    using o by (simp add: publish_dead_letter_def kafka_send_def bnd_def read_state_def check_def ret_def
        quiet_call [OF q] change_def w3_def w2_def)
  have now: "now_utc E (w3\<lparr>tick := tick w + 7\<rparr>) = (Inr (now_at E (tick w + 7)), w3)"
    by (simp add: now_utc_def w3_def)
  have "process_record_with_retry E r w = (Inr True, w3\<lparr>tick := tick w3 + 3, tbl := t',
      events_processed := events_processed w3 @ [(''kafka'', ''event.processing_failed'', ''dead_lettered'')],
      attempts := (attempts w3)(record_key r := None)\<rparr>)"
    by (simp add: step dead_letter_def bnd_def letter send now put count_processed_def set_attempts_def
        change_def ret_def)
  then obtain w' where run: "process_record_with_retry E r w = (Inr True, w')"
    and w': "w' = w3\<lparr>tick := tick w3 + 3, tbl := t',
      events_processed := events_processed w3 @ [(''kafka'', ''event.processing_failed'', ''dead_lettered'')],
      attempts := (attempts w3)(record_key r := None)\<rparr>" by blast
  have "kafka_sent w' = kafka_sent w @ [\<lparr>msg_topic = KAFKA_DLQ_TOPIC, msg_key = dead_letter_id r,
        msg_value = dump_envelope (lib_of E) m, msg_headers = []\<rparr>]"
    "consumer w' = consumer w" "attempts w' = (attempts w)(record_key r := None)"
    "events_failed w' = events_failed w @ [(''kafka'', ''processing_error'')]"
    "tbl w' = t'" "tbl w3 = tbl w" "consumer_open w' = consumer_open w" "dlq_open w'"
    "stopping w' = stopping w"
    using o by (simp_all add: w' w3_def w2_def)
  moreover have "payload m = dead_letter_payload E r ValidationError n"
    "event_type m = ''event.processing_failed''" "causation_id m = caused"
    by (simp_all add: m_def)
  ultimately show ?thesis using run t' by (intro exI [of _ m] exI [of _ w'] exI [of _ d]) simp
qed

text \<open>
  C11. In a run without failures, a record whose value is no event is tried
  exactly the configured number of times: every attempt but the last reports failure and sends
  nothing; the last sends one dead letter, under the record's own key, that holds the value, the
  error and the number of attempts, records it, changes no other entity, forgets the counter
  and reports success. The consumer is not touched.
\<close>

theorem poison_is_dead_lettered:
  fixes E :: "('t, 'k, 'e) worker_env_scheme" and w :: "('t, 'k, 'w) worker_world_scheme"
  assumes "quiet E" "table_ok (dynamo_of E) (tbl w)" "dlq_open w" "attempts w (record_key r) = None"
    and "not_an_event (lib_of E) (rec_value r)" "finite_numbers (rec_value r)"
    and "causation_of (dict_of (rec_value r)) = Some caused"
  shows "\<exists>w1 m w2 d.
    each (\<lambda>_. process_record_with_retry E r) (replicate (max_attempts E - 1) ()) w =
      (Inr (replicate (max_attempts E - 1) False), w1) \<and>
    tbl w1 = tbl w \<and> kafka_sent w1 = kafka_sent w \<and> consumer w1 = consumer w \<and>
    process_record_with_retry E r w1 = (Inr True, w2) \<and>
    payload m = dead_letter_payload E r ValidationError (max_attempts E) \<and>
    event_type m = ''event.processing_failed'' \<and> causation_id m = caused \<and>
    kafka_sent w2 = kafka_sent w @
      [\<lparr>msg_topic = KAFKA_DLQ_TOPIC, msg_key = dead_letter_id r,
        msg_value = dump_envelope (lib_of E) m, msg_headers = []\<rparr>] \<and>
    consumer w2 = consumer w \<and> attempts w2 = attempts w \<and>
    view (dynamo_of E) (tbl w2) ''processed_event'' (dead_letter_id r) = Some d \<and>
    same_elsewhere (dynamo_of E) (tbl w) (tbl w2) ''processed_event'' (dead_letter_id r)"
proof -
  let ?k = "max_attempts E - 1"
  have pos: "0 < max_attempts E" by (simp add: max_attempts_def)
  have none: "attempts_so_far w r = 0" using assms(4) by (simp add: attempts_so_far_def)
  define w1 where "w1 = w\<lparr>tick := tick w + 3 * ?k,
    attempts := (if ?k = 0 then attempts w else (attempts w)(record_key r \<mapsto> ?k)),
    events_failed := events_failed w @ replicate ?k (''kafka'', ''processing_error'')\<rparr>"
  have first: "each (\<lambda>_. process_record_with_retry E r) (replicate ?k ()) w = (Inr (replicate ?k False), w1)"
    using retries_fail [OF assms(5), of w ?k] pos by (simp add: none w1_def)
  have w1: "tbl w1 = tbl w" "kafka_sent w1 = kafka_sent w" "consumer w1 = consumer w" "dlq_open w1"
    "(attempts w1)(record_key r := None) = attempts w"
    using assms(3,4) by (simp_all add: w1_def fun_upd_idem)
  have n: "max_attempts E = attempts_so_far w1 r + 1"
    using pos assms(4) by (simp add: w1_def attempts_so_far_def)
  obtain m w2 d where "process_record_with_retry E r w1 = (Inr True, w2)"
    "payload m = dead_letter_payload E r ValidationError (max_attempts E)"
    "event_type m = ''event.processing_failed''" "causation_id m = caused"
    "kafka_sent w2 = kafka_sent w1 @
      [\<lparr>msg_topic = KAFKA_DLQ_TOPIC, msg_key = dead_letter_id r,
        msg_value = dump_envelope (lib_of E) m, msg_headers = []\<rparr>]"
    "consumer w2 = consumer w1" "attempts w2 = (attempts w1)(record_key r := None)"
    "view (dynamo_of E) (tbl w2) ''processed_event'' (dead_letter_id r) = Some d"
    "same_elsewhere (dynamo_of E) (tbl w1) (tbl w2) ''processed_event'' (dead_letter_id r)"
    using last_attempt [OF assms(1) _ w1(4) assms(5-7) n] assms(2) w1(1) n by (metis order_refl)
  then show ?thesis using first w1(1-3,5) by (intro exI [of _ w1] exI [of _ m] exI [of _ w2] exI [of _ d]) simp
qed

lemma poison_is_dead_lettered_witness:
  "\<exists>w1 m w2. each (\<lambda>_. process_record_with_retry (sample_worker_env default_settings (mem_consumer sample_tp []))
      (record_at 4 JNull)) [(), ()] (sample_worker [] (\<lambda>_. 0, \<lambda>_. 0)) = (Inr [False, False], w1) \<and>
    process_record_with_retry (sample_worker_env default_settings (mem_consumer sample_tp [])) (record_at 4 JNull) w1 =
      (Inr True, w2) \<and>
    kafka_sent w2 = [\<lparr>msg_topic = KAFKA_DLQ_TOPIC, msg_key = dead_letter_id (record_at 4 JNull),
      msg_value = dump_envelope sample_lib m, msg_headers = []\<rparr>]"
proof -
  let ?E = "sample_worker_env default_settings (mem_consumer sample_tp [])" and ?r = "record_at 4 JNull"
  let ?w = "sample_worker [] (\<lambda>_. 0, \<lambda>_. 0) :: (dict list, mem_position) worker_world"
  have tok: "table_ok (dynamo_of ?E) (tbl ?w)" by (simp add: sample_table_ok_empty)
  have v: "not_an_event (lib_of ?E) (rec_value ?r)" "finite_numbers (rec_value ?r)"
    "causation_of (dict_of (rec_value ?r)) = Some None"
    by (simp_all add: not_an_event_def validate_envelope_def defaulted_def field_def causation_of_def
        dict_of_def get_null_def dict_get_or_def dict_get_def read_opt_def)
  have "max_attempts ?E = 3" by (simp add: max_attempts_def default_settings_def)
  with poison_is_dead_lettered [OF sample_worker_quiet tok _ _ v]
  show ?thesis by (fastforce simp: eval_nat_numeral)
qed

section \<open>Committed offsets\<close>

text \<open>
  C1. However the calls to the services fail and whatever the other
  processes write, as long as nobody deletes an entity: after any number of calm cycles, every
  record below a committed offset exists and is handled, that is its event is recorded or a dead
  letter for it was sent. A committed offset never passes a record that was not handled.
\<close>

theorem committed_records_are_handled:
  fixes E :: "('t, 'k, 'e) worker_env_scheme" and w :: "('t, 'k, 'w) worker_world_scheme"
  assumes "dynamo_ok (dynamo_of E)" "others_keep E" "consumer_ok (consumer_ops_of E)"
    and "\<And>tp i. i < position E w tp \<or> i < committed E w tp \<Longrightarrow>
        i < length (log_at E w tp) \<and> handled E w (log_at E w tp ! i)"
    and "worker_run E w w'" "ids_in E w'" "i < committed E w' tp"
  shows "i < length (log_at E w' tp) \<and> handled E w' (log_at E w' tp ! i)"
proof -
  have "safe E w {}" unfolding safe_def using assms(4) by (intro conjI coveredI) blast+
  then have "safe E w' {}" by (rule worker_run_safe [OF assms(1-3) _ assms(5,6)])
  then show ?thesis using assms(7) unfolding safe_def by (blast dest: coveredD)
qed

text \<open>One cycle over a poll of one record, in a run without failures.\<close>

lemma poll_quiet:
  assumes "quiet E" "consumer_open w" "op_poll (consumer_ops_of E) (Suc (tick w)) (consumer w) = (bs, k)"
  shows "poll_records E w = (Inr bs, w\<lparr>tick := Suc (tick w), consumer := k\<rparr>)"
  using assms by (simp add: poll_records_def required_consumer_def bnd_def read_state_def check_def ret_def
      quiet_call [OF assms(1)])

lemma batch_of_one:
  assumes "process_record E r w = (Inr (), w')"
  shows "process_batches E [(tp, [r])] (False, False) w =
    (Inr (True, False), w'\<lparr>attempts := (attempts w')(record_key r := None)\<rparr>)"
  using assms by (simp add: process_record_with_retry_def attempt_def bnd_def set_attempts_def change_def ret_def)

lemma commit_quiet:
  assumes "quiet E" "consumer_open w"
  shows "commit_if E (True, False) w =
    (Inr (), w\<lparr>tick := Suc (tick w), consumer := op_commit (consumer_ops_of E) (consumer w)\<rparr>)"
  using assms by (simp add: commit_if_def only_if_def commit_offsets_def required_consumer_def bnd_def
      read_state_def check_def ret_def quiet_call [OF assms(1)] change_def)

lemma sample_commit:
  "position_of (mem_consumer tp rs) (p, c) = p" "committed_of (mem_consumer tp rs) (p, c) = c"
  "log_of (mem_consumer tp rs) k tp = rs" "op_commit (mem_consumer tp rs) (p, c) = (p, p)"
  by (simp_all add: mem_consumer_def)

text \<open>A cycle in which the sample worker processes a new event.\<close>

lemma sample_cycle:
  fixes w :: "(dict list, mem_position) worker_world" and s :: settings and rs :: "kafka_record list"
  defines "E \<equiv> sample_worker_env s (mem_consumer sample_tp rs)"
  assumes "tbl w = []" "consumer_open w" "consumer w = (p, c)" "p sample_tp < length rs"
    and r: "rs ! p sample_tp = record_at n (event_named eid)"
  shows "\<exists>w'. poll_cycle E w = (Inr (), w') \<and> calm E w \<and> committed E w' sample_tp = Suc (p sample_tp) \<and>
    kafka_sent w' = kafka_sent w \<and> stopping w' = stopping w \<and>
    (\<exists>bs w1 w2. poll_records E w = (Inr bs, w1) \<and>
       process_batches E bs (False, False) w1 = (Inr (True, False), w2) \<and> commit_offsets E w2 = (Inr (), w'))"
proof -
  let ?r = "record_at n (event_named eid)" and ?q = "p(sample_tp := Suc (p sample_tp))"
  have q: "quiet E" unfolding E_def by (rule sample_worker_quiet)
  define w1 where "w1 = w\<lparr>tick := Suc (tick w), consumer := (?q, c)\<rparr>"
  have poll: "poll_records E w = (Inr [(sample_tp, [?r])], w1)"
    unfolding w1_def using assms(3-5) r
    by (intro poll_quiet [OF q]) (simp_all add: E_def mem_consumer_def)
  have "table_ok (dynamo_of E) (tbl w1)" by (simp add: w1_def assms(2) E_def sample_table_ok_empty)
  from process_record_run [OF q this, of ?r] obtain m t' where
    one: "process_record E ?r w1 = (Inr (), w1\<lparr>tick := m, tbl := t',
      events_processed := events_processed w1 @ [(''kafka'', ''incident.detected'', ''processed'')]\<rparr>)"
    by (auto simp: envelope_of_def event_named_envelope E_def w1_def assms(2))
  define w2 where "w2 = w1\<lparr>tick := m, tbl := t',
      events_processed := events_processed w1 @ [(''kafka'', ''incident.detected'', ''processed'')],
      attempts := (attempts w1)(record_key ?r := None)\<rparr>"
  have batch: "process_batches E [(sample_tp, [?r])] (False, False) w1 = (Inr (True, False), w2)"
    using batch_of_one [OF one] by (simp add: w2_def)
  have commit: "commit_if E (True, False) w2 = (Inr (), w2\<lparr>tick := Suc (tick w2), consumer := (?q, ?q)\<rparr>)"
    using commit_quiet [OF q, of w2] assms(3) by (simp add: w2_def w1_def E_def mem_consumer_def)
  have "poll_cycle E w = (Inr (), w2\<lparr>tick := Suc (tick w2), consumer := (?q, ?q)\<rparr>)"
    by (simp add: poll_cycle_def attempt_def bnd_def poll batch commit del: process_batches.simps)
  moreover have "calm E w" by (simp add: calm_def bnd_def poll batch del: process_batches.simps)
  moreover have "commit_offsets E w2 = (Inr (), w2\<lparr>tick := Suc (tick w2), consumer := (?q, ?q)\<rparr>)"
    using commit by (simp add: commit_if_def only_if_def)
  moreover note poll batch
  ultimately show ?thesis
    by (intro exI [of _ "w2\<lparr>tick := Suc (tick w2), consumer := (?q, ?q)\<rparr>"] conjI exI [of _ w1]
        exI [of _ "[(sample_tp, [?r])]"] exI [of _ w2])
      (simp_all add: E_def sample_commit w2_def w1_def del: process_batches.simps)
qed

lemma committed_records_are_handled_witness:
  "\<exists>w'. worker_run (sample_worker_env default_settings (mem_consumer sample_tp [record_at 0 (event_named ''e1'')]))
      (sample_worker [] (\<lambda>_. 0, \<lambda>_. 0)) w' \<and>
    committed (sample_worker_env default_settings (mem_consumer sample_tp [record_at 0 (event_named ''e1'')])) w' sample_tp = 1 \<and>
    handled (sample_worker_env default_settings (mem_consumer sample_tp [record_at 0 (event_named ''e1'')])) w'
      (record_at 0 (event_named ''e1''))"
proof -
  let ?r = "record_at 0 (event_named ''e1'')"
  let ?E = "sample_worker_env default_settings (mem_consumer sample_tp [?r])"
  let ?w = "sample_worker [] (\<lambda>_. 0, \<lambda>_. 0) :: (dict list, mem_position) worker_world"
  obtain w' where w': "poll_cycle ?E ?w = (Inr (), w')" "calm ?E ?w" "committed ?E w' sample_tp = 1"
    using sample_cycle [of ?w "\<lambda>_. 0" "\<lambda>_. 0" "[?r]" 0 "''e1''" default_settings] by auto
  have run: "worker_run ?E ?w w'" using run_cycle [OF run_start w'(2)] w'(1) by simp
  have "carries_id ?r" by (simp add: carries_id_def event_named_def dict_of_def dict_get_def)
  then have ids: "ids_in ?E w'" by (simp add: ids_in_def mem_consumer_def)
  have ok: "consumer_ok (consumer_ops_of ?E)"
    unfolding sample_worker_env_simps by (rule mem_consumer_ok) (simp add: rec_tp_def)
  have zero: "\<And>tp i. i < position ?E ?w tp \<or> i < committed ?E ?w tp \<Longrightarrow>
      i < length (log_at ?E ?w tp) \<and> handled ?E ?w (log_at ?E ?w tp ! i)"
    by (simp add: sample_commit)
  have "dynamo_ok (dynamo_of ?E)" "others_keep ?E"
    using sample_worker_quiet [of default_settings "mem_consumer sample_tp [?r]"] quietD others_keep_alone by blast+
  from committed_records_are_handled [OF this ok zero run ids, of 0 sample_tp] w'(3)
  have "handled ?E w' ?r" by (simp add: sample_commit)
  then show ?thesis using run w'(3) by blast
qed

text \<open>
  The last attempt at a record whose dead letter is itself invalid: the error of the letter's
  envelope is raised, after the attempt was counted.
\<close>

lemma last_attempt_invalid:
  assumes "not_an_event (lib_of E) (rec_value r)" "causation_of (dict_of (rec_value r)) = None"
    and "max_attempts E \<le> attempts_so_far w r + 1"
  shows "process_record_with_retry E r w = (Inl ValidationError, w\<lparr>tick := tick w + 6,
    attempts := (attempts w)(record_key r \<mapsto> attempts_so_far w r + 1),
    events_failed := events_failed w @ [(''kafka'', ''processing_error'')]\<rparr>)"
  using assms
  by (simp add: process_record_with_retry_def process_record_def read_envelope_eq envelope_of_def
      not_an_event_def attempt_def bnd_def read_state_def set_attempts_def count_failed_def change_def
      ret_def attempts_so_far_def dead_letter_def dead_letter_envelope_def Let_def new_uuid_def now_utc_def
      of_option_def throw_def)

lemma no_string_id:
  "causation_of (dict_of (rec_value r)) = None \<Longrightarrow> handled E w r = dead_lettered w r"
  by (auto simp: causation_of_def get_null_def dict_get_or_def read_opt_def read_str_def handled_def)

lemma dead_lettered_letters:
  assumes "letters_from (set (kafka_sent w)) (dead_letter_id ` R) w'" "\<not> dead_lettered w r"
    and "\<And>r'. r' \<in> R \<Longrightarrow> dead_letter_id r' \<noteq> dead_letter_id r"
  shows "\<not> dead_lettered w' r"
  using assms by (fastforce simp: letters_from_def dead_lettered_def)

text \<open>
  A later cycle that commits, from a position behind a record that has no usable event id and no
  dead letter.
\<close>

lemma commit_passes:
  assumes C: "consumer_ok (consumer_ops_of E)"
    and r: "causation_of (dict_of (rec_value r)) = None" "\<not> dead_lettered w r"
      "rec_offset r < position E w (rec_tp r)"
    and poll: "poll_records E w = (Inr bs, w2)"
    and batch: "process_batches E bs (False, False) w2 = (Inr (True, False), w3)"
    and commit: "commit_offsets E w3 = (Inr (), w4)"
  shows "poll_cycle E w = (Inr (), w4) \<and> rec_offset r < committed E w4 (rec_tp r) \<and> \<not> handled E w4 r"
proof -
  have "poll_cycle E w = (Inr (), w4)"
    using commit by (simp add: poll_cycle_def attempt_def bnd_def poll batch commit_if_def only_if_def)
  moreover have same: "consumer w3 = consumer w2" using process_batches_unsought [OF batch] by simp
  have w4: "consumer w4 = op_commit (consumer_ops_of E) (consumer w3)" "kafka_sent w4 = kafka_sent w3"
    using commit
    by (auto simp: commit_offsets_def required_consumer_def call_def change_def check_def read_state_def
        bnd_def ret_def throw_def Let_def split: outcome.splits if_splits)
  then have "committed E w4 (rec_tp r) = position E w2 (rec_tp r)"
    using same consumer_ok_commit(1) [OF C] by simp
  moreover have "position E w (rec_tp r) \<le> position E w2 (rec_tp r)" by (rule polled_records(2) [OF C poll])
  moreover have "\<not> dead_lettered w3 r"
  proof (rule dead_lettered_letters [OF _ r(2)])
    have "kafka_sent w2 = kafka_sent w" using arg_cong [OF poll_records_Inr(2) [OF poll], of kafka_sent] by simp
    then have "letters_from (set (kafka_sent w)) (dead_letter_id ` pending_of bs) w2"
      by (simp add: letters_from_def)
    from keepsD [OF keeps_batches_letters [OF order.refl] this, of E "(False, False)"] batch
    show "letters_from (set (kafka_sent w)) (dead_letter_id ` pending_of bs) w3" by simp
    show "dead_letter_id r' \<noteq> dead_letter_id r" if "r' \<in> pending_of bs" for r'
      using dead_letter_id_inj [of r' r] polled_records(3) [OF C poll that] r(3) by force
  qed
  then have "\<not> handled E w4 r" using w4(2) by (simp add: no_string_id [OF r(1)] dead_lettered_def)
  ultimately show ?thesis using r(3) by simp
qed

text \<open>
  C34. The premise of calm cycles is needed. A record that is no event
  and whose \<open>event_id\<close> is not a string cannot be dead-lettered: the dead letter's own envelope is
  invalid. At the head of what is polled, on its last attempt, it ends the cycle with that error,
  counted as an invalid message: nothing is recorded, sent or committed, and no seek brings the
  consumer back, so the position is behind the record. The next cycle that processes what it
  polled and commits, whatever that is, commits past the record, which is neither recorded nor
  dead-lettered.
\<close>

theorem rejected_dead_letter_is_skipped:
  fixes E :: "('t, 'k, 'e) worker_env_scheme" and w :: "('t, 'k, 'w) worker_world_scheme"
  assumes "consumer_ok (consumer_ops_of E)" "poll_records E w = (Inr ((tp, r # rs) # bs), w1)"
    and "not_an_event (lib_of E) (rec_value r)" "causation_of (dict_of (rec_value r)) = None"
    and "max_attempts E \<le> attempts_so_far w r + 1" "\<not> dead_lettered w r"
  shows "\<exists>w'. poll_cycle E w = (Inr (), w') \<and>
    w' = w1\<lparr>tick := tick w1 + 6, attempts := (attempts w)(record_key r \<mapsto> attempts_so_far w r + 1),
      events_failed := events_failed w @ [(''kafka'', ''processing_error''), (''kafka'', ''invalid_message'')]\<rparr> \<and>
    tbl w' = tbl w1 \<and> kafka_sent w' = kafka_sent w \<and> consumer w' = consumer w1 \<and>
    committed E w' = committed E w \<and> rec_offset r < position E w' (rec_tp r) \<and> \<not> handled E w' r \<and>
    (\<forall>bs' w2 w3 w4. poll_records E w' = (Inr bs', w2) \<and>
       process_batches E bs' (False, False) w2 = (Inr (True, False), w3) \<and>
       commit_offsets E w3 = (Inr (), w4) \<longrightarrow>
       poll_cycle E w' = (Inr (), w4) \<and> rec_offset r < committed E w4 (rec_tp r) \<and> \<not> handled E w4 r)"
proof -
  have w1: "attempts w1 = attempts w" "events_failed w1 = events_failed w" "kafka_sent w1 = kafka_sent w"
    using arg_cong [OF poll_records_Inr(2) [OF assms(2)], of attempts]
      arg_cong [OF poll_records_Inr(2) [OF assms(2)], of events_failed]
      arg_cong [OF poll_records_Inr(2) [OF assms(2)], of kafka_sent] by simp_all
  have "attempts_so_far w1 r = attempts_so_far w r" by (simp add: attempts_so_far_def w1(1))
  with last_attempt_invalid [OF assms(3,4), of w1] assms(5)
  have retry: "process_record_with_retry E r w1 = (Inl ValidationError, w1\<lparr>tick := tick w1 + 6,
      attempts := (attempts w)(record_key r \<mapsto> attempts_so_far w r + 1),
      events_failed := events_failed w1 @ [(''kafka'', ''processing_error'')]\<rparr>)" by (simp add: w1(1))
  define w' where "w' = w1\<lparr>tick := tick w1 + 6,
    attempts := (attempts w)(record_key r \<mapsto> attempts_so_far w r + 1),
    events_failed := events_failed w @ [(''kafka'', ''processing_error''), (''kafka'', ''invalid_message'')]\<rparr>"
  have cycle: "poll_cycle E w = (Inr (), w')"
    using retry w1(2)
    by (simp add: poll_cycle_def attempt_def bnd_def assms(2) poll_failed_def count_failed_def change_def w'_def)
  have f: "tbl w' = tbl w1" "kafka_sent w' = kafka_sent w" "consumer w' = consumer w1"
    by (simp_all add: w'_def w1(3))
  have com: "committed E w' = committed E w"
    using consumer_ok_poll(4) [OF assms(1) poll_records_Inr(1) [OF assms(2)]] by (simp add: f(3))
  have "rec_tp r = tp \<and> rec_offset r = position E w tp \<and> position E w1 tp = position E w tp + Suc (length rs)"
    using polled_records(1) [OF assms(1,2), of tp "r # rs" 0] by simp
  then have pos: "rec_offset r < position E w' (rec_tp r)" by (simp add: f(3))
  have dead: "\<not> dead_lettered w' r" using assms(6) f(2) by (simp add: dead_lettered_def)
  then have "\<not> handled E w' r" by (simp add: no_string_id [OF assms(4)])
  with cycle f com pos commit_passes [OF assms(1,4) dead pos] w'_def show ?thesis by blast
qed

lemma rejected_dead_letter_is_skipped_witness:
  "let bad = record_at 0 (JObj [(''event_id'', JInt 5)]);
       rs = [bad, record_at (Suc 0) (event_named ''e1'')];
       E = sample_worker_env (default_settings\<lparr>kafka_max_processing_attempts := 1\<rparr>) (mem_consumer sample_tp rs)
   in \<exists>w'. poll_loop E 2 (sample_worker [] (\<lambda>_. 0, \<lambda>_. 0)) = (Inr (), w') \<and>
        committed E w' sample_tp = 2 \<and> \<not> handled E w' bad"
proof -
  let ?bad = "record_at 0 (JObj [(''event_id'', JInt 5)])"
  let ?rs = "[?bad, record_at (Suc 0) (event_named ''e1'')]"
  let ?s = "default_settings\<lparr>kafka_max_processing_attempts := 1\<rparr>"
  let ?E = "sample_worker_env ?s (mem_consumer sample_tp ?rs)"
  let ?w = "sample_worker [] (\<lambda>_. 0, \<lambda>_. 0) :: (dict list, mem_position) worker_world"
  let ?q = "(\<lambda>_. 0)(sample_tp := Suc 0)"
  have ok: "consumer_ok (consumer_ops_of ?E)"
    unfolding sample_worker_env_simps
    by (rule mem_consumer_ok) (auto simp: rec_tp_def less_Suc_eq nth_Cons' numeral_2_eq_2)
  define w1 where "w1 = ?w\<lparr>tick := 1, consumer := (?q, \<lambda>_. 0)\<rparr>"
  have poll: "poll_records ?E ?w = (Inr [(sample_tp, [?bad])], w1)"
    using poll_quiet [OF sample_worker_quiet, of ?w ?s "mem_consumer sample_tp ?rs" "[(sample_tp, [?bad])]"
        "(?q, \<lambda>_. 0)"]
    by (simp add: mem_consumer_def w1_def)
  have bad: "not_an_event (lib_of ?E) (rec_value ?bad)"
    by (simp add: not_an_event_def validate_envelope_def defaulted_def read_str_def field_def)
  have caused: "causation_of (dict_of (rec_value ?bad)) = None"
    by (simp add: causation_of_def get_null_def dict_get_or_def dict_get_def dict_of_def read_opt_def read_str_def)
  have "max_attempts ?E \<le> attempts_so_far ?w ?bad + 1" "\<not> dead_lettered ?w ?bad"
    by (simp_all add: max_attempts_def dead_lettered_def)
  from rejected_dead_letter_is_skipped [OF ok poll bad caused this] obtain w2 where
    w2: "poll_cycle ?E ?w = (Inr (), w2)" "tbl w2 = tbl w1" "kafka_sent w2 = []" "consumer w2 = consumer w1"
    and open2: "consumer_open w2 \<and> \<not> stopping w2"
    and later: "\<forall>bs' wa wb wc. poll_records ?E w2 = (Inr bs', wa) \<and>
       process_batches ?E bs' (False, False) wa = (Inr (True, False), wb) \<and>
       commit_offsets ?E wb = (Inr (), wc) \<longrightarrow>
       poll_cycle ?E w2 = (Inr (), wc) \<and> rec_offset ?bad < committed ?E wc (rec_tp ?bad) \<and> \<not> handled ?E wc ?bad"
    by (auto simp: w1_def)
  obtain w' bs wa wb where c: "poll_cycle ?E w2 = (Inr (), w')" "committed ?E w' sample_tp = 2"
    "poll_records ?E w2 = (Inr bs, wa)" "process_batches ?E bs (False, False) wa = (Inr (True, False), wb)"
    "commit_offsets ?E wb = (Inr (), w')"
    using sample_cycle [of w2 ?q "\<lambda>_. 0" ?rs "Suc 0" "''e1''" ?s] w2(2,4) open2
    by (auto simp: numeral_2_eq_2 w1_def)
  have "poll_loop ?E 2 ?w = (Inr (), w')"
    using open2 by (simp add: numeral_2_eq_2 bnd_def read_state_def ret_def w2(1) c(1))
  moreover have "\<not> handled ?E w' ?bad" using later c(3-5) by blast
  ultimately show ?thesis using c(2) by (auto simp: Let_def)
qed

section \<open>Queue messages\<close>

lemma only_of_counter: "fst (count_processed b et res w) = Inr ()"
  by (simp add: count_processed_def change_def)

text \<open>What a message that is processed was read as.\<close>

definition message_event ::
  "('t, 'e) env_scheme \<Rightarrow> ('t, 'w) world_scheme \<Rightarrow> dict \<Rightarrow> envelope option" where
  "message_event E w message =
     (case parse_event_message E message w of (Inr (e, _), _) \<Rightarrow> Some e | (Inl _, _) \<Rightarrow> None)"

lemma keeps_parse_deleted: "keeps (\<lambda>w. sqs_deleted w = ds) (parse_event_message E message)"
  unfolding parse_event_message_def event_value_def read_envelope_def
  by (intro keeps_intros; simp split: option.split json.split add: keeps_intros)

lemma keeps_put_deleted: "keeps (\<lambda>w. sqs_deleted w = ds) (repo_put E et eid data)"
  unfolding repo_put_def table_get_def table_put_def conflict_as_concurrent_update_def Let_def
  by (intro keeps_intros keeps_call; simp add: keeps_def split: sum.split)

text \<open>The steps of a message that is deleted.\<close>

lemma process_message_deletes:
  fixes E :: "('t, 'e) env_scheme" and w w' :: "('t, 'k, 'w) worker_world_scheme"
  assumes run: "process_message E message w = (res, w')" and moved: "sqs_deleted w' \<noteq> sqs_deleted w"
  obtains e receives and w1 w2 w3 :: "('t, 'k, 'w) worker_world_scheme" and url receipt x where
    "parse_event_message E message w = (Inr (e, receives), w1)"
    "repo_put E ''processed_event'' (event_id e) (dump_processed_event (lib_of E) x) w2 = (Inr (), w3)"
    "pe_payload x = payload e" "pe_event_type x = event_type e"
    "pe_result x = (if event_type e \<in> known_event_types then ''processed'' else ''ignored'')"
    "worker_queue_url w3 = Some url" "receipt \<noteq> []"
    "receipt = py_strip (py_str (lib_of E) (dict_get_or message ''ReceiptHandle'' (JStr [])))"
    "sqs_deleted w' = sqs_deleted w @ [(url, receipt)]" "tbl w' = others E (tick w3) (tbl w3)"
proof -
  obtain pres w1 where parse: "parse_event_message E message w = (pres, w1)" by fastforce
  have d1: "sqs_deleted w1 = sqs_deleted w"
    using keepsD [OF keeps_parse_deleted refl, of E message w] parse by simp
  then obtain e receives where pres: "pres = Inr (e, receives)"
    using run moved parse by (cases pres) (auto simp: process_message_def bnd_def)
  let ?id = "py_strip (py_str (lib_of E) (dict_get_or message ''MessageId'' (JStr [])))"
  let ?receipt = "py_strip (py_str (lib_of E) (dict_get_or message ''ReceiptHandle'' (JStr [])))"
  let ?res = "if event_type e \<in> known_event_types then ''processed'' else ''ignored''"
  have ids: "?id \<noteq> [] \<and> ?receipt \<noteq> []"
    using run moved parse pres d1
    by (auto simp: process_message_def bnd_def check_def throw_def split: if_splits)
  define now where "now = now_at E (tick w1)"
  define w2 where "w2 = w1\<lparr>tick := Suc (tick w1)\<rparr>"
  let ?x = "sqs_processed_event e ?res receives now"
  have rest: "bnd (repo_put E ''processed_event'' (event_id e) (dump_processed_event (lib_of E) ?x)) (\<lambda>_.
      bnd required_queue_url (\<lambda>url.
      bnd (call E (change (\<lambda>w. w\<lparr>sqs_deleted := sqs_deleted w @ [(url, ?receipt)]\<rparr>))) (\<lambda>_.
      count_processed ''sqs'' (event_type e) ?res))) w2 = (res, w')"
    using run parse pres ids
    by (simp add: process_message_def bnd_Inr check_def ret_def Let_def now_utc_def now_def w2_def bnd_def
        [where m = "parse_event_message E message"] bnd_def [where m = "now_utc E"] bnd_def [where m = "ret ()"])
  obtain pr w3 where put: "repo_put E ''processed_event'' (event_id e) (dump_processed_event (lib_of E) ?x) w2 = (pr, w3)"
    by fastforce
  have d3: "sqs_deleted w3 = sqs_deleted w"
    using keepsD [OF keeps_put_deleted refl, of E "''processed_event''" "event_id e" "dump_processed_event (lib_of E) ?x" w2]
      put d1 by (simp add: w2_def)
  have pr: "pr = Inr ()" using rest put moved d3 by (cases pr) (auto simp: bnd_def)
  obtain url where url: "worker_queue_url w3 = Some url"
    using rest put pr moved d3
    by (cases "worker_queue_url w3") (auto simp: bnd_def required_queue_url_def read_state_def of_option_def throw_def)
  have "sqs_deleted w' = sqs_deleted w @ [(url, ?receipt)] \<and> tbl w' = others E (tick w3) (tbl w3)"
    using rest put pr url moved d3
    by (auto simp: bnd_def required_queue_url_def read_state_def of_option_def ret_def call_def change_def
        count_processed_def Let_def split: outcome.splits)
  then show ?thesis using parse pres put pr url ids
    by (intro that [of e receives w1 ?x w2 w3 url ?receipt]) (simp_all add: sqs_processed_event_def)
qed

text \<open>
  C33. Whatever calls fail and whatever other processes write, as long
  as nobody deletes an entity: processing a queue message deletes at most that message, and
  when it deletes it, the message held a valid event and this event is recorded in the table by
  then. A message whose event could not be stored stays in the queue.
\<close>

theorem message_deleted_after_storing:
  fixes E :: "('t, 'e) env_scheme" and w :: "('t, 'k, 'w) worker_world_scheme"
  assumes "dynamo_ok (dynamo_of E)" "others_keep E" "process_message E message w = (res, w')"
  shows "sqs_deleted w' = sqs_deleted w \<or>
    (\<exists>e receives w1 url receipt. parse_event_message E message w = (Inr (e, receives), w1) \<and>
       receipt = py_strip (py_str (lib_of E) (dict_get_or message ''ReceiptHandle'' (JStr []))) \<and>
       sqs_deleted w' = sqs_deleted w @ [(url, receipt)] \<and> receipt \<noteq> [] \<and>
       recorded E (tbl w') (event_id e))"
proof (cases "sqs_deleted w' = sqs_deleted w")
  case False
  then obtain e receives w1 url receipt x and w2 w3 :: "('t, 'k, 'w) worker_world_scheme" where
    m: "parse_event_message E message w = (Inr (e, receives), w1)"
      "receipt = py_strip (py_str (lib_of E) (dict_get_or message ''ReceiptHandle'' (JStr [])))"
      "sqs_deleted w' = sqs_deleted w @ [(url, receipt)]" "receipt \<noteq> []"
    and put: "repo_put E ''processed_event'' (event_id e) (dump_processed_event (lib_of E) x) w2 = (Inr (), w3)"
    and t: "tbl w' = others E (tick w3) (tbl w3)"
    by (rule process_message_deletes [OF assms(3)]) (rule that, assumption+)
  have "view (dynamo_of E) (tbl w3) ''processed_event'' (event_id e) \<noteq> None"
    by (rule repo_put_stores [OF assms(1) put])
  then have "recorded E (tbl w') (event_id e)"
    unfolding recorded_def t by (rule others_keepD [OF assms(2)])
  then show ?thesis using m by blast
qed simp

definition sample_message :: dict where
  "sample_message =
     [(''Body'', JStr (json_text sample_lib (event_named ''e1''))), (''MessageId'', JStr ''m1''),
      (''ReceiptHandle'', JStr ''r1'')]"

lemma sample_body:
  "json_parse sample_lib (json_text sample_lib (event_named ''e1'')) = Some (event_named ''e1'')"
proof -
  have "json_native (event_named ''e1'')" by (simp add: event_named_def)
  then show ?thesis using sample_lib_ok unfolding lib_ok_def by blast
qed

lemma sample_strings: "py_strip ''m1'' = ''m1''" "py_strip ''r1'' = ''r1''" "parse_int ''1'' = Some 1"
  by code_simp+

lemma event_named_keys:
  "py_in ''producer'' (event_named eid) = Inr True" "py_in ''event_id'' (event_named eid) = Inr True"
  by (simp_all add: py_in_def event_named_def dict_get_def)

lemma sample_event_value:
  "event_value sample_lib
     [(''Body'', JStr (json_text sample_lib (event_named ''e1''))), (''MessageId'', JStr ''m1''),
      (''ReceiptHandle'', JStr ''r1'')] (json_text sample_lib (event_named ''e1'')) w =
   (Inr (event_named ''e1''), w)"
  by (simp add: event_value_def sample_body event_named_keys bnd_def of_option_def of_result_def ret_def)

lemma sample_message_parsed:
  "\<exists>e n. parse_event_message (sample_worker_env default_settings C) sample_message w =
     (Inr (e, 1), w\<lparr>tick := n\<rparr>) \<and> event_id e = ''e1'' \<and> event_type e = ''incident.detected'' \<and> payload e = []"
  by (simp add: sample_event_value parse_event_message_def sample_message_def bnd_def attempt_def read_envelope_eq
        envelope_of_def event_named_envelope dict_get_def receive_count_of_def dict_get_or_def py_int_def
        sample_strings of_result_def ret_def) blast

lemma message_deleted_after_storing_witness:
  "\<exists>w' :: (dict list, mem_position) worker_world. process_message (sample_worker_env default_settings (mem_consumer sample_tp [])) sample_message
      (sample_worker [] (\<lambda>_. 0, \<lambda>_. 0)) = (Inr (), w') \<and>
    sqs_deleted w' = [(''q'', ''r1'')] \<and>
    recorded (sample_worker_env default_settings (mem_consumer sample_tp [])) (tbl w') ''e1''"
proof -
  let ?E = "sample_worker_env default_settings (mem_consumer sample_tp [])"
  let ?w = "sample_worker [] (\<lambda>_. 0, \<lambda>_. 0) :: (dict list, mem_position) worker_world"
  have q: "quiet ?E" by (rule sample_worker_quiet)
  obtain e n where parse: "parse_event_message ?E sample_message ?w = (Inr (e, 1), ?w\<lparr>tick := n\<rparr>)"
    and e: "event_id e = ''e1''" "event_type e = ''incident.detected''" "payload e = []"
    using sample_message_parsed by blast
  define w2 where "w2 = ?w\<lparr>tick := Suc n\<rparr>"
  let ?x = "sqs_processed_event e ''processed'' 1 (now_at ?E n)"
  have "finite_numbers (JObj (pe_payload ?x))" "table_ok (dynamo_of ?E) (tbl w2)"
    by (simp_all add: sqs_processed_event_def e w2_def sample_table_ok_empty)
  then obtain t' where put: "repo_put ?E ''processed_event'' ''e1'' (dump_processed_event sample_lib ?x) w2 =
      (Inr (), w2\<lparr>tick := tick w2 + 3, tbl := t'\<rparr>)"
    using put_processed_event [OF q, of w2 ?x "''e1''"] by auto
  have receipt: "dict_get_or sample_message ''ReceiptHandle'' (JStr []) = JStr ''r1''"
    "dict_get_or sample_message ''MessageId'' (JStr []) = JStr ''m1''"
    by (simp_all add: sample_message_def dict_get_or_def dict_get_def)
  have "\<exists>w'. process_message ?E sample_message ?w = (Inr (), w') \<and> sqs_deleted w' = [(''q'', ''r1'')]"
    using put by (simp add: process_message_def bnd_def parse receipt sample_strings py_str_def check_def ret_def
        Let_def now_utc_def e known_event_types_def required_queue_url_def read_state_def of_option_def
        quiet_call [OF q] change_def count_processed_def w2_def)
  then obtain w' where w': "process_message ?E sample_message ?w = (Inr (), w')"
    "sqs_deleted w' = [(''q'', ''r1'')]" by blast
  have "dynamo_ok (dynamo_of ?E)" "others_keep ?E" using q quietD others_keep_alone by blast+
  from message_deleted_after_storing [OF this w'(1)] w'(2) parse e
  have "recorded ?E (tbl w') ''e1''" by auto
  then show ?thesis using w' by blast
qed

end
