(* ===== verification/EventWorkerLiveness.thy ===== *)
theory EventWorkerLiveness
  imports EventWorkerProperties
begin

text \<open>
  Progress of the polling loop: when calls succeed and the consumer hands out what there is,
  every record of the backlog is settled (processed, or given up after its attempts) and
  committed within a bounded number of cycles. A potential, the attempts that the records of
  the backlog have left, decreases in every cycle.
\<close>

declare split_paired_All [simp del] split_paired_Ex [simp del]

section \<open>Settling one record\<close>

definition readable :: "string \<Rightarrow> 'a reader \<Rightarrow> json \<Rightarrow> bool" where
  "readable k r v \<longleftrightarrow>
     (case v of JObj d \<Rightarrow> (case dict_get d k of None \<Rightarrow> True | Some x \<Rightarrow> r x \<noteq> None) | _ \<Rightarrow> False)"

lemma defaulted_None: "defaulted k x r v = None \<longleftrightarrow> \<not> readable k r v"
  by (cases v) (auto simp: defaulted_def readable_def dict_get_def split: option.splits)

lemma defaulted_ex: "(\<exists>y. defaulted k x r v = Some y) \<longleftrightarrow> readable k r v"
  using defaulted_None [of k x r v] by auto

lemma field_None: "field a f = None \<longleftrightarrow> a = None \<or> (\<exists>x. a = Some x \<and> f x = None)"
  by (cases a) (auto simp: field_def)

text \<open>Whether a value is an envelope does not depend on the fresh values.\<close>

lemma validate_envelope_None:
  "validate_envelope L i t c v = None \<longleftrightarrow> validate_envelope L i' t' c' v = None"
  unfolding validate_envelope_def by (simp add: field_None defaulted_None defaulted_ex ex_simps)

lemma envelope_payload:
  assumes "validate_envelope L i t c v = Some e" "finite_numbers v"
  shows "finite_numbers (JObj (payload e))"
proof -
  have "required ''payload'' read_dict v = Some (payload e)"
    using assms(1) unfolding validate_envelope_def by (auto elim!: field_SomeE)
  then obtain d where "v = JObj d" "map_of d ''payload'' = Some (JObj (payload e))"
    by (auto simp: required_def read_dict_def dict_get_def split: json.splits option.splits)
  then have "(''payload'', JObj (payload e)) \<in> set d" by (simp add: map_of_SomeD)
  then show ?thesis using assms(2) \<open>v = JObj d\<close> by (fastforce simp: list_all_iff simp del: finite_numbers.simps(8)
      simp: finite_numbers.simps(8) [of d])
qed

text \<open>A record whose value has no NaN and no infinity, and whose event id, if any, is a string.\<close>

definition settleable :: "kafka_record \<Rightarrow> bool" where
  "settleable r \<longleftrightarrow> finite_numbers (rec_value r) \<and> causation_of (dict_of (rec_value r)) \<noteq> None"

definition ready :: "('t, 'k, 'e) worker_env_scheme \<Rightarrow> ('t, 'k, 'w) worker_world_scheme \<Rightarrow> bool" where
  "ready E w \<longleftrightarrow> table_ok (dynamo_of E) (tbl w) \<and> consumer_open w \<and> dlq_open w \<and> \<not> stopping w"

lemma settle_step:
  fixes E :: "('t, 'k, 'e) worker_env_scheme" and w :: "('t, 'k, 'w) worker_world_scheme"
  assumes "quiet E" "ready E w" "settleable r"
  shows "\<exists>ok w'. process_record_with_retry E r w = (Inr ok, w') \<and> ready E w' \<and> consumer w' = consumer w \<and>
    (if ok then attempts w' = (attempts w)(record_key r := None)
     else attempts_so_far w r + 1 < max_attempts E \<and>
       attempts w' = (attempts w)(record_key r \<mapsto> attempts_so_far w r + 1))"
proof (cases "envelope_of E w (rec_value r)")
  case (Some e)
  have fin: "\<And>e. envelope_of E w (rec_value r) = Some e \<Longrightarrow> finite_numbers (JObj (payload e))"
    using envelope_payload assms(3) unfolding envelope_of_def settleable_def by blast
  have tok: "table_ok (dynamo_of E) (tbl w)" using assms(2) by (simp add: ready_def)
  have run: "\<exists>n t' ep. process_record E r w = (Inr (), w\<lparr>tick := n, tbl := t', events_processed := ep\<rparr>) \<and>
      table_ok (dynamo_of E) t'"
  proof (cases "view (dynamo_of E) (tbl w) ''processed_event'' (event_id e)")
    case None
    with process_record_run [where r = r, OF assms(1) tok] fin Some show ?thesis by fastforce
  next
    case (Some x)
    have "\<exists>n. process_record E r w = (Inr (),
        w\<lparr>tick := n, events_processed := events_processed w @ [(''kafka'', event_type e, ''duplicate'')]\<rparr>)"
      using process_record_run [where r = r, OF assms(1) tok] fin \<open>envelope_of E w (rec_value r) = Some e\<close> Some
      by fastforce
    then obtain n where n: "process_record E r w = (Inr (),
        w\<lparr>tick := n, events_processed := events_processed w @ [(''kafka'', event_type e, ''duplicate'')]\<rparr>)" by blast
    show ?thesis
      by (rule exI [of _ n], rule exI [of _ "tbl w"], rule exI) (use n tok in auto)
  qed
  then have "\<exists>w'. process_record E r w = (Inr (), w') \<and> ready E w' \<and> consumer w' = consumer w \<and> attempts w' = attempts w"
    using assms(2) by (fastforce simp: ready_def)
  then obtain w' where "process_record E r w = (Inr (), w')" "ready E w'" "consumer w' = consumer w"
    "attempts w' = attempts w" by blast
  then show ?thesis
    by (intro exI [of _ True] exI [of _ "w'\<lparr>attempts := (attempts w')(record_key r := None)\<rparr>"])
      (simp add: process_record_with_retry_def attempt_def bnd_def set_attempts_def change_def ret_def ready_def)
next
  case None
  then have v: "not_an_event (lib_of E) (rec_value r)"
    unfolding not_an_event_def envelope_of_def using validate_envelope_None by blast
  show ?thesis
  proof (cases "attempts_so_far w r + 1 < max_attempts E")
    case True
    show ?thesis
      by (rule exI [of _ False], rule exI) (use retry_fails [OF v True] True assms(2) in \<open>auto simp: ready_def\<close>)
  next
    case False
    obtain caused where c: "causation_of (dict_of (rec_value r)) = Some caused"
      using assms(3) by (auto simp: settleable_def)
    obtain w' where "process_record_with_retry E r w = (Inr True, w')" "consumer w' = consumer w"
      "attempts w' = (attempts w)(record_key r := None)" "table_ok (dynamo_of E) (tbl w')"
      "consumer_open w' = consumer_open w" "dlq_open w'" "stopping w' = stopping w"
      using last_attempt [OF assms(1) _ _ v _ c refl] assms(2,3) False
      unfolding ready_def settleable_def by (metis not_less)
    then show ?thesis using assms(2) by (auto simp: ready_def)
  qed
qed

section \<open>What is left to do\<close>

definition batch_of :: "batches \<Rightarrow> topic_partition \<Rightarrow> kafka_record list" where
  "batch_of bs tp = (case map_of bs tp of None \<Rightarrow> [] | Some rs \<Rightarrow> rs)"

lemma batch_of_simps [simp]:
  "batch_of [] tp = []"
  "batch_of ((tp, rs) # bs) tp' = (if tp' = tp then rs else batch_of bs tp')"
  "tp \<notin> fst ` set bs \<Longrightarrow> batch_of bs tp = []"
  by (auto simp: batch_of_def map_of_eq_None_iff [symmetric])

text \<open>The records fetched and not yet looked at, and those still in the log.\<close>

abbreviation backlog ::
  "('t, 'k, 'e) worker_env_scheme \<Rightarrow> ('t, 'k, 'w) worker_world_scheme \<Rightarrow> batches \<Rightarrow> topic_partition \<Rightarrow>
   kafka_record list" where
  "backlog E w bs tp \<equiv> batch_of bs tp @ drop (position E w tp) (log_at E w tp)"

definition weight ::
  "('t, 'k, 'e) worker_env_scheme \<Rightarrow> ('t, 'k, 'w) worker_world_scheme \<Rightarrow> kafka_record \<Rightarrow> nat" where
  "weight E w r = max_attempts E - attempts_so_far w r"

definition load ::
  "('t, 'k, 'e) worker_env_scheme \<Rightarrow> ('t, 'k, 'w) worker_world_scheme \<Rightarrow> batches \<Rightarrow> topic_partition \<Rightarrow> nat" where
  "load E w bs tp = (\<Sum>r \<leftarrow> backlog E w bs tp. weight E w r)"

definition potential ::
  "('t, 'k, 'e) worker_env_scheme \<Rightarrow> ('t, 'k, 'w) worker_world_scheme \<Rightarrow> batches \<Rightarrow> topic_partition set \<Rightarrow> nat" where
  "potential E w bs T = (\<Sum>tp \<in> T. load E w bs tp)"

text \<open>
  The state between two records of a poll: the batches are the stretches of the logs before the
  positions, and no record of the backlog has used up its attempts.
\<close>

definition in_flight ::
  "('t, 'k, 'e) worker_env_scheme \<Rightarrow> ('t, 'k, 'w) worker_world_scheme \<Rightarrow> batches \<Rightarrow> bool" where
  "in_flight E w bs \<longleftrightarrow> ready E w \<and> distinct (map fst bs) \<and>
     (\<forall>tp. position E w tp \<le> length (log_at E w tp) \<and>
        (\<exists>q. q + length (batch_of bs tp) = position E w tp \<and> backlog E w bs tp = drop q (log_at E w tp))) \<and>
     (\<forall>tp. \<forall>r \<in> set (backlog E w bs tp). attempts_so_far w r < max_attempts E)"

lemma in_flightD:
  assumes "in_flight E w bs"
  shows "ready E w" "distinct (map fst bs)" "position E w tp \<le> length (log_at E w tp)"
    "\<exists>q. q + length (batch_of bs tp) = position E w tp \<and> backlog E w bs tp = drop q (log_at E w tp)"
    "r \<in> set (backlog E w bs tp) \<Longrightarrow> attempts_so_far w r < max_attempts E"
  using assms unfolding in_flight_def by blast+

text \<open>Records of a log are told apart by their keys.\<close>

lemma key_in_log:
  assumes "consumer_ok C" "r \<in> set (drop q (log_of C k tp))"
  shows "\<exists>i \<ge> q. record_key r = (fst tp, snd tp, i) \<and> rec_tp r = tp \<and> rec_offset r = i"
proof -
  from assms(2) obtain j where j: "j < length (log_of C k tp) - q" "r = log_of C k tp ! (q + j)"
    by (auto simp: in_set_conv_nth)
  then have "rec_tp r = tp" "rec_offset r = q + j" using consumer_ok_log [OF assms(1), of "q + j" k tp] by auto
  then show ?thesis by (auto simp: record_key_def rec_tp_def)
qed

lemma other_key:
  assumes C: "consumer_ok C" and r: "drop q (log_of C k tp) = r # rest"
  shows "tp' \<noteq> tp \<Longrightarrow> x \<in> set (drop q' (log_of C k tp')) \<Longrightarrow> record_key x \<noteq> record_key r"
    and "x \<in> set rest \<Longrightarrow> record_key x \<noteq> record_key r"
    and "rec_tp r = tp" "rec_offset r = q"
proof -
  have len: "q < length (log_of C k tp)" using r by (metis drop_all list.distinct(1) not_less)
  then have "r = log_of C k tp ! q" using r by (metis Cons_nth_drop_Suc list.inject)
  then have at: "rec_tp r = tp" "rec_offset r = q" using consumer_ok_log [OF C len] by auto
  show "rec_tp r = tp" "rec_offset r = q" by (fact at)+
  have key: "record_key r = (fst tp, snd tp, q)" using at by (auto simp: record_key_def rec_tp_def)
  show "record_key x \<noteq> record_key r" if "tp' \<noteq> tp" "x \<in> set (drop q' (log_of C k tp'))"
    using key_in_log [OF C that(2)] that(1) key by (auto simp: prod_eq_iff)
  have "rest = drop (Suc q) (log_of C k tp)" using r by (metis drop_Suc list.sel(3) tl_drop)
  then show "record_key x \<noteq> record_key r" if "x \<in> set rest"
    using key_in_log [OF C, of x "Suc q" k tp] that key by auto
qed

lemma attempts_other:
  "attempts w' = (attempts w)(record_key r := n) \<Longrightarrow> record_key x \<noteq> record_key r \<Longrightarrow>
   attempts_so_far w' x = attempts_so_far w x"
  by (simp add: attempts_so_far_def)

text \<open>One partition gets lighter, the others stay as they are: the potential decreases.\<close>

lemma potential_less:
  assumes "finite T" "tp \<in> T" "load E w' bs' tp < load E w bs tp"
    and "\<And>tp'. tp' \<noteq> tp \<Longrightarrow> load E w' bs' tp' = load E w bs tp'"
  shows "potential E w' bs' T < potential E w bs T"
  unfolding potential_def
proof (rule sum_strict_mono_ex1 [OF assms(1)])
  show "\<forall>x \<in> T. load E w' bs' x \<le> load E w bs x"
    using assms(3,4) by (metis less_imp_le order_refl)
  show "\<exists>a \<in> T. load E w' bs' a < load E w bs a" using assms(2,3) by blast
qed

lemma load_cong:
  assumes "backlog E w' bs' tp = backlog E w bs tp"
    and "\<And>x. x \<in> set (backlog E w bs tp) \<Longrightarrow> attempts_so_far w' x = attempts_so_far w x"
  shows "load E w' bs' tp = load E w bs tp"
proof -
  have "map (weight E w') (backlog E w bs tp) = map (weight E w) (backlog E w bs tp)"
    using assms(2) by (intro map_cong) (simp_all add: weight_def)
  then show ?thesis unfolding load_def assms(1) by (rule arg_cong [of _ _ sum_list])
qed

section \<open>One step of a poll's result\<close>

text \<open>What stays the same while the result of a poll is worked through.\<close>

definition same_log ::
  "('t, 'k, 'e) worker_env_scheme \<Rightarrow> ('t, 'k, 'w) worker_world_scheme \<Rightarrow> ('t, 'k, 'w) worker_world_scheme \<Rightarrow> bool" where
  "same_log E w w' \<longleftrightarrow> log_at E w' = log_at E w \<and> committed E w' = committed E w"

text \<open>
  The first record of a batch, \<open>r\<close>, at offset \<open>q\<close>: after it, either the batch goes on with the
  position as it is, or the batch is dropped with the position back at \<open>q\<close>.
\<close>

lemma step_in_flight:
  fixes E :: "('t, 'k, 'e) worker_env_scheme" and w w' :: "('t, 'k, 'w) worker_world_scheme"
  assumes C: "consumer_ok (consumer_ops_of E)" and i: "in_flight E w ((tp, r # rs) # bs)"
    and w': "ready E w'" "same_log E w w'" "attempts w' = (attempts w)(record_key r := n)"
    and p: "position E w' = (position E w)(tp := q')"
    and bs': "distinct (map fst bs')" "\<And>tp'. tp' \<noteq> tp \<Longrightarrow> batch_of bs' tp' = batch_of bs tp'"
    and stretch: "batch_of bs' tp @ drop q' (log_at E w tp) =
        (if n = None then [] else [r]) @ rs @ drop (position E w tp) (log_at E w tp)"
      "q' \<le> length (log_at E w tp)"
      "q' - length (batch_of bs' tp) = rec_offset r + (if n = None then 1 else 0)"
      "length (batch_of bs' tp) \<le> q'"
    and n: "n = None \<or> n = Some (attempts_so_far w r + 1) \<and> attempts_so_far w r + 1 < max_attempts E"
    and T: "finite T" "tp \<in> T"
  shows "in_flight E w' bs' \<and> potential E w' bs' T < potential E w ((tp, r # rs) # bs) T"
proof -
  let ?B = "(tp, r # rs) # bs" and ?L = "log_at E w"
  have L: "log_at E w' = ?L" using w'(2) by (simp add: same_log_def)
  obtain q where q: "drop q (?L tp) = r # rs @ drop (position E w tp) (?L tp)"
    "q + length (r # rs) = position E w tp"
    using i unfolding in_flight_def by (metis (no_types, lifting) append_Cons batch_of_simps(2))
  note o = other_key [OF C q(1)]
  have far: "attempts_so_far w' x = attempts_so_far w x" if "record_key x \<noteq> record_key r" for x
    using attempts_other [OF w'(3) that] .
  have others: "backlog E w' bs' tp' = backlog E w ?B tp'" if "tp' \<noteq> tp" for tp'
    using that p bs'(2) by (simp add: L)
  have unmoved: "attempts_so_far w' x = attempts_so_far w x" if "tp' \<noteq> tp" "x \<in> set (backlog E w ?B tp')" for tp' x
  proof -
    obtain q'' where "backlog E w ?B tp' = drop q'' (?L tp')" using i unfolding in_flight_def by metis
    then show ?thesis using that o(1) [of tp' x q''] far by simp
  qed
  have mine: "backlog E w' bs' tp = (if n = None then [] else [r]) @ rs @ drop (position E w tp) (?L tp)"
    using stretch(1) p by (simp add: L)
  have tail: "attempts_so_far w' x = attempts_so_far w x" if "x \<in> set (rs @ drop (position E w tp) (?L tp))" for x
    using far [OF o(2) [OF that]] .
  have rk: "attempts_so_far w' r = (case n of None \<Rightarrow> 0 | Some k \<Rightarrow> k)"
    using w'(3) by (simp add: attempts_so_far_def)
  have bound: "\<And>tp x. x \<in> set (backlog E w ?B tp) \<Longrightarrow> attempts_so_far w x < max_attempts E"
    using i unfolding in_flight_def by blast
  have r: "attempts_so_far w r < max_attempts E" using bound [of r tp] by simp
  have tails: "map (weight E w') (rs @ drop (position E w tp) (?L tp)) =
      map (weight E w) (rs @ drop (position E w tp) (?L tp))"
    using tail by (intro map_cong) (simp_all add: weight_def)
  have lighter: "load E w' bs' tp < load E w ?B tp"
  proof -
    let ?t = "sum_list (map (weight E w) (rs @ drop (position E w tp) (?L tp)))"
    have "load E w' bs' tp = (if n = None then 0 else weight E w' r) + ?t"
      unfolding load_def mine tails [symmetric] by simp
    moreover have "load E w ?B tp = weight E w r + ?t" by (simp add: load_def)
    ultimately show ?thesis using n r rk by (auto simp: weight_def)
  qed
  have "load E w' bs' tp' = load E w ?B tp'" if "tp' \<noteq> tp" for tp'
    by (rule load_cong [OF others [OF that]]) (rule unmoved [OF that])
  with potential_less [OF T lighter] have "potential E w' bs' T < potential E w ?B T" by blast
  moreover have "in_flight E w' bs'"
    unfolding in_flight_def
  proof (intro conjI allI ballI)
    show "ready E w'" "distinct (map fst bs')" by (fact w' bs')+
    fix tp'
    show "position E w' tp' \<le> length (log_at E w' tp')"
      using in_flightD(3) [OF i, of tp'] stretch(2) p by (cases "tp' = tp") (simp_all add: L)
    show "\<exists>q. q + length (batch_of bs' tp') = position E w' tp' \<and> backlog E w' bs' tp' = drop q (log_at E w' tp')"
    proof (cases "tp' = tp")
      case True
      define z where "z = q + (if n = None then 1 else 0)"
      have "drop z (?L tp) = (if n = None then [] else [r]) @ rs @ drop (position E w tp) (?L tp)"
        using q(1) tl_drop [of q "?L tp"] by (simp add: z_def drop_Suc)
      then show ?thesis using True mine p stretch(3,4) o(4) by (intro exI [of _ z]) (simp add: L z_def)
    next
      case False
      then show ?thesis using i others [OF False] p bs'(2) [OF False] unfolding in_flight_def
        by (metis (no_types, lifting) L batch_of_simps(2) fun_upd_apply)
    qed
    fix x
    assume x: "x \<in> set (backlog E w' bs' tp')"
    show "attempts_so_far w' x < max_attempts E"
    proof (cases "tp' = tp")
      case True
      then have "x = r \<and> n \<noteq> None \<or> x \<in> set (rs @ drop (position E w tp) (?L tp))"
        using x by (auto simp: mine split: if_splits)
      then show ?thesis using n rk tail bound [of x tp] by auto
    next
      case False
      then show ?thesis using x others [OF False] unmoved [OF False] bound by metis
    qed
  qed
  ultimately show ?thesis by blast
qed

lemma seek_quiet:
  assumes "quiet E" "consumer_open w"
  shows "seek_to_record E r w = (Inr (), w\<lparr>tick := Suc (tick w),
    consumer := op_seek (consumer_ops_of E) (rec_tp r) (rec_offset r) (consumer w)\<rparr>)"
  using assms(2) by (simp add: seek_to_record_def required_consumer_def bnd_def read_state_def check_def ret_def
      quiet_call [OF assms(1)] change_def)

lemma in_flight_head:
  assumes "consumer_ok (consumer_ops_of E)" "in_flight E w ((tp, r # rs) # bs)"
  shows "rec_tp r = tp" "drop (rec_offset r) (log_at E w tp) = r # rs @ drop (position E w tp) (log_at E w tp)"
    "rec_offset r + length (r # rs) = position E w tp" "position E w tp \<le> length (log_at E w tp)"
    "r \<in> set (log_at E w tp)" "tp \<notin> fst ` set bs"
proof -
  obtain q where q: "drop q (log_at E w tp) = r # rs @ drop (position E w tp) (log_at E w tp)"
    "q + length (r # rs) = position E w tp"
    using assms(2) unfolding in_flight_def by (metis (no_types, lifting) append_Cons batch_of_simps(2))
  note o = other_key [OF assms(1) q(1)]
  show "rec_tp r = tp" "drop (rec_offset r) (log_at E w tp) = r # rs @ drop (position E w tp) (log_at E w tp)"
    "rec_offset r + length (r # rs) = position E w tp"
    using o(3,4) q by auto
  show "position E w tp \<le> length (log_at E w tp)" by (rule in_flightD(3) [OF assms(2)])
  show "tp \<notin> fst ` set bs" using in_flightD(2) [OF assms(2)] by simp
  have "r \<in> set (drop q (log_at E w tp))" unfolding q(1) by simp
  then show "r \<in> set (log_at E w tp)" by (rule in_set_dropD)
qed

lemma empty_batch:
  assumes "in_flight E w ((tp, []) # bs)"
  shows "in_flight E w bs" "potential E w ((tp, []) # bs) T = potential E w bs T"
proof -
  have no: "tp \<notin> fst ` set bs" using assms by (auto simp: in_flight_def)
  then have same: "batch_of ((tp, []) # bs) = batch_of bs" by (auto simp: fun_eq_iff)
  show "in_flight E w bs" using assms unfolding in_flight_def same by simp
  show "potential E w ((tp, []) # bs) T = potential E w bs T" by (simp add: potential_def load_def same)
qed

text \<open>A batch, to its end or to the first record that is to be tried again.\<close>

lemma batch_progress:
  fixes E :: "('t, 'k, 'e) worker_env_scheme" and w :: "('t, 'k, 'w) worker_world_scheme"
  assumes q: "quiet E" and C: "consumer_ok (consumer_ops_of E)" and T: "finite T" "tp \<in> T"
    and "\<forall>tp. \<forall>r \<in> set (log_at E w tp). settleable r" "in_flight E w ((tp, rs) # bs)"
  shows "\<exists>flags' w'. process_batch E rs flags w = (Inr flags', w') \<and> in_flight E w' bs \<and> same_log E w w' \<and>
    potential E w' bs T + (if rs = [] then 0 else 1) \<le> potential E w ((tp, rs) # bs) T \<and>
    (\<forall>tp'. tp' \<noteq> tp \<longrightarrow> position E w' tp' = position E w tp') \<and>
    (fst flags \<longrightarrow> fst flags') \<and> (snd flags \<longrightarrow> snd flags') \<and> (rs \<noteq> [] \<longrightarrow> fst flags' \<or> snd flags') \<and>
    (rs = [] \<longrightarrow> flags' = flags \<and> position E w' tp = position E w tp) \<and>
    (snd flags' \<longrightarrow> snd flags \<or> position E w' tp < length (log_at E w' tp))"
  using assms(5,6)
proof (induction rs arbitrary: w flags)
  case Nil
  then show ?case using empty_batch [OF Nil.prems(2)]
    by (intro exI [of _ flags] exI [of _ w]) (simp add: ret_def same_log_def)
next
  case (Cons r rs)
  obtain a f where flags: "flags = (a, f)" by (cases flags)
  note h = in_flight_head [OF C Cons.prems(2)]
  have rdy: "ready E w" using Cons.prems(2) by (simp add: in_flight_def)
  have "settleable r" using Cons.prems(1) h(5) by blast
  from settle_step [OF q rdy this] obtain ok w1 where
    run: "process_record_with_retry E r w = (Inr ok, w1)" and w1: "ready E w1" "consumer w1 = consumer w"
    and att: "if ok then attempts w1 = (attempts w)(record_key r := None)
      else attempts_so_far w r + 1 < max_attempts E \<and>
        attempts w1 = (attempts w)(record_key r \<mapsto> attempts_so_far w r + 1)" by blast
  have d: "distinct (map fst ((tp, rs) # bs))" "distinct (map fst bs)"
    using Cons.prems(2) by (simp_all add: in_flight_def)
  show ?case
  proof (cases ok)
    case True
    have s: "in_flight E w1 ((tp, rs) # bs) \<and>
        potential E w1 ((tp, rs) # bs) T < potential E w ((tp, r # rs) # bs) T"
      by (rule step_in_flight [OF C Cons.prems(2) w1(1), of None "position E w tp"])
        (use True att h d T w1(2) in \<open>auto simp: same_log_def\<close>)
    have "\<forall>tp. \<forall>r \<in> set (log_at E w1 tp). settleable r" using Cons.prems(1) unfolding w1(2) .
    from Cons.IH [where flags = "(True, f)", OF this conjunct1 [OF s], simplified fst_conv snd_conv]
    obtain flags' w' where ih:
      "process_batch E rs (True, f) w1 = (Inr flags', w')" "in_flight E w' bs" "same_log E w1 w'"
      "potential E w' bs T + (if rs = [] then 0 else 1) \<le> potential E w1 ((tp, rs) # bs) T"
      "\<forall>tp'. tp' \<noteq> tp \<longrightarrow> position E w' tp' = position E w1 tp'" "fst flags'" "f \<longrightarrow> snd flags'"
      "snd flags' \<longrightarrow> f \<or> position E w' tp < length (log_at E w' tp)" by blast
    have "process_batch E (r # rs) flags w = (Inr flags', w')"
      using ih(1) True run by (simp add: flags bnd_Inr)
    moreover have "same_log E w w'" using ih(3) w1(2) by (simp add: same_log_def)
    moreover have "potential E w' bs T + 1 \<le> potential E w ((tp, r # rs) # bs) T"
      using ih(4) s by linarith
    ultimately show ?thesis using ih(2,5-8) w1(2)
      by (intro exI [of _ flags'] exI [of _ w']) (simp add: flags)
  next
    case False
    define w2 where "w2 = w1\<lparr>tick := Suc (tick w1),
      consumer := op_seek (consumer_ops_of E) (rec_tp r) (rec_offset r) (consumer w1)\<rparr>"
    have seek: "seek_to_record E r w1 = (Inr (), w2)"
      using seek_quiet [OF q, of w1 r] w1(1) by (simp add: ready_def w2_def)
    have p2: "position E w2 = (position E w)(tp := rec_offset r)" "same_log E w w2"
      using consumer_ok_seek [OF C] w1(2) h(1) by (simp_all add: w2_def same_log_def)
    have s: "in_flight E w2 bs \<and> potential E w2 bs T < potential E w ((tp, r # rs) # bs) T"
      by (rule step_in_flight [OF C Cons.prems(2) _ p2(2), of "Some (attempts_so_far w r + 1)" "rec_offset r"])
        (use False att h d T w1 p2(1) in \<open>auto simp: ready_def w2_def\<close>)
    have "position E w2 tp < length (log_at E w2 tp)"
      using h(3,4) p2 by (simp add: same_log_def)
    moreover have "process_batch E (r # rs) flags w = (Inr (a, True), w2)"
      using False run seek by (simp add: flags bnd_Inr ret_def)
    moreover have "position E w2 tp' = position E w tp'" if "tp' \<noteq> tp" for tp'
      using that p2(1) by simp
    ultimately show ?thesis using s p2(2)
      by (intro exI [of _ "(a, True)"] exI [of _ w2]) (simp add: flags)
  qed
qed

text \<open>All batches of a poll. A batch with a record in it costs some of the potential.\<close>

definition some_record :: "batches \<Rightarrow> bool" where
  "some_record bs \<longleftrightarrow> (\<exists>b \<in> set bs. snd b \<noteq> [])"

lemma some_record_simps [simp]:
  "\<not> some_record []" "some_record ((tp, rs) # bs) \<longleftrightarrow> rs \<noteq> [] \<or> some_record bs"
  by (simp_all add: some_record_def)

lemma batches_progress:
  fixes E :: "('t, 'k, 'e) worker_env_scheme" and w :: "('t, 'k, 'w) worker_world_scheme"
  assumes q: "quiet E" and C: "consumer_ok (consumer_ops_of E)" and T: "finite T"
    and "\<forall>tp. log_at E w tp \<noteq> [] \<longrightarrow> tp \<in> T" "\<forall>tp. \<forall>r \<in> set (log_at E w tp). settleable r"
    and "in_flight E w bs"
    and "snd flags \<longrightarrow> (\<exists>tp. tp \<notin> fst ` set bs \<and> position E w tp < length (log_at E w tp))"
  shows "\<exists>flags' w'. process_batches E bs flags w = (Inr flags', w') \<and> in_flight E w' [] \<and> same_log E w w' \<and>
    potential E w' [] T + (if some_record bs then 1 else 0) \<le> potential E w bs T \<and>
    (if some_record bs then fst flags' \<or> snd flags' else flags' = flags \<and> w' = w) \<and>
    (fst flags \<longrightarrow> fst flags') \<and> (snd flags \<longrightarrow> snd flags') \<and>
    (snd flags' \<longrightarrow> (\<exists>tp. position E w' tp < length (log_at E w' tp)))"
  using assms(4-)
proof (induction bs arbitrary: w flags)
  case Nil
  then show ?case
    by (intro exI [of _ flags] exI [of _ w]) (auto simp: ret_def same_log_def)
next
  case (Cons b bs)
  obtain tp rs where b: "b = (tp, rs)" by (cases b)
  note flight = Cons.prems(3) [unfolded b]
  show ?case
  proof (cases "rs = []")
    case True
    note e = empty_batch [OF flight [unfolded True]]
    have "\<exists>flags' w'. process_batches E bs flags w = (Inr flags', w') \<and> in_flight E w' [] \<and> same_log E w w' \<and>
        potential E w' [] T + (if some_record bs then 1 else 0) \<le> potential E w bs T \<and>
        (if some_record bs then fst flags' \<or> snd flags' else flags' = flags \<and> w' = w) \<and>
        (fst flags \<longrightarrow> fst flags') \<and> (snd flags \<longrightarrow> snd flags') \<and>
        (snd flags' \<longrightarrow> (\<exists>tp. position E w' tp < length (log_at E w' tp)))"
      by (rule Cons.IH [OF Cons.prems(1,2) e(1)]) (use Cons.prems(4) in auto)
    then show ?thesis using True by (simp add: b e(2))
  next
    case False
    then obtain r rs' where rs: "rs = r # rs'" by (cases rs) auto
    have "r \<in> set (log_at E w tp)" using in_flight_head(5) [OF C flight [unfolded rs]] .
    then have "log_at E w tp \<noteq> []" by (cases "log_at E w tp") simp_all
    then have tp: "tp \<in> T" using Cons.prems(1) by blast
    have no: "tp \<notin> fst ` set bs" using in_flightD(2) [OF flight] by simp
    from batch_progress [OF q C T tp Cons.prems(2) flight, of flags, simplified False if_False not_False_eq_True simp_thms]
    obtain flags1 w1 where
      one: "process_batch E rs flags w = (Inr flags1, w1)" "in_flight E w1 bs" "same_log E w w1"
        "potential E w1 bs T + 1 \<le> potential E w ((tp, rs) # bs) T"
        "\<forall>tp'. tp' \<noteq> tp \<longrightarrow> position E w1 tp' = position E w tp'" "fst flags1 \<or> snd flags1"
        "fst flags \<longrightarrow> fst flags1" "snd flags \<longrightarrow> snd flags1"
        "snd flags1 \<longrightarrow> snd flags \<or> position E w1 tp < length (log_at E w1 tp)" by blast
    have log1: "log_at E w1 = log_at E w" using one(3) by (simp add: same_log_def)
    have stuck: "snd flags1 \<longrightarrow> (\<exists>tp. tp \<notin> fst ` set bs \<and> position E w1 tp < length (log_at E w1 tp))"
    proof
      assume "snd flags1"
      then consider "snd flags" | "position E w1 tp < length (log_at E w1 tp)" using one(9) by blast
      then show "\<exists>tp. tp \<notin> fst ` set bs \<and> position E w1 tp < length (log_at E w1 tp)"
      proof cases
        case 1
        then obtain tp' where t: "tp' \<notin> fst ` set ((tp, rs) # bs)" "position E w tp' < length (log_at E w tp')"
          using Cons.prems(4) unfolding b by blast
        then have "tp' \<noteq> tp" by simp
        then have "position E w1 tp' = position E w tp'" using one(5) by blast
        then show ?thesis using t log1 by (intro exI [of _ tp']) simp
      next
        case 2
        then show ?thesis using no by blast
      qed
    qed
    from Cons.IH [OF Cons.prems(1,2) [folded log1] one(2) stuck] obtain flags2 w2 where
      two: "process_batches E bs flags1 w1 = (Inr flags2, w2)" "in_flight E w2 []" "same_log E w1 w2"
        "potential E w2 [] T + (if some_record bs then 1 else 0) \<le> potential E w1 bs T"
        "fst flags1 \<longrightarrow> fst flags2" "snd flags1 \<longrightarrow> snd flags2"
        "snd flags2 \<longrightarrow> (\<exists>tp. position E w2 tp < length (log_at E w2 tp))" by blast
    have "process_batches E (b # bs) flags w = (Inr flags2, w2)" by (simp add: b bnd_Inr one(1) two(1))
    moreover have "same_log E w w2" using one(3) two(3) by (simp add: same_log_def)
    moreover have "potential E w2 [] T + 1 \<le> potential E w ((tp, rs) # bs) T" using one(4) two(4) by linarith
    ultimately show ?thesis using False one(6-8) two(2,5-7)
      by (intro exI [of _ flags2] exI [of _ w2]) (auto simp: b)
  qed
qed

section \<open>Cycles\<close>

text \<open>
  A consumer that hands out records whenever there are some behind its positions, while no new
  ones arrive.
\<close>

definition delivering :: "'k consumer_ops \<Rightarrow> bool" where
  "delivering C \<longleftrightarrow> (\<forall>n k. case op_poll C n k of (bs, k') \<Rightarrow> log_of C k' = log_of C k \<and>
     ((\<exists>tp. position_of C k tp < length (log_of C k tp)) \<longrightarrow> some_record bs))"

lemma deliveringD:
  assumes "delivering C" "op_poll C n k = (bs, k')"
  shows "log_of C k' = log_of C k" "position_of C k tp < length (log_of C k tp) \<Longrightarrow> some_record bs"
proof -
  have "log_of C k' = log_of C k \<and>
     ((\<exists>tp. position_of C k tp < length (log_of C k tp)) \<longrightarrow> some_record bs)"
    using assms(1) [unfolded delivering_def, THEN spec, of n, THEN spec, of k] unfolding assms(2) prod.case .
  then show "log_of C k' = log_of C k" "position_of C k tp < length (log_of C k tp) \<Longrightarrow> some_record bs"
    by blast+
qed

lemma poll_in_flight:
  fixes E :: "('t, 'k, 'e) worker_env_scheme" and w :: "('t, 'k, 'w) worker_world_scheme"
  assumes q: "quiet E" and C: "consumer_ok (consumer_ops_of E)" "delivering (consumer_ops_of E)"
    and i: "in_flight E w []"
  shows "\<exists>bs w1. poll_records E w = (Inr bs, w1) \<and> in_flight E w1 bs \<and> same_log E w w1 \<and>
    potential E w1 bs T = potential E w [] T \<and>
    ((\<exists>tp. position E w tp < length (log_at E w tp)) \<longleftrightarrow> some_record bs) \<and>
    (\<not> some_record bs \<longrightarrow> position E w1 = position E w)"
proof -
  let ?C = "consumer_ops_of E"
  obtain bs k where poll: "op_poll ?C (Suc (tick w)) (consumer w) = (bs, k)" by fastforce
  define w1 where "w1 = w\<lparr>tick := Suc (tick w), consumer := k\<rparr>"
  have rdy: "ready E w" "ready E w1" using in_flightD(1) [OF i] by (simp_all add: ready_def w1_def)
  note p = consumer_ok_poll [OF C(1) poll] and L = deliveringD [OF C(2) poll]
  have run: "poll_records E w = (Inr bs, w1)"
    using poll_quiet [OF q _ poll] rdy(1) by (simp add: ready_def w1_def)
  have len: "length (batch_of bs tp) \<le> length (log_at E w tp) - position E w tp"
    and behind: "position E w1 tp = position E w tp + length (batch_of bs tp)"
      "backlog E w1 bs tp = drop (position E w tp) (log_at E w tp)" for tp
  proof -
    have "length (batch_of bs tp) \<le> length (log_at E w tp) - position E w tp \<and>
        position E w1 tp = position E w tp + length (batch_of bs tp) \<and>
        backlog E w1 bs tp = drop (position E w tp) (log_at E w tp)"
    proof (cases "tp \<in> fst ` set bs")
      case False
      then show ?thesis using p(3) [OF False] L(1) by (simp add: w1_def)
    next
      case True
      then obtain rs where rs: "(tp, rs) \<in> set bs" by auto
      then have "batch_of bs tp = rs" using p(1) by (simp add: batch_of_def)
      moreover have "batch_ok ?C (consumer w) k tp rs" by (rule p(2) [OF rs])
      then have "rs = take (length rs) (drop (position E w tp) (log_at E w tp))"
        "position_of ?C k tp = position E w tp + length rs"
        using L(1) by (simp_all add: batch_ok_def)
      moreover have "length rs \<le> length (log_at E w tp) - position E w tp"
        using calculation(2) by (metis length_drop length_take min.cobounded1)
      ultimately show ?thesis using L(1)
        by (simp add: w1_def) (metis add.commute append_take_drop_id drop_drop)
    qed
    then show "length (batch_of bs tp) \<le> length (log_at E w tp) - position E w tp"
      "position E w1 tp = position E w tp + length (batch_of bs tp)"
      "backlog E w1 bs tp = drop (position E w tp) (log_at E w tp)" by blast+
  qed
  have log1: "log_at E w1 = log_at E w" using L(1) by (simp add: w1_def)
  have att: "attempts_so_far w1 r = attempts_so_far w r" for r by (simp add: w1_def attempts_so_far_def)
  have "in_flight E w1 bs"
    unfolding in_flight_def
  proof (intro conjI allI ballI)
    show "ready E w1" "distinct (map fst bs)" by (fact rdy p)+
    show "position E w1 tp \<le> length (log_at E w1 tp)" for tp
      using len [of tp] behind(1) [of tp] in_flightD(3) [OF i, of tp] log1 by simp
    show "\<exists>q. q + length (batch_of bs tp) = position E w1 tp \<and> backlog E w1 bs tp = drop q (log_at E w1 tp)" for tp
      using behind [of tp] log1 by metis
    show "attempts_so_far w1 r < max_attempts E" if "r \<in> set (backlog E w1 bs tp)" for tp r
      using in_flightD(5) [OF i, of r tp] that unfolding behind(2) att by simp
  qed
  moreover have "load E w1 bs tp = load E w [] tp" for tp
    by (rule load_cong) (simp_all add: behind(2) att)
  then have "potential E w1 bs T = potential E w [] T" by (simp add: potential_def)
  moreover have "\<not> some_record bs \<longrightarrow> batch_of bs tp = []" for tp
    by (auto simp: some_record_def batch_of_def split: option.split dest!: map_of_SomeD)
  then have "\<not> some_record bs \<longrightarrow> position E w1 = position E w" using behind(1) by (simp add: fun_eq_iff)
  moreover have "\<exists>tp. position E w tp < length (log_at E w tp)" if some: "some_record bs"
  proof -
    obtain tp rs where rs: "(tp, rs) \<in> set bs" "rs \<noteq> []" using some by (auto simp: some_record_def)
    then have "batch_of bs tp = rs" using p(1) by (simp add: batch_of_def)
    then have "0 < length (batch_of bs tp)" using rs(2) by simp
    then show ?thesis using len [of tp] by (intro exI [of _ tp]) linarith
  qed
  moreover have "same_log E w w1" using log1 p(4) by (simp add: same_log_def w1_def)
  ultimately show ?thesis using run L(2) by blast
qed

text \<open>When nothing is left behind the positions, they are committed.\<close>

definition left_over :: "('t, 'k, 'e) worker_env_scheme \<Rightarrow> ('t, 'k, 'w) worker_world_scheme \<Rightarrow> bool" where
  "left_over E w \<longleftrightarrow> (\<exists>tp. position E w tp < length (log_at E w tp))"

definition caught_up :: "('t, 'k, 'e) worker_env_scheme \<Rightarrow> ('t, 'k, 'w) worker_world_scheme \<Rightarrow> bool" where
  "caught_up E w \<longleftrightarrow> (\<not> left_over E w \<longrightarrow> committed E w = position E w)"

lemma cycle_progress:
  fixes E :: "('t, 'k, 'e) worker_env_scheme" and w :: "('t, 'k, 'w) worker_world_scheme"
  assumes q: "quiet E" and C: "consumer_ok (consumer_ops_of E)" "delivering (consumer_ops_of E)"
    and T: "finite T" "\<forall>tp. log_at E w tp \<noteq> [] \<longrightarrow> tp \<in> T"
    and s: "\<forall>tp. \<forall>r \<in> set (log_at E w tp). settleable r"
    and i: "in_flight E w []" and c: "caught_up E w"
  shows "\<exists>w'. poll_cycle E w = (Inr (), w') \<and> in_flight E w' [] \<and> log_at E w' = log_at E w \<and> caught_up E w' \<and>
    potential E w' [] T + (if left_over E w then 1 else 0) \<le> potential E w [] T"
proof -
  obtain bs w1 where one: "poll_records E w = (Inr bs, w1)" "in_flight E w1 bs" "same_log E w w1"
    "potential E w1 bs T = potential E w [] T" "left_over E w \<longleftrightarrow> some_record bs"
    "\<not> some_record bs \<longrightarrow> position E w1 = position E w"
    using poll_in_flight [OF q C i] unfolding left_over_def by metis
  have log1: "log_at E w1 = log_at E w" using one(3) by (simp add: same_log_def)
  obtain flags w2 where two: "process_batches E bs (False, False) w1 = (Inr flags, w2)" "in_flight E w2 []"
    "same_log E w1 w2" "potential E w2 [] T + (if some_record bs then 1 else 0) \<le> potential E w1 bs T"
    "if some_record bs then fst flags \<or> snd flags else flags = (False, False) \<and> w2 = w1"
    "snd flags \<longrightarrow> left_over E w2"
    using batches_progress [OF q C(1) T(1) T(2) [folded log1] s [folded log1] one(2), of "(False, False)",
        simplified snd_conv not_False_eq_True simp_thms] unfolding left_over_def by blast
  define w3 where "w3 = snd (commit_if E flags w2)"
  have rdy: "consumer_open w2" using in_flightD(1) [OF two(2)] by (simp add: ready_def)
  have commit: "commit_if E flags w2 = (Inr (), w3)" "in_flight E w3 []" "log_at E w3 = log_at E w2"
    "potential E w3 [] T = potential E w2 [] T" "caught_up E w3"
  proof -
    note ops = consumer_ok_commit [OF C(1)]
    show r: "commit_if E flags w2 = (Inr (), w3)"
      using commit_quiet [OF q rdy] by (auto simp: w3_def commit_if_def only_if_def ret_def)
    have w3: "w3 = (if fst flags \<and> \<not> snd flags
        then w2\<lparr>tick := Suc (tick w2), consumer := op_commit (consumer_ops_of E) (consumer w2)\<rparr> else w2)"
      using commit_quiet [OF q rdy] by (cases flags) (auto simp: w3_def commit_if_def only_if_def ret_def)
    show l: "log_at E w3 = log_at E w2" by (simp add: w3 ops)
    have p: "position E w3 = position E w2" by (simp add: w3 ops)
    have a: "attempts_so_far w3 = attempts_so_far w2" by (auto simp: w3 attempts_so_far_def fun_eq_iff)
    have "ready E w3" using in_flightD(1) [OF two(2)] by (simp add: w3 ready_def)
    then show "in_flight E w3 []" using two(2) unfolding in_flight_def l p a by blast
    show "potential E w3 [] T = potential E w2 [] T"
      by (simp add: potential_def load_def weight_def [abs_def] l p a)
    show "caught_up E w3"
    proof (cases "some_record bs")
      case True
      show ?thesis
      proof (cases "snd flags")
        case True
        then show ?thesis using two(6) by (simp add: caught_up_def left_over_def l p)
      next
        case False
        then have "fst flags" using two(5) True by simp
        then show ?thesis using False by (simp add: caught_up_def w3 ops)
      qed
    next
      case False
      then have "w3 = w1" "position E w1 = position E w" using two(5) one(6) by (auto simp: w3)
      then show ?thesis using c one(3) by (auto simp: caught_up_def left_over_def same_log_def)
    qed
  qed
  have "poll_cycle E w = (Inr (), w3)"
    by (simp add: poll_cycle_def attempt_def bnd_Inr one(1) two(1) commit(1))
  moreover have "log_at E w3 = log_at E w" using commit(3) two(3) log1 by (simp add: same_log_def)
  ultimately show ?thesis using commit(2,4,5) two(4) one(4,5) by (intro exI [of _ w3]) simp
qed

lemma left_over_weighs:
  assumes "finite T" "\<forall>tp. log_at E w tp \<noteq> [] \<longrightarrow> tp \<in> T" "in_flight E w []" "left_over E w"
  shows "0 < potential E w [] T"
proof -
  obtain tp where tp: "position E w tp < length (log_at E w tp)" using assms(4) by (auto simp: left_over_def)
  then have "log_at E w tp \<noteq> []" by auto
  then have t: "tp \<in> T" using assms(2) by blast
  obtain r rs where r: "drop (position E w tp) (log_at E w tp) = r # rs"
    using tp by (metis Cons_nth_drop_Suc)
  then have "attempts_so_far w r < max_attempts E" using in_flightD(5) [OF assms(3), of r tp] by simp
  then have "0 < load E w [] tp" by (simp add: load_def r weight_def)
  then show ?thesis using t assms(1) unfolding potential_def by (metis gr0I sum_eq_0_iff less_numeral_extra(3))
qed

lemma loop_progress:
  fixes E :: "('t, 'k, 'e) worker_env_scheme" and w :: "('t, 'k, 'w) worker_world_scheme"
  assumes q: "quiet E" and C: "consumer_ok (consumer_ops_of E)" "delivering (consumer_ops_of E)"
    and T: "finite T"
    and "\<forall>tp. log_at E w tp \<noteq> [] \<longrightarrow> tp \<in> T" "\<forall>tp. \<forall>r \<in> set (log_at E w tp). settleable r"
    and "in_flight E w []" "caught_up E w" "potential E w [] T \<le> n"
  shows "\<exists>w'. poll_loop E n w = (Inr (), w') \<and> log_at E w' = log_at E w \<and> in_flight E w' [] \<and>
    \<not> left_over E w' \<and> caught_up E w'"
  using assms(5-)
proof (induction n arbitrary: w)
  case 0
  have "\<not> left_over E w" using left_over_weighs [OF T 0(1,3)] 0(5) by auto
  then show ?case using 0(3,4) by (simp add: ret_def)
next
  case (Suc n)
  obtain w1 where one: "poll_cycle E w = (Inr (), w1)" "in_flight E w1 []" "log_at E w1 = log_at E w"
    "caught_up E w1" "potential E w1 [] T + (if left_over E w then 1 else 0) \<le> potential E w [] T"
    using cycle_progress [OF q C T Suc.prems(1-4)] by blast
  have "potential E w1 [] T \<le> n"
  proof (cases "left_over E w")
    case True
    then show ?thesis using one(5) Suc.prems(5) by simp
  next
    case False
    then have "drop (position E w tp) (log_at E w tp) = []" for tp by (auto simp: left_over_def not_less)
    then have "potential E w [] T = 0" by (simp add: potential_def load_def)
    then show ?thesis using one(5) by simp
  qed
  from Suc.IH [OF Suc.prems(1,2) [folded one(3)] one(2,4) this] obtain w' where
    "poll_loop E n w1 = (Inr (), w')" "log_at E w' = log_at E w1" "in_flight E w' []"
    "\<not> left_over E w'" "caught_up E w'" by blast
  moreover have "\<not> stopping w" using in_flightD(1) [OF Suc.prems(3)] by (simp add: ready_def)
  ultimately show ?case using one(1,3) by (intro exI [of _ w']) (simp add: bnd_Inr read_state_def)
qed

text \<open>
  C2. Liveness of the worker: started afresh (nothing tried, positions at the
  committed offsets, the dead-letter producer open) in a run in which the calls succeed, with a
  consumer that hands out records as long as there are some and any number of partitions, the
  loop has committed every record of every log after at most one cycle for each attempt that the
  records behind the positions are allowed, events and records that are no events alike, and is
  still running. The only records excluded are those whose dead letter the code cannot build
  (a non-string event id) or store (NaN or an infinity).
\<close>

theorem backlog_is_committed:
  fixes E :: "('t, 'k, 'e) worker_env_scheme" and w :: "('t, 'k, 'w) worker_world_scheme"
  assumes "quiet E" "consumer_ok (consumer_ops_of E)" "delivering (consumer_ops_of E)"
    and "ready E w" "attempts w = Map.empty" "committed E w = position E w"
    and "\<And>tp. position E w tp \<le> length (log_at E w tp)"
    and "finite T" "\<And>tp. tp \<notin> T \<Longrightarrow> log_at E w tp = []"
    and "\<And>tp r. r \<in> set (log_at E w tp) \<Longrightarrow> settleable r"
    and "(\<Sum>tp \<in> T. length (log_at E w tp) - position E w tp) * max_attempts E \<le> n"
  shows "\<exists>w'. poll_loop E n w = (Inr (), w') \<and> log_at E w' = log_at E w \<and>
    (\<forall>tp. committed E w' tp = length (log_at E w tp)) \<and> \<not> stopping w'"
proof -
  have none: "attempts_so_far w r = 0" for r using assms(5) by (simp add: attempts_so_far_def)
  have "0 < max_attempts E" by (simp add: max_attempts_def)
  then have i: "in_flight E w []"
    using assms(4,7) by (simp add: in_flight_def none)
  have "load E w [] tp = (length (log_at E w tp) - position E w tp) * max_attempts E" for tp
    by (simp add: load_def weight_def [abs_def] none sum_list_triv)
  then have "potential E w [] T = (\<Sum>tp \<in> T. length (log_at E w tp) - position E w tp) * max_attempts E"
    by (simp add: potential_def sum_distrib_right)
  then have "potential E w [] T \<le> n" using assms(11) by simp
  moreover have "\<forall>tp. log_at E w tp \<noteq> [] \<longrightarrow> tp \<in> T" "\<forall>tp. \<forall>r \<in> set (log_at E w tp). settleable r"
    using assms(9,10) by blast+
  moreover have "caught_up E w" using assms(6) by (simp add: caught_up_def)
  ultimately obtain w' where w': "poll_loop E n w = (Inr (), w')" "log_at E w' = log_at E w"
    "in_flight E w' []" "\<not> left_over E w'" "caught_up E w'"
    using loop_progress [OF assms(1-3,8) _ _ i] by blast
  have "position E w' tp = length (log_at E w' tp)" for tp
    using w'(4) in_flightD(3) [OF w'(3), of tp] by (simp add: left_over_def not_less le_antisym)
  then have "committed E w' tp = length (log_at E w tp)" for tp
    using w'(2,4,5) by (simp add: caught_up_def)
  then show ?thesis using w' in_flightD(1) [OF w'(3)] by (auto simp: ready_def)
qed

text \<open>Two records, the second of which is no event: six cycles are enough.\<close>

lemma backlog_is_committed_witness:
  "\<exists>w'. poll_loop (sample_worker_env default_settings
        (mem_consumer sample_tp [record_at 0 (event_named ''e1''), record_at 1 JNull])) 6
      (sample_worker [] (\<lambda>_. 0, \<lambda>_. 0)) = (Inr (), w') \<and>
    committed (sample_worker_env default_settings
        (mem_consumer sample_tp [record_at 0 (event_named ''e1''), record_at 1 JNull])) w' sample_tp = 2"
proof -
  let ?rs = "[record_at 0 (event_named ''e1''), record_at 1 JNull]"
  let ?C = "mem_consumer sample_tp ?rs"
  let ?E = "sample_worker_env default_settings ?C"
  let ?w = "sample_worker [] (\<lambda>_. 0, \<lambda>_. 0) :: (dict list, mem_position) worker_world"
  have ok: "consumer_ok ?C"
    by (rule mem_consumer_ok) (auto simp: rec_tp_def less_Suc_eq nth_Cons' record_at_def)
  have give: "delivering ?C"
    by (auto simp: delivering_def mem_consumer_def some_record_def split: if_splits)
  have logs: "log_at ?E ?w tp = (if tp = sample_tp then ?rs else [])" "position ?E ?w tp = 0"
    "committed ?E ?w = position ?E ?w" for tp
    by (simp_all add: mem_consumer_def)
  have good: "settleable r" if "r \<in> set ?rs" for r
    using that by (auto simp: settleable_def event_named_def causation_of_def get_null_def dict_get_or_def
        dict_get_def read_opt_def read_str_def dict_of_def)
  have "ready ?E ?w" by (simp add: ready_def sample_table_ok_empty)
  moreover have "(\<Sum>tp \<in> {sample_tp}. length (log_at ?E ?w tp) - position ?E ?w tp) * max_attempts ?E \<le> 6"
    by (simp add: mem_consumer_def max_attempts_def default_settings_def)
  ultimately obtain w' where "poll_loop ?E 6 ?w = (Inr (), w')" "committed ?E w' sample_tp = length (log_at ?E ?w sample_tp)"
    using backlog_is_committed [OF sample_worker_quiet, of default_settings ?C ?w "{sample_tp}" 6] ok give logs good
    by (auto split: if_splits)
  then show ?thesis by (auto simp: mem_consumer_def)
qed

end
