(* ===== verification/Pyaccess.thy ===== *)
theory Pyaccess
  imports Remote
begin

text \<open>
  Reading untyped values: \<open>v.get(k, d)\<close> and \<open>v[k]\<close> on whatever a response or a stored item
  holds, with the exception Python raises when the value is of another kind.
\<close>

definition get_method :: "json \<Rightarrow> string \<Rightarrow> json \<Rightarrow> exn + json" where
  "get_method v k dflt =
     (case v of JObj d \<Rightarrow> Inr (dict_get_or d k dflt) | _ \<Rightarrow> Inl (AttributeError ''get''))"

definition sub_item :: "json \<Rightarrow> string \<Rightarrow> exn + json" where
  "sub_item v k =
     (case v of
        JObj d \<Rightarrow> (case dict_get d k of None \<Rightarrow> Inl (KeyError k) | Some x \<Rightarrow> Inr x)
      | _ \<Rightarrow> Inl (TypeError ''indices must be integers''))"

lemma get_method_obj [simp]: "get_method (JObj d) k dflt = Inr (dict_get_or d k dflt)"
  and sub_item_obj [simp]:
    "sub_item (JObj d) k = (case dict_get d k of None \<Rightarrow> Inl (KeyError k) | Some x \<Rightarrow> Inr x)"
  by (simp_all add: get_method_def sub_item_def)

text \<open>\<open>v["a"]["b"]["c"]\<close>\<close>

fun sub_items :: "json \<Rightarrow> string list \<Rightarrow> exn + json" where
  "sub_items v [] = Inr v"
| "sub_items v (k # ks) = (case sub_item v k of Inl e \<Rightarrow> Inl e | Inr x \<Rightarrow> sub_items x ks)"

text \<open>Chained \<open>.get(k, {})\<close>; the last key has a default of its own.\<close>

fun get_methods :: "json \<Rightarrow> string list \<Rightarrow> string \<Rightarrow> json \<Rightarrow> exn + json" where
  "get_methods v [] k dflt = get_method v k dflt"
| "get_methods v (h # hs) k dflt =
     (case get_method v h (JObj []) of Inl e \<Rightarrow> Inl e | Inr x \<Rightarrow> get_methods x hs k dflt)"

text \<open>Running a computation on a value that has no effects.\<close>

lemma bnd_of_result_case:
  "bnd (of_result r) f w = (case r of Inl e \<Rightarrow> (Inl e, w) | Inr x \<Rightarrow> f x w)"
  by (simp add: bnd_def of_result_def split: sum.split)

end
