(* ===== verification/Asset.thy ===== *)
theory Asset
  imports Pyaccess
begin

text \<open>
  \<open>services/asset/app/main.py\<close>: the equipment (with the demonstration press that is created when
  there is none) and its maintenance records.
\<close>

section \<open>Models\<close>

record equipment =
  eq_id :: string
  eq_name :: string
  eq_line :: string
  eq_model :: string
  eq_status :: string
  eq_last_seen_at :: int

record maintenance_request =
  mr_performed_at :: int
  mr_action :: string
  mr_actual_cause :: "string option"
  mr_technician :: string
  mr_parts_replaced :: "string list"
  mr_outcome :: string

record maintenance_record = maintenance_request +
  mr_id :: string
  mr_equipment_id :: string

definition dump_equipment :: "lib \<Rightarrow> equipment \<Rightarrow> json" where
  "dump_equipment L e = JObj
     [(''id'', JStr (eq_id e)),
      (''name'', JStr (eq_name e)),
      (''line'', JStr (eq_line e)),
      (''model'', JStr (eq_model e)),
      (''status'', JStr (eq_status e)),
      (''last_seen_at'', JStr (format_datetime L (eq_last_seen_at e)))]"

definition validate_equipment :: "lib \<Rightarrow> json \<Rightarrow> equipment option" where
  "validate_equipment L v =
     field (required ''id'' read_str v) (\<lambda>eid.
     field (required ''name'' read_str v) (\<lambda>name.
     field (required ''line'' read_str v) (\<lambda>line.
     field (required ''model'' read_str v) (\<lambda>model.
     field (required ''status'' read_str v) (\<lambda>st.
     field (required ''last_seen_at'' (read_datetime L) v) (\<lambda>seen.
       Some \<lparr>eq_id = eid, eq_name = name, eq_line = line, eq_model = model, eq_status = st,
             eq_last_seen_at = seen\<rparr>))))))"

definition validate_maintenance_request :: "lib \<Rightarrow> json \<Rightarrow> maintenance_request option" where
  "validate_maintenance_request L v =
     field (required ''performed_at'' (read_datetime L) v) (\<lambda>performed.
     field (required ''action'' (checked (len_between 3 2000) read_str) v) (\<lambda>action.
     field (defaulted ''actual_cause'' None (read_opt (checked (len_between 0 2000) read_str)) v) (\<lambda>cause.
     field (required ''technician'' (checked (len_between 2 200) read_str) v) (\<lambda>technician.
     field (defaulted ''parts_replaced'' [] (read_list read_str) v) (\<lambda>parts.
     field (required ''outcome'' (checked (len_between 2 1000) read_str) v) (\<lambda>outcome.
       Some \<lparr>mr_performed_at = performed, mr_action = action, mr_actual_cause = cause,
             mr_technician = technician, mr_parts_replaced = parts, mr_outcome = outcome\<rparr>))))))"

definition dump_maintenance :: "lib \<Rightarrow> maintenance_record \<Rightarrow> json" where
  "dump_maintenance L m = JObj
     [(''performed_at'', JStr (format_datetime L (mr_performed_at m))),
      (''action'', JStr (mr_action m)),
      (''actual_cause'', opt_str (mr_actual_cause m)),
      (''technician'', JStr (mr_technician m)),
      (''parts_replaced'', str_list (mr_parts_replaced m)),
      (''outcome'', JStr (mr_outcome m)),
      (''id'', JStr (mr_id m)),
      (''equipment_id'', JStr (mr_equipment_id m))]"

definition validate_maintenance :: "lib \<Rightarrow> json \<Rightarrow> maintenance_record option" where
  "validate_maintenance L v =
     field (validate_maintenance_request L v) (\<lambda>r.
     field (required ''id'' read_str v) (\<lambda>mid.
     field (required ''equipment_id'' read_str v) (\<lambda>eid.
       Some (maintenance_request.extend r (maintenance_record.fields mid eid)))))"

definition wf_maintenance :: "'a maintenance_request_scheme \<Rightarrow> bool" where
  "wf_maintenance m \<longleftrightarrow>
     len_between 3 2000 (mr_action m) \<and> len_between 2 200 (mr_technician m) \<and>
     len_between 2 1000 (mr_outcome m) \<and>
     (case mr_actual_cause m of None \<Rightarrow> True | Some c \<Rightarrow> len_between 0 2000 c)"

abbreviation any_equipment :: "equipment \<Rightarrow> bool" where
  "any_equipment \<equiv> \<lambda>_. True"

interpretation equipment_store: stored_entity dump_equipment validate_equipment any_equipment "''equipment''"
proof
  show "key_order_blind (validate_equipment L)" for L
    unfolding validate_equipment_def
    by (intro field_blind required_blind const_blind scalar_readers_blind)
  show "lib_ok L \<Longrightarrow> any_equipment x \<Longrightarrow> validate_equipment L (dump_equipment L x) = Some x" for L x
    by (simp add: validate_equipment_def dump_equipment_def codec_simps)
  show "lib_ok L \<Longrightarrow> any_equipment x \<Longrightarrow> validate_equipment L (stored L (dump_equipment L x)) = Some x" for L x
    by (simp add: validate_equipment_def dump_equipment_def codec_simps)
  show "any_equipment x \<Longrightarrow> finite_numbers (dump_equipment L x)" for L x
    by (simp add: dump_equipment_def)
qed (simp add: entity_types_def)

interpretation maintenance_store:
  stored_entity dump_maintenance validate_maintenance wf_maintenance "''maintenance''"
proof
  show "key_order_blind (validate_maintenance L)" for L
    unfolding validate_maintenance_def validate_maintenance_request_def
    by (intro field_blind required_blind defaulted_blind const_blind checked_blind
        read_opt_blind read_list_blind scalar_readers_blind)
  show "lib_ok L \<Longrightarrow> wf_maintenance x \<Longrightarrow> validate_maintenance L (dump_maintenance L x) = Some x" for L x
    by (cases "mr_actual_cause x") (simp_all add: validate_maintenance_def validate_maintenance_request_def dump_maintenance_def codec_simps
        opt_str_def read_opt_def wf_maintenance_def maintenance_request.extend_def maintenance_record.fields_def)
  show "lib_ok L \<Longrightarrow> wf_maintenance x \<Longrightarrow>
      validate_maintenance L (stored L (dump_maintenance L x)) = Some x" for L x
    by (cases "mr_actual_cause x") (simp_all add: validate_maintenance_def validate_maintenance_request_def dump_maintenance_def codec_simps
        opt_str_def read_opt_def wf_maintenance_def maintenance_request.extend_def maintenance_record.fields_def)
  show "wf_maintenance x \<Longrightarrow> finite_numbers (dump_maintenance L x)" for L x
    by (simp add: dump_maintenance_def)
qed (simp add: entity_types_def)

section \<open>Equipment\<close>

definition seed_equipment :: "int \<Rightarrow> equipment" where
  "seed_equipment now =
     \<lparr>eq_id = ''PRESS-001'',
      eq_name = utf8_bytes [49, 237, 152, 184, 32, 237, 148, 132, 235, 160, 136, 236, 138, 164],
      eq_line = utf8_bytes [237, 148, 132, 235, 160, 136, 236, 138, 164, 32, 65, 235, 157, 188, 236, 157, 184],
      eq_model = ''AXP-500'', eq_status = ''warning'', eq_last_seen_at = now\<rparr>"

definition list_equipment ::
  "('t, 'e) env_scheme \<Rightarrow> (('t, 'w) world_scheme, equipment list) act" where
  "list_equipment E =
     bnd (repo_list E ''equipment'') (\<lambda>values.
     if values = [] then
       bnd (now_utc E) (\<lambda>now.
       let seed = seed_equipment now
       in bnd (repo_put E ''equipment'' (eq_id seed) (dump_equipment (lib_of E) seed)) (\<lambda>_.
          ret [seed]))
     else each (validated validate_equipment E) values)"

definition get_equipment ::
  "('t, 'e) env_scheme \<Rightarrow> string \<Rightarrow> (('t, 'w) world_scheme, equipment) act" where
  "get_equipment E equipment_id =
     bnd (repo_get E ''equipment'' equipment_id) (\<lambda>value.
     bnd (if value = None \<and> equipment_id = ''PRESS-001''
          then bnd (list_equipment E) (\<lambda>_. repo_get E ''equipment'' equipment_id)
          else ret value) (\<lambda>value.
     case value of
       None \<Rightarrow> throw (not_found ''Equipment'')
     | Some v \<Rightarrow> validated validate_equipment E v))"

section \<open>Maintenance\<close>

definition maintenance_from :: "maintenance_request \<Rightarrow> string \<Rightarrow> string \<Rightarrow> maintenance_record" where
  "maintenance_from request mid equipment_id =
     maintenance_request.extend request (maintenance_record.fields mid equipment_id)"

definition create_maintenance_record ::
  "('t, 'e) env_scheme \<Rightarrow> principal option \<Rightarrow> string \<Rightarrow> maintenance_request \<Rightarrow>
   (('t, 'w) world_scheme, maintenance_record) act" where
  "create_maintenance_record E caller equipment_id request =
     bnd (of_result (require_roles [FIELD_WORKER, OPERATOR_MANAGER, SYSTEM_ADMIN] caller)) (\<lambda>_.
     bnd (get_equipment E equipment_id) (\<lambda>_.
     bnd (new_uuid E) (\<lambda>mid.
     let m = maintenance_from request mid equipment_id
     in bnd (repo_put E ''maintenance'' (mr_id m) (dump_maintenance (lib_of E) m)) (\<lambda>_.
        ret m))))"

text \<open>One step of the comprehension: nothing, or the record of this equipment.\<close>

definition maintenance_of ::
  "('t, 'e) env_scheme \<Rightarrow> string \<Rightarrow> json \<Rightarrow> (('t, 'w) world_scheme, maintenance_record list) act" where
  "maintenance_of E equipment_id value_read =
     bnd (of_result (get_method value_read ''equipment_id'' JNull)) (\<lambda>x.
     if x = JStr equipment_id
     then bnd (validated validate_maintenance E value_read) (\<lambda>m. ret [m])
     else ret [])"

definition list_maintenance_records ::
  "('t, 'e) env_scheme \<Rightarrow> string \<Rightarrow> (('t, 'w) world_scheme, maintenance_record list) act" where
  "list_maintenance_records E equipment_id =
     bnd (repo_list E ''maintenance'') (\<lambda>values.
     bnd (each (maintenance_of E equipment_id) values) (\<lambda>records.
     ret (sorted_descending mr_performed_at (concat records))))"

end
