(* ===== verification/AssetProperties.thy ===== *)
theory AssetProperties
  imports Asset Sample
begin

text \<open>The properties of the asset service: the seeded press, and maintenance of known equipment only.\<close>

abbreviation load_equipment :: "('t, 'e) env_scheme \<Rightarrow> 't \<Rightarrow> string \<Rightarrow> equipment option" where
  "load_equipment E t eid \<equiv> load_as (validate_equipment (lib_of E)) (dynamo_of E) t ''equipment'' eid"

abbreviation load_maintenance :: "('t, 'e) env_scheme \<Rightarrow> 't \<Rightarrow> string \<Rightarrow> maintenance_record option" where
  "load_maintenance E t mid \<equiv> load_as (validate_maintenance (lib_of E)) (dynamo_of E) t ''maintenance'' mid"

section \<open>Runs without failures\<close>

lemma list_equipment_seeds:
  fixes E :: "('t, 'e) env_scheme" and w :: "('t, 'w) world_scheme"
  assumes q: "quiet E" and tok: "table_ok (dynamo_of E) (tbl w)"
    and l: "lists_as (dynamo_of E) (tbl w) ''equipment'' []" and f: "0 < list_fuel E"
  shows "\<exists>n t' now. list_equipment E w = (Inr [seed_equipment now], w\<lparr>tick := n, tbl := t'\<rparr>) \<and>
    table_ok (dynamo_of E) t' \<and> load_equipment E t' ''PRESS-001'' = Some (seed_equipment now) \<and>
    same_elsewhere (dynamo_of E) (tbl w) t' ''equipment'' ''PRESS-001''"
proof -
  obtain n where empty: "repo_list E ''equipment'' w = (Inr [], w\<lparr>tick := n\<rparr>)"
    using repo_list_quiet [OF q l] f by auto
  let ?w2 = "w\<lparr>tick := Suc n\<rparr>" and ?seed = "seed_equipment (now_at E n)"
  obtain t' where put: "repo_put E ''equipment'' ''PRESS-001'' (dump_equipment (lib_of E) ?seed) ?w2 =
      (Inr (), ?w2\<lparr>tick := tick ?w2 + 3, tbl := t'\<rparr>)"
    and t: "table_ok (dynamo_of E) t'" "load_equipment E t' ''PRESS-001'' = Some ?seed"
    "same_elsewhere (dynamo_of E) (tbl ?w2) t' ''equipment'' ''PRESS-001''"
    using equipment_store.save [OF q, where w = ?w2 and x = ?seed and eid = "''PRESS-001''"] tok unfolding same_elsewhere_def by auto
  have "list_equipment E w = (Inr [?seed], w\<lparr>tick := Suc n + 3, tbl := t'\<rparr>)"
    using put by (simp add: list_equipment_def bnd_def empty now_utc_def Let_def ret_def seed_equipment_def)
  then show ?thesis using t by (intro exI [of _ "Suc n + 3"] exI [of _ t'] exI [of _ "now_at E n"]) simp
qed

lemma list_equipment_unseeded:
  fixes E :: "('t, 'e) env_scheme" and w :: "('t, 'w) world_scheme"
  assumes q: "quiet E" and l: "lists_as (dynamo_of E) (tbl w) ''equipment'' xs" "xs \<noteq> []" "length xs < list_fuel E"
    and r: "\<And>it. it \<in> set xs \<Longrightarrow> \<exists>v. dict_get it ''data'' = Some v \<and> validate_equipment (lib_of E) v \<noteq> None"
  shows "\<exists>es n. list_equipment E w = (Inr es, w\<lparr>tick := n\<rparr>)"
proof -
  have d: "dict_get it ''data'' \<noteq> None" if "it \<in> set xs" for it using r [OF that] by auto
  obtain n where "repo_list E ''equipment'' w = (Inr (map (\<lambda>it. the (dict_get it ''data'')) xs), w\<lparr>tick := n\<rparr>)"
    using repo_list_quiet [OF q l(1) d l(3)] by blast
  moreover have "each (validated validate_equipment E) (map (\<lambda>it. the (dict_get it ''data'')) xs) u =
      (Inr (map (\<lambda>v. the (validate_equipment (lib_of E) v)) (map (\<lambda>it. the (dict_get it ''data'')) xs)), u)"
    for u :: "('t, 'w) world_scheme"
    by (rule each_validated_ok) (use r in fastforce)
  ultimately show ?thesis using l(2) by (auto simp: list_equipment_def bnd_def)
qed

lemma get_equipment_found:
  assumes "quiet E" "table_ok (dynamo_of E) (tbl w)" "load_equipment E (tbl w) eid = Some e"
  shows "get_equipment E eid w = (Inr e, w\<lparr>tick := Suc (tick w)\<rparr>)"
  using assms(3) repo_get_quiet [OF assms(1,2), of "''equipment''" eid]
  by (auto simp: get_equipment_def bnd_def load_as_Some ret_def validated_apply)

lemma get_equipment_missing:
  assumes "quiet E" "table_ok (dynamo_of E) (tbl w)" "view (dynamo_of E) (tbl w) ''equipment'' eid = None"
    "eid \<noteq> ''PRESS-001''"
  shows "get_equipment E eid w = (Inl (not_found ''Equipment''), w\<lparr>tick := Suc (tick w)\<rparr>)"
  using assms(3,4) repo_get_quiet [OF assms(1,2), of "''equipment''" eid]
  by (auto simp: get_equipment_def bnd_def ret_def throw_def)

lemma get_press_seeded:
  fixes E :: "('t, 'e) env_scheme" and w :: "('t, 'w) world_scheme"
  assumes q: "quiet E" and tok: "table_ok (dynamo_of E) (tbl w)"
    and v: "view (dynamo_of E) (tbl w) ''equipment'' ''PRESS-001'' = None"
    and l: "lists_as (dynamo_of E) (tbl w) ''equipment'' []" "0 < list_fuel E"
  shows "\<exists>n t' now. get_equipment E ''PRESS-001'' w = (Inr (seed_equipment now), w\<lparr>tick := n, tbl := t'\<rparr>) \<and>
    table_ok (dynamo_of E) t' \<and> load_equipment E t' ''PRESS-001'' = Some (seed_equipment now) \<and>
    same_elsewhere (dynamo_of E) (tbl w) t' ''equipment'' ''PRESS-001''"
proof -
  let ?w1 = "w\<lparr>tick := Suc (tick w)\<rparr>"
  obtain n t' now where seed: "list_equipment E ?w1 = (Inr [seed_equipment now], ?w1\<lparr>tick := n, tbl := t'\<rparr>)"
    and t: "table_ok (dynamo_of E) t'" "load_equipment E t' ''PRESS-001'' = Some (seed_equipment now)"
    "same_elsewhere (dynamo_of E) (tbl w) t' ''equipment'' ''PRESS-001''"
    using list_equipment_seeds [OF q, of ?w1] tok l by auto
  let ?w2 = "w\<lparr>tick := n, tbl := t'\<rparr>"
  obtain d where d: "view (dynamo_of E) t' ''equipment'' ''PRESS-001'' = Some d"
    "validate_equipment (lib_of E) d = Some (seed_equipment now)"
    using t(2) by (auto simp: load_as_Some)
  have again: "repo_get E ''equipment'' ''PRESS-001'' ?w2 = (Inr (Some d), ?w2\<lparr>tick := Suc n\<rparr>)"
    using repo_get_quiet [OF q, of ?w2] t(1) d(1) by simp
  have "get_equipment E ''PRESS-001'' w = (Inr (seed_equipment now), w\<lparr>tick := Suc n, tbl := t'\<rparr>)"
    using repo_get_quiet [OF q tok, of "''equipment''" "''PRESS-001''"] v seed again d(2)
    by (simp add: get_equipment_def bnd_def validated_apply)
  then show ?thesis using t by blast
qed

lemma get_press_unseeded:
  fixes E :: "('t, 'e) env_scheme" and w :: "('t, 'w) world_scheme"
  assumes q: "quiet E" and tok: "table_ok (dynamo_of E) (tbl w)"
    and v: "view (dynamo_of E) (tbl w) ''equipment'' ''PRESS-001'' = None"
    and l: "lists_as (dynamo_of E) (tbl w) ''equipment'' xs" "xs \<noteq> []" "length xs < list_fuel E"
    and r: "\<And>it. it \<in> set xs \<Longrightarrow> \<exists>v. dict_get it ''data'' = Some v \<and> validate_equipment (lib_of E) v \<noteq> None"
  shows "\<exists>n. get_equipment E ''PRESS-001'' w = (Inl (not_found ''Equipment''), w\<lparr>tick := n\<rparr>)"
proof -
  let ?w1 = "w\<lparr>tick := Suc (tick w)\<rparr>"
  have "\<exists>es n. list_equipment E ?w1 = (Inr es, ?w1\<lparr>tick := n\<rparr>)"
    by (rule list_equipment_unseeded [OF q _ l(2,3) r]) (simp add: l(1))
  then obtain es n where "list_equipment E ?w1 = (Inr es, w\<lparr>tick := n\<rparr>)" by auto
  moreover have "repo_get E ''equipment'' ''PRESS-001'' (w\<lparr>tick := n\<rparr>) = (Inr None, w\<lparr>tick := Suc n\<rparr>)"
    using repo_get_quiet [OF q, of "w\<lparr>tick := n\<rparr>"] tok v by simp
  ultimately show ?thesis using repo_get_quiet [OF q tok, of "''equipment''" "''PRESS-001''"] v
    by (auto simp: get_equipment_def bnd_def throw_def)
qed

section \<open>Equipment\<close>

text \<open>
  C36. Reading an equipment returns the stored record (a record that is no
  equipment is a validation error) and changes nothing. An id that is not stored is a 404 and
  changes nothing either, except for the demonstration press while no equipment is listed: then
  the press is stored, nothing else changes, and it is the answer.
\<close>

theorem get_equipment_branches:
  fixes E :: "('t, 'e) env_scheme" and w :: "('t, 'w) world_scheme"
  assumes "quiet E" "table_ok (dynamo_of E) (tbl w)"
    and "lists_as (dynamo_of E) (tbl w) ''equipment'' xs" "length xs < list_fuel E"
    and "\<And>it. it \<in> set xs \<Longrightarrow> \<exists>v. dict_get it ''data'' = Some v \<and> validate_equipment (lib_of E) v \<noteq> None"
  shows "case view (dynamo_of E) (tbl w) ''equipment'' eid of
      Some v \<Rightarrow> get_equipment E eid w =
        (case validate_equipment (lib_of E) v of None \<Rightarrow> Inl ValidationError | Some e \<Rightarrow> Inr e,
         w\<lparr>tick := Suc (tick w)\<rparr>)
    | None \<Rightarrow>
        if eid \<noteq> ''PRESS-001'' \<or> xs \<noteq> []
        then \<exists>n. get_equipment E eid w = (Inl (not_found ''Equipment''), w\<lparr>tick := n\<rparr>)
        else \<exists>n t' now. get_equipment E eid w = (Inr (seed_equipment now), w\<lparr>tick := n, tbl := t'\<rparr>) \<and>
          load_equipment E t' eid = Some (seed_equipment now) \<and>
          same_elsewhere (dynamo_of E) (tbl w) t' ''equipment'' eid"
proof (cases "view (dynamo_of E) (tbl w) ''equipment'' eid")
  case (Some v)
  then show ?thesis using repo_get_quiet [OF assms(1,2), of "''equipment''" eid]
    by (simp add: get_equipment_def bnd_def ret_def validated_apply split: option.split)
next
  case None
  consider "eid \<noteq> ''PRESS-001''" | "eid = ''PRESS-001''" "xs \<noteq> []" | "eid = ''PRESS-001''" "xs = []" by blast
  then show ?thesis
  proof cases
    case 1
    then show ?thesis using None get_equipment_missing [OF assms(1,2) None] by auto
  next
    case 2
    then show ?thesis using None get_press_unseeded [OF assms(1,2) _ assms(3) 2(2) assms(4,5)] by simp
  next
    case 3
    then show ?thesis using None get_press_seeded [OF assms(1,2)] assms(3,4) by fastforce
  qed
qed

lemma sample_no_equipment: "lists_as mem_dynamo [] ''equipment'' []"
  using mem_lists_as [of "[]" "''equipment''"] by simp

lemma get_equipment_branches_witness:
  "\<exists>w' now. get_equipment sample_env ''PRESS-001'' (sample_world []) = (Inr (seed_equipment now), w') \<and>
     load_equipment sample_env (tbl w') ''PRESS-001'' = Some (seed_equipment now)"
proof -
  have "table_ok (dynamo_of sample_env) (tbl (sample_world []))" by (simp add: sample_table_ok_empty)
  from get_equipment_branches [OF sample_quiet this, of "[]" "''PRESS-001''"]
  show ?thesis using sample_no_equipment by fastforce
qed

section \<open>Maintenance\<close>

text \<open>
  C37. A maintenance record is accepted from the three roles only and
  only for an equipment that exists: then it is stored with the request's fields, the
  equipment's id and a fresh id, reads back as such, and no other entity changes. For an unknown
  equipment (other than the press, which may be seeded) the answer is 404 and the table stays
  as it is.
\<close>

theorem maintenance_of_known_equipment:
  fixes E :: "('t, 'e) env_scheme" and w :: "('t, 'w) world_scheme"
  assumes "quiet E" "table_ok (dynamo_of E) (tbl w)" "wf_maintenance request"
  shows "case require_roles [FIELD_WORKER, OPERATOR_MANAGER, SYSTEM_ADMIN] caller of
      Inl e \<Rightarrow> create_maintenance_record E caller eid request w = (Inl e, w)
    | Inr _ \<Rightarrow>
        (case view (dynamo_of E) (tbl w) ''equipment'' eid of
           None \<Rightarrow> eid \<noteq> ''PRESS-001'' \<longrightarrow> create_maintenance_record E caller eid request w =
             (Inl (not_found ''Equipment''), w\<lparr>tick := Suc (tick w)\<rparr>)
         | Some v \<Rightarrow>
             (case validate_equipment (lib_of E) v of
                None \<Rightarrow> create_maintenance_record E caller eid request w =
                  (Inl ValidationError, w\<lparr>tick := Suc (tick w)\<rparr>)
              | Some _ \<Rightarrow> \<exists>mid n t'. create_maintenance_record E caller eid request w =
                  (Inr (maintenance_from request mid eid), w\<lparr>tick := n, tbl := t'\<rparr>) \<and>
                  load_maintenance E t' mid = Some (maintenance_from request mid eid) \<and>
                  same_elsewhere (dynamo_of E) (tbl w) t' ''maintenance'' mid))"
proof (cases "require_roles [FIELD_WORKER, OPERATOR_MANAGER, SYSTEM_ADMIN] caller")
  case (Inl e)
  then show ?thesis by (simp add: create_maintenance_record_def bnd_def of_result_def)
next
  case (Inr p)
  note role = this
  let ?v = "view (dynamo_of E) (tbl w) ''equipment'' eid"
  have get: "get_equipment E eid w = (case validate_equipment (lib_of E) v of
      None \<Rightarrow> Inl ValidationError | Some e \<Rightarrow> Inr e, w\<lparr>tick := Suc (tick w)\<rparr>)" if "?v = Some v" for v
    using that repo_get_quiet [OF assms(1,2), of "''equipment''" eid]
    by (simp add: get_equipment_def bnd_def ret_def validated_apply split: option.split)
  show ?thesis
  proof (cases "load_equipment E (tbl w) eid")
    case None
    then show ?thesis using role get get_equipment_missing [OF assms(1,2)]
      by (cases ?v) (auto simp: create_maintenance_record_def bnd_def of_result_def load_as_def split: option.split)
  next
    case (Some e)
    then obtain v where v: "?v = Some v" "validate_equipment (lib_of E) v = Some e" by (auto simp: load_as_Some)
    let ?mid = "uuid_at E (Suc (tick w))" and ?w2 = "w\<lparr>tick := Suc (Suc (tick w))\<rparr>"
    let ?m = "maintenance_from request ?mid eid"
    have "wf_maintenance ?m"
      using assms(3) by (simp add: wf_maintenance_def maintenance_from_def maintenance_request.extend_def)
    then obtain t' where put: "repo_put E ''maintenance'' ?mid (dump_maintenance (lib_of E) ?m) ?w2 =
        (Inr (), ?w2\<lparr>tick := tick ?w2 + 3, tbl := t'\<rparr>)"
      and t: "load_maintenance E t' ?mid = Some ?m" "same_elsewhere (dynamo_of E) (tbl ?w2) t' ''maintenance'' ?mid"
      using maintenance_store.save [OF assms(1), where w = ?w2 and x = ?m and eid = ?mid] assms(2)
      unfolding same_elsewhere_def by auto
    have mid: "mr_id ?m = ?mid"
      by (simp add: maintenance_from_def maintenance_request.extend_def maintenance_record.fields_def)
    have "create_maintenance_record E caller eid request w = (Inr ?m, w\<lparr>tick := tick w + 5, tbl := t'\<rparr>)"
      using role get [OF v(1)] v(2) put
      by (simp add: create_maintenance_record_def bnd_def of_result_def new_uuid_def Let_def mid ret_def)
    then show ?thesis using role v t by auto
  qed
qed

definition sample_maintenance :: maintenance_request where
  "sample_maintenance =
     \<lparr>mr_performed_at = 5, mr_action = ''oil change'', mr_actual_cause = None, mr_technician = ''Kim'',
      mr_parts_replaced = [''seal''], mr_outcome = ''ok''\<rparr>"

lemma maintenance_of_known_equipment_witness:
  "\<exists>mid w'. create_maintenance_record sample_env (Some \<lparr>subject = ''u1'', username = ''kim'', roles = {FIELD_WORKER}\<rparr>) ''E1''
      sample_maintenance
      (sample_world [sample_item ''equipment'' ''E1'' 1 (dump_equipment sample_lib (seed_equipment 0))]) =
        (Inr (maintenance_from sample_maintenance mid ''E1''), w') \<and>
     load_maintenance sample_env (tbl w') mid = Some (maintenance_from sample_maintenance mid ''E1'')"
proof -
  let ?p = "Some \<lparr>subject = ''u1'', username = ''kim'', roles = {FIELD_WORKER}\<rparr>"
  let ?w = "sample_world [sample_item ''equipment'' ''E1'' 1 (dump_equipment sample_lib (seed_equipment 0))]"
  have "wf_maintenance sample_maintenance"
  proof -
    have "len_between 3 2000 ''oil change''" "len_between 2 200 ''Kim''" "len_between 2 1000 ''ok''" by code_simp+
    then show ?thesis by (simp add: wf_maintenance_def sample_maintenance_def)
  qed
  moreover have "table_ok (dynamo_of sample_env) (tbl ?w)"
    using sample_table_ok_items sample_item_ok by simp
  moreover have "validate_equipment sample_lib (stored sample_lib (dump_equipment sample_lib (seed_equipment 0))) =
      Some (seed_equipment 0)"
    using equipment_store.read_stored [OF sample_lib_ok] by simp
  ultimately show ?thesis
    using maintenance_of_known_equipment [OF sample_quiet, of ?w sample_maintenance ?p "''E1''"]
    by (auto simp: require_roles_def)
qed

end
