(* ===== verification/Rag.thy ===== *)
theory Rag
  imports Pyaccess
begin

text \<open>
  \<open>shared/rag.py\<close>: retrieval of document passages, from the documents of the table (or the
  knowledge service), or from a Bedrock knowledge base, and the start of an ingestion job.
\<close>

section \<open>Parameters\<close>

text \<open>
  The Bedrock clients (what the n-th call answers to a request) and the library functions of the
  AI services: SHA-256, UTF-8 decoding with replacement, the text of \<open>json.dumps\<close>.
\<close>

record 't ai_env = "'t http_env" +
  sha256_hex :: "string \<Rightarrow> string"
  utf8_replace :: "string \<Rightarrow> string"
  evidence_text :: "json \<Rightarrow> string"
  bedrock_retrieve :: "nat \<Rightarrow> dict \<Rightarrow> json"
  bedrock_converse :: "nat \<Rightarrow> dict \<Rightarrow> json"
  bedrock_ingest :: "nat \<Rightarrow> dict \<Rightarrow> json"

section \<open>Passages\<close>

record retrieved_chunk =
  rc_content :: string
  rc_score :: pyfloat
  rc_location :: string
  rc_document_id :: string
  rc_document_version :: "string option"

text \<open>
  \<open>Field(ge=0, le=1)\<close> on a float: the two comparisons that refuse a value. NaN passes both.
\<close>

definition in_unit :: "pyfloat \<Rightarrow> bool" where
  "in_unit f \<longleftrightarrow> \<not> float_less f (Fin 0) \<and> \<not> float_less (Fin 1) f"

definition dump_chunk :: "retrieved_chunk \<Rightarrow> json" where
  "dump_chunk c = JObj
     [(''content'', JStr (rc_content c)),
      (''score'', JFloat (rc_score c)),
      (''location'', JStr (rc_location c)),
      (''document_id'', JStr (rc_document_id c)),
      (''document_version'', opt_str (rc_document_version c))]"

definition validate_chunk :: "lib \<Rightarrow> json \<Rightarrow> retrieved_chunk option" where
  "validate_chunk L v =
     field (required ''content'' read_str v) (\<lambda>content.
     field (required ''score'' (checked in_unit (read_float L)) v) (\<lambda>score.
     field (required ''location'' read_str v) (\<lambda>location.
     field (required ''document_id'' read_str v) (\<lambda>did.
     field (defaulted ''document_version'' None (read_opt read_str) v) (\<lambda>version.
       Some \<lparr>rc_content = content, rc_score = score, rc_location = location,
             rc_document_id = did, rc_document_version = version\<rparr>)))))"

section \<open>URL encoding\<close>

definition url_safe :: "char \<Rightarrow> bool" where
  "url_safe c \<longleftrightarrow>
     (let n = of_char c :: nat
      in (48 \<le> n \<and> n \<le> 57) \<or> (65 \<le> n \<and> n \<le> 90) \<or> (97 \<le> n \<and> n \<le> 122) \<or>
         c \<in> set ''_.-~'')"

definition hex_char :: "nat \<Rightarrow> char" where
  "hex_char n = ''0123456789ABCDEF'' ! n"

definition quote_char :: "char \<Rightarrow> string" where
  "quote_char c =
     (if url_safe c then [c]
      else if c = CHR '' '' then ''+''
      else [CHR ''%'', hex_char ((of_char c :: nat) div 16), hex_char ((of_char c :: nat) mod 16)])"

definition quote_plus :: "string \<Rightarrow> string" where
  "quote_plus s = concat (map quote_char s)"

text \<open>\<open>urlencode({'q': query, 'limit': limit})\<close>\<close>

definition search_query :: "string \<Rightarrow> int \<Rightarrow> string" where
  "search_query query limit = ''q='' @ quote_plus query @ ''&limit='' @ quote_plus (str_of_int limit)"

section \<open>The local retriever\<close>

text \<open>\<open>xs[:n]\<close>\<close>

definition slice_to :: "int \<Rightarrow> 'a list \<Rightarrow> 'a list" where
  "slice_to n xs = (if 0 \<le> n then take (nat n) xs else take (length xs - nat (- n)) xs)"

definition query_terms :: "lib \<Rightarrow> string \<Rightarrow> string list" where
  "query_terms L query =
     remdups (map (casefold L) (filter (\<lambda>term. 2 \<le> py_len term) (py_split query)))"

definition haystack :: "lib \<Rightarrow> json \<Rightarrow> exn + string" where
  "haystack L document =
     (case get_method document ''filename'' (JStr []) of
        Inl e \<Rightarrow> Inl e
      | Inr f \<Rightarrow>
         (case get_method document ''search_text'' (JStr []) of
            Inl e \<Rightarrow> Inl e
          | Inr t \<Rightarrow> Inr (casefold L (py_str L f @ '' '' @ py_str L t))))"

definition term_matches :: "string list \<Rightarrow> string \<Rightarrow> nat" where
  "term_matches terms hay = length (filter (\<lambda>t. has_substring t hay) terms)"

fun rank_documents :: "lib \<Rightarrow> string list \<Rightarrow> json list \<Rightarrow> exn + (nat \<times> json) list" where
  "rank_documents L terms [] = Inr []"
| "rank_documents L terms (d # ds) =
     (case haystack L d of
        Inl e \<Rightarrow> Inl e
      | Inr hay \<Rightarrow>
         (case rank_documents L terms ds of
            Inl e \<Rightarrow> Inl e
          | Inr ranked \<Rightarrow>
              Inr (if term_matches terms hay = 0 then ranked else (term_matches terms hay, d) # ranked)))"

definition match_score :: "nat \<Rightarrow> nat \<Rightarrow> pyfloat" where
  "match_score matches terms =
     (let x = int_truediv (int matches) (int (max terms 1))
      in if float_less x (Fin 1) then x else Fin 1)"

definition document_content :: "json \<Rightarrow> exn + json" where
  "document_content document =
     (case get_method document ''search_text'' JNull of
        Inl e \<Rightarrow> Inl e
      | Inr t \<Rightarrow> if truthy t then Inr t else sub_item document ''filename'')"

definition chunk_of_document ::
  "lib \<Rightarrow> nat \<Rightarrow> nat \<times> json \<Rightarrow> ('w, retrieved_chunk) act" where
  "chunk_of_document L terms = (\<lambda>(matches, document).
     bnd (of_result (document_content document)) (\<lambda>content.
     bnd (of_result (sub_item document ''s3_key'')) (\<lambda>s3_key.
     bnd (of_result (sub_item document ''id'')) (\<lambda>did.
     bnd (of_result (get_method document ''version'' JNull)) (\<lambda>version.
     of_option ValidationError
       (validate_chunk L (JObj
          [(''content'', content), (''score'', JFloat (match_score matches terms)),
           (''location'', JStr (''s3://local/'' @ py_str L s3_key)),
           (''document_id'', did), (''document_version'', version)])))))))"

definition bearer_headers :: "string option \<Rightarrow> (string \<times> string) list" where
  "bearer_headers authorization =
     (if is_set authorization then [(''Authorization'', the authorization)] else [])"

definition remote_search ::
  "('t, 'e) http_env_scheme \<Rightarrow> string \<Rightarrow> string \<Rightarrow> int \<Rightarrow> string option \<Rightarrow>
   (('t, 'w) world_scheme, retrieved_chunk list) act" where
  "remote_search E url query limit authorization =
     bnd (http_send E
            \<lparr>call_method = ''GET'',
             call_url = url @ ''/api/v1/documents/search?'' @ search_query query limit,
             call_headers = bearer_headers authorization, call_body = JNull\<rparr>) (\<lambda>(code, body).
     bnd (raise_for_status code) (\<lambda>_.
     bnd (response_json body) (\<lambda>v.
     bnd (of_result (py_iter v)) (\<lambda>items.
     each (validated validate_chunk E) items))))"

definition local_retrieve ::
  "('t, 'e) http_env_scheme \<Rightarrow> string \<Rightarrow> int \<Rightarrow> string option \<Rightarrow>
   (('t, 'w) world_scheme, retrieved_chunk list) act" where
  "local_retrieve E query limit authorization =
     (if is_set (knowledge_service_url (settings_of E))
      then remote_search E (the (knowledge_service_url (settings_of E))) query limit authorization
      else
        let terms = query_terms (lib_of E) query
        in bnd (repo_list E ''document'') (\<lambda>documents.
           bnd (of_result (rank_documents (lib_of E) terms documents)) (\<lambda>ranked.
           each (chunk_of_document (lib_of E) (length terms))
             (slice_to limit (sorted_descending (\<lambda>r. int (fst r)) ranked)))))"

section \<open>The Bedrock knowledge base\<close>

definition chunk_of_result :: "lib \<Rightarrow> json \<Rightarrow> ('w, retrieved_chunk) act" where
  "chunk_of_result L res =
     bnd (of_result (get_method res ''location'' (JObj []))) (\<lambda>location.
     bnd (of_result (get_methods location [''s3Location''] ''uri'' (JStr ''unknown''))) (\<lambda>s3_uri.
     bnd (of_result (sub_item res ''content'')) (\<lambda>content.
     bnd (of_result (get_method content ''text'' (JStr []))) (\<lambda>text_value.
     bnd (of_result (get_method res ''score'' (JInt 0))) (\<lambda>score.
     bnd (of_result (case s3_uri of JStr s \<Rightarrow> Inr (after_last (CHR ''/'') s)
                     | _ \<Rightarrow> Inl (AttributeError ''rsplit''))) (\<lambda>did.
     bnd (of_result (get_methods res [''metadata''] ''documentVersion'' JNull)) (\<lambda>version.
     of_option ValidationError
       (validate_chunk L (JObj
          [(''content'', text_value), (''score'', score), (''location'', s3_uri),
           (''document_id'', JStr did), (''document_version'', version)])))))))))"

definition knowledge_base_request :: "string \<Rightarrow> string \<Rightarrow> int \<Rightarrow> dict" where
  "knowledge_base_request kb query limit =
     [(''knowledgeBaseId'', JStr kb),
      (''retrievalQuery'', JObj [(''text'', JStr query)]),
      (''retrievalConfiguration'',
        JObj [(''vectorSearchConfiguration'',
          JObj [(''numberOfResults'', JInt limit), (''overrideSearchType'', JStr ''HYBRID'')])])]"

definition bedrock_kb_retrieve ::
  "('t, 'e) ai_env_scheme \<Rightarrow> string \<Rightarrow> string \<Rightarrow> int \<Rightarrow>
   (('t, 'w) world_scheme, retrieved_chunk list) act" where
  "bedrock_kb_retrieve E kb query limit =
     bnd (call E (read_state (\<lambda>w. bedrock_retrieve E (tick w) (knowledge_base_request kb query limit)))) (\<lambda>response.
     bnd (of_result (get_method response ''retrievalResults'' (JList []))) (\<lambda>results.
     bnd (of_result (py_iter results)) (\<lambda>items.
     each (chunk_of_result (lib_of E)) items)))"

section \<open>Choosing the retriever\<close>

datatype retriever = LocalRetriever | BedrockKnowledgeBaseRetriever string string

definition get_retriever :: "settings \<Rightarrow> exn + retriever" where
  "get_retriever s =
     (if rag_provider s = ''local'' then Inr LocalRetriever
      else if rag_provider s = ''bedrock'' then
        (case bedrock_knowledge_base_id s of
           Some (c # kb) \<Rightarrow> Inr (BedrockKnowledgeBaseRetriever (aws_region s) (c # kb))
         | _ \<Rightarrow> Inl (RuntimeError ''BEDROCK_KNOWLEDGE_BASE_ID is required''))
      else Inl (RuntimeError (''Unsupported RAG provider: '' @ rag_provider s)))"

definition retrieve ::
  "('t, 'e) ai_env_scheme \<Rightarrow> retriever \<Rightarrow> string \<Rightarrow> int \<Rightarrow> string option \<Rightarrow>
   (('t, 'w) world_scheme, retrieved_chunk list) act" where
  "retrieve E r query limit authorization =
     (case r of
        LocalRetriever \<Rightarrow> local_retrieve E query limit authorization
      | BedrockKnowledgeBaseRetriever _ kb \<Rightarrow> bedrock_kb_retrieve E kb query limit)"

text \<open>\<open>get_retriever().retrieve(query, limit, authorization)\<close>\<close>

definition retrieve_chunks ::
  "('t, 'e) ai_env_scheme \<Rightarrow> string \<Rightarrow> int \<Rightarrow> string option \<Rightarrow>
   (('t, 'w) world_scheme, retrieved_chunk list) act" where
  "retrieve_chunks E query limit authorization =
     bnd (of_result (get_retriever (settings_of E))) (\<lambda>r. retrieve E r query limit authorization)"

definition start_ingestion_job ::
  "('t, 'e) ai_env_scheme \<Rightarrow> (('t, 'w) world_scheme, json) act" where
  "start_ingestion_job E =
     (let s = settings_of E
      in if \<not> is_set (bedrock_knowledge_base_id s) \<or> \<not> is_set (bedrock_data_source_id s)
         then throw (RuntimeError ''Bedrock knowledge base and data source IDs are required'')
         else
           bnd (call E (read_state (\<lambda>w. bedrock_ingest E (tick w)
                  [(''knowledgeBaseId'', opt_str (bedrock_knowledge_base_id s)),
                   (''dataSourceId'', opt_str (bedrock_data_source_id s)),
                   (''description'', JStr ''AX Sentinel document synchronization'')]))) (\<lambda>response.
           of_result (sub_item response ''ingestionJob'')))"

end
