(* ===== verification/Knowledge.thy ===== *)
theory Knowledge
  imports Rag
begin

text \<open>
  \<open>services/knowledge/app/main.py\<close>: upload of a document into the object store and the table,
  reading and searching documents, and the synchronisation of the knowledge base.
\<close>

section \<open>Models\<close>

datatype DocumentType = MANUAL | INCIDENT_CASE | PROCEDURE

definition document_types :: "(string \<times> DocumentType) list" where
  "document_types =
     [(''manual'', MANUAL), (''incident_case'', INCIDENT_CASE), (''procedure'', PROCEDURE)]"

fun document_type_value :: "DocumentType \<Rightarrow> string" where
  "document_type_value MANUAL = ''manual''"
| "document_type_value INCIDENT_CASE = ''incident_case''"
| "document_type_value PROCEDURE = ''procedure''"

lemma document_types_value [simp, codec_simps]: "map_of document_types (document_type_value d) = Some d"
  by (cases d) (simp_all add: document_types_def)

record document =
  doc_id :: string
  doc_filename :: string
  doc_type :: DocumentType
  doc_indexing_status :: string
  doc_s3_key :: string
  doc_version :: string
  doc_uploaded_at :: int

definition dump_document :: "lib \<Rightarrow> document \<Rightarrow> json" where
  "dump_document L d = JObj
     [(''id'', JStr (doc_id d)),
      (''filename'', JStr (doc_filename d)),
      (''document_type'', JStr (document_type_value (doc_type d))),
      (''indexing_status'', JStr (doc_indexing_status d)),
      (''s3_key'', JStr (doc_s3_key d)),
      (''version'', JStr (doc_version d)),
      (''uploaded_at'', JStr (format_datetime L (doc_uploaded_at d)))]"

definition validate_document :: "lib \<Rightarrow> json \<Rightarrow> document option" where
  "validate_document L v =
     field (required ''id'' read_str v) (\<lambda>did.
     field (required ''filename'' read_str v) (\<lambda>name.
     field (required ''document_type'' (read_enum document_types) v) (\<lambda>dt.
     field (required ''indexing_status'' read_str v) (\<lambda>st.
     field (required ''s3_key'' read_str v) (\<lambda>key.
     field (required ''version'' read_str v) (\<lambda>version.
     field (required ''uploaded_at'' (read_datetime L) v) (\<lambda>uploaded.
       Some \<lparr>doc_id = did, doc_filename = name, doc_type = dt, doc_indexing_status = st,
             doc_s3_key = key, doc_version = version, doc_uploaded_at = uploaded\<rparr>)))))))"

abbreviation any_document :: "document \<Rightarrow> bool" where
  "any_document \<equiv> \<lambda>_. True"

interpretation document_model: entity_codec dump_document validate_document any_document
proof
  show "key_order_blind (validate_document L)" for L
    unfolding validate_document_def
    by (intro field_blind required_blind const_blind scalar_readers_blind)
  show "lib_ok L \<Longrightarrow> any_document x \<Longrightarrow> validate_document L (dump_document L x) = Some x" for L x
    by (simp add: validate_document_def dump_document_def codec_simps)
  show "lib_ok L \<Longrightarrow> any_document x \<Longrightarrow> validate_document L (stored L (dump_document L x)) = Some x" for L x
    by (simp add: validate_document_def dump_document_def codec_simps)
  show "any_document x \<Longrightarrow> finite_numbers (dump_document L x)" for L x
    by (simp add: dump_document_def)
qed

text \<open>
  What is stored is the document's dump together with its text:
  \<open>document.model_dump(mode="json") | {"search_text": search_text}\<close>.
\<close>

definition document_record :: "lib \<Rightarrow> document \<Rightarrow> string \<Rightarrow> json" where
  "document_record L d search_text =
     JObj (dict_union (dict_of (dump_document L d)) [(''search_text'', JStr search_text)])"

interpretation document_store:
  stored_entity "\<lambda>L p. document_record L (fst p) (snd p)"
    "\<lambda>L v. field (validate_document L v) (\<lambda>d. field (required ''search_text'' read_str v) (\<lambda>t. Some (d, t)))"
    "\<lambda>_. True" "''document''"
proof
  show "key_order_blind (\<lambda>v. field (validate_document L v)
      (\<lambda>d. field (required ''search_text'' read_str v) (\<lambda>t. Some (d, t))))" for L
    by (intro field_blind required_blind const_blind scalar_readers_blind document_model.blind)
  show "field (validate_document L (document_record L (fst x) (snd x)))
      (\<lambda>d. field (required ''search_text'' read_str (document_record L (fst x) (snd x))) (\<lambda>t. Some (d, t))) =
      Some x" if "lib_ok L" for L x
    using that by (cases x) (simp add: document_record_def validate_document_def dump_document_def
        dict_union_def dict_set_def codec_simps)
  show "field (validate_document L (stored L (document_record L (fst x) (snd x))))
      (\<lambda>d. field (required ''search_text'' read_str (stored L (document_record L (fst x) (snd x))))
        (\<lambda>t. Some (d, t))) = Some x" if "lib_ok L" for L x
    using that by (cases x) (simp add: document_record_def validate_document_def dump_document_def
        dict_union_def dict_set_def codec_simps)
  show "finite_numbers (document_record L (fst x) (snd x))" for L x
    by (simp add: document_record_def dump_document_def dict_union_def dict_set_def)
qed (simp add: entity_types_def)

section \<open>Upload\<close>

text \<open>\<open>PurePosixPath(name).suffix\<close> of a name without slashes.\<close>

definition path_suffix :: "string \<Rightarrow> string" where
  "path_suffix name =
     (let stem = rev (drop 1 (dropWhile (\<lambda>c. c \<noteq> CHR ''.'') (rev name)));
          ending = after_last (CHR ''.'') name
      in if CHR ''.'' \<in> set name \<and> stem \<noteq> [] \<and> ending \<noteq> [] then CHR ''.'' # ending else [])"

definition searchable_suffixes :: "string set" where
  "searchable_suffixes = {''.txt'', ''.md'', ''.csv'', ''.json'', ''.log''}"

definition search_text_of :: "('t, 'e) ai_env_scheme \<Rightarrow> string \<Rightarrow> string \<Rightarrow> string" where
  "search_text_of E safe_name content =
     (if casefold (lib_of E) (path_suffix safe_name) \<in> searchable_suffixes
      then utf8_replace E content else [])"

definition document_from ::
  "('t, 'e) ai_env_scheme \<Rightarrow> string \<Rightarrow> string \<Rightarrow> DocumentType \<Rightarrow> string \<Rightarrow> int \<Rightarrow> document" where
  "document_from E did safe_name dt content now =
     \<lparr>doc_id = did, doc_filename = safe_name, doc_type = dt, doc_indexing_status = ''queued'',
      doc_s3_key = ''documents/'' @ did @ ''/'' @ safe_name,
      doc_version = ''sha256:'' @ sha256_hex E content, doc_uploaded_at = now\<rparr>"

definition document_too_large :: exn where
  "document_too_large = HTTPException 413 (JStr ''Document exceeds the 20 MiB limit'')"

definition upload_document ::
  "('t, 'e) ai_env_scheme \<Rightarrow> principal option \<Rightarrow> upload \<Rightarrow> DocumentType \<Rightarrow>
   (('t, 'w) store_world_scheme, document) act" where
  "upload_document E caller file dt =
     bnd (of_result (require_roles [OPERATOR_MANAGER, SYSTEM_ADMIN] caller)) (\<lambda>p.
     if 20 * 1024 * 1024 < length (up_content file) then throw document_too_large
     else
       bnd (new_uuid E) (\<lambda>did.
       bnd (now_utc E) (\<lambda>now.
       let safe_name = path_name (str_or (up_filename file) ''unnamed'');
           d = document_from E did safe_name dt (up_content file) now;
           dumped = dump_document (lib_of E) d
       in bnd (store_put E (doc_s3_key d) (up_content file)
                 (str_or (up_content_type file) ''application/octet-stream'')) (\<lambda>_.
          bnd (repo_put E ''document'' (doc_id d)
                 (document_record (lib_of E) d (search_text_of E safe_name (up_content file)))) (\<lambda>_.
          bnd (publish_event E ''document.registered'' (dict_of dumped)
                 (Some (doc_id d)) (Some (subject p)) False) (\<lambda>_.
          ret d))))))"

section \<open>Reading, searching, synchronising\<close>

definition get_document ::
  "('t, 'e) env_scheme \<Rightarrow> string \<Rightarrow> (('t, 'w) world_scheme, document) act" where
  "get_document E document_id =
     bnd (repo_get E ''document'' document_id) (\<lambda>value.
     case value of
       None \<Rightarrow> throw (not_found ''Document'')
     | Some v \<Rightarrow> validated validate_document E v)"

definition search_documents ::
  "('t, 'e) ai_env_scheme \<Rightarrow> string \<Rightarrow> int \<Rightarrow> (('t, 'w) world_scheme, retrieved_chunk list) act" where
  "search_documents E q limit = retrieve_chunks E q (min (max limit 1) 20) None"

record ingestion_job_accepted =
  ij_ingestion_job_id :: string
  ij_status :: string

text \<open>\<open>str(error)\<close> of the \<open>RuntimeError\<close>s that reach the handler.\<close>

fun runtime_text :: "exn \<Rightarrow> string" where
  "runtime_text (RuntimeError s) = s"
| "runtime_text (ConcurrentUpdateError s) = s"
| "runtime_text _ = []"

definition accepted_job :: "json \<Rightarrow> ('w, ingestion_job_accepted) act" where
  "accepted_job job =
     bnd (of_result (sub_item job ''ingestionJobId'')) (\<lambda>jid.
     bnd (of_result (sub_item job ''status'')) (\<lambda>st.
     bnd (of_option ValidationError (read_str jid)) (\<lambda>jid.
     bnd (of_option ValidationError (read_str st)) (\<lambda>st.
     ret \<lparr>ij_ingestion_job_id = jid, ij_status = st\<rparr>))))"

definition sync_documents ::
  "('t, 'e) ai_env_scheme \<Rightarrow> principal option \<Rightarrow>
   (('t, 'w) world_scheme, ingestion_job_accepted) act" where
  "sync_documents E caller =
     bnd (of_result (require_roles [OPERATOR_MANAGER, SYSTEM_ADMIN] caller)) (\<lambda>_.
     bnd (attempt (start_ingestion_job E)
            (\<lambda>e. throw (if is_runtime_error e then HTTPException 409 (JStr (runtime_text e)) else e))) (\<lambda>job.
     accepted_job job))"

end
