(* ===== verification/KnowledgeProperties.thy ===== *)
theory KnowledgeProperties
  imports Knowledge Sample
begin

text \<open>The properties of retrieval and of the knowledge service.\<close>

section \<open>Ranking\<close>

text \<open>How well a document matches; none for a value that is no dictionary.\<close>

definition relevance :: "lib \<Rightarrow> string list \<Rightarrow> json \<Rightarrow> nat" where
  "relevance L terms d = (case haystack L d of Inl e \<Rightarrow> 0 | Inr hay \<Rightarrow> term_matches terms hay)"

lemma rank_documents_eq:
  "rank_documents L terms ds = Inr ranked \<Longrightarrow>
   ranked = map (\<lambda>d. (relevance L terms d, d)) (filter (\<lambda>d. relevance L terms d \<noteq> 0) ds)"
  by (induction ds arbitrary: ranked) (auto simp: relevance_def split: sum.splits)

lemma term_matches_le: "term_matches terms hay \<le> length terms"
  by (simp add: term_matches_def)

lemma relevance_le: "relevance L terms d \<le> length terms"
  by (simp add: relevance_def term_matches_le split: sum.split)

lemma match_score_unit:
  assumes "0 < m" "m \<le> n"
  shows "\<exists>x. match_score m n = Fin x \<and> 0 \<le> x \<and> x \<le> 1" "in_unit (match_score m n)"
proof -
  obtain x where x: "int_truediv (int m) (int (max n 1)) = Fin x" "0 \<le> x" "x \<le> 1"
    using int_truediv_between [of 0 "int (max n 1)" "int m" 1] assms by auto
  then show "\<exists>x. match_score m n = Fin x \<and> 0 \<le> x \<and> x \<le> 1" by (auto simp: match_score_def Let_def)
  then show "in_unit (match_score m n)" by (auto simp: in_unit_def)
qed

lemma slice_to_nonneg: "0 \<le> n \<Longrightarrow> slice_to n xs = take (nat n) xs"
  by (simp add: slice_to_def)

lemma match_score_share:
  assumes "0 < m" "m \<le> n"
  shows "match_score m n = int_truediv (int m) (int n)"
proof -
  obtain x where "int_truediv (int m) (int n) = Fin x" "x \<le> 1"
    using int_truediv_between [of 0 "int n" "int m" 1] assms by auto
  moreover have "max n 1 = n" using assms by simp
  ultimately show ?thesis by (simp add: match_score_def Let_def)
qed

text \<open>
  What a passage made from a document that contains \<open>m\<close> of the terms says: the id, the location
  and the version of the document, the share of the terms as score, and as content the document's
  text, or its file name when the text is absent or empty.
\<close>

definition passage_of :: "lib \<Rightarrow> nat \<Rightarrow> nat \<Rightarrow> json \<Rightarrow> retrieved_chunk \<Rightarrow> bool" where
  "passage_of L terms m v c \<longleftrightarrow>
     (\<exists>d. v = JObj d \<and>
        dict_get d ''id'' = Some (JStr (rc_document_id c)) \<and>
        rc_score c = int_truediv (int m) (int terms) \<and>
        (\<exists>key. dict_get d ''s3_key'' = Some key \<and> rc_location c = ''s3://local/'' @ py_str L key) \<and>
        (case dict_get d ''search_text'' of
           Some (JStr (x # xs)) \<Rightarrow> rc_content c = x # xs
         | found \<Rightarrow> (\<forall>x. found = Some x \<longrightarrow> \<not> truthy x) \<and>
             dict_get d ''filename'' = Some (JStr (rc_content c))) \<and>
        (case rc_document_version c of
           Some s \<Rightarrow> dict_get d ''version'' = Some (JStr s)
         | None \<Rightarrow> dict_get d ''version'' \<in> {None, Some JNull}))"

lemma validate_chunk_Some:
  assumes "validate_chunk L (JObj
      [(''content'', content), (''score'', JFloat s), (''location'', JStr loc),
       (''document_id'', did), (''document_version'', version)]) = Some c"
  shows "content = JStr (rc_content c) \<and> rc_score c = s \<and> rc_location c = loc \<and>
    did = JStr (rc_document_id c) \<and> version = opt_str (rc_document_version c)"
  using assms
  by (auto simp: validate_chunk_def codec_simps field_def checked_def read_str_def read_opt_def opt_str_def
      split: option.splits json.splits if_splits)

lemma document_content_Inr:
  assumes "document_content (JObj d) = Inr (JStr s)"
  shows "case dict_get d ''search_text'' of
           Some (JStr (x # xs)) \<Rightarrow> s = x # xs
         | found \<Rightarrow> (\<forall>x. found = Some x \<longrightarrow> \<not> truthy x) \<and> dict_get d ''filename'' = Some (JStr s)"
  using assms
  by (auto simp: document_content_def dict_get_or_def split: option.splits if_splits json.splits list.splits)

lemma chunk_of_document_Inr:
  assumes "chunk_of_document L n (m, v) w = (Inr c, w')" "0 < m" "m \<le> n"
  shows "passage_of L n m v c \<and> w' = w"
proof -
  obtain content key did version where
    v: "document_content v = Inr content" "sub_item v ''id'' = Inr did" "sub_item v ''s3_key'' = Inr key"
      "get_method v ''version'' JNull = Inr version"
    and c: "validate_chunk L (JObj
          [(''content'', content), (''score'', JFloat (match_score m n)),
           (''location'', JStr (''s3://local/'' @ py_str L key)),
           (''document_id'', did), (''document_version'', version)]) = Some c" and "w' = w"
    using assms(1)
    by (auto simp: chunk_of_document_def bnd_of_result_case of_option_def ret_def throw_def
        split: sum.splits option.splits)
  obtain d where d: "v = JObj d" using v(4) by (auto simp: get_method_def split: json.splits)
  note f = validate_chunk_Some [OF c]
  have "dict_get d ''id'' = Some (JStr (rc_document_id c))" "dict_get d ''s3_key'' = Some key"
    "case rc_document_version c of Some s \<Rightarrow> dict_get d ''version'' = Some (JStr s)
       | None \<Rightarrow> dict_get d ''version'' \<in> {None, Some JNull}"
    using v(2-4) f
    by (auto simp: d dict_get_or_def opt_str_def split: option.splits)
  moreover have "document_content (JObj d) = Inr (JStr (rc_content c))" using v(1) f d by simp
  ultimately show ?thesis
    using f d \<open>w' = w\<close> document_content_Inr match_score_share [OF assms(2,3)] by (simp add: passage_of_def)
qed

lemma each_chunks_Inr:
  "each (chunk_of_document L n) ps w = (Inr cs, w') \<Longrightarrow> \<forall>p \<in> set ps. 0 < fst p \<and> fst p \<le> n \<Longrightarrow>
   w' = w \<and> list_all2 (\<lambda>p c. passage_of L n (fst p) (snd p) c) ps cs"
proof (induction ps arbitrary: cs)
  case (Cons p ps)
  obtain m d where p: "p = (m, d)" by (cases p)
  from Cons.prems(1) obtain c w1 cs' where one: "chunk_of_document L n (m, d) w = (Inr c, w1)"
    and rest: "each (chunk_of_document L n) ps w1 = (Inr cs', w')" and cs: "cs = c # cs'"
    by (auto simp: p ret_def elim!: bnd_InrE)
  have c: "passage_of L n m d c \<and> w1 = w" using chunk_of_document_Inr [OF one] Cons.prems(2) p by simp
  with rest have "each (chunk_of_document L n) ps w = (Inr cs', w')" by simp
  from Cons.IH [OF this] c Cons.prems(2) show ?case by (simp add: cs p)
qed (simp add: ret_def)

text \<open>
  C13. Local retrieval of at most \<open>limit\<close> passages: every passage comes from a
  listed document that contains at least one term of the query and carries that document's own
  id, location, version and content (its text, or its file name without one), the passages are in descending
  order of the number of terms matched, there are \<open>limit\<close> of them unless fewer documents match,
  a document that is left out matches no more terms than any that is returned, and every score
  is the share of the terms matched, between 0 and 1.
\<close>

theorem local_retrieval_ranked:
  fixes E :: "('t, 'e) http_env_scheme" and w :: "('t, 'w) world_scheme"
  assumes "\<not> is_set (knowledge_service_url (settings_of E))" "0 \<le> limit"
    and "repo_list E ''document'' w = (Inr docs, w1)"
    and "local_retrieve E query limit auth w = (Inr chunks, w')"
  shows "let terms = query_terms (lib_of E) query; rel = relevance (lib_of E) terms;
           matching = filter (\<lambda>d. rel d \<noteq> 0) docs
    in w' = w1 \<and> length chunks = min (nat limit) (length matching) \<and>
       (\<exists>picked left_out. mset (picked @ left_out) = mset matching \<and>
          list_all2 (\<lambda>d c. passage_of (lib_of E) (length terms) (rel d) d c) picked chunks \<and>
          sorted_wrt (\<lambda>a b. rel b \<le> rel a) picked \<and>
          (\<forall>a \<in> set picked. \<forall>b \<in> set left_out. rel b \<le> rel a)) \<and>
       (\<forall>c \<in> set chunks. \<exists>x. rc_score c = Fin x \<and> 0 \<le> x \<and> x \<le> 1)"
proof -
  define L where "L = lib_of E"
  define terms where "terms = query_terms L query"
  define rel where "rel = relevance L terms"
  define matching where "matching = filter (\<lambda>d. rel d \<noteq> 0) docs"
  obtain ranked where ranked: "rank_documents L terms docs = Inr ranked"
    and ch: "each (chunk_of_document L (length terms))
      (slice_to limit (sorted_descending (\<lambda>r. int (fst r)) ranked)) w1 = (Inr chunks, w')"
    using assms(1,3,4)
    by (auto simp: local_retrieve_def Let_def bnd_def of_result_def L_def terms_def split: sum.splits)
  define s where "s = sorted_descending (\<lambda>r. int (fst r)) ranked"
  have rk: "ranked = map (\<lambda>d. (rel d, d)) matching"
    using rank_documents_eq [OF ranked] by (simp add: rel_def matching_def)
  have sf: "mset s = mset ranked" "sorted_wrt (\<lambda>x y. fst y \<le> fst x) s" "set s = set ranked"
    using sorted_descending_facts [of "\<lambda>r. int (fst r)" ranked] by (simp_all add: s_def)
  have s: "s = map (\<lambda>d. (rel d, d)) (map snd s)"
    using sf(3) by (auto simp: rk intro!: nth_equalityI dest!: equalityD1 dest: nth_mem)
  define picked left_out where "picked = take (nat limit) (map snd s)" and "left_out = drop (nat limit) (map snd s)"
  have both: "picked @ left_out = map snd s" by (simp add: picked_def left_out_def)
  have ms: "mset (map snd s) = mset matching"
    using sf(1) by (simp add: rk mset_map flip: mset_map) (simp add: mset_map image_mset.compositionality o_def)
  have "sorted_wrt (\<lambda>a b. rel b \<le> rel a) (map snd s)"
    using sf(2) by (subst (asm) s) (simp add: sorted_wrt_map)
  then have sorted: "sorted_wrt (\<lambda>a b. rel b \<le> rel a) (picked @ left_out)" by (simp only: both)
  have pairs: "slice_to limit s = map (\<lambda>d. (rel d, d)) picked"
    unfolding slice_to_nonneg [OF assms(2)] picked_def by (subst s) (simp add: take_map)
  have "set picked \<subseteq> set matching" using both mset_eq_setD [OF ms] by (metis Un_upper1 set_append)
  then have matched: "0 < rel d \<and> rel d \<le> length terms" if "d \<in> set picked" for d
    using that relevance_le by (auto simp: matching_def rel_def)
  then have "\<forall>p \<in> set (slice_to limit s). 0 < fst p \<and> fst p \<le> length terms" by (simp add: pairs)
  from each_chunks_Inr [OF ch [folded s_def] this] have w': "w' = w1"
    and all: "list_all2 (\<lambda>d c. passage_of L (length terms) (rel d) d c) picked chunks"
    by (simp_all add: pairs list_all2_map1)
  have len: "length chunks = min (nat limit) (length matching)"
    using list_all2_lengthD [OF all] mset_eq_length [OF ms] by (simp add: picked_def)
  have unit: "\<exists>x. rc_score c = Fin x \<and> 0 \<le> x \<and> x \<le> 1" if c: "c \<in> set chunks" for c
  proof -
    obtain i where i: "i < length chunks" "c = chunks ! i" using c by (auto simp: in_set_conv_nth)
    then have p: "passage_of L (length terms) (rel (picked ! i)) (picked ! i) c" "picked ! i \<in> set picked"
      using all by (auto simp: list_all2_conv_all_nth)
    note m = matched [OF p(2)]
    have "rc_score c = match_score (rel (picked ! i)) (length terms)"
      using p(1) m match_score_share by (auto simp: passage_of_def)
    then show ?thesis using match_score_unit(1) [of "rel (picked ! i)" "length terms"] m by simp
  qed
  have "mset (picked @ left_out) = mset matching" using ms both by simp
  moreover have "sorted_wrt (\<lambda>a b. rel b \<le> rel a) picked" "\<forall>a \<in> set picked. \<forall>b \<in> set left_out. rel b \<le> rel a"
    using sorted by (simp_all add: sorted_wrt_append)
  ultimately show ?thesis
    using w' len all unit
    unfolding Let_def L_def [symmetric] terms_def [symmetric] rel_def [symmetric] matching_def [symmetric]
    by blast
qed

text \<open>A world with one searchable document.\<close>

definition sample_document :: document where
  "sample_document =
     \<lparr>doc_id = ''d1'', doc_filename = ''pump.md'', doc_type = MANUAL, doc_indexing_status = ''queued'',
      doc_s3_key = ''documents/d1/pump.md'', doc_version = ''v1'', doc_uploaded_at = 0\<rparr>"

definition sample_document_value :: json where
  "sample_document_value = stored sample_lib (document_record sample_lib sample_document ''bearing'')"

definition sample_document_table :: "dict list" where
  "sample_document_table =
     [sample_item ''document'' ''d1'' 1 (document_record sample_lib sample_document ''bearing'')]"

definition sample_ai_env :: "dict list ai_env" where
  "sample_ai_env =
     \<lparr>settings_of = default_settings, lib_of = sample_lib, dynamo_of = mem_dynamo,
      others = (\<lambda>_ t. t), outcome_at = (\<lambda>_. Done),
      now_at = int, uuid_at = (\<lambda>n. ''id-'' @ str_of_nat n),
      queue_url_of = (\<lambda>q. ''http://sqs/'' @ q), topic_arns = [], list_fuel = 100,
      jwt_decode = (\<lambda>_ _ _ _. Inl (PyJWTError [])), http_reply = (\<lambda>_ t. ((404, None), t)),
      sha256_hex = (\<lambda>s. str_of_nat (length s)), utf8_replace = (\<lambda>s. s),
      evidence_text = (\<lambda>_. []), bedrock_retrieve = (\<lambda>_ _. JObj []), bedrock_converse = (\<lambda>_ _. JObj []),
      bedrock_ingest = (\<lambda>_ _. JObj [])\<rparr>"

lemma sample_ai_simps [simp]:
  "settings_of sample_ai_env = default_settings" "lib_of sample_ai_env = sample_lib"
  "dynamo_of sample_ai_env = mem_dynamo" "list_fuel sample_ai_env = 100"
  by (simp_all add: sample_ai_env_def)

lemma sample_ai_quiet: "quiet sample_ai_env"
  by (simp add: quiet_def reliable_def alone_def sample_ai_env_def mem_dynamo_ok sample_lib_ok)

lemma sample_documents_listed:
  "\<exists>n. repo_list sample_ai_env ''document'' (sample_world sample_document_table) =
     (Inr [sample_document_value], (sample_world sample_document_table)\<lparr>tick := n\<rparr>)"
proof -
  let ?t = sample_document_table
  have "filter (\<lambda>it. dict_get it ''entity_type'' = Some (JStr ''document'')) ?t = ?t"
    by (simp add: sample_document_table_def sample_item_def make_item_def dict_get_def)
  then have l: "lists_as (dynamo_of sample_ai_env) (tbl (sample_world ?t)) ''document'' ?t"
    using mem_lists_as [of ?t "''document''"] by simp
  have d: "dict_get it ''data'' = Some sample_document_value" if "it \<in> set ?t" for it
    using that by (simp add: sample_document_table_def sample_document_value_def document_record_def)
  then show ?thesis using repo_list_quiet [OF sample_ai_quiet l]
    by (fastforce simp: sample_document_table_def)
qed

lemma sample_document_shape:
  "sample_document_value = JObj
     [(''id'', JStr ''d1''), (''filename'', JStr ''pump.md''), (''document_type'', JStr ''manual''),
      (''indexing_status'', JStr ''queued''), (''s3_key'', JStr ''documents/d1/pump.md''),
      (''version'', JStr ''v1''), (''uploaded_at'', JStr (format_datetime sample_lib 0)),
      (''search_text'', JStr ''bearing'')]"
  by (simp add: sample_document_value_def document_record_def sample_document_def dump_document_def
      dict_union_def dict_set_def)

lemma local_retrieval_ranked_witness:
  "\<exists>c w'. local_retrieve sample_ai_env ''bearing x'' 5 None (sample_world sample_document_table) = (Inr [c], w') \<and>
     rc_document_id c = ''d1'' \<and> rc_content c = ''bearing'' \<and> rc_document_version c = Some ''v1''"
proof -
  let ?w = "sample_world sample_document_table"
  obtain n where docs: "repo_list sample_ai_env ''document'' ?w = (Inr [sample_document_value], ?w\<lparr>tick := n\<rparr>)"
    using sample_documents_listed by blast
  have terms: "query_terms sample_lib ''bearing x'' = [''bearing'']" by code_simp
  have hay: "haystack sample_lib sample_document_value = Inr ''pump.md bearing''"
    by (simp add: sample_document_shape haystack_def dict_get_or_def dict_get_def py_str_def sample_lib_def
        ascii_lower_def lower_char_def)
  have m: "term_matches [''bearing''] ''pump.md bearing'' = 1"
    by (simp add: term_matches_def starts_with_def)
  then have ranked: "rank_documents sample_lib [''bearing''] [sample_document_value] = Inr [(1, sample_document_value)]"
    by (simp add: hay)
  have unit: "in_unit (match_score (Suc 0) (Suc 0))" using match_score_unit(2) [of 1 1] by simp
  have "\<exists>c. chunk_of_document sample_lib 1 (1, sample_document_value) u = (Inr c, u)" for u :: "dict list world"
    using unit
    by (simp add: chunk_of_document_def sample_document_shape document_content_def dict_get_or_def dict_get_def
        bnd_of_result_case py_str_def of_option_def validate_chunk_def codec_simps read_opt_def ret_def)
  then obtain c where c: "chunk_of_document sample_lib 1 (1, sample_document_value) (?w\<lparr>tick := n\<rparr>) =
      (Inr c, ?w\<lparr>tick := n\<rparr>)" by blast
  have run: "local_retrieve sample_ai_env ''bearing x'' 5 None ?w = (Inr [c], ?w\<lparr>tick := n\<rparr>)"
    using docs terms ranked c
    by (simp add: local_retrieve_def default_settings_def is_set_def bnd_def of_result_def Let_def
        sorted_descending_def slice_to_def ret_def)
  have "\<not> is_set (knowledge_service_url (settings_of sample_ai_env))"
    by (simp add: default_settings_def is_set_def)
  from local_retrieval_ranked [OF this _ docs run]
  have "\<exists>d m. passage_of sample_lib 1 m d c \<and> d = sample_document_value"
    unfolding Let_def by (fastforce simp: terms list_all2_Cons2 relevance_def hay m)
  then have "rc_document_id c = ''d1'' \<and> rc_content c = ''bearing'' \<and> rc_document_version c = Some ''v1''"
    by (auto simp: passage_of_def sample_document_shape dict_get_def split: option.splits)
  then show ?thesis using run by blast
qed

section \<open>Upload\<close>

abbreviation load_document :: "('t, 'e) env_scheme \<Rightarrow> 't \<Rightarrow> string \<Rightarrow> document option" where
  "load_document E t did \<equiv> load_as (validate_document (lib_of E)) (dynamo_of E) t ''document'' did"

lemma registered_type: "len_between 1 200 ''document.registered''"
  by code_simp

lemma document_from_simps [simp]:
  "doc_id (document_from E did n dt c now) = did" "doc_filename (document_from E did n dt c now) = n"
  "doc_s3_key (document_from E did n dt c now) = ''documents/'' @ did @ ''/'' @ n"
  by (simp_all add: document_from_def)

lemma objects_more:
  fixes w w' :: "('t, 'w) store_world_scheme"
  shows "world.more w' = world.more w \<Longrightarrow> objects w' = objects w"
  by (cases w; cases w') simp

lemma bnd_uuid: "bnd (new_uuid E) f w = f (uuid_at E (tick w)) (w\<lparr>tick := Suc (tick w)\<rparr>)"
  and bnd_now: "bnd (now_utc E) g w = g (now_at E (tick w)) (w\<lparr>tick := Suc (tick w)\<rparr>)"
  by (simp_all add: bnd_def new_uuid_def now_utc_def)

text \<open>
  C35. An upload is accepted from managers and administrators and up to
  20 MiB; a refusal changes nothing. In a run without failures an accepted upload puts the bytes
  under one new key inside the folder of the document's fresh id (no slash of the client's file
  name survives, every other object stays), stores the document so that it reads back as the
  answer, together with its text when its suffix is searchable, announces it once under its id,
  and changes no other entity.
\<close>

theorem upload_document_effects:
  fixes E :: "('t, 'e) ai_env_scheme" and w :: "('t, 'w) store_world_scheme"
  assumes "quiet E" "can_publish E False" "table_ok (dynamo_of E) (tbl w)"
  shows "case require_roles [OPERATOR_MANAGER, SYSTEM_ADMIN] caller of
      Inl e \<Rightarrow> upload_document E caller file dt w = (Inl e, w)
    | Inr p \<Rightarrow>
        if 20971520 < length (up_content file)
        then upload_document E caller file dt w = (Inl document_too_large, w)
        else \<exists>d w' v name. upload_document E caller file dt w = (Inr d, w') \<and>
          name = path_name (str_or (up_filename file) ''unnamed'') \<and> CHR ''/'' \<notin> set name \<and>
          doc_s3_key d = ''documents/'' @ doc_id d @ ''/'' @ name \<and>
          objects w' = (objects w)(doc_s3_key d \<mapsto>
            \<lparr>object_body = up_content file,
             object_type = str_or (up_content_type file) ''application/octet-stream'',
             object_encryption = ''AES256''\<rparr>) \<and>
          load_document E (tbl w') (doc_id d) = Some d \<and>
          view (dynamo_of E) (tbl w') ''document'' (doc_id d) = Some v \<and>
          required ''search_text'' read_str v = Some (search_text_of E name (up_content file)) \<and>
          announced E ''document.registered'' (dict_of (dump_document (lib_of E) d))
            (Some (doc_id d)) (Some (subject p)) w w' \<and>
          same_elsewhere (dynamo_of E) (tbl w) (tbl w') ''document'' (doc_id d)"
proof (cases "require_roles [OPERATOR_MANAGER, SYSTEM_ADMIN] caller")
  case (Inl e)
  then show ?thesis by (simp add: upload_document_def bnd_of_result_case)
next
  case (Inr p)
  note role = this
  show ?thesis
  proof (cases "20971520 < length (up_content file)")
    case True
    then show ?thesis using role by (simp add: upload_document_def bnd_of_result_case throw_def)
  next
    case False
    define did where "did = uuid_at E (tick w)"
    define name where "name = path_name (str_or (up_filename file) ''unnamed'')"
    define d where "d = document_from E did name dt (up_content file) (now_at E (Suc (tick w)))"
    have d_did: "doc_id d = did" "doc_s3_key d = ''documents/'' @ did @ ''/'' @ name" by (simp_all add: d_def)
    define text_value where "text_value = search_text_of E name (up_content file)"
    define w1 where "w1 = w\<lparr>tick := Suc (Suc (Suc (tick w))), objects := (objects w)(doc_s3_key d \<mapsto>
            \<lparr>object_body = up_content file,
             object_type = str_or (up_content_type file) ''application/octet-stream'',
             object_encryption = ''AES256''\<rparr>)\<rparr>"
    have store: "store_put E (doc_s3_key d) (up_content file) (str_or (up_content_type file) ''application/octet-stream'')
        (w\<lparr>tick := Suc (Suc (tick w))\<rparr>) = (Inr (), w1)"
      by (simp add: store_put_def quiet_call [OF assms(1)] change_def w1_def)
    have "table_ok (dynamo_of E) (tbl w1)" using assms(3) by (simp add: w1_def)
    from document_store.save_announce [OF assms(1) this TrueI assms(2) registered_type, of did "(d, text_value)"]
    obtain ev w' where
      run: "bnd (repo_put E ''document'' did (document_record (lib_of E) d text_value)) (\<lambda>_.
        publish_event E ''document.registered'' (dict_of (dump_document (lib_of E) d)) (Some did)
          (Some (subject p)) False) w1 = (Inr ev, w')"
      and ann: "announced E ''document.registered'' (dict_of (dump_document (lib_of E) d)) (Some did)
        (Some (subject p)) w1 w'"
      and load: "load_as (\<lambda>v. field (validate_document (lib_of E) v)
          (\<lambda>d. field (required ''search_text'' read_str v) (\<lambda>t. Some (d, t)))) (dynamo_of E) (tbl w') ''document'' did =
          Some (d, text_value)"
      and same: "same_elsewhere (dynamo_of E) (tbl w1) (tbl w') ''document'' did"
      and more: "world.more w' = world.more w1"
      by fastforce
    obtain v where v: "view (dynamo_of E) (tbl w') ''document'' did = Some v"
      "validate_document (lib_of E) v = Some d" "required ''search_text'' read_str v = Some text_value"
      using load by (auto simp: load_as_Some elim!: field_SomeE)
    have obj: "objects w' = objects w1" by (rule objects_more [OF more])
    have "upload_document E caller file dt w = (Inr d, w')"
      using role False store
      by (simp add: bnd_two [OF run] upload_document_def bnd_of_result_case bnd_uuid bnd_now Let_def did_def [symmetric]
          name_def [symmetric] d_def [symmetric] text_value_def [symmetric] bnd_Inr ret_def d_did)
    moreover have "announced E ''document.registered'' (dict_of (dump_document (lib_of E) d)) (Some did)
        (Some (subject p)) w w'"
      using ann by (simp add: announced_def w1_def)
    moreover have "CHR ''/'' \<notin> set name" unfolding name_def by (rule path_name_no_slash)
    ultimately show ?thesis using role False v obj same
      by (simp add: d_did w1_def name_def [symmetric] text_value_def load_as_Some d_def [symmetric])
  qed
qed

definition sample_upload :: upload where
  "sample_upload = \<lparr>up_filename = Some ''../secret/pump.md'', up_content_type = None, up_content = ''text''\<rparr>"

definition empty_store_world :: "dict list store_world" where
  "empty_store_world =
     \<lparr>tick = 0, tbl = [], producer_open = False, queue_url = None, topic_arn = None,
      kafka_sent = [], sqs_sent = [], sns_sent = [], redis_sent = [],
      http_requests = [], http_duration = [], objects = Map.empty\<rparr>"

lemma upload_document_effects_witness:
  "\<exists>d w'. upload_document sample_ai_env
       (Some \<lparr>subject = ''u1'', username = ''kim'', roles = {SYSTEM_ADMIN}\<rparr>) sample_upload MANUAL
       empty_store_world = (Inr d, w') \<and>
     load_document sample_ai_env (tbl w') (doc_id d) = Some d \<and> objects w' (doc_s3_key d) \<noteq> None"
proof -
  let ?p = "Some \<lparr>subject = ''u1'', username = ''kim'', roles = {SYSTEM_ADMIN}\<rparr>"
  have "can_publish sample_ai_env False"
    by (simp add: can_publish_def default_settings_def supported_bus_def)
  moreover have "table_ok (dynamo_of sample_ai_env) (tbl empty_store_world)"
    by (simp add: empty_store_world_def sample_table_ok_empty)
  ultimately show ?thesis
    using upload_document_effects [OF sample_ai_quiet, of empty_store_world ?p sample_upload MANUAL]
    by (auto simp: require_roles_def sample_upload_def)
qed

end
