(* ===== verification/Silent.thy ===== *)
theory Silent
  imports Rag
begin

text \<open>
  Actions that only ask: they call other services and read the table, and whatever they return
  or raise, nothing was published and nothing of the process has changed but its clock and its
  view of the table.
\<close>

definition silent :: "(('t, 'w) world_scheme, 'a) act \<Rightarrow> bool" where
  "silent m \<longleftrightarrow> (\<forall>w. \<exists>n t. snd (m w) = w\<lparr>tick := n, tbl := t\<rparr>)"

named_theorems silent_intros \<open>structural rules for silent\<close>

lemma silentI: "(\<And>w. \<exists>n t. snd (m w) = w\<lparr>tick := n, tbl := t\<rparr>) \<Longrightarrow> silent m"
  by (simp add: silent_def)

lemma silent_run:
  assumes "silent m" "m w = (r, w')"
  shows "\<exists>n t. w' = w\<lparr>tick := n, tbl := t\<rparr>"
  using assms unfolding silent_def by (metis snd_conv)

lemma silent_pure [silent_intros]:
  "silent (ret x)" "silent (throw e)" "silent (read_state f)" "silent (of_result r)" "silent (of_option e v)"
proof -
  have same: "\<exists>n t. w = w\<lparr>tick := n, tbl := t\<rparr>" for w :: "('t, 'w) world_scheme"
    by (rule exI [of _ "tick w"], rule exI [of _ "tbl w"]) simp
  show "silent (ret x)" "silent (throw e)" "silent (read_state f)" "silent (of_result r)"
    using same by (auto simp: silent_def act_simps)
  then show "silent (of_option e v)" by (simp add: of_option_def split: option.split)
       (simp add: silent_def act_simps same)
qed

lemma silent_bnd [silent_intros]: "silent m \<Longrightarrow> (\<And>x. silent (f x)) \<Longrightarrow> silent (bnd m f)"
proof (rule silentI)
  fix w
  assume m: "silent m" and f: "\<And>x. silent (f x)"
  obtain r w1 where r: "m w = (r, w1)" by fastforce
  obtain n t where w1: "w1 = w\<lparr>tick := n, tbl := t\<rparr>" using silent_run [OF m r] by blast
  show "\<exists>n t. snd (bnd m f w) = w\<lparr>tick := n, tbl := t\<rparr>"
  proof (cases r)
    case (Inl e)
    then show ?thesis using r w1 by (auto simp: bnd_def)
  next
    case (Inr x)
    obtain n' t' where "snd (f x w1) = w1\<lparr>tick := n', tbl := t'\<rparr>" using f unfolding silent_def by blast
    then show ?thesis using r w1 Inr by (auto simp: bnd_def)
  qed
qed

lemma silent_call [silent_intros]: "silent op \<Longrightarrow> silent (call E op)"
proof (rule silentI)
  fix w
  assume op: "silent op"
  obtain n t where "snd (op (w\<lparr>tick := Suc (tick w), tbl := others E (tick w) (tbl w)\<rparr>)) =
      w\<lparr>tick := Suc (tick w), tbl := others E (tick w) (tbl w)\<rparr>\<lparr>tick := n, tbl := t\<rparr>"
    using op unfolding silent_def by blast
  then show "\<exists>n t. snd (call E op w) = w\<lparr>tick := n, tbl := t\<rparr>"
    by (auto simp: call_def Let_def split: outcome.split)
qed

lemma silent_if [silent_intros]: "(b \<Longrightarrow> silent m) \<Longrightarrow> (\<not> b \<Longrightarrow> silent m') \<Longrightarrow> silent (if b then m else m')"
  by simp

lemma silent_case_option [silent_intros]:
  "silent m \<Longrightarrow> (\<And>x. silent (f x)) \<Longrightarrow> silent (case v of None \<Rightarrow> m | Some x \<Rightarrow> f x)"
  by (cases v) simp_all

lemma silent_case_prod [silent_intros]: "(\<And>a b. silent (f a b)) \<Longrightarrow> silent (case p of (a, b) \<Rightarrow> f a b)"
  by (cases p) simp

lemma silent_let [silent_intros]: "(\<And>x. silent (f x)) \<Longrightarrow> silent (let x = v in f x)"
  by simp

lemma silent_each [silent_intros]: "(\<And>x. silent (f x)) \<Longrightarrow> silent (each f xs)"
  by (induction xs) (simp_all add: silent_intros)

lemma silent_clock [silent_intros]: "silent (now_utc E)" "silent (new_uuid E)"
proof -
  have "\<exists>m t. w\<lparr>tick := n\<rparr> = w\<lparr>tick := m, tbl := t\<rparr>" for n and w :: "('t, 'w) world_scheme"
    by (rule exI [of _ n], rule exI [of _ "tbl w"]) simp
  then show "silent (now_utc E)" "silent (new_uuid E)" by (auto simp: silent_def now_utc_def new_uuid_def)
qed

lemma silent_table [silent_intros]: "silent (\<lambda>w. let (r, t) = f w in (Inr r, w\<lparr>tbl := t\<rparr>))"
proof (rule silentI)
  fix w
  obtain r t where "f w = (r, t)" by fastforce
  then show "\<exists>n t. snd (let (r, t) = f w in (Inr r, w\<lparr>tbl := t\<rparr>)) = w\<lparr>tick := n, tbl := t\<rparr>"
    by (intro exI [of _ "tick w"] exI [of _ t]) simp
qed

lemma silent_http [silent_intros]: "silent (http_send E c)" "silent (raise_for_status n)" "silent (response_json b)"
  unfolding http_send_def raise_for_status_def response_json_def check_def
  by (intro silent_intros)+

lemma silent_reads [silent_intros]:
  "silent (repo_get E et eid)" "silent (repo_list E et)" "silent (validated f E v)"
proof -
  show "silent (repo_get E et eid)" unfolding repo_get_def table_get_def item_data_def
    by (intro silent_intros)
  have "silent (list_from E et fuel c)" for fuel c
    by (induction fuel arbitrary: c)
      (auto simp: repo_list_page_def item_data_def intro!: silent_intros)
  then show "silent (repo_list E et)" by (simp add: repo_list_def)
  show "silent (validated f E v)" by (simp add: validated_def silent_intros)
qed

lemma silent_retrieve [silent_intros]: "silent (retrieve_chunks E q n auth)"
proof -
  have doc: "silent (chunk_of_document L m x)" for L m x
    unfolding chunk_of_document_def by (intro silent_intros)
  have res: "silent (chunk_of_result L x)" for L x
    unfolding chunk_of_result_def by (intro silent_intros)
  have "silent (local_retrieve E q n auth)"
    unfolding local_retrieve_def remote_search_def by (intro silent_intros doc)
  moreover have "silent (bedrock_kb_retrieve E kb q n)" for kb
    unfolding bedrock_kb_retrieve_def by (intro silent_intros res)
  ultimately have "silent (retrieve E r q n auth)" for r
    by (cases r) (simp_all add: retrieve_def)
  then show ?thesis unfolding retrieve_chunks_def by (intro silent_intros)
qed

end
