(* ===== verification/AnalysisModel.thy ===== *)
theory AnalysisModel
  imports Engine "HOL-Library.Finite_Map" "HOL-Library.Char_ord" "HOL-Library.List_Lexorder"
begin

text \<open>
  The model classes of \<open>services/ai_analysis/app/main.py\<close>, their codecs, and the laws of the
  four kinds of entities the service stores. A \<open>dict[str, str]\<close> is a finite map, written with
  its keys in order (equality of dictionaries ignores the order).
\<close>

section \<open>Lists of models and dictionaries of strings\<close>

lemma read_list_map: "(\<And>x. x \<in> set xs \<Longrightarrow> r (g x) = Some x) \<Longrightarrow> read_list r (JList (map g xs)) = Some xs"
proof -
  assume "\<And>x. x \<in> set xs \<Longrightarrow> r (g x) = Some x"
  then have "all_some (map (\<lambda>x. r (g x)) xs) = Some xs" by (induction xs) simp_all
  then show ?thesis by (simp add: read_list_def o_def)
qed

context entity_codec
begin

lemma read_dumped_list:
  "lib_ok L \<Longrightarrow> \<forall>x \<in> set xs. wf x \<Longrightarrow> read_list (validate L) (JList (map (dump L) xs)) = Some xs"
  by (intro read_list_map) (simp add: read_dumped)

lemma read_stored_list:
  "lib_ok L \<Longrightarrow> \<forall>x \<in> set xs. wf x \<Longrightarrow>
   read_list (validate L) (JList (map (\<lambda>x. stored L (dump L x)) xs)) = Some xs"
  by (intro read_list_map) (simp add: read_stored)

lemma dump_list_finite: "\<forall>x \<in> set xs. wf x \<Longrightarrow> finite_numbers (JList (map (dump L) xs))"
  by (simp add: list_all_iff dump_finite)

end

definition string_of :: "json \<Rightarrow> string" where
  "string_of v = (case v of JStr s \<Rightarrow> s | _ \<Rightarrow> [])"

definition read_str_map :: "(string, string) fmap reader" where
  "read_str_map v =
     (case v of
        JObj d \<Rightarrow>
          (if list_all (\<lambda>k. read_str (the (map_of d k)) \<noteq> None) (map fst d)
           then Some (fmap_of_list (map (map_prod id string_of) d)) else None)
      | _ \<Rightarrow> None)"

definition dump_str_map :: "(string, string) fmap \<Rightarrow> json" where
  "dump_str_map m = JObj (map (map_prod id JStr) (sorted_list_of_fmap m))"

lemma read_str_map_lookup:
  "read_str_map (JObj d) =
     (if \<forall>k v. map_of d k = Some v \<longrightarrow> read_str v \<noteq> None
      then Some (fmap_of_list (map (map_prod id string_of) d)) else None)"
proof -
  have "list_all (\<lambda>k. read_str (the (map_of d k)) \<noteq> None) (map fst d) \<longleftrightarrow>
      (\<forall>k \<in> dom (map_of d). read_str (the (map_of d k)) \<noteq> None)"
    by (simp add: list_all_iff dom_map_of_conv_image_fst)
  also have "\<dots> \<longleftrightarrow> (\<forall>k v. map_of d k = Some v \<longrightarrow> read_str v \<noteq> None)"
    by (metis domIff domI option.exhaust_sel option.sel)
  finally show ?thesis by (simp add: read_str_map_def)
qed

lemma read_str_map_blind [simp, intro]: "key_order_blind read_str_map"
proof (rule key_order_blindI)
  fix a b
  assume ab: "same_value a b"
  show "read_str_map a = read_str_map b"
  proof (cases "\<exists>xs ys. a = JObj xs \<and> b = JObj ys")
    case True
    then obtain xs ys where xy: "a = JObj xs" "b = JObj ys" by blast
    have rel: "rel_option same_value (map_of xs k) (map_of ys k)" for k
      using ab xy by (auto elim: same_obj_l)
    have strs: "read_str u = read_str v" "string_of u = string_of v" if "same_value u v" for u v
      using same_value_cases_scalar [OF that] by (auto simp: read_str_def string_of_def)
    have "map_option string_of (map_of xs k) = map_option string_of (map_of ys k)" for k
      using rel [of k] by (cases rule: option.rel_cases) (auto dest: strs)
    then have "fmap_of_list (map (map_prod id string_of) xs) = fmap_of_list (map (map_prod id string_of) ys)"
      by (intro fmap_ext) (simp add: fmlookup_of_list)
    moreover have "(\<forall>v. map_of xs k = Some v \<longrightarrow> read_str v \<noteq> None) \<longleftrightarrow>
        (\<forall>v. map_of ys k = Some v \<longrightarrow> read_str v \<noteq> None)" for k
      using rel [of k] by (cases rule: option.rel_cases) (auto dest: strs)
    ultimately show ?thesis by (simp add: xy read_str_map_lookup)
  next
    case False
    then show ?thesis using same_value_cases_scalar [OF ab] by (auto simp: read_str_map_def)
  qed
qed

lemma map_of_sorted_list_of_fmap: "map_of (sorted_list_of_fmap m) = fmlookup m"
proof
  fix k
  have "map_of (map (\<lambda>k. (k, the (fmlookup m k))) (sorted_list_of_fset (fmdom m))) k =
      (if k |\<in>| fmdom m then Some (the (fmlookup m k)) else None)"
    by (simp add: map_of_map_restrict restrict_map_def)
  then show "map_of (sorted_list_of_fmap m) k = fmlookup m k"
    by (auto simp: sorted_list_of_fmap_def fmdom_notD dest: fmdomI)
qed

lemma read_dumped_str_map [simp, codec_simps]: "read_str_map (dump_str_map m) = Some m"
proof -
  have "map_prod id string_of \<circ> map_prod id JStr = (id :: string \<times> string \<Rightarrow> _)"
    by (rule ext) (auto simp: string_of_def)
  then have "fmap_of_list (map (map_prod id string_of) (map (map_prod id JStr) (sorted_list_of_fmap m))) = m"
    by (intro fmap_ext) (simp add: fmlookup_of_list map_of_sorted_list_of_fmap)
  then show ?thesis by (auto simp: dump_str_map_def read_str_map_lookup)
qed

lemma stored_str_map [simp, codec_simps]: "stored L (dump_str_map m) = dump_str_map m"
  by (auto simp: dump_str_map_def)

lemma finite_str_map [simp]: "finite_numbers (dump_str_map m)"
  by (auto simp: dump_str_map_def list_all_iff)

section \<open>Enumerations\<close>

datatype RiskLevel = LOW | MEDIUM | HIGH | CRITICAL

definition risk_levels :: "(string \<times> RiskLevel) list" where
  "risk_levels = [(''low'', LOW), (''medium'', MEDIUM), (''high'', HIGH), (''critical'', CRITICAL)]"

fun risk_value :: "RiskLevel \<Rightarrow> string" where
  "risk_value LOW = ''low''"
| "risk_value MEDIUM = ''medium''"
| "risk_value HIGH = ''high''"
| "risk_value CRITICAL = ''critical''"

lemma risk_levels_value [simp, codec_simps]: "map_of risk_levels (risk_value r) = Some r"
  by (cases r) (simp_all add: risk_levels_def)

datatype ReviewStatus = PENDING | ASSIGNED | COMPLETED | DISMISSED

definition review_statuses :: "(string \<times> ReviewStatus) list" where
  "review_statuses =
     [(''pending'', PENDING), (''assigned'', ASSIGNED), (''completed'', COMPLETED),
      (''dismissed'', DISMISSED)]"

fun review_status_value :: "ReviewStatus \<Rightarrow> string" where
  "review_status_value PENDING = ''pending''"
| "review_status_value ASSIGNED = ''assigned''"
| "review_status_value COMPLETED = ''completed''"
| "review_status_value DISMISSED = ''dismissed''"

lemma review_statuses_value [simp, codec_simps]: "map_of review_statuses (review_status_value s) = Some s"
  by (cases s) (simp_all add: review_statuses_def)

section \<open>Analyses\<close>

record analysis_request =
  rq_incident_id :: string
  rq_equipment_id :: string
  rq_sensor_summary :: string
  rq_log_summary :: string
  rq_related_document_ids :: "string list"

definition validate_analysis_request :: "json \<Rightarrow> analysis_request option" where
  "validate_analysis_request v =
     field (required ''incident_id'' read_str v) (\<lambda>iid.
     field (required ''equipment_id'' read_str v) (\<lambda>eid.
     field (required ''sensor_summary'' read_str v) (\<lambda>sensor.
     field (required ''log_summary'' read_str v) (\<lambda>logs.
     field (defaulted ''related_document_ids'' [] (read_list read_str) v) (\<lambda>related.
       Some \<lparr>rq_incident_id = iid, rq_equipment_id = eid, rq_sensor_summary = sensor,
             rq_log_summary = logs, rq_related_document_ids = related\<rparr>)))))"

definition dump_analysis_request :: "analysis_request \<Rightarrow> json" where
  "dump_analysis_request r = JObj
     [(''incident_id'', JStr (rq_incident_id r)),
      (''equipment_id'', JStr (rq_equipment_id r)),
      (''sensor_summary'', JStr (rq_sensor_summary r)),
      (''log_summary'', JStr (rq_log_summary r)),
      (''related_document_ids'', str_list (rq_related_document_ids r))]"

record cause_candidate =
  cc_cause :: string
  cc_confidence :: pyfloat
  cc_evidence :: "string list"

definition dump_cause :: "lib \<Rightarrow> cause_candidate \<Rightarrow> json" where
  "dump_cause L c = JObj
     [(''cause'', JStr (cc_cause c)),
      (''confidence'', JFloat (cc_confidence c)),
      (''evidence'', str_list (cc_evidence c))]"

definition validate_cause :: "lib \<Rightarrow> json \<Rightarrow> cause_candidate option" where
  "validate_cause L v =
     field (required ''cause'' read_str v) (\<lambda>cause.
     field (required ''confidence'' (checked in_unit (read_float L)) v) (\<lambda>confidence.
     field (required ''evidence'' (read_list read_str) v) (\<lambda>evidence.
       Some \<lparr>cc_cause = cause, cc_confidence = confidence, cc_evidence = evidence\<rparr>)))"

definition wf_cause :: "cause_candidate \<Rightarrow> bool" where
  "wf_cause c \<longleftrightarrow> finite_double (cc_confidence c) \<and> in_unit (cc_confidence c)"

record action_step =
  st_sequence :: int
  st_instruction :: string
  st_hazardous :: bool
  st_requires_shutdown :: bool

definition dump_step :: "lib \<Rightarrow> action_step \<Rightarrow> json" where
  "dump_step L s = JObj
     [(''sequence'', JInt (st_sequence s)),
      (''instruction'', JStr (st_instruction s)),
      (''hazardous'', JBool (st_hazardous s)),
      (''requires_shutdown'', JBool (st_requires_shutdown s))]"

definition validate_step :: "lib \<Rightarrow> json \<Rightarrow> action_step option" where
  "validate_step L v =
     field (required ''sequence'' (read_int L) v) (\<lambda>n.
     field (required ''instruction'' read_str v) (\<lambda>instruction.
     field (required ''hazardous'' (read_bool L) v) (\<lambda>hazardous.
     field (required ''requires_shutdown'' (read_bool L) v) (\<lambda>shutdown.
       Some \<lparr>st_sequence = n, st_instruction = instruction, st_hazardous = hazardous,
             st_requires_shutdown = shutdown\<rparr>))))"

record analysis_audit =
  aa_ai_provider :: string
  aa_model_id :: "string option"
  aa_prompt_version :: string
  aa_prompt_hash :: string
  aa_rag_provider :: string
  aa_document_versions :: "(string, string) fmap"
  aa_guardrail_id :: "string option"
  aa_guardrail_version :: "string option"
  aa_guardrail_action :: string
  aa_request_id :: "string option"
  aa_input_tokens :: int
  aa_output_tokens :: int
  aa_created_at :: int

definition dump_audit :: "lib \<Rightarrow> analysis_audit \<Rightarrow> json" where
  "dump_audit L a = JObj
     [(''ai_provider'', JStr (aa_ai_provider a)),
      (''model_id'', opt_str (aa_model_id a)),
      (''prompt_version'', JStr (aa_prompt_version a)),
      (''prompt_hash'', JStr (aa_prompt_hash a)),
      (''rag_provider'', JStr (aa_rag_provider a)),
      (''document_versions'', dump_str_map (aa_document_versions a)),
      (''guardrail_id'', opt_str (aa_guardrail_id a)),
      (''guardrail_version'', opt_str (aa_guardrail_version a)),
      (''guardrail_action'', JStr (aa_guardrail_action a)),
      (''request_id'', opt_str (aa_request_id a)),
      (''input_tokens'', JInt (aa_input_tokens a)),
      (''output_tokens'', JInt (aa_output_tokens a)),
      (''created_at'', JStr (format_datetime L (aa_created_at a)))]"

definition validate_audit :: "lib \<Rightarrow> json \<Rightarrow> analysis_audit option" where
  "validate_audit L v =
     field (required ''ai_provider'' read_str v) (\<lambda>provider.
     field (defaulted ''model_id'' None (read_opt read_str) v) (\<lambda>model.
     field (required ''prompt_version'' read_str v) (\<lambda>version.
     field (required ''prompt_hash'' read_str v) (\<lambda>hash.
     field (required ''rag_provider'' read_str v) (\<lambda>rag.
     field (required ''document_versions'' read_str_map v) (\<lambda>versions.
     field (defaulted ''guardrail_id'' None (read_opt read_str) v) (\<lambda>gid.
     field (defaulted ''guardrail_version'' None (read_opt read_str) v) (\<lambda>gversion.
     field (required ''guardrail_action'' read_str v) (\<lambda>gaction.
     field (defaulted ''request_id'' None (read_opt read_str) v) (\<lambda>request.
     field (defaulted ''input_tokens'' 0 (read_int L) v) (\<lambda>input.
     field (defaulted ''output_tokens'' 0 (read_int L) v) (\<lambda>output.
     field (required ''created_at'' (read_datetime L) v) (\<lambda>created.
       Some \<lparr>aa_ai_provider = provider, aa_model_id = model, aa_prompt_version = version,
             aa_prompt_hash = hash, aa_rag_provider = rag, aa_document_versions = versions,
             aa_guardrail_id = gid, aa_guardrail_version = gversion,
             aa_guardrail_action = gaction, aa_request_id = request,
             aa_input_tokens = input, aa_output_tokens = output, aa_created_at = created\<rparr>)))))))))))))"

record analysis_result =
  an_id :: string
  an_incident_id :: string
  an_risk_level :: RiskLevel
  an_confidence :: pyfloat
  an_causes :: "cause_candidate list"
  an_related_document_ids :: "string list"
  an_recommended_actions :: "action_step list"
  an_expert_review_required :: bool
  an_manager_approval_required :: bool
  an_review_reasons :: "string list"
  an_audit :: "analysis_audit option"
  an_executable :: bool

definition dump_analysis :: "lib \<Rightarrow> analysis_result \<Rightarrow> json" where
  "dump_analysis L a = JObj
     [(''id'', JStr (an_id a)),
      (''incident_id'', JStr (an_incident_id a)),
      (''risk_level'', JStr (risk_value (an_risk_level a))),
      (''confidence'', JFloat (an_confidence a)),
      (''causes'', JList (map (dump_cause L) (an_causes a))),
      (''related_document_ids'', str_list (an_related_document_ids a)),
      (''recommended_actions'', JList (map (dump_step L) (an_recommended_actions a))),
      (''expert_review_required'', JBool (an_expert_review_required a)),
      (''manager_approval_required'', JBool (an_manager_approval_required a)),
      (''review_reasons'', str_list (an_review_reasons a)),
      (''audit'', (case an_audit a of None \<Rightarrow> JNull | Some x \<Rightarrow> dump_audit L x)),
      (''executable'', JBool (an_executable a))]"

definition validate_analysis :: "lib \<Rightarrow> json \<Rightarrow> analysis_result option" where
  "validate_analysis L v =
     field (required ''id'' read_str v) (\<lambda>aid.
     field (required ''incident_id'' read_str v) (\<lambda>iid.
     field (required ''risk_level'' (read_enum risk_levels) v) (\<lambda>risk.
     field (required ''confidence'' (read_float L) v) (\<lambda>confidence.
     field (required ''causes'' (read_list (validate_cause L)) v) (\<lambda>causes.
     field (required ''related_document_ids'' (read_list read_str) v) (\<lambda>related.
     field (required ''recommended_actions'' (read_list (validate_step L)) v) (\<lambda>actions.
     field (required ''expert_review_required'' (read_bool L) v) (\<lambda>expert.
     field (required ''manager_approval_required'' (read_bool L) v) (\<lambda>manager.
     field (required ''review_reasons'' (read_list read_str) v) (\<lambda>reasons.
     field (defaulted ''audit'' None (read_opt (validate_audit L)) v) (\<lambda>audit.
     field (defaulted ''executable'' False (read_bool L) v) (\<lambda>executable.
       Some \<lparr>an_id = aid, an_incident_id = iid, an_risk_level = risk,
             an_confidence = confidence, an_causes = causes, an_related_document_ids = related,
             an_recommended_actions = actions, an_expert_review_required = expert,
             an_manager_approval_required = manager, an_review_reasons = reasons,
             an_audit = audit, an_executable = executable\<rparr>))))))))))))"

definition wf_analysis :: "analysis_result \<Rightarrow> bool" where
  "wf_analysis a \<longleftrightarrow> finite_double (an_confidence a) \<and> (\<forall>c \<in> set (an_causes a). wf_cause c)"

lemma cause_blind: "key_order_blind (validate_cause L)"
  unfolding validate_cause_def
  by (intro field_blind required_blind const_blind checked_blind read_list_blind scalar_readers_blind)

interpretation cause_model: entity_codec dump_cause validate_cause wf_cause
proof
  show "lib_ok L \<Longrightarrow> wf_cause x \<Longrightarrow> validate_cause L (dump_cause L x) = Some x" for L x
    by (simp add: validate_cause_def dump_cause_def wf_cause_def codec_simps)
  show "lib_ok L \<Longrightarrow> wf_cause x \<Longrightarrow> validate_cause L (stored L (dump_cause L x)) = Some x" for L x
    by (simp add: validate_cause_def dump_cause_def wf_cause_def codec_simps)
  show "wf_cause x \<Longrightarrow> finite_numbers (dump_cause L x)" for L x
    by (simp add: dump_cause_def wf_cause_def finite_double_finite)
qed (rule cause_blind)

lemma step_blind: "key_order_blind (validate_step L)"
  unfolding validate_step_def
  by (intro field_blind required_blind const_blind scalar_readers_blind)

interpretation step_model: entity_codec dump_step validate_step "\<lambda>_. True"
proof
  show "lib_ok L \<Longrightarrow> True \<Longrightarrow> validate_step L (dump_step L x) = Some x" for L x
    by (simp add: validate_step_def dump_step_def codec_simps)
  show "lib_ok L \<Longrightarrow> True \<Longrightarrow> validate_step L (stored L (dump_step L x)) = Some x" for L x
    by (simp add: validate_step_def dump_step_def codec_simps)
  show "True \<Longrightarrow> finite_numbers (dump_step L x)" for L x
    by (simp add: dump_step_def)
qed (rule step_blind)

lemma audit_blind: "key_order_blind (validate_audit L)"
  unfolding validate_audit_def
  by (intro field_blind required_blind defaulted_blind const_blind read_opt_blind read_str_map_blind
      scalar_readers_blind)

interpretation audit_model: entity_codec dump_audit validate_audit "\<lambda>_. True"
proof
  show "lib_ok L \<Longrightarrow> True \<Longrightarrow> validate_audit L (dump_audit L x) = Some x" for L x
    by (simp add: validate_audit_def dump_audit_def codec_simps)
  show "lib_ok L \<Longrightarrow> True \<Longrightarrow> validate_audit L (stored L (dump_audit L x)) = Some x" for L x
    by (simp add: validate_audit_def dump_audit_def codec_simps)
  show "True \<Longrightarrow> finite_numbers (dump_audit L x)" for L x
    by (simp add: dump_audit_def)
qed (rule audit_blind)

lemma read_opt_audit:
  "lib_ok L \<Longrightarrow> read_opt (validate_audit L) (case a of None \<Rightarrow> JNull | Some x \<Rightarrow> dump_audit L x) = Some a"
  "lib_ok L \<Longrightarrow>
    read_opt (validate_audit L) (stored L (case a of None \<Rightarrow> JNull | Some x \<Rightarrow> dump_audit L x)) = Some a"
proof -
  assume L: "lib_ok L"
  have some: "read_opt r v = map_option Some (r v)" if "v \<noteq> JNull" for r :: "analysis_audit reader" and v
    using that by (cases v) (simp_all add: read_opt_def)
  have obj: "dump_audit L x \<noteq> JNull" "stored L (dump_audit L x) \<noteq> JNull" for x
    by (simp_all add: dump_audit_def)
  show "read_opt (validate_audit L) (case a of None \<Rightarrow> JNull | Some x \<Rightarrow> dump_audit L x) = Some a"
    by (cases a) (simp_all add: read_opt_def [of _ JNull] some obj audit_model.read_dumped [OF L TrueI])
  show "read_opt (validate_audit L) (stored L (case a of None \<Rightarrow> JNull | Some x \<Rightarrow> dump_audit L x)) = Some a"
    by (cases a) (simp_all add: read_opt_def [of _ JNull] some obj audit_model.read_stored [OF L TrueI])
qed

interpretation analysis_store: stored_entity dump_analysis validate_analysis wf_analysis "''analysis''"
proof
  show "key_order_blind (validate_analysis L)" for L
    unfolding validate_analysis_def
    by (intro field_blind required_blind defaulted_blind const_blind read_opt_blind read_list_blind
        cause_blind step_blind audit_blind scalar_readers_blind)
  show "lib_ok L \<Longrightarrow> wf_analysis x \<Longrightarrow> validate_analysis L (dump_analysis L x) = Some x" for L x
    by (simp add: validate_analysis_def dump_analysis_def wf_analysis_def codec_simps read_opt_audit
        cause_model.read_dumped_list step_model.read_dumped_list)
  show "lib_ok L \<Longrightarrow> wf_analysis x \<Longrightarrow> validate_analysis L (stored L (dump_analysis L x)) = Some x" for L x
    by (simp add: validate_analysis_def dump_analysis_def wf_analysis_def codec_simps read_opt_audit o_def
        cause_model.read_stored_list step_model.read_stored_list)
  show "wf_analysis x \<Longrightarrow> finite_numbers (dump_analysis L x)" for L x
    using cause_model.dump_list_finite [of "an_causes x" L]
      step_model.dump_list_finite [of "an_recommended_actions x" L]
    by (simp add: dump_analysis_def wf_analysis_def finite_double_finite audit_model.dump_finite
        split: option.split)
qed (simp add: entity_types_def)

end
