(* ===== verification/ReviewModel.thy ===== *)
theory ReviewModel
  imports AnalysisModel
begin

text \<open>
  The expert reviews and the evaluation models of \<open>services/ai_analysis/app/main.py\<close>.
\<close>

section \<open>Expert reviews\<close>

record expert_review =
  er_id :: string
  er_analysis_id :: string
  er_incident_id :: string
  er_status :: ReviewStatus
  er_reasons :: "string list"
  er_risk_level :: RiskLevel
  er_confidence :: pyfloat
  er_assignee_id :: "string option"
  er_resolution_note :: "string option"
  er_created_at :: int
  er_updated_at :: int

definition dump_review :: "lib \<Rightarrow> expert_review \<Rightarrow> json" where
  "dump_review L r = JObj
     [(''id'', JStr (er_id r)),
      (''analysis_id'', JStr (er_analysis_id r)),
      (''incident_id'', JStr (er_incident_id r)),
      (''status'', JStr (review_status_value (er_status r))),
      (''reasons'', str_list (er_reasons r)),
      (''risk_level'', JStr (risk_value (er_risk_level r))),
      (''confidence'', JFloat (er_confidence r)),
      (''assignee_id'', opt_str (er_assignee_id r)),
      (''resolution_note'', opt_str (er_resolution_note r)),
      (''created_at'', JStr (format_datetime L (er_created_at r))),
      (''updated_at'', JStr (format_datetime L (er_updated_at r)))]"

definition validate_review :: "lib \<Rightarrow> json \<Rightarrow> expert_review option" where
  "validate_review L v =
     field (required ''id'' read_str v) (\<lambda>rid.
     field (required ''analysis_id'' read_str v) (\<lambda>aid.
     field (required ''incident_id'' read_str v) (\<lambda>iid.
     field (required ''status'' (read_enum review_statuses) v) (\<lambda>st.
     field (required ''reasons'' (read_list read_str) v) (\<lambda>reasons.
     field (required ''risk_level'' (read_enum risk_levels) v) (\<lambda>risk.
     field (required ''confidence'' (read_float L) v) (\<lambda>confidence.
     field (defaulted ''assignee_id'' None (read_opt read_str) v) (\<lambda>assignee.
     field (defaulted ''resolution_note'' None (read_opt read_str) v) (\<lambda>note.
     field (required ''created_at'' (read_datetime L) v) (\<lambda>created.
     field (required ''updated_at'' (read_datetime L) v) (\<lambda>updated.
       Some \<lparr>er_id = rid, er_analysis_id = aid, er_incident_id = iid, er_status = st,
             er_reasons = reasons, er_risk_level = risk, er_confidence = confidence,
             er_assignee_id = assignee, er_resolution_note = note,
             er_created_at = created, er_updated_at = updated\<rparr>)))))))))))"

definition wf_review :: "expert_review \<Rightarrow> bool" where
  "wf_review r \<longleftrightarrow> finite_double (er_confidence r)"

record review_update =
  ru_status :: "ReviewStatus option"
  ru_assignee_id :: "string option"
  ru_resolution_note :: "string option"

definition validate_review_update :: "json \<Rightarrow> review_update option" where
  "validate_review_update v =
     field (defaulted ''status'' None (read_opt (read_enum review_statuses)) v) (\<lambda>st.
     field (defaulted ''assignee_id'' None (read_opt (checked (len_between 0 200) read_str)) v) (\<lambda>assignee.
     field (defaulted ''resolution_note'' None (read_opt (checked (len_between 0 4000) read_str)) v) (\<lambda>note.
       Some \<lparr>ru_status = st, ru_assignee_id = assignee, ru_resolution_note = note\<rparr>)))"

interpretation review_store: stored_entity dump_review validate_review wf_review "''expert_review''"
proof
  show "key_order_blind (validate_review L)" for L
    unfolding validate_review_def
    by (intro field_blind required_blind defaulted_blind const_blind read_opt_blind read_list_blind
        scalar_readers_blind)
  show "lib_ok L \<Longrightarrow> wf_review x \<Longrightarrow> validate_review L (dump_review L x) = Some x" for L x
    by (simp add: validate_review_def dump_review_def wf_review_def codec_simps)
  show "lib_ok L \<Longrightarrow> wf_review x \<Longrightarrow> validate_review L (stored L (dump_review L x)) = Some x" for L x
    by (simp add: validate_review_def dump_review_def wf_review_def codec_simps)
  show "wf_review x \<Longrightarrow> finite_numbers (dump_review L x)" for L x
    by (simp add: dump_review_def wf_review_def finite_double_finite)
qed (simp add: entity_types_def)

section \<open>Evaluation cases\<close>

record evaluation_case =
  ec_id :: string
  ec_name :: string
  ec_equipment_id :: string
  ec_sensor_summary :: string
  ec_log_summary :: string
  ec_expected_causes :: "string list"
  ec_expected_document_ids :: "string list"
  ec_baseline_resolution_minutes :: pyfloat
  ec_actual_resolution_minutes :: pyfloat

text \<open>\<open>Field(gt=0)\<close> and \<open>Field(ge=0)\<close>: the comparison that refuses a value (NaN passes).\<close>

definition above_zero :: "pyfloat \<Rightarrow> bool" where
  "above_zero f \<longleftrightarrow> \<not> float_le f (Fin 0)"

definition from_zero :: "pyfloat \<Rightarrow> bool" where
  "from_zero f \<longleftrightarrow> \<not> float_less f (Fin 0)"

definition dump_evaluation_case :: "lib \<Rightarrow> evaluation_case \<Rightarrow> json" where
  "dump_evaluation_case L c = JObj
     [(''id'', JStr (ec_id c)),
      (''name'', JStr (ec_name c)),
      (''equipment_id'', JStr (ec_equipment_id c)),
      (''sensor_summary'', JStr (ec_sensor_summary c)),
      (''log_summary'', JStr (ec_log_summary c)),
      (''expected_causes'', str_list (ec_expected_causes c)),
      (''expected_document_ids'', str_list (ec_expected_document_ids c)),
      (''baseline_resolution_minutes'', JFloat (ec_baseline_resolution_minutes c)),
      (''actual_resolution_minutes'', JFloat (ec_actual_resolution_minutes c))]"

definition validate_evaluation_case :: "lib \<Rightarrow> json \<Rightarrow> evaluation_case option" where
  "validate_evaluation_case L v =
     field (required ''id'' read_str v) (\<lambda>cid.
     field (required ''name'' read_str v) (\<lambda>name.
     field (required ''equipment_id'' read_str v) (\<lambda>eid.
     field (required ''sensor_summary'' read_str v) (\<lambda>sensor.
     field (required ''log_summary'' read_str v) (\<lambda>logs.
     field (required ''expected_causes'' (checked (\<lambda>xs. xs \<noteq> []) (read_list read_str)) v) (\<lambda>causes.
     field (defaulted ''expected_document_ids'' [] (read_list read_str) v) (\<lambda>docs.
     field (required ''baseline_resolution_minutes'' (checked above_zero (read_float L)) v) (\<lambda>baseline.
     field (required ''actual_resolution_minutes'' (checked from_zero (read_float L)) v) (\<lambda>actual.
       Some \<lparr>ec_id = cid, ec_name = name, ec_equipment_id = eid, ec_sensor_summary = sensor,
             ec_log_summary = logs, ec_expected_causes = causes, ec_expected_document_ids = docs,
             ec_baseline_resolution_minutes = baseline,
             ec_actual_resolution_minutes = actual\<rparr>)))))))))"

text \<open>\<open>EvaluationDataset\<close>, a model with the one field \<open>cases\<close>.\<close>

definition validate_dataset :: "lib \<Rightarrow> json \<Rightarrow> evaluation_case list option" where
  "validate_dataset L =
     required ''cases'' (checked (\<lambda>xs. xs \<noteq> []) (read_list (validate_evaluation_case L)))"

definition wf_evaluation_case :: "evaluation_case \<Rightarrow> bool" where
  "wf_evaluation_case c \<longleftrightarrow>
     ec_expected_causes c \<noteq> [] \<and>
     finite_double (ec_baseline_resolution_minutes c) \<and> above_zero (ec_baseline_resolution_minutes c) \<and>
     finite_double (ec_actual_resolution_minutes c) \<and> from_zero (ec_actual_resolution_minutes c)"

interpretation evaluation_case_store:
  stored_entity dump_evaluation_case validate_evaluation_case wf_evaluation_case "''evaluation_case''"
proof
  show "key_order_blind (validate_evaluation_case L)" for L
    unfolding validate_evaluation_case_def
    by (intro field_blind required_blind defaulted_blind const_blind checked_blind read_list_blind
        scalar_readers_blind)
  show "lib_ok L \<Longrightarrow> wf_evaluation_case x \<Longrightarrow>
      validate_evaluation_case L (dump_evaluation_case L x) = Some x" for L x
    by (simp add: validate_evaluation_case_def dump_evaluation_case_def wf_evaluation_case_def codec_simps)
  show "lib_ok L \<Longrightarrow> wf_evaluation_case x \<Longrightarrow>
      validate_evaluation_case L (stored L (dump_evaluation_case L x)) = Some x" for L x
    by (simp add: validate_evaluation_case_def dump_evaluation_case_def wf_evaluation_case_def codec_simps)
  show "wf_evaluation_case x \<Longrightarrow> finite_numbers (dump_evaluation_case L x)" for L x
    by (simp add: dump_evaluation_case_def wf_evaluation_case_def finite_double_finite)
qed (simp add: entity_types_def)

section \<open>Evaluation runs\<close>

record case_result =
  cr_case_id :: string
  cr_cause_match :: pyfloat
  cr_document_hit_rate :: pyfloat
  cr_resolution_time_reduction :: pyfloat

definition dump_case_result :: "lib \<Rightarrow> case_result \<Rightarrow> json" where
  "dump_case_result L r = JObj
     [(''case_id'', JStr (cr_case_id r)),
      (''cause_match'', JFloat (cr_cause_match r)),
      (''document_hit_rate'', JFloat (cr_document_hit_rate r)),
      (''resolution_time_reduction'', JFloat (cr_resolution_time_reduction r))]"

definition validate_case_result :: "lib \<Rightarrow> json \<Rightarrow> case_result option" where
  "validate_case_result L v =
     field (required ''case_id'' read_str v) (\<lambda>cid.
     field (required ''cause_match'' (read_float L) v) (\<lambda>cause.
     field (required ''document_hit_rate'' (read_float L) v) (\<lambda>hits.
     field (required ''resolution_time_reduction'' (read_float L) v) (\<lambda>reduction.
       Some \<lparr>cr_case_id = cid, cr_cause_match = cause, cr_document_hit_rate = hits,
             cr_resolution_time_reduction = reduction\<rparr>))))"

definition wf_case_result :: "case_result \<Rightarrow> bool" where
  "wf_case_result r \<longleftrightarrow>
     finite_double (cr_cause_match r) \<and> finite_double (cr_document_hit_rate r) \<and>
     finite_double (cr_resolution_time_reduction r)"

lemma case_result_blind: "key_order_blind (validate_case_result L)"
  unfolding validate_case_result_def
  by (intro field_blind required_blind const_blind scalar_readers_blind)

interpretation case_result_model: entity_codec dump_case_result validate_case_result wf_case_result
proof
  show "lib_ok L \<Longrightarrow> wf_case_result x \<Longrightarrow> validate_case_result L (dump_case_result L x) = Some x" for L x
    by (simp add: validate_case_result_def dump_case_result_def wf_case_result_def codec_simps)
  show "lib_ok L \<Longrightarrow> wf_case_result x \<Longrightarrow>
      validate_case_result L (stored L (dump_case_result L x)) = Some x" for L x
    by (simp add: validate_case_result_def dump_case_result_def wf_case_result_def codec_simps)
  show "wf_case_result x \<Longrightarrow> finite_numbers (dump_case_result L x)" for L x
    by (simp add: dump_case_result_def wf_case_result_def finite_double_finite)
qed (rule case_result_blind)

record evaluation_run =
  ev_id :: string
  ev_created_at :: int
  ev_ai_provider :: string
  ev_model_id :: "string option"
  ev_prompt_version :: string
  ev_case_count :: int
  ev_cause_candidate_accuracy :: pyfloat
  ev_document_hit_rate :: pyfloat
  ev_resolution_time_reduction :: pyfloat
  ev_cases :: "case_result list"

definition dump_run :: "lib \<Rightarrow> evaluation_run \<Rightarrow> json" where
  "dump_run L r = JObj
     [(''id'', JStr (ev_id r)),
      (''created_at'', JStr (format_datetime L (ev_created_at r))),
      (''ai_provider'', JStr (ev_ai_provider r)),
      (''model_id'', opt_str (ev_model_id r)),
      (''prompt_version'', JStr (ev_prompt_version r)),
      (''case_count'', JInt (ev_case_count r)),
      (''cause_candidate_accuracy'', JFloat (ev_cause_candidate_accuracy r)),
      (''document_hit_rate'', JFloat (ev_document_hit_rate r)),
      (''resolution_time_reduction'', JFloat (ev_resolution_time_reduction r)),
      (''cases'', JList (map (dump_case_result L) (ev_cases r)))]"

definition validate_run :: "lib \<Rightarrow> json \<Rightarrow> evaluation_run option" where
  "validate_run L v =
     field (required ''id'' read_str v) (\<lambda>rid.
     field (required ''created_at'' (read_datetime L) v) (\<lambda>created.
     field (required ''ai_provider'' read_str v) (\<lambda>provider.
     field (defaulted ''model_id'' None (read_opt read_str) v) (\<lambda>model.
     field (required ''prompt_version'' read_str v) (\<lambda>version.
     field (required ''case_count'' (read_int L) v) (\<lambda>n.
     field (required ''cause_candidate_accuracy'' (read_float L) v) (\<lambda>accuracy.
     field (required ''document_hit_rate'' (read_float L) v) (\<lambda>hits.
     field (required ''resolution_time_reduction'' (read_float L) v) (\<lambda>reduction.
     field (required ''cases'' (read_list (validate_case_result L)) v) (\<lambda>cases.
       Some \<lparr>ev_id = rid, ev_created_at = created, ev_ai_provider = provider,
             ev_model_id = model, ev_prompt_version = version, ev_case_count = n,
             ev_cause_candidate_accuracy = accuracy, ev_document_hit_rate = hits,
             ev_resolution_time_reduction = reduction, ev_cases = cases\<rparr>))))))))))"

definition wf_run :: "evaluation_run \<Rightarrow> bool" where
  "wf_run r \<longleftrightarrow>
     finite_double (ev_cause_candidate_accuracy r) \<and> finite_double (ev_document_hit_rate r) \<and>
     finite_double (ev_resolution_time_reduction r) \<and> (\<forall>c \<in> set (ev_cases r). wf_case_result c)"

interpretation run_store: stored_entity dump_run validate_run wf_run "''evaluation_run''"
proof
  show "key_order_blind (validate_run L)" for L
    unfolding validate_run_def
    by (intro field_blind required_blind defaulted_blind const_blind read_opt_blind read_list_blind
        case_result_blind scalar_readers_blind)
  show "lib_ok L \<Longrightarrow> wf_run x \<Longrightarrow> validate_run L (dump_run L x) = Some x" for L x
    by (simp add: validate_run_def dump_run_def wf_run_def codec_simps case_result_model.read_dumped_list)
  show "lib_ok L \<Longrightarrow> wf_run x \<Longrightarrow> validate_run L (stored L (dump_run L x)) = Some x" for L x
    by (simp add: validate_run_def dump_run_def wf_run_def codec_simps o_def
        case_result_model.read_stored_list)
  show "wf_run x \<Longrightarrow> finite_numbers (dump_run L x)" for L x
    using case_result_model.dump_list_finite [of "ev_cases x" L]
    by (simp add: dump_run_def wf_run_def finite_double_finite)
qed (simp add: entity_types_def)

end
