(* ===== verification/Pysum.thy ===== *)
theory Pysum
  imports Pyfloat
begin

text \<open>
  \<open>sum\<close> of floats as Python 3.12 computes it: the compensated summation of Neumaier, whose
  correction is added at the end unless it is zero or not finite. The lemmas bound its error, so
  that a mean of scores between 0 and 1 is itself between 0 and 1.
\<close>

definition float_abs :: "pyfloat \<Rightarrow> pyfloat" where
  "float_abs f = (case f of Fin x \<Rightarrow> Fin \<bar>x\<bar> | NaN \<Rightarrow> NaN | _ \<Rightarrow> PInf)"

text \<open>What the addition \<open>t = f + x\<close> lost.\<close>

definition lost_part :: "pyfloat \<Rightarrow> pyfloat \<Rightarrow> pyfloat \<Rightarrow> pyfloat" where
  "lost_part f x t =
     (if float_le (float_abs x) (float_abs f) then float_add (float_sub f t) x
      else float_add (float_sub x t) f)"

fun neumaier :: "pyfloat \<Rightarrow> pyfloat \<Rightarrow> pyfloat list \<Rightarrow> pyfloat" where
  "neumaier f c [] = (if float_true c \<and> is_finite_float c then float_add f c else f)"
| "neumaier f c (x # xs) =
     (let t = float_add f x in neumaier t (float_add c (lost_part f x t)) xs)"

fun float_sum :: "pyfloat list \<Rightarrow> pyfloat" where
  "float_sum [] = Fin 0"
| "float_sum (x # xs) = neumaier (float_add (Fin 0) x) (Fin 0) xs"

text \<open>\<open>sum(xs) / n\<close> for an \<open>int\<close> \<open>n\<close>; \<open>None\<close> is \<open>ZeroDivisionError\<close>.\<close>

definition float_mean :: "pyfloat list \<Rightarrow> nat \<Rightarrow> pyfloat option" where
  "float_mean xs n = float_div (float_sum xs) (to_float (of_nat n))"

section \<open>Rounding errors\<close>

abbreviation ulp :: rat where
  "ulp \<equiv> 1 / 2 ^ 53"

lemma round_half_even_nearest: "\<bar>of_int (round_half_even y) - y\<bar> \<le> \<bar>of_int k - y\<bar>"
proof (cases "k = round_half_even y")
  case False
  then have "1 \<le> \<bar>k - round_half_even y\<bar>" by simp
  then have "(1 :: rat) \<le> \<bar>of_int k - of_int (round_half_even y)\<bar>"
    by (metis of_int_1_le_iff of_int_abs of_int_diff)
  then show ?thesis using round_half_even_near [of y] by linarith
qed simp

lemma quantum_nonzero [simp]: "quantum x \<noteq> 0"
  using quantum_pos [of x] by (rule less_imp_neq [symmetric])

lemma abs_quantum [simp]: "\<bar>quantum x\<bar> = quantum x"
  using quantum_pos [of x] by (simp add: less_imp_le)

lemma rnd_half: "\<bar>rnd x - x\<bar> \<le> quantum x / 2"
proof (cases "x = 0")
  case True
  then show ?thesis by (simp add: less_imp_le)
next
  case False
  have "rnd x - x = (of_int (round_half_even (x / quantum x)) - x / quantum x) * quantum x"
    using False by (simp add: rnd_def left_diff_distrib less_imp_le)
  then have "\<bar>rnd x - x\<bar> = \<bar>of_int (round_half_even (x / quantum x)) - x / quantum x\<bar> * quantum x"
    by (simp add: abs_mult)
  also have "\<dots> \<le> 1 / 2 * quantum x"
    using round_half_even_near by (intro mult_right_mono) (simp_all add: less_imp_le)
  finally show ?thesis by simp
qed

lemma rnd_nearest_grid: "\<bar>rnd x - x\<bar> \<le> \<bar>of_int k * quantum x - x\<bar>"
proof (cases "x = 0")
  case False
  have e: "of_int j * quantum x - x = (of_int j - x / quantum x) * quantum x" for j
    by (simp add: left_diff_distrib)
  have "\<bar>of_int (round_half_even (x / quantum x)) - x / quantum x\<bar> * quantum x \<le>
      \<bar>of_int k - x / quantum x\<bar> * quantum x"
    using round_half_even_nearest by (intro mult_right_mono) (simp_all add: less_imp_le)
  then show ?thesis using False
    by (simp add: rnd_def e abs_mult)
qed simp

lemma quantum_exp: "quantum x = 2 powi (max (ilog2 \<bar>x\<bar>) (-1022) - 52)"
  by (simp add: quantum_def)

lemma coarser_grid:
  assumes "is_double x" "max (ilog2 \<bar>y\<bar>) (-1022) \<le> max (ilog2 \<bar>x\<bar>) (-1022)"
  shows "\<exists>k. x = of_int k * quantum y"
proof -
  obtain i where i: "x = of_int i * quantum x" using assms(1) is_double_grid by blast
  define n :: int where "n = 2 ^ nat (max (ilog2 \<bar>x\<bar>) (-1022) - max (ilog2 \<bar>y\<bar>) (-1022))"
  have q: "quantum x = of_int n * quantum y"
    using powi_two_split [of "max (ilog2 \<bar>y\<bar>) (-1022) - 52" "max (ilog2 \<bar>x\<bar>) (-1022) - 52"] assms(2)
    by (simp add: quantum_exp n_def)
  have "x = of_int (i * n) * quantum y"
    using i unfolding q by (simp only: of_int_mult mult.assoc)
  then show ?thesis ..
qed

lemma ilog2_mono: "0 < x \<Longrightarrow> x \<le> y \<Longrightarrow> ilog2 x \<le> ilog2 y"
  using ilog2_bounds(1) [of x] by (intro ilog2_ge) simp

lemma multiple_of_smaller: "is_double x \<Longrightarrow> 0 < y \<Longrightarrow> y \<le> x \<Longrightarrow> \<exists>k. x = of_int k * quantum y"
  using ilog2_mono [of y x] by (intro coarser_grid) auto

text \<open>Rounding goes to a nearest double, of a positive number.\<close>

lemma rnd_nearest:
  assumes x: "0 < x" and y: "is_double y"
  shows "\<bar>rnd x - x\<bar> \<le> \<bar>y - x\<bar>"
proof (cases "2 powi (ilog2 x) \<le> y \<or> ilog2 x \<le> -1022")
  case True
  have "\<exists>k. y = of_int k * quantum x"
  proof (cases "2 powi (ilog2 x) \<le> y")
    case True
    then have "0 < y" using powi_two_pos [of "ilog2 x"] by linarith
    moreover have "ilog2 x \<le> ilog2 y" using True by (rule ilog2_ge)
    ultimately show ?thesis using x by (intro coarser_grid y) auto
  next
    case False
    then show ?thesis using True x by (intro coarser_grid y) auto
  qed
  then show ?thesis using rnd_nearest_grid [of x] by metis
next
  case False
  define b where "b = (2 :: rat) powi (ilog2 x)"
  have b: "b \<le> x" "y < b" using False ilog2_bounds(1) [OF x] by (simp_all add: b_def)
  have "b = of_int (2 ^ 52) * quantum x"
    using powi_two_split [of "ilog2 x - 52" "ilog2 x"] False x by (simp add: quantum_exp b_def max_def)
  then have "\<bar>rnd x - x\<bar> \<le> \<bar>b - x\<bar>" using rnd_nearest_grid [of x "2 ^ 52"] by simp
  then show ?thesis using b by simp
qed

text \<open>A sum of two doubles is rounded with a small relative error.\<close>

lemma tiny_grid: "is_double x \<Longrightarrow> \<exists>k. x = of_int k * 2 powi (-1074)"
  using coarser_grid [of x "2 powi (-1074)"] ilog2_less [of "2 powi (-1074)" "-1022"]
  by (simp add: quantum_exp powi_two_less_iff)

lemma sum_rounding:
  assumes "is_double a" "is_double b"
  shows "\<bar>rnd (a + b) - (a + b)\<bar> \<le> ulp * \<bar>a + b\<bar>"
proof (cases "2 powi (-1022) \<le> \<bar>a + b\<bar>")
  case True
  define z where "z = a + b"
  have pos: "0 < \<bar>z\<bar>" using True powi_two_pos [of "-1022"] unfolding z_def by linarith
  have "-1022 \<le> ilog2 \<bar>z\<bar>" using True unfolding z_def by (rule ilog2_ge)
  then have "quantum z = 2 powi (ilog2 \<bar>z\<bar> - 52)" by (simp add: quantum_exp)
  moreover have "2 powi (ilog2 \<bar>z\<bar>) = of_int (2 ^ 52) * (2 :: rat) powi (ilog2 \<bar>z\<bar> - 52)"
    using powi_two_split [of "ilog2 \<bar>z\<bar> - 52" "ilog2 \<bar>z\<bar>"] by simp
  ultimately have "2 ^ 52 * quantum z \<le> \<bar>z\<bar>" using ilog2_bounds(1) [OF pos] by simp
  then have "quantum z / 2 \<le> ulp * \<bar>z\<bar>" by simp
  then show ?thesis using rnd_half [of z] unfolding z_def by linarith
next
  case False
  obtain i j where "a = of_int i * 2 powi (-1074)" "b = of_int j * 2 powi (-1074)"
    using tiny_grid assms by metis
  then have z: "a + b = of_int (i + j) * 2 powi (-1074)" by (simp add: distrib_right)
  have "rnd (a + b) = a + b"
  proof (cases "a + b = 0")
    case True
    then show ?thesis by (simp only: rnd_zero)
  next
    case nz: False
    have "ilog2 \<bar>a + b\<bar> < -1022" using False nz by (intro ilog2_less) auto
    then have "quantum (a + b) = 2 powi (-1074)" by (simp add: quantum_exp)
    with z have "a + b = of_int (i + j) * quantum (a + b)" by (simp only:)
    then show ?thesis by (rule rnd_grid)
  qed
  then show ?thesis by simp
qed

text \<open>
  The compensation step is exact: of two non-negative doubles, the larger minus the rounded sum
  is a double, and so is what the rounding of the sum lost.
\<close>

lemma fast_two_sum:
  assumes a: "is_double a" and b: "is_double b" and le: "0 \<le> b" "b \<le> a"
  defines "t \<equiv> rnd (a + b)"
  shows "rnd (a - t) = a - t" "rnd (a - t + b) = a + b - t"
proof -
  have "rnd (a - t) = a - t \<and> rnd (a - t + b) = a + b - t"
  proof (cases "b = 0")
    case True
    then show ?thesis using a by (simp add: t_def is_double_def)
  next
    case False
    then have bp: "0 < b" and ap: "0 < a" using le by simp_all
    have tlo: "a \<le> t" using rnd_mono [of a "a + b"] a le by (simp add: t_def is_double_def)
    have "\<bar>t - (a + b)\<bar> \<le> \<bar>a - (a + b)\<bar>" unfolding t_def using a ap le by (intro rnd_nearest) simp_all
    then have err: "\<bar>a + b - t\<bar> \<le> b" using le by simp
    have dt: "is_double t" by (simp add: t_def)
    have small: "\<bar>k\<bar> \<le> 2 ^ 53" if v: "v = of_int k * quantum c" "\<bar>v\<bar> \<le> c" "0 < c" for v k c
    proof -
      have "\<bar>of_int k\<bar> * quantum c \<le> c" using v(1,2) by (simp add: abs_mult)
      also have "c \<le> 2 ^ 53 * quantum c" using less_quantum [OF v(3)] by simp
      finally have "\<bar>of_int k\<bar> \<le> (2 ^ 53 :: rat)" by (rule mult_right_le_imp_le) simp
      then have "(of_int \<bar>k\<bar> :: rat) \<le> of_int (2 ^ 53)" by simp
      then show "\<bar>k\<bar> \<le> 2 ^ 53" by (simp only: of_int_le_iff)
    qed
    have grid: "rnd v = v" if v: "v = of_int k * quantum c" "\<bar>v\<bar> \<le> c" "0 < c" for v k c
      using small [OF v] by (intro rnd_exact [of v k "max (ilog2 \<bar>c\<bar>) (-1022) - 52"])
        (simp_all add: v(1) quantum_exp)
    obtain i j where "a = of_int i * quantum a" "t = of_int j * quantum a"
      using multiple_of_smaller [OF a ap] multiple_of_smaller [OF dt ap tlo] by blast
    then have m1: "a - t = of_int (i - j) * quantum a" by (metis left_diff_distrib of_int_diff)
    obtain k l m where "a = of_int k * quantum b" "b = of_int l * quantum b" "t = of_int m * quantum b"
      using multiple_of_smaller [OF a bp le(2)] multiple_of_smaller [OF b bp] multiple_of_smaller [OF dt bp] tlo le
      by (metis order_refl order_trans)
    then have m2: "a + b - t = of_int (k + l - m) * quantum b"
      by (metis left_diff_distrib distrib_right of_int_diff of_int_add)
    obtain n where n: "a = of_int n * quantum a" using multiple_of_smaller [OF a ap] by blast
    have "rnd (2 * a) = 2 * a"
    proof (rule rnd_exact)
      from n show "\<bar>n\<bar> \<le> 2 ^ 53" using ap by (intro small) auto
      show "2 * a = of_int n * 2 powi (max (ilog2 \<bar>a\<bar>) (-1022) - 51)"
        using n power_int_add [of "2 :: rat" 1 "max (ilog2 \<bar>a\<bar>) (-1022) - 52"]
        by (simp add: quantum_exp)
    qed simp
    then have "t \<le> 2 * a" using rnd_mono [of "a + b" "2 * a"] le by (simp add: t_def)
    then have "\<bar>a - t\<bar> \<le> a" using tlo by linarith
    then have "rnd (a - t) = a - t" by (rule grid [OF m1 _ ap])
    moreover have "rnd (a + b - t) = a + b - t" by (rule grid [OF m2 err bp])
    moreover have "a - t + b = a + b - t" by simp
    ultimately show ?thesis by metis
  qed
  then show "rnd (a - t) = a - t" "rnd (a - t + b) = a + b - t" by blast+
qed

section \<open>Compensated summation\<close>

text \<open>
  The state of the loop after \<open>k\<close> additions: the running sum, its compensation, and how far
  together they are from the exact sum \<open>S\<close>.
\<close>

definition sum_state :: "rat \<Rightarrow> rat \<Rightarrow> rat \<Rightarrow> rat \<Rightarrow> bool" where
  "sum_state k f c S \<longleftrightarrow>
     is_double f \<and> is_double c \<and> 0 \<le> f \<and> 0 \<le> k \<and> k \<le> 2 ^ 20 \<and> 0 \<le> S \<and> S \<le> k + 1 \<and>
     \<bar>c\<bar> \<le> 4 * ulp * (k * f) \<and> \<bar>f + c - S\<bar> \<le> 2 * ulp * ulp * (k * k * f)"

lemma sum_state_bounds:
  assumes "sum_state k f c S"
  shows "f \<le> 2 * S" "0 \<le> f + c" "f + c \<le> S + S / 2 ^ 64" "\<bar>c\<bar> \<le> f"
proof -
  have s: "0 \<le> f" "0 \<le> k" "k \<le> 2 ^ 20" "\<bar>c\<bar> \<le> 4 * ulp * (k * f)"
    "\<bar>f + c - S\<bar> \<le> 2 * ulp * ulp * (k * k * f)"
    using assms by (simp_all add: sum_state_def)
  have k1: "k * f \<le> 2 ^ 20 * f" using s by (intro mult_right_mono)
  have "k * k \<le> 2 ^ 20 * 2 ^ 20" using s by (intro mult_mono) auto
  then have k2: "k * k * f \<le> 2 ^ 40 * f" using s(1) by (intro mult_right_mono) auto
  define e where "e = \<bar>f + c - S\<bar>"
  have e: "f + c - S \<le> e" "S - (f + c) \<le> e" unfolding e_def by linarith+
  have c: "c \<le> \<bar>c\<bar>" "- c \<le> \<bar>c\<bar>" by linarith+
  have "\<bar>c\<bar> \<le> 4 * ulp * (2 ^ 20 * f)" using s(4) k1 by simp
  then have c2: "\<bar>c\<bar> \<le> f / 2 ^ 31" by simp
  have "e \<le> 2 * ulp * ulp * (2 ^ 40 * f)" using s(5) k2 unfolding e_def by simp
  then have e2: "e \<le> f / 2 ^ 65" by simp
  show "\<bar>c\<bar> \<le> f" using c2 s(1) by simp
  show f: "f \<le> 2 * S" using c c2 e e2 s(1) by simp
  show "0 \<le> f + c" using c c2 s(1) by simp
  show "f + c \<le> S + S / 2 ^ 64" using e e2 f by simp
qed

lemma sum_state_step:
  assumes st: "sum_state k f c S" and x: "is_double x" "0 \<le> x" "x \<le> 1" and k: "k + 1 \<le> 2 ^ 20"
  defines "t \<equiv> rnd (f + x)"
  shows "sum_state (k + 1) t (rnd (c + (f + x - t))) (S + x)" "is_double (f + x - t)" "0 \<le> t" "t \<le> 2 * (f + x)"
proof -
  have s: "is_double f" "is_double c" "0 \<le> f" "0 \<le> k" "0 \<le> S" "S \<le> k + 1" "\<bar>c\<bar> \<le> 4 * ulp * (k * f)"
    "\<bar>f + c - S\<bar> \<le> 2 * ulp * ulp * (k * k * f)"
    using st by (simp_all add: sum_state_def)
  define d where "d = f + x - t"
  show dd: "is_double (f + x - t)"
  proof (cases "x \<le> f")
    case True
    from fast_two_sum(2) [OF s(1) x(1,2) True] show ?thesis by (metis t_def is_double_rnd)
  next
    case False
    then have "f \<le> x" by simp
    from fast_two_sum(2) [OF x(1) s(1,3) this] show ?thesis by (metis t_def is_double_rnd add.commute)
  qed
  have ft: "f \<le> t" using rnd_mono [of f "f + x"] s(1) x(2) by (simp add: t_def is_double_def)
  show t0: "0 \<le> t" using ft s(3) by simp
  have err: "\<bar>t - (f + x)\<bar> \<le> ulp * (f + x)"
    using sum_rounding [OF s(1) x(1)] s(3) x(2) by (simp add: t_def)
  define z where "z = f + x"
  have z: "t - z \<le> ulp * z" "z - t \<le> ulp * z" using err unfolding z_def by linarith+
  have z0: "0 \<le> z" using s(3) x(2) by (simp add: z_def)
  show "t \<le> 2 * (f + x)" using z(1) z0 by (simp add: z_def [symmetric])
  have d: "d \<le> 2 * ulp * t" "- d \<le> 2 * ulp * t" using z z0 by (simp_all add: d_def z_def [symmetric])
  define c' where "c' = rnd (c + d)"
  have e: "\<bar>c' - (c + d)\<bar> \<le> ulp * \<bar>c + d\<bar>"
    using sum_rounding [OF s(2), of d] dd by (simp add: c'_def d_def)
  have A: "k * f \<le> k * t" using ft s(4) by (rule mult_left_mono)
  have B: "k * k * f \<le> k * k * t" using ft s(4) by (intro mult_left_mono) simp_all
  have C: "k * t \<le> 2 ^ 20 * t" using k t0 by (intro mult_right_mono) simp_all
  have cd: "\<bar>c + d\<bar> \<le> 4 * ulp * (k * t) + 2 * ulp * t" using s(7) d A by simp
  have "(k + 1) * t = k * t + t" "(k + 1) * (k + 1) * t = k * k * t + 2 * (k * t) + t"
    by (simp_all add: algebra_simps)
  moreover have "\<bar>c'\<bar> \<le> 4 * ulp * (k * t + t)"
  proof -
    have "\<bar>c'\<bar> \<le> \<bar>c + d\<bar> + \<bar>c' - (c + d)\<bar>" by linarith
    then show ?thesis using e cd C t0 by simp
  qed
  moreover have "\<bar>t + c' - (S + x)\<bar> \<le> 2 * ulp * ulp * (k * k * t + 2 * (k * t) + t)"
  proof -
    have "t + c' - (S + x) = (f + c - S) + (c' - (c + d))" by (simp add: d_def)
    then have "\<bar>t + c' - (S + x)\<bar> \<le> \<bar>f + c - S\<bar> + \<bar>c' - (c + d)\<bar>" by linarith
    then have "\<bar>t + c' - (S + x)\<bar> \<le> 2 * ulp * ulp * (k * k * t) + ulp * (4 * ulp * (k * t) + 2 * ulp * t)"
      using s(8) e cd B by (simp add: add_divide_distrib)
    then show ?thesis by (simp add: algebra_simps)
  qed
  ultimately show "sum_state (k + 1) t (rnd (c + (f + x - t))) (S + x)"
    using s x k t0 by (simp add: sum_state_def c'_def d_def t_def)
qed

lemma rnd_just_above:
  assumes n: "is_double n" "0 < n" and z: "0 \<le> z" "z \<le> n + n / 2 ^ 64"
  shows "rnd z \<le> n"
proof (cases "z \<le> n")
  case True
  then show ?thesis using rnd_mono [of z n] n by (simp add: is_double_def)
next
  case False
  then have "\<bar>rnd z - z\<bar> \<le> \<bar>n - z\<bar>" using n by (intro rnd_nearest) simp_all
  then have le: "rnd z \<le> n + n / 2 ^ 63" using False z by simp
  show ?thesis
  proof (rule ccontr)
    assume "\<not> rnd z \<le> n"
    then have "rnd z \<le> 2 ^ 53 * (rnd z - n)" using n by (intro double_gap) simp_all
    then show False using le \<open>\<not> rnd z \<le> n\<close> n(2) by simp
  qed
qed

text \<open>The loop on floats, as long as nothing is near an overflow.\<close>

lemma to_float_fin: "\<bar>z\<bar> \<le> 2 ^ 53 \<Longrightarrow> to_float z = Fin (rnd z)"
proof -
  assume z: "\<bar>z\<bar> \<le> 2 ^ 53"
  have "\<exists>v. to_float z = Fin v" using to_float_between [of "- (2 ^ 53)" z "2 ^ 53"] z by (auto simp: abs_le_iff)
  then show ?thesis by (auto simp: to_float_def Let_def split: if_splits)
qed

lemma to_float_double: "to_float z = Fin v \<Longrightarrow> is_double v"
  by (auto simp: to_float_def Let_def split: if_splits)

lemma float_step:
  assumes "is_double f" "is_double x" "0 \<le> f" "0 \<le> x" "f \<le> 2 ^ 22" "x \<le> 1"
  defines "t \<equiv> rnd (f + x)"
  shows "float_add (Fin f) (Fin x) = Fin t" "lost_part (Fin f) (Fin x) (Fin t) = Fin (f + x - t)"
    "t \<le> 2 ^ 23"
proof -
  have "rnd (f + x) \<le> rnd (of_int (2 ^ 23))" using assms by (intro rnd_mono) simp
  then show t: "t \<le> 2 ^ 23" using is_double_int [of "2 ^ 23"] by (simp add: t_def is_double_def)
  have t0: "0 \<le> t" using assms by (simp add: t_def rnd_nonneg)
  show "float_add (Fin f) (Fin x) = Fin t" using assms by (simp add: to_float_fin t_def)
  show "lost_part (Fin f) (Fin x) (Fin t) = Fin (f + x - t)"
  proof (cases "x \<le> f")
    case True
    note fs = fast_two_sum [OF assms(1,2,4) True, folded t_def]
    have "to_float (f - t) = Fin (f - t)" using fs(1) assms t t0 by (simp add: to_float_fin abs_le_iff)
    moreover have "to_float (f - t + x) = Fin (f + x - t)"
      using fs(2) assms t t0 by (simp add: to_float_fin abs_le_iff)
    ultimately show ?thesis using True assms by (simp add: lost_part_def float_abs_def float_sub_def)
  next
    case False
    then have "f \<le> x" by simp
    note fs = fast_two_sum [OF assms(2,1,3) this, unfolded add.commute [of x f], folded t_def]
    have "to_float (x - t) = Fin (x - t)" using fs(1) assms t t0 by (simp add: to_float_fin abs_le_iff)
    moreover have "to_float (x - t + f) = Fin (f + x - t)"
      using fs(2) assms t t0 by (simp add: to_float_fin abs_le_iff)
    ultimately show ?thesis using False assms by (simp add: lost_part_def float_abs_def float_sub_def)
  qed
qed

lemma neumaier_bounds:
  assumes "sum_state k f c S" "\<forall>x \<in> set xs. is_double x \<and> 0 \<le> x \<and> x \<le> 1"
    and "k + of_nat (length xs) + 1 \<le> 2 ^ 20" "S + of_nat (length xs) \<le> of_nat n" "0 < n" "n \<le> 2 ^ 20"
  shows "\<exists>r. neumaier (Fin f) (Fin c) (map Fin xs) = Fin r \<and> 0 \<le> r \<and> r \<le> of_nat n"
  using assms(1-4)
proof (induction xs arbitrary: k f c S)
  case Nil
  note b = sum_state_bounds [OF Nil(1)]
  have s: "is_double f" "0 \<le> f" "0 \<le> S" "S \<le> k + 1" "k \<le> 2 ^ 20"
    using Nil(1) by (simp_all add: sum_state_def)
  have "\<bar>f + c\<bar> \<le> 2 ^ 53" using b s by simp
  then have run: "neumaier (Fin f) (Fin c) [] = Fin (rnd (f + c))"
    using s(1) by (auto simp: to_float_fin float_true_def is_finite_float_def is_double_def)
  have "is_double (of_nat n :: rat)" using is_double_int [of "int n"] assms(6) by simp
  moreover have "f + c \<le> of_nat n + of_nat n / 2 ^ 64" using b(3) Nil(4) by simp
  ultimately have "rnd (f + c) \<le> of_nat n" using b(2) assms(5) by (intro rnd_just_above) simp_all
  then show ?case using run rnd_nonneg [OF b(2)] by simp
next
  case (Cons x xs)
  have x: "is_double x" "0 \<le> x" "x \<le> 1" using Cons.prems(2) by simp_all
  have k: "k + 1 \<le> 2 ^ 20" using Cons.prems(3) by simp
  have s: "is_double f" "0 \<le> f" "S \<le> k + 1" "f \<le> 2 * S" "is_double c" "\<bar>c\<bar> \<le> f"
    using Cons.prems(1) sum_state_bounds [OF Cons.prems(1)] by (simp_all add: sum_state_def)
  define t where "t = rnd (f + x)"
  define d where "d = f + x - t"
  note st = sum_state_step [OF Cons.prems(1) x k, folded t_def, folded d_def]
  have f: "f \<le> 2 ^ 22" using s k by simp
  note fl = float_step [OF s(1) x(1) s(2) x(2) f x(3), folded t_def, folded d_def]
  have "\<bar>c + d\<bar> \<le> 2 ^ 53" using s(2,6) f x st(3) fl(3) by (simp add: d_def abs_le_iff)
  then have "neumaier (Fin f) (Fin c) (map Fin (x # xs)) =
      neumaier (Fin t) (Fin (rnd (c + d))) (map Fin xs)"
    using fl by (simp add: to_float_fin)
  moreover have "\<exists>r. neumaier (Fin t) (Fin (rnd (c + d))) (map Fin xs) = Fin r \<and> 0 \<le> r \<and> r \<le> of_nat n"
    using Cons.prems x by (intro Cons.IH [OF st(1)]) simp_all
  ultimately show ?case by simp
qed

text \<open>
  The mean of scores is a score: the compensated sum of up to \<open>2 ^ 20\<close> doubles in [0, 1] is
  at most their number, in spite of all roundings.
\<close>

lemma float_mean_unit:
  assumes "xs \<noteq> []" "length xs \<le> 2 ^ 20" "\<forall>f \<in> set xs. \<exists>x. f = Fin x \<and> is_double x \<and> 0 \<le> x \<and> x \<le> 1"
  shows "\<exists>m. float_mean xs (length xs) = Some (Fin m) \<and> is_double m \<and> 0 \<le> m \<and> m \<le> 1"
proof -
  define fin where "fin f = (case f of Fin x \<Rightarrow> x | _ \<Rightarrow> 0)" for f
  have "map Fin (map fin xs) = xs" using assms(3) by (induction xs) (auto simp: fin_def)
  moreover obtain x ys where xs: "map fin xs = x # ys" using assms(1) by (cases xs) auto
  ultimately have eq: "xs = map Fin (x # ys)" by simp
  have d: "is_double x" "0 \<le> x" "x \<le> 1" "\<forall>y \<in> set ys. is_double y \<and> 0 \<le> y \<and> y \<le> 1"
    using assms(3) by (auto simp: eq)
  define n where "n = length xs"
  have n: "length ys + 1 = n" "n \<le> 2 ^ 20" "0 < n" using assms(2) eq by (simp_all add: n_def)
  have "sum_state 0 x 0 x" using d by (simp add: sum_state_def is_double_def)
  moreover have "of_nat (length ys) + (1 :: rat) \<le> 2 ^ 20"
    using n of_nat_mono [of n "2 ^ 20", where ?'a = rat] by simp
  moreover have "x + of_nat (length ys) \<le> of_nat n" using n(1) d(3) by auto
  ultimately obtain r where r: "neumaier (Fin x) (Fin 0) (map Fin ys) = Fin r" "0 \<le> r" "r \<le> of_nat n"
    using neumaier_bounds [of 0 x 0 x ys n] d(4) n by auto
  have "to_float x = Fin x" using d by (simp add: to_float_fin is_double_def)
  then have s: "float_sum xs = Fin r" using r(1) by (simp add: eq)
  have "rnd (of_int (int n)) = of_int (int n)"
    using is_double_int [of "int n"] n by (simp add: is_double_def)
  then have c: "to_float (of_nat n) = Fin (of_nat n)" using n by (simp add: to_float_fin)
  have "0 \<le> r / of_nat n" "r / of_nat n \<le> 1" using r n by simp_all
  then have "\<exists>m. to_float (r / of_nat n) = Fin m \<and> is_double m \<and> 0 \<le> m \<and> m \<le> 1"
    using to_float_between [of 0 "r / of_nat n" 1] to_float_double by auto
  then show ?thesis using s c n by (auto simp: float_mean_def n_def [symmetric])
qed

end
