(* ===== verification/Analysis.thy ===== *)
theory Analysis
  imports ReviewModel Pysum
begin

text \<open>
  The operations of \<open>services/ai_analysis/app/main.py\<close>: the evidence given to an engine, the
  analysis of an incident with the review it may open, the reviews, and the evaluation of the
  engine on a dataset.
\<close>

section \<open>The context of an analysis\<close>

text \<open>\<open>list(dict.fromkeys(xs))\<close>: each element once, at its first place.\<close>

definition fromkeys :: "'a list \<Rightarrow> 'a list" where
  "fromkeys xs = rev (remdups (rev xs))"

definition newline :: string where
  "newline = [char_of (10 :: nat)]"

definition retrieval_query :: "analysis_request \<Rightarrow> string" where
  "retrieval_query r = rq_sensor_summary r @ newline @ rq_log_summary r"

definition http_get ::
  "('t, 'e) http_env_scheme \<Rightarrow> string \<Rightarrow> string option \<Rightarrow>
   (('t, 'w) world_scheme, nat \<times> json option) act" where
  "http_get E url authorization =
     http_send E \<lparr>call_method = ''GET'', call_url = url,
                  call_headers = bearer_headers authorization, call_body = JNull\<rparr>"

definition remote_equipment ::
  "('t, 'e) http_env_scheme \<Rightarrow> string \<Rightarrow> string \<Rightarrow> string option \<Rightarrow>
   (('t, 'w) world_scheme, json \<times> json) act" where
  "remote_equipment E url equipment_id authorization =
     bnd (http_get E (url @ ''/api/v1/equipment/'' @ equipment_id) authorization) (\<lambda>(code, body).
     bnd (raise_for_status code) (\<lambda>_.
     bnd (http_get E (url @ ''/api/v1/equipment/'' @ equipment_id @ ''/maintenance'') authorization)
       (\<lambda>(code', body').
     bnd (raise_for_status code') (\<lambda>_.
     bnd (response_json body) (\<lambda>equipment.
     bnd (response_json body') (\<lambda>maintenance_history.
     ret (equipment, maintenance_history)))))))"

definition value_or_null :: "json option \<Rightarrow> json" where
  "value_or_null v = (case v of None \<Rightarrow> JNull | Some x \<Rightarrow> x)"

definition of_equipment :: "string \<Rightarrow> json \<Rightarrow> ('w, json list) act" where
  "of_equipment equipment_id v =
     bnd (of_result (get_method v ''equipment_id'' JNull)) (\<lambda>x.
     ret (if x = JStr equipment_id then [v] else []))"

definition local_equipment ::
  "('t, 'e) env_scheme \<Rightarrow> string \<Rightarrow> (('t, 'w) world_scheme, json \<times> json) act" where
  "local_equipment E equipment_id =
     bnd (repo_get E ''equipment'' equipment_id) (\<lambda>equipment.
     bnd (repo_list E ''maintenance'') (\<lambda>maintenance_values.
     bnd (each (of_equipment equipment_id) maintenance_values) (\<lambda>maintenance_history.
     ret (value_or_null equipment, JList (concat maintenance_history)))))"

definition equipment_context ::
  "('t, 'e) http_env_scheme \<Rightarrow> string \<Rightarrow> string option \<Rightarrow>
   (('t, 'w) world_scheme, json \<times> json) act" where
  "equipment_context E equipment_id authorization =
     (if is_set (asset_service_url (settings_of E))
      then remote_equipment E (the (asset_service_url (settings_of E))) equipment_id authorization
      else local_equipment E equipment_id)"

definition related_ids :: "analysis_request \<Rightarrow> retrieved_chunk list \<Rightarrow> string list" where
  "related_ids r chunks = fromkeys (rq_related_document_ids r @ map rc_document_id chunks)"

definition chunk_versions :: "retrieved_chunk list \<Rightarrow> (string, string) fmap" where
  "chunk_versions chunks =
     fold (\<lambda>c. fmupd (rc_document_id c) (str_or (rc_document_version c) ''unknown'')) chunks fmempty"

definition fetch_document ::
  "('t, 'e) http_env_scheme \<Rightarrow> string \<Rightarrow> string option \<Rightarrow> (('t, 'w) world_scheme, json) act" where
  "fetch_document E document_id authorization =
     (if is_set (knowledge_service_url (settings_of E)) then
        bnd (http_get E (the (knowledge_service_url (settings_of E)) @ ''/api/v1/documents/by-id/'' @
               document_id) authorization) (\<lambda>(code, body).
        if code = 200 then response_json body else ret JNull)
      else bnd (repo_get E ''document'' document_id) (\<lambda>v. ret (value_or_null v)))"

definition version_text :: "lib \<Rightarrow> json \<Rightarrow> exn + string" where
  "version_text L document =
     (if truthy document then
        (case get_method document ''version'' (JStr ''unknown'') of
           Inl e \<Rightarrow> Inl e
         | Inr v \<Rightarrow> Inr (py_str L v))
      else Inr ''unknown'')"

fun add_versions ::
  "('t, 'e) http_env_scheme \<Rightarrow> string option \<Rightarrow> string list \<Rightarrow> (string, string) fmap \<Rightarrow>
   (('t, 'w) world_scheme, (string, string) fmap) act" where
  "add_versions E authorization [] versions = ret versions"
| "add_versions E authorization (document_id # ids) versions =
     (if document_id |\<in>| fmdom versions then add_versions E authorization ids versions
      else
        bnd (fetch_document E document_id authorization) (\<lambda>document.
        bnd (of_result (version_text (lib_of E) document)) (\<lambda>v.
        add_versions E authorization ids (fmupd document_id v versions))))"

definition evidence_of ::
  "analysis_request \<Rightarrow> json \<Rightarrow> json \<Rightarrow> string list \<Rightarrow> retrieved_chunk list \<Rightarrow> json" where
  "evidence_of r equipment maintenance_history ids chunks =
     JObj (dict_union (dict_of (dump_analysis_request r))
       [(''equipment'', equipment),
        (''maintenance_history'', maintenance_history),
        (''related_document_ids'', str_list ids),
        (''retrieved_context'', JList (map dump_chunk chunks))])"

definition analysis_context ::
  "('t, 'e) ai_env_scheme \<Rightarrow> analysis_request \<Rightarrow> string option \<Rightarrow>
   (('t, 'w) world_scheme,
    json \<times> retrieved_chunk list \<times> string list \<times> (string, string) fmap) act" where
  "analysis_context E request authorization =
     bnd (retrieve_chunks E (retrieval_query request) 5 authorization) (\<lambda>chunks.
     bnd (equipment_context E (rq_equipment_id request) authorization) (\<lambda>(equipment, maintenance_history).
     let ids = related_ids request chunks
     in bnd (add_versions E authorization ids (chunk_versions chunks)) (\<lambda>versions.
        ret (evidence_of request equipment maintenance_history ids chunks, chunks, ids, versions))))"

section \<open>Generation\<close>

text \<open>\<open>generated.pop("_audit", {})\<close>: the entry, and the object without it.\<close>

definition pop_audit :: "json \<Rightarrow> exn + json \<times> json" where
  "pop_audit v =
     (case v of
        JObj d \<Rightarrow> Inr (dict_get_or d ''_audit'' (JObj []), JObj (AList.delete ''_audit'' d))
      | _ \<Rightarrow> Inl (AttributeError ''pop''))"

definition audit_from ::
  "('t, 'e) env_scheme \<Rightarrow> dict \<Rightarrow> (string, string) fmap \<Rightarrow> int \<Rightarrow> int \<Rightarrow> int \<Rightarrow> analysis_audit option" where
  "audit_from E a versions input_tokens output_tokens now =
     (let s = settings_of E; L = lib_of E
      in field (read_opt read_str (py_or (get_null a ''model_id'') (opt_str (bedrock_model_id s)))) (\<lambda>model.
         field (read_opt read_str (get_null a ''request_id'')) (\<lambda>request.
         Some \<lparr>aa_ai_provider = py_str L (dict_get_or a ''ai_provider'' (JStr (ai_provider s))),
               aa_model_id = model,
               aa_prompt_version = py_str L (dict_get_or a ''prompt_version'' (JStr ''unknown'')),
               aa_prompt_hash = py_str L (dict_get_or a ''prompt_hash'' (JStr ''unknown'')),
               aa_rag_provider = rag_provider s,
               aa_document_versions = versions,
               aa_guardrail_id = bedrock_guardrail_id s,
               aa_guardrail_version = bedrock_guardrail_version s,
               aa_guardrail_action = py_str L (dict_get_or a ''guardrail_action'' (JStr ''unknown'')),
               aa_request_id = request,
               aa_input_tokens = input_tokens, aa_output_tokens = output_tokens,
               aa_created_at = now\<rparr>)))"

definition make_audit ::
  "('t, 'e) env_scheme \<Rightarrow> json \<Rightarrow> (string, string) fmap \<Rightarrow>
   (('t, 'w) world_scheme, analysis_audit) act" where
  "make_audit E entry versions =
     bnd (of_result (get_method entry ''input_tokens'' (JInt 0))) (\<lambda>i.
     bnd (of_result (py_int i)) (\<lambda>input_tokens.
     bnd (of_result (get_method entry ''output_tokens'' (JInt 0))) (\<lambda>n.
     bnd (of_result (py_int n)) (\<lambda>output_tokens.
     bnd (now_utc E) (\<lambda>now.
     of_option ValidationError
       (audit_from E (dict_of entry) versions input_tokens output_tokens now))))))"

definition generate ::
  "('t, 'e) ai_env_scheme \<Rightarrow> analysis_request \<Rightarrow> string option \<Rightarrow>
   (('t, 'w) world_scheme, json \<times> retrieved_chunk list \<times> string list \<times> analysis_audit) act" where
  "generate E request authorization =
     bnd (analysis_context E request authorization) (\<lambda>(evidence, chunks, ids, versions).
     bnd (of_result (get_analysis_engine (settings_of E))) (\<lambda>g.
     bnd (engine_analyze E g evidence) (\<lambda>answer.
     bnd (of_result (pop_audit answer)) (\<lambda>(entry, generated).
     bnd (make_audit E entry versions) (\<lambda>audit.
     ret (generated, chunks, ids, audit))))))"

section \<open>Analyses\<close>

text \<open>\<open>[Model.model_validate(x) for x in generated[key]]\<close>\<close>

definition generated_list ::
  "(lib \<Rightarrow> json \<Rightarrow> 'a option) \<Rightarrow> ('t, 'e) env_scheme \<Rightarrow> json \<Rightarrow> string \<Rightarrow> ('w, 'a list) act" where
  "generated_list validate E generated key =
     bnd (of_result (sub_item generated key)) (\<lambda>v.
     bnd (of_result (py_iter v)) (\<lambda>items.
     each (validated validate E) items))"

definition result_of ::
  "('t, 'e) ai_env_scheme \<Rightarrow> analysis_request \<Rightarrow> json \<Rightarrow> string list \<Rightarrow> analysis_audit \<Rightarrow>
   (('t, 'w) world_scheme, analysis_result) act" where
  "result_of E request generated ids audit =
     bnd (of_result (sub_item generated ''confidence'')) (\<lambda>confidence.
     bnd (of_result (sub_item generated ''risk_level'')) (\<lambda>risk.
     bnd (of_option (ValueError ''is not a valid RiskLevel'') (read_enum risk_levels risk)) (\<lambda>risk_level.
     bnd (of_result (evaluate_review_policy confidence (ids \<noteq> []) (risk_value risk_level))) (\<lambda>decision.
     bnd (new_uuid E) (\<lambda>aid.
     bnd (generated_list validate_cause E generated ''causes'') (\<lambda>causes.
     bnd (generated_list validate_step E generated ''recommended_actions'') (\<lambda>actions.
     bnd (of_option ValidationError (read_float (lib_of E) confidence)) (\<lambda>confidence.
     ret \<lparr>an_id = aid, an_incident_id = rq_incident_id request, an_risk_level = risk_level,
          an_confidence = confidence, an_causes = causes, an_related_document_ids = ids,
          an_recommended_actions = actions,
          an_expert_review_required = rd_expert_review_required decision,
          an_manager_approval_required = rd_manager_approval_required decision,
          an_review_reasons = rd_reasons decision, an_audit = Some audit,
          an_executable = False\<rparr>))))))))"

definition review_of :: "analysis_result \<Rightarrow> string \<Rightarrow> int \<Rightarrow> expert_review" where
  "review_of a rid now =
     \<lparr>er_id = rid, er_analysis_id = an_id a, er_incident_id = an_incident_id a,
      er_status = PENDING, er_reasons = an_review_reasons a, er_risk_level = an_risk_level a,
      er_confidence = an_confidence a, er_assignee_id = None, er_resolution_note = None,
      er_created_at = now, er_updated_at = now\<rparr>"

definition open_review ::
  "('t, 'e) env_scheme \<Rightarrow> analysis_result \<Rightarrow> (('t, 'w) world_scheme, unit) act" where
  "open_review E a =
     only_if (an_expert_review_required a)
       (bnd (now_utc E) (\<lambda>now.
        bnd (new_uuid E) (\<lambda>rid.
        let review = review_of a rid now
        in repo_put E ''expert_review'' (er_id review) (dump_review (lib_of E) review))))"

definition analyze_incident ::
  "('t, 'e) ai_env_scheme \<Rightarrow> principal option \<Rightarrow> string option \<Rightarrow> analysis_request \<Rightarrow>
   (('t, 'w) world_scheme, analysis_result) act" where
  "analyze_incident E caller authorization request =
     bnd (of_result (require_roles [OPERATOR_MANAGER, SYSTEM_ADMIN] caller)) (\<lambda>p.
     bnd (generate E request authorization) (\<lambda>(generated, _, ids, audit).
     bnd (result_of E request generated ids audit) (\<lambda>a.
     bnd (repo_put E ''analysis'' (an_id a) (dump_analysis (lib_of E) a)) (\<lambda>_.
     bnd (open_review E a) (\<lambda>_.
     bnd (publish_event E ''analysis.completed'' (dict_of (dump_analysis (lib_of E) a))
            (Some (an_incident_id a)) (Some (subject p)) False) (\<lambda>_.
     ret a))))))"

definition get_analysis ::
  "('t, 'e) env_scheme \<Rightarrow> string \<Rightarrow> (('t, 'w) world_scheme, analysis_result) act" where
  "get_analysis E analysis_id =
     bnd (repo_get E ''analysis'' analysis_id) (\<lambda>value.
     case value of
       None \<Rightarrow> throw (not_found ''Analysis'')
     | Some v \<Rightarrow> validated validate_analysis E v)"

definition list_analyses ::
  "('t, 'e) env_scheme \<Rightarrow> (('t, 'w) world_scheme, analysis_result list) act" where
  "list_analyses E = bnd (repo_list E ''analysis'') (each (validated validate_analysis E))"

section \<open>Expert reviews\<close>

definition list_expert_reviews ::
  "('t, 'e) env_scheme \<Rightarrow> ReviewStatus option \<Rightarrow> (('t, 'w) world_scheme, expert_review list) act" where
  "list_expert_reviews E review_status =
     bnd (repo_list E ''expert_review'') (\<lambda>values.
     bnd (each (validated validate_review E) values) (\<lambda>reviews.
     ret (sorted_descending er_updated_at
       (case review_status of
          None \<Rightarrow> reviews
        | Some s \<Rightarrow> filter (\<lambda>r. er_status r = s) reviews))))"

definition apply_review_update :: "review_update \<Rightarrow> expert_review \<Rightarrow> expert_review" where
  "apply_review_update u r =
     (let r = (case ru_assignee_id u of
                 None \<Rightarrow> r
               | Some a \<Rightarrow>
                   let r = r\<lparr>er_assignee_id := Some a\<rparr>
                   in if ru_status u = None \<and> er_status r = PENDING then r\<lparr>er_status := ASSIGNED\<rparr> else r);
          r = (case ru_status u of None \<Rightarrow> r | Some s \<Rightarrow> r\<lparr>er_status := s\<rparr>)
      in case ru_resolution_note u of None \<Rightarrow> r | Some n \<Rightarrow> r\<lparr>er_resolution_note := Some n\<rparr>)"

definition note_missing :: exn where
  "note_missing = HTTPException 422 (JStr ''Completed reviews require a note'')"

definition update_expert_review ::
  "('t, 'e) env_scheme \<Rightarrow> principal option \<Rightarrow> string \<Rightarrow> review_update \<Rightarrow>
   (('t, 'w) world_scheme, expert_review) act" where
  "update_expert_review E caller review_id update =
     bnd (of_result (require_roles [OPERATOR_MANAGER, SYSTEM_ADMIN] caller)) (\<lambda>_.
     bnd (repo_get E ''expert_review'' review_id) (\<lambda>value.
     case value of
       None \<Rightarrow> throw (not_found ''Expert review'')
     | Some v \<Rightarrow>
         bnd (validated validate_review E v) (\<lambda>stored_review.
         let review = apply_review_update update stored_review
         in if er_status review = COMPLETED \<and> \<not> is_set (er_resolution_note review)
            then throw note_missing
            else
              bnd (now_utc E) (\<lambda>now.
              let review = review\<lparr>er_updated_at := now\<rparr>
              in bnd (repo_put E ''expert_review'' (er_id review) (dump_review (lib_of E) review)) (\<lambda>_.
                 ret review)))))"

section \<open>Evaluation\<close>

definition put_case ::
  "('t, 'e) env_scheme \<Rightarrow> evaluation_case \<Rightarrow> (('t, 'w) world_scheme, unit) act" where
  "put_case E c = repo_put E ''evaluation_case'' (ec_id c) (dump_evaluation_case (lib_of E) c)"

definition register_evaluation_dataset ::
  "('t, 'e) env_scheme \<Rightarrow> principal option \<Rightarrow> evaluation_case list \<Rightarrow>
   (('t, 'w) world_scheme, evaluation_case list) act" where
  "register_evaluation_dataset E caller cases =
     bnd (of_result (require_roles [OPERATOR_MANAGER, SYSTEM_ADMIN] caller)) (\<lambda>_.
     bnd (each (put_case E) cases) (\<lambda>_.
     ret cases))"

definition list_evaluation_dataset ::
  "('t, 'e) env_scheme \<Rightarrow> (('t, 'w) world_scheme, evaluation_case list) act" where
  "list_evaluation_dataset E =
     bnd (repo_list E ''evaluation_case'') (each (validated validate_evaluation_case E))"

fun cause_candidates :: "lib \<Rightarrow> json list \<Rightarrow> exn + string list" where
  "cause_candidates L [] = Inr []"
| "cause_candidates L (item # items) =
     (case sub_item item ''cause'' of
        Inl e \<Rightarrow> Inl e
      | Inr c \<Rightarrow>
         (case cause_candidates L items of
            Inl e \<Rightarrow> Inl e
          | Inr cs \<Rightarrow> Inr (casefold L (py_str L c) # cs)))"

definition cause_matches :: "lib \<Rightarrow> string list \<Rightarrow> string \<Rightarrow> bool" where
  "cause_matches L candidates expected_cause =
     (let normalized = casefold L expected_cause
      in list_ex (\<lambda>c. has_substring normalized c \<or> has_substring c normalized) candidates)"

definition cause_match :: "lib \<Rightarrow> string list \<Rightarrow> json list \<Rightarrow> exn + pyfloat" where
  "cause_match L expected generated =
     (case cause_candidates L generated of
        Inl e \<Rightarrow> Inl e
      | Inr candidates \<Rightarrow>
          if expected = [] then Inl ZeroDivisionError
          else Inr (int_truediv (int (length (filter (cause_matches L candidates) expected)))
                 (int (length expected))))"

definition document_hit :: "retrieved_chunk list \<Rightarrow> string \<Rightarrow> bool" where
  "document_hit chunks reference =
     list_ex (\<lambda>c. reference = rc_document_id c \<or> has_substring reference (rc_location c)) chunks"

definition document_hit_rate :: "string list \<Rightarrow> retrieved_chunk list \<Rightarrow> pyfloat" where
  "document_hit_rate expected chunks =
     (if expected = [] then Fin 1
      else int_truediv (int (length (filter (document_hit chunks) expected))) (int (length expected)))"

definition resolution_time_reduction :: "evaluation_case \<Rightarrow> pyfloat option" where
  "resolution_time_reduction c =
     float_div (float_sub (ec_baseline_resolution_minutes c) (ec_actual_resolution_minutes c))
       (ec_baseline_resolution_minutes c)"

definition evaluation_request :: "evaluation_case \<Rightarrow> analysis_request" where
  "evaluation_request c =
     \<lparr>rq_incident_id = ''evaluation:'' @ ec_id c, rq_equipment_id = ec_equipment_id c,
      rq_sensor_summary = ec_sensor_summary c, rq_log_summary = ec_log_summary c,
      rq_related_document_ids = []\<rparr>"

definition evaluate_case ::
  "('t, 'e) ai_env_scheme \<Rightarrow> string option \<Rightarrow> evaluation_case \<Rightarrow>
   (('t, 'w) world_scheme, case_result \<times> analysis_audit) act" where
  "evaluate_case E authorization c =
     bnd (generate E (evaluation_request c) authorization) (\<lambda>(generated, chunks, _, audit).
     bnd (of_result (sub_item generated ''causes'')) (\<lambda>v.
     bnd (of_result (py_iter v)) (\<lambda>causes.
     bnd (of_result (cause_match (lib_of E) (ec_expected_causes c) causes)) (\<lambda>match.
     bnd (of_option ZeroDivisionError (resolution_time_reduction c)) (\<lambda>reduction.
     ret (\<lparr>cr_case_id = ec_id c, cr_cause_match = match,
           cr_document_hit_rate = document_hit_rate (ec_expected_document_ids c) chunks,
           cr_resolution_time_reduction = reduction\<rparr>, audit))))))"

definition summarize_run ::
  "('t, 'e) env_scheme \<Rightarrow> (case_result \<times> analysis_audit) list \<Rightarrow>
   (('t, 'w) world_scheme, evaluation_run) act" where
  "summarize_run E outcomes =
     (let results = map fst outcomes; run_audit = snd (last outcomes); count = length results
      in bnd (new_uuid E) (\<lambda>rid.
         bnd (now_utc E) (\<lambda>now.
         bnd (of_option ZeroDivisionError (float_mean (map cr_cause_match results) count)) (\<lambda>accuracy.
         bnd (of_option ZeroDivisionError (float_mean (map cr_document_hit_rate results) count)) (\<lambda>hits.
         bnd (of_option ZeroDivisionError
                (float_mean (map cr_resolution_time_reduction results) count)) (\<lambda>reduction.
         ret \<lparr>ev_id = rid, ev_created_at = now, ev_ai_provider = aa_ai_provider run_audit,
              ev_model_id = aa_model_id run_audit, ev_prompt_version = aa_prompt_version run_audit,
              ev_case_count = int count, ev_cause_candidate_accuracy = accuracy,
              ev_document_hit_rate = hits, ev_resolution_time_reduction = reduction,
              ev_cases = results\<rparr>))))))"

definition run_evaluation ::
  "('t, 'e) ai_env_scheme \<Rightarrow> principal option \<Rightarrow> string option \<Rightarrow>
   (('t, 'w) world_scheme, evaluation_run) act" where
  "run_evaluation E caller authorization =
     bnd (of_result (require_roles [OPERATOR_MANAGER, SYSTEM_ADMIN] caller)) (\<lambda>_.
     bnd (list_evaluation_dataset E) (\<lambda>cases.
     if cases = [] then throw (HTTPException 409 (JStr ''Evaluation dataset is empty''))
     else
       bnd (each (evaluate_case E authorization) cases) (\<lambda>outcomes.
       bnd (summarize_run E outcomes) (\<lambda>run.
       bnd (repo_put E ''evaluation_run'' (ev_id run) (dump_run (lib_of E) run)) (\<lambda>_.
       ret run)))))"

definition list_evaluation_runs ::
  "('t, 'e) env_scheme \<Rightarrow> (('t, 'w) world_scheme, evaluation_run list) act" where
  "list_evaluation_runs E =
     bnd (repo_list E ''evaluation_run'') (\<lambda>values.
     bnd (each (validated validate_run E) values) (\<lambda>runs.
     ret (sorted_descending ev_created_at runs)))"

end
