(* ===== verification/Pydec.thy ===== *)
theory Pydec
  imports Pyaccess
begin

text \<open>
  Sums and quotients of the numbers the DynamoDB client returns: Python's \<open>int\<close> and
  \<open>decimal.Decimal\<close> under the default context, 28 significant digits, half to even. A sum
  starts at the integer 0 and stays an \<open>int\<close> until the first \<open>Decimal\<close>. The client refuses
  to store a \<open>float\<close> and never returns one.
\<close>

section \<open>The decimal context\<close>

definition ilog10 :: "rat \<Rightarrow> int" where
  "ilog10 x =
     (let (n, d) = quotient_of x;
          e = int (floorlog 10 (nat n)) - int (floorlog 10 (nat d))
      in if 10 powi e \<le> x then e else e - 1)"

definition dec_unit :: "rat \<Rightarrow> rat" where
  "dec_unit x = 10 powi (ilog10 \<bar>x\<bar> - 27)"

definition dec_round :: "rat \<Rightarrow> rat" where
  "dec_round x = (if x = 0 then 0 else of_int (round_half_even (x / dec_unit x)) * dec_unit x)"

datatype number = IntNum int | DecNum rat

fun rat_of_number :: "number \<Rightarrow> rat" where
  "rat_of_number (IntNum n) = of_int n"
| "rat_of_number (DecNum d) = d"

definition number_of :: "json \<Rightarrow> exn + number" where
  "number_of v =
     (case v of
        JInt n \<Rightarrow> Inr (IntNum n)
      | JBool b \<Rightarrow> Inr (IntNum (if b then 1 else 0))
      | JDec d \<Rightarrow> Inr (DecNum d)
      | _ \<Rightarrow> Inl (TypeError ''unsupported operand type(s) for +''))"

fun number_add :: "number \<Rightarrow> number \<Rightarrow> number" where
  "number_add (IntNum a) (IntNum b) = IntNum (a + b)"
| "number_add a b = DecNum (dec_round (rat_of_number a + rat_of_number b))"

text \<open>\<open>sum(vs)\<close>, where computing the next value may raise, and \<open>sum(vs) / n\<close>.\<close>

fun number_sum :: "number \<Rightarrow> (exn + json) list \<Rightarrow> exn + number" where
  "number_sum acc [] = Inr acc"
| "number_sum acc (Inl e # vs) = Inl e"
| "number_sum acc (Inr v # vs) =
     (case number_of v of Inl e \<Rightarrow> Inl e | Inr x \<Rightarrow> number_sum (number_add acc x) vs)"

fun number_div :: "number \<Rightarrow> int \<Rightarrow> json" where
  "number_div (IntNum a) n = JFloat (int_truediv a n)"
| "number_div (DecNum d) n = JDec (dec_round (d / of_int n))"

section \<open>Rounding to 28 digits\<close>

lemma powi_ten_pos [simp]: "0 < (10 :: rat) powi e"
  by simp

lemma ilog10_bounds:
  assumes "0 < x"
  shows "10 powi ilog10 x \<le> x" "x < 10 powi (ilog10 x + 1)"
proof -
  obtain n d where q: "quotient_of x = (n, d)" by (cases "quotient_of x") auto
  from ratio_log_bounds [of 10, OF _ assms q refl] show "10 powi ilog10 x \<le> x" "x < 10 powi (ilog10 x + 1)"
    by (auto simp: ilog10_def q Let_def)
qed

lemma ilog10_less: "0 < x \<Longrightarrow> x < 10 powi e \<Longrightarrow> ilog10 x < e"
proof (rule ccontr)
  assume x: "0 < x" "x < 10 powi e" "\<not> ilog10 x < e"
  then have "(10 :: rat) powi e \<le> 10 powi ilog10 x" by (intro power_int_increasing) auto
  then show False using ilog10_bounds(1) [OF x(1)] x(2) by simp
qed

text \<open>An integer of at most 28 digits is a multiple of its own unit, and stays what it is.\<close>

lemma unit_divides:
  assumes "0 < \<bar>x\<bar>" "\<bar>x\<bar> < 10 powi 28"
  obtains m where "(0 :: int) < m" "dec_unit x * of_int m = 1"
proof
  have "ilog10 \<bar>x\<bar> \<le> 27" using ilog10_less [OF assms] by simp
  then have "dec_unit x * of_int (10 ^ nat (27 - ilog10 \<bar>x\<bar>)) = (10 :: rat) powi 0"
    by (simp add: dec_unit_def flip: power_int_of_nat power_int_add)
  then show "dec_unit x * of_int (10 ^ nat (27 - ilog10 \<bar>x\<bar>)) = 1" by simp
qed simp

lemma dec_unit_pos [simp]: "0 < dec_unit x"
  by (simp add: dec_unit_def)

lemma round_to_grid_le: "x / u \<le> of_int k \<Longrightarrow> 0 < u \<Longrightarrow> of_int (round_half_even (x / u)) * u \<le> of_int k * u"
  by (intro mult_right_mono) (simp_all add: round_half_even_le)

lemma round_to_grid_ge: "of_int k \<le> x / u \<Longrightarrow> 0 < u \<Longrightarrow> of_int k * u \<le> of_int (round_half_even (x / u)) * u"
  by (intro mult_right_mono) (simp_all add: round_half_even_ge)

lemma dec_round_between:
  assumes "0 < x" "x < 10 powi 28" "of_int a \<le> x" "x \<le> of_int b"
  shows "of_int a \<le> dec_round x" "dec_round x \<le> of_int b"
proof -
  obtain m where m: "0 < m" "dec_unit x * of_int m = 1" using unit_divides [of x] assms(1,2) by auto
  have "x / dec_unit x = x * (dec_unit x * of_int m) / dec_unit x" by (simp add: m(2))
  then have "x / dec_unit x = x * of_int m" using dec_unit_pos [of x] by simp
  then have "of_int (a * m) \<le> x / dec_unit x" "x / dec_unit x \<le> of_int (b * m)"
    using assms(3,4) m(1) by (simp_all add: mult_right_mono)
  then have "of_int (a * m) * dec_unit x \<le> dec_round x" "dec_round x \<le> of_int (b * m) * dec_unit x"
    using assms(1) round_to_grid_ge [OF _ dec_unit_pos, of "a * m" x x]
      round_to_grid_le [of x "dec_unit x" "b * m"] by (simp_all add: dec_round_def)
  moreover have "of_int (k * m) * dec_unit x = of_int k" for k using m(2) by (simp add: mult.assoc mult.commute)
  ultimately show "of_int a \<le> dec_round x" "dec_round x \<le> of_int b" by (simp_all del: of_int_mult)
qed

lemma dec_round_int: "0 \<le> k \<Longrightarrow> k < 10 ^ 28 \<Longrightarrow> dec_round (of_int k) = of_int k"
proof (cases "k = 0")
  case False
  assume k: "0 \<le> k" "k < 10 ^ 28"
  have "(of_int k :: rat) < of_int (10 ^ 28)" using k(2) by (simp only: of_int_less_iff)
  then have less: "(of_int k :: rat) < 10 powi 28" by (simp add: power_int_def)
  have "0 < (of_int k :: rat)" using k(1) False by simp
  from dec_round_between [OF this less order.refl order.refl]
  show ?thesis by (rule order.antisym [OF _ _, rotated])
qed (simp add: dec_round_def)

text \<open>The rounded number is within half a unit of its last digit.\<close>

lemma dec_round_near: "\<bar>dec_round x - x\<bar> \<le> dec_unit x / 2"
proof (cases "x = 0")
  case False
  have "dec_round x - x = (of_int (round_half_even (x / dec_unit x)) - x / dec_unit x) * dec_unit x"
    using False less_imp_neq [OF dec_unit_pos [of x]] by (simp add: dec_round_def left_diff_distrib)
  then have "\<bar>dec_round x - x\<bar> = \<bar>of_int (round_half_even (x / dec_unit x)) - x / dec_unit x\<bar> * dec_unit x"
    by (simp add: abs_mult abs_of_pos)
  also have "\<dots> \<le> 1 / 2 * dec_unit x"
    using round_half_even_near dec_unit_pos [of x] by (intro mult_right_mono) (simp_all add: less_imp_le)
  finally show ?thesis by simp
qed (simp add: dec_round_def less_imp_le)

lemma dec_unit_of_digit: "0 < x \<Longrightarrow> x < 10 \<Longrightarrow> dec_unit x \<le> 1 / 10 ^ 27"
proof -
  assume x: "0 < x" "x < (10 :: rat)"
  then have le: "ilog10 \<bar>x\<bar> - 27 \<le> -27" using ilog10_less [of x 1] by simp
  have "dec_unit x \<le> 10 powi (-27)" unfolding dec_unit_def using le by (intro power_int_increasing) simp_all
  also have "\<dots> = 1 / 10 ^ 27" by (simp add: power_int_def power_one_over)
  finally show ?thesis .
qed

section \<open>Averages of small integers\<close>

text \<open>
  Integers the client returns as \<open>Decimal\<close>, which is how it returns every stored integer, are
  summed exactly while the sum has at most 28 digits.
\<close>

lemma number_sum_decimals:
  assumes "\<forall>k \<in> set ks. 0 \<le> k" "0 \<le> s" "s + sum_list ks < 10 ^ 28"
  shows "number_sum (DecNum (of_int s)) (map (\<lambda>k. Inr (JDec (of_int k))) ks) =
    Inr (DecNum (of_int (s + sum_list ks)))"
  using assms
proof (induction ks arbitrary: s)
  case (Cons k ks)
  have "0 \<le> sum_list ks" using Cons.prems(1) by (intro sum_list_nonneg) simp
  then have "dec_round (of_int (s + k)) = of_int (s + k)" using Cons.prems by (intro dec_round_int) auto
  then show ?case using Cons.IH [of "s + k"] Cons.prems by (simp add: number_of_def add.assoc)
qed simp

lemma number_sum_stored:
  assumes "\<forall>k \<in> set ks. 0 \<le> k" "sum_list ks < 10 ^ 28" "ks \<noteq> []"
  shows "number_sum (IntNum 0) (map (\<lambda>k. Inr (JDec (of_int k))) ks) = Inr (DecNum (of_int (sum_list ks)))"
proof (cases ks)
  case (Cons k ks')
  have "0 \<le> sum_list ks'" using assms(1) Cons by (intro sum_list_nonneg) simp
  then have "dec_round (of_int k) = of_int k" using assms Cons by (intro dec_round_int) auto
  then show ?thesis using assms number_sum_decimals [of ks' k] by (simp add: Cons number_of_def)
qed (use assms in simp)

text \<open>A number between two integers, as the code returns it.\<close>

definition between_ints :: "int \<Rightarrow> int \<Rightarrow> json \<Rightarrow> bool" where
  "between_ints a b v \<longleftrightarrow>
     (case v of
        JInt n \<Rightarrow> a \<le> n \<and> n \<le> b
      | JDec d \<Rightarrow> of_int a \<le> d \<and> d \<le> of_int b
      | JFloat (Fin x) \<Rightarrow> of_int a \<le> x \<and> x \<le> of_int b
      | _ \<Rightarrow> False)"

lemma number_div_between:
  assumes "rat_of_number r = of_int t" "0 < n" "n \<le> t" "t \<le> 5 * n"
  shows "between_ints 1 5 (number_div r n)"
proof (cases r)
  case (IntNum a)
  then have a: "a = t" using assms(1) by simp
  have "\<exists>v. int_truediv t n = Fin v \<and> of_int 1 \<le> v \<and> v \<le> of_int 5"
    by (rule int_truediv_between) (use assms in simp_all)
  then show ?thesis using IntNum a by (auto simp: between_ints_def)
next
  case (DecNum d)
  then have d: "d = of_int t" using assms(1) by simp
  have n: "(0 :: rat) < of_int n" using assms(2) by simp
  have "(of_int n :: rat) \<le> of_int t" "(of_int t :: rat) \<le> of_int (5 * n)"
    using assms(3,4) by (simp_all only: of_int_le_iff)
  then have q: "of_int 1 \<le> d / of_int n" "d / of_int n \<le> of_int 5"
    using n by (simp_all add: d le_divide_eq divide_le_eq)
  have pos: "0 < d / of_int n" using q(1) by simp
  have "(5 :: rat) < 10 powi 28" by (simp add: power_int_def)
  then have "d / of_int n < 10 powi 28" using q(2) by simp
  from dec_round_between [OF pos this q] show ?thesis using DecNum by (simp add: between_ints_def)
qed

lemma rating_sums:
  "\<forall>k \<in> set ks. (1 :: int) \<le> k \<and> k \<le> 5 \<Longrightarrow> int (length ks) \<le> sum_list ks \<and> sum_list ks \<le> 5 * int (length ks)"
  by (induction ks) auto

text \<open>
  The average of stored ratings is a decimal between 1 and 5, at most half a unit of its 28th
  digit away from the exact average.
\<close>

definition is_average :: "int list \<Rightarrow> rat \<Rightarrow> bool" where
  "is_average ks d \<longleftrightarrow>
     1 \<le> d \<and> d \<le> 5 \<and> \<bar>d - of_int (sum_list ks) / of_int (int (length ks))\<bar> \<le> 1 / (2 * 10 ^ 27)"

lemma number_average:
  assumes "\<forall>k \<in> set ks. 1 \<le> k \<and> k \<le> 5" "ks \<noteq> []" "int (length ks) < 10 ^ 27"
  shows "\<exists>r d. number_sum (IntNum 0) (map (\<lambda>k. Inr (JDec (of_int k))) ks) = Inr r \<and>
    number_div r (int (length ks)) = JDec d \<and> is_average ks d"
proof -
  let ?n = "int (length ks)" and ?s = "sum_list ks"
  define q :: rat where "q = of_int ?s / of_int ?n"
  note s = rating_sums [OF assms(1)]
  have sum: "number_sum (IntNum 0) (map (\<lambda>k. Inr (JDec (of_int k))) ks) = Inr (DecNum (of_int ?s))"
    using assms s by (intro number_sum_stored) auto
  have n: "0 < ?n" using assms(2) by simp
  then have "between_ints 1 5 (number_div (DecNum (of_int ?s)) ?n)"
    using s by (intro number_div_between) auto
  then have between: "1 \<le> dec_round q" "dec_round q \<le> 5" by (simp_all add: between_ints_def q_def)
  have "(of_int ?n :: rat) \<le> of_int ?s" "(of_int ?s :: rat) \<le> of_int (5 * ?n)"
    using s by (simp_all only: of_int_le_iff)
  then have "1 \<le> q" "q \<le> 5" using n unfolding q_def by (simp_all add: le_divide_eq divide_le_eq)
  then have "\<bar>dec_round q - q\<bar> \<le> 1 / (2 * 10 ^ 27)"
    using dec_round_near [of q] dec_unit_of_digit [of q] by simp
  then have "is_average ks (dec_round q)" using between by (simp add: is_average_def q_def)
  then show ?thesis using sum by (simp add: q_def)
qed

end
