(* ===== verification/Metrics.thy ===== *)
theory Metrics
  imports Analysis WorkOrder Pydec
begin

text \<open>
  \<open>services/metrics/app/main.py\<close>: the feedback of the plant on an analysis, and the summary
  of the pipeline's quality. The summary reads the analyses, approvals and evaluation runs
  from the two services that own them when both are configured, and from the table otherwise;
  what it reads is untyped, so every access can raise.
\<close>

section \<open>Feedback\<close>

record analysis_feedback =
  fb_incident_id :: string
  fb_analysis_id :: string
  fb_cause_accuracy :: int
  fb_action_usefulness :: int
  fb_actual_cause :: string
  fb_comment :: "string option"

text \<open>\<open>Field(ge=1, le=5)\<close>\<close>

definition one_to_five :: "int \<Rightarrow> bool" where
  "one_to_five n \<longleftrightarrow> 1 \<le> n \<and> n \<le> 5"

definition validate_feedback :: "lib \<Rightarrow> json \<Rightarrow> analysis_feedback option" where
  "validate_feedback L v =
     field (required ''incident_id'' read_str v) (\<lambda>iid.
     field (required ''analysis_id'' read_str v) (\<lambda>aid.
     field (required ''cause_accuracy'' (checked one_to_five (read_int L)) v) (\<lambda>accuracy.
     field (required ''action_usefulness'' (checked one_to_five (read_int L)) v) (\<lambda>usefulness.
     field (required ''actual_cause'' read_str v) (\<lambda>cause.
     field (defaulted ''comment'' None (read_opt read_str) v) (\<lambda>comment.
       Some \<lparr>fb_incident_id = iid, fb_analysis_id = aid, fb_cause_accuracy = accuracy,
             fb_action_usefulness = usefulness, fb_actual_cause = cause, fb_comment = comment\<rparr>))))))"

definition dump_feedback :: "lib \<Rightarrow> analysis_feedback \<Rightarrow> json" where
  "dump_feedback L f = JObj
     [(''incident_id'', JStr (fb_incident_id f)),
      (''analysis_id'', JStr (fb_analysis_id f)),
      (''cause_accuracy'', JInt (fb_cause_accuracy f)),
      (''action_usefulness'', JInt (fb_action_usefulness f)),
      (''actual_cause'', JStr (fb_actual_cause f)),
      (''comment'', opt_str (fb_comment f))]"

definition wf_feedback :: "analysis_feedback \<Rightarrow> bool" where
  "wf_feedback f \<longleftrightarrow> one_to_five (fb_cause_accuracy f) \<and> one_to_five (fb_action_usefulness f)"

interpretation feedback_store: stored_entity dump_feedback validate_feedback wf_feedback "''feedback''"
proof
  show "key_order_blind (validate_feedback L)" for L
    unfolding validate_feedback_def
    by (intro field_blind required_blind defaulted_blind const_blind checked_blind read_opt_blind
        scalar_readers_blind)
  show "lib_ok L \<Longrightarrow> wf_feedback x \<Longrightarrow> validate_feedback L (dump_feedback L x) = Some x" for L x
    by (simp add: validate_feedback_def dump_feedback_def wf_feedback_def codec_simps)
  show "lib_ok L \<Longrightarrow> wf_feedback x \<Longrightarrow> validate_feedback L (stored L (dump_feedback L x)) = Some x" for L x
    by (simp add: validate_feedback_def dump_feedback_def wf_feedback_def codec_simps)
  show "wf_feedback x \<Longrightarrow> finite_numbers (dump_feedback L x)" for L x
    by (simp add: dump_feedback_def)
qed (simp add: entity_types_def)

record feedback_accepted =
  fa_accepted :: bool

definition record_feedback ::
  "('t, 'e) env_scheme \<Rightarrow> principal option \<Rightarrow> analysis_feedback \<Rightarrow>
   (('t, 'w) world_scheme, feedback_accepted) act" where
  "record_feedback E caller feedback =
     bnd (of_result (require_roles [FIELD_WORKER, OPERATOR_MANAGER, SYSTEM_ADMIN] caller)) (\<lambda>p.
     bnd (new_uuid E) (\<lambda>feedback_id.
     bnd (repo_put E ''feedback'' feedback_id (dump_feedback (lib_of E) feedback)) (\<lambda>_.
     bnd (publish_event E ''feedback.submitted''
            (dict_union [(''id'', JStr feedback_id)] (dict_of (dump_feedback (lib_of E) feedback)))
            (Some (fb_analysis_id feedback)) (Some (subject p)) False) (\<lambda>_.
     ret \<lparr>fa_accepted = True\<rparr>))))"

section \<open>What the summary reads\<close>

text \<open>
  \<open>asyncio.gather\<close>: the three requests are all started; the first failure is raised once
  they are.
\<close>

definition settled :: "('w, 'a) act \<Rightarrow> ('w, exn + 'a) act" where
  "settled m = attempt (bnd m (\<lambda>x. ret (Inr x))) (\<lambda>e. ret (Inl e))"

definition gather3 :: "('w, 'a) act \<Rightarrow> ('w, 'a) act \<Rightarrow> ('w, 'a) act \<Rightarrow> ('w, 'a \<times> 'a \<times> 'a) act" where
  "gather3 m1 m2 m3 =
     bnd (settled m1) (\<lambda>r1. bnd (settled m2) (\<lambda>r2. bnd (settled m3) (\<lambda>r3.
     bnd (of_result r1) (\<lambda>x1. bnd (of_result r2) (\<lambda>x2. bnd (of_result r3) (\<lambda>x3.
     ret (x1, x2, x3)))))))"

definition metrics_get ::
  "('t, 'e) http_env_scheme \<Rightarrow> string option \<Rightarrow> string \<Rightarrow> string \<Rightarrow>
   (('t, 'w) world_scheme, nat \<times> json option) act" where
  "metrics_get E authorization url path =
     http_send E \<lparr>call_method = ''GET'', call_url = url @ path,
       call_headers = [(''Authorization'', case authorization of None \<Rightarrow> [] | Some a \<Rightarrow> a)],
       call_body = JNull\<rparr>"

definition remote_sources ::
  "('t, 'e) http_env_scheme \<Rightarrow> string option \<Rightarrow> string \<Rightarrow> string \<Rightarrow>
   (('t, 'w) world_scheme, json \<times> json \<times> json) act" where
  "remote_sources E authorization analysis_url work_order_url =
     bnd (gather3
            (metrics_get E authorization analysis_url ''/api/v1/analyses'')
            (metrics_get E authorization work_order_url ''/api/v1/approvals'')
            (metrics_get E authorization analysis_url ''/api/v1/evaluations/runs''))
       (\<lambda>((c1, b1), (c2, b2), (c3, b3)).
     bnd (raise_for_status c1) (\<lambda>_.
     bnd (raise_for_status c2) (\<lambda>_.
     bnd (raise_for_status c3) (\<lambda>_.
     bnd (response_json b1) (\<lambda>analyses.
     bnd (response_json b2) (\<lambda>approvals.
     bnd (response_json b3) (\<lambda>evaluation_runs.
     ret (analyses, approvals, evaluation_runs))))))))"

definition local_sources ::
  "('t, 'e) env_scheme \<Rightarrow> (('t, 'w) world_scheme, json \<times> json \<times> json) act" where
  "local_sources E =
     bnd (repo_list E ''analysis'') (\<lambda>analyses.
     bnd (repo_list E ''approval'') (\<lambda>approvals.
     bnd (repo_list E ''evaluation_run'') (\<lambda>evaluation_runs.
     ret (JList analyses, JList approvals, JList evaluation_runs))))"

definition metrics_sources ::
  "('t, 'e) http_env_scheme \<Rightarrow> string option \<Rightarrow> (('t, 'w) world_scheme, json \<times> json \<times> json) act" where
  "metrics_sources E authorization =
     (case (analysis_service_url (settings_of E), work_order_service_url (settings_of E)) of
        (Some (a # analysis_url), Some (b # work_order_url)) \<Rightarrow>
          remote_sources E authorization (a # analysis_url) (b # work_order_url)
      | _ \<Rightarrow> local_sources E)"

section \<open>The figures\<close>

text \<open>\<open>len(v)\<close>\<close>

definition json_len :: "json \<Rightarrow> exn + int" where
  "json_len v =
     (case v of
        JList xs \<Rightarrow> Inr (int (length xs))
      | JObj d \<Rightarrow> Inr (int (length d))
      | JStr s \<Rightarrow> Inr (int (py_len s))
      | _ \<Rightarrow> Inl (TypeError ''object has no len()''))"

text \<open>\<open>sum(test(item) for item in items)\<close> on booleans.\<close>

fun count_true :: "('a \<Rightarrow> exn + bool) \<Rightarrow> 'a list \<Rightarrow> exn + int" where
  "count_true test [] = Inr 0"
| "count_true test (x # xs) =
     (case test x of
        Inl e \<Rightarrow> Inl e
      | Inr b \<Rightarrow> (case count_true test xs of Inl e \<Rightarrow> Inl e | Inr n \<Rightarrow> Inr (of_bool b + n)))"

text \<open>Membership in a set of strings needs a hash, which a list or a dict does not have.\<close>

definition is_approved :: "json \<Rightarrow> exn + bool" where
  "is_approved item =
     (case get_method item ''decision'' JNull of
        Inl e \<Rightarrow> Inl e
      | Inr (JList _) \<Rightarrow> Inl (TypeError ''unhashable type'')
      | Inr (JObj _) \<Rightarrow> Inl (TypeError ''unhashable type'')
      | Inr v \<Rightarrow> Inr (v = JStr ''approve'' \<or> v = JStr ''approve_with_changes''))"

definition needs_review :: "json \<Rightarrow> exn + bool" where
  "needs_review item = map_sum id truthy (get_method item ''expert_review_required'' JNull)"

text \<open>\<open>a < b\<close> on strings: code points compare as their UTF-8 bytes do.\<close>

fun str_less :: "string \<Rightarrow> string \<Rightarrow> bool" where
  "str_less a [] = False"
| "str_less [] (c # cs) = True"
| "str_less (a # as) (b # bs) =
     ((of_char a :: nat) < of_char b \<or> a = b \<and> str_less as bs)"

text \<open>\<open>max(items, key=key, default={})\<close>: the first of the items with the greatest key.\<close>

fun max_first :: "string \<times> json \<Rightarrow> (string \<times> json) list \<Rightarrow> json" where
  "max_first best [] = snd best"
| "max_first best (p # ps) = max_first (if str_less (fst best) (fst p) then p else best) ps"

definition created_key :: "lib \<Rightarrow> json \<Rightarrow> exn + (string \<times> json)" where
  "created_key L item =
     map_sum id (\<lambda>v. (py_str L v, item)) (get_method item ''created_at'' (JStr []))"

definition latest_run :: "lib \<Rightarrow> json list \<Rightarrow> ('w, json) act" where
  "latest_run L runs =
     bnd (each (\<lambda>item. of_result (created_key L item)) runs) (\<lambda>keyed.
     ret (case keyed of [] \<Rightarrow> JObj [] | p # ps \<Rightarrow> max_first p ps))"

definition review_rate :: "json \<Rightarrow> ('w, json) act" where
  "review_rate analyses =
     (if truthy analyses then
        bnd (of_result (py_iter analyses)) (\<lambda>items.
        bnd (of_result (count_true needs_review items)) (\<lambda>reviewed.
        bnd (of_result (json_len analyses)) (\<lambda>n.
        ret (JFloat (int_truediv reviewed n)))))
      else ret (JFloat (Fin 0)))"

definition feedback_average :: "string \<Rightarrow> json list \<Rightarrow> ('w, json) act" where
  "feedback_average key feedback_items =
     (if feedback_items = [] then ret (JFloat (Fin 0))
      else
        bnd (of_result (number_sum (IntNum 0) (map (\<lambda>item. sub_item item key) feedback_items))) (\<lambda>total.
        ret (number_div total (int (length feedback_items)))))"

definition approval_rate :: "int \<Rightarrow> json \<Rightarrow> ('w, json) act" where
  "approval_rate approved approvals =
     (if truthy approvals then
        bnd (of_result (json_len approvals)) (\<lambda>n.
        ret (JFloat (int_truediv approved n)))
      else ret (JFloat (Fin 0)))"

definition summarize ::
  "lib \<Rightarrow> json list \<Rightarrow> json \<Rightarrow> json \<Rightarrow> json \<Rightarrow> ('w, dict) act" where
  "summarize L feedback_items analyses approvals evaluation_runs =
     bnd (of_result (py_iter approvals)) (\<lambda>approval_items.
     bnd (of_result (count_true is_approved approval_items)) (\<lambda>approved_count.
     bnd (of_result (py_iter evaluation_runs)) (\<lambda>runs.
     bnd (latest_run L runs) (\<lambda>latest_evaluation.
     bnd (of_result (json_len analyses)) (\<lambda>analysis_count.
     bnd (review_rate analyses) (\<lambda>expert_review_rate.
     bnd (feedback_average ''cause_accuracy'' feedback_items) (\<lambda>cause_accuracy_average.
     bnd (feedback_average ''action_usefulness'' feedback_items) (\<lambda>action_usefulness_average.
     bnd (approval_rate approved_count approvals) (\<lambda>rate.
     let latest = dict_of latest_evaluation
     in ret
       [(''analysis_count'', JInt analysis_count),
        (''expert_review_rate'', expert_review_rate),
        (''cause_accuracy_average'', cause_accuracy_average),
        (''action_usefulness_average'', action_usefulness_average),
        (''approval_rate'', rate),
        (''cause_candidate_accuracy'', dict_get_or latest ''cause_candidate_accuracy'' (JFloat (Fin 0))),
        (''document_hit_rate'', dict_get_or latest ''document_hit_rate'' (JFloat (Fin 0))),
        (''resolution_time_reduction'', dict_get_or latest ''resolution_time_reduction'' (JFloat (Fin 0))),
        (''evaluation_case_count'', dict_get_or latest ''case_count'' (JInt 0))])))))))))"

definition metrics_summary ::
  "('t, 'e) http_env_scheme \<Rightarrow> string option \<Rightarrow> (('t, 'w) world_scheme, dict) act" where
  "metrics_summary E authorization =
     bnd (repo_list E ''feedback'') (\<lambda>feedback_items.
     bnd (metrics_sources E authorization) (\<lambda>(analyses, approvals, evaluation_runs).
     summarize (lib_of E) feedback_items analyses approvals evaluation_runs))"

end
