(* ===== verification/AnalysisFacts.thy ===== *)
theory AnalysisFacts
  imports Analysis
begin

text \<open>
  What the steps of an analysis do: the related documents and their versions, a generated answer
  with its audit, the decision to open a review, and the tables an analysis writes.
\<close>

section \<open>Related documents\<close>

lemma fromkeys_facts [simp]: "set (fromkeys xs) = set xs" "distinct (fromkeys xs)"
  by (simp_all add: fromkeys_def)

lemma fromkeys_Nil [simp]: "fromkeys xs = [] \<longleftrightarrow> xs = []"
  by (simp add: fromkeys_def)

lemma dom_chunk_versions: "fset (fmdom (chunk_versions chunks)) = rc_document_id ` set chunks"
proof -
  have "fset (fmdom (fold (\<lambda>c. fmupd (rc_document_id c) (str_or (rc_document_version c) ''unknown'')) chunks m)) =
      fset (fmdom m) \<union> rc_document_id ` set chunks" for m
    by (induction chunks arbitrary: m) auto
  then show ?thesis by (simp add: chunk_versions_def)
qed

lemma add_versions_Inr:
  "add_versions E authorization ids versions w = (Inr versions', w') \<Longrightarrow>
   fset (fmdom versions') = fset (fmdom versions) \<union> set ids \<and>
   (\<forall>d. d |\<in>| fmdom versions \<longrightarrow> fmlookup versions' d = fmlookup versions d)"
proof (induction ids arbitrary: versions w)
  case (Cons d ids)
  show ?case
  proof (cases "d |\<in>| fmdom versions")
    case True
    then show ?thesis using Cons.IH [of versions w] Cons.prems by (auto simp: insert_absorb)
  next
    case False
    then obtain v w2 where
      "add_versions E authorization ids (fmupd d v versions) w2 = (Inr versions', w')"
      using Cons.prems by (auto elim!: bnd_InrE)
    from Cons.IH [OF this] False show ?thesis by (auto simp: fmdom_notI)
  qed
qed (simp add: ret_def)

lemma silent_context [silent_intros]: "silent (analysis_context E request authorization)"
proof -
  have get: "silent (http_get E url authorization)" for url
    unfolding http_get_def by (intro silent_intros)
  have eq: "silent (of_equipment eid v)" for eid v
    unfolding of_equipment_def by (intro silent_intros)
  have doc: "silent (fetch_document E d authorization)" for d
    unfolding fetch_document_def by (intro silent_intros get)
  have "silent (add_versions E authorization ids versions)" for ids versions
    by (induction ids arbitrary: versions) (auto intro!: silent_intros doc)
  moreover have "silent (equipment_context E eid authorization)" for eid
    unfolding equipment_context_def remote_equipment_def local_equipment_def
    by (intro silent_intros get eq)
  ultimately show ?thesis unfolding analysis_context_def by (intro silent_intros)
qed

lemma context_Inr:
  assumes "analysis_context E request authorization w = (Inr (evidence, chunks, ids, versions), w')"
  shows "ids = related_ids request chunks" "fset (fmdom versions) = set ids"
    "\<forall>c \<in> set chunks. fmlookup versions (rc_document_id c) = fmlookup (chunk_versions chunks) (rc_document_id c)"
proof -
  obtain w1 where i: "ids = related_ids request chunks"
    and a: "add_versions E authorization ids (chunk_versions chunks) w1 = (Inr versions, w')"
    using assms unfolding analysis_context_def Let_def
    by (auto elim!: bnd_InrE simp: ret_def)
  show "ids = related_ids request chunks" by (rule i)
  have "rc_document_id ` set chunks \<subseteq> set ids" by (auto simp: i related_ids_def)
  then show "fset (fmdom versions) = set ids"
    using add_versions_Inr [OF a] dom_chunk_versions [of chunks] by auto
  have "rc_document_id c |\<in>| fmdom (chunk_versions chunks)" if "c \<in> set chunks" for c
    using that dom_chunk_versions [of chunks] by auto
  then show "\<forall>c \<in> set chunks.
      fmlookup versions (rc_document_id c) = fmlookup (chunk_versions chunks) (rc_document_id c)"
    using add_versions_Inr [OF a] by blast
qed

section \<open>Generation\<close>

lemma silent_engine [silent_intros]: "silent (engine_analyze E g evidence)"
  using mock_engine.publishes_nothing ollama_engine.publishes_nothing bedrock_engine.publishes_nothing
  by (cases g) (simp_all add: engine_analyze_def)

lemma silent_generate [silent_intros]: "silent (generate E request authorization)"
proof -
  have "silent (make_audit E a versions)" for a versions
    unfolding make_audit_def by (intro silent_intros)
  then show ?thesis unfolding generate_def by (intro silent_intros)
qed

lemma generate_Inr:
  assumes "generate E request authorization w = (Inr (generated, chunks, ids, audit), w')"
  shows "ids = related_ids request chunks"
    "fset (fmdom (aa_document_versions audit)) = set ids"
    "\<forall>c \<in> set chunks. fmlookup (aa_document_versions audit) (rc_document_id c) =
       fmlookup (chunk_versions chunks) (rc_document_id c)"
    "aa_ai_provider audit = ai_provider (settings_of E)"
    "aa_prompt_version audit = PROMPT_VERSION" "aa_prompt_hash audit = PROMPT_HASH E"
    "aa_rag_provider audit = rag_provider (settings_of E)"
    "\<exists>d. generated = JObj d \<and> dict_get d ''_audit'' = None"
proof -
  obtain evidence versions w1 g answer w2 w3 entry where
    c: "analysis_context E request authorization w = (Inr (evidence, chunks, ids, versions), w1)"
    and g: "get_analysis_engine (settings_of E) = Inr g"
    and e: "engine_analyze E g evidence w1 = (Inr answer, w2)"
    and p: "pop_audit answer = Inr (entry, generated)"
    and m: "make_audit E entry versions w2 = (Inr audit, w3)"
    using assms unfolding generate_def
    by (auto elim!: bnd_InrE simp: ret_def of_result_def)
  obtain d a where d: "answer = JObj d" "dict_get d ''_audit'' = Some (JObj a)"
    "dict_get a ''ai_provider'' = Some (JStr (ai_provider (settings_of E)))"
    "dict_get a ''prompt_version'' = Some (JStr PROMPT_VERSION)"
    "dict_get a ''prompt_hash'' = Some (JStr (PROMPT_HASH E))"
    using audited_engine.answer_is_audited_object [OF configured_engine [OF g] e] by blast
  have entry: "entry = JObj a" "generated = JObj (AList.delete ''_audit'' d)"
    using p d by (simp_all add: pop_audit_def dict_get_or_def)
  obtain i n now where "audit_from E a versions i n now = Some audit"
    using m unfolding entry make_audit_def
    by (auto elim!: bnd_InrE simp: of_option_def ret_def throw_def split: option.splits)
  then have au: "aa_ai_provider audit = ai_provider (settings_of E)"
    "aa_prompt_version audit = PROMPT_VERSION" "aa_prompt_hash audit = PROMPT_HASH E"
    "aa_rag_provider audit = rag_provider (settings_of E)" "aa_document_versions audit = versions"
    using d by (auto simp: audit_from_def Let_def dict_get_or_def py_str_def elim!: field_SomeE)
  then show "aa_ai_provider audit = ai_provider (settings_of E)"
    "aa_prompt_version audit = PROMPT_VERSION" "aa_prompt_hash audit = PROMPT_HASH E"
    "aa_rag_provider audit = rag_provider (settings_of E)" by blast+
  show "ids = related_ids request chunks" "fset (fmdom (aa_document_versions audit)) = set ids"
    "\<forall>c \<in> set chunks. fmlookup (aa_document_versions audit) (rc_document_id c) =
       fmlookup (chunk_versions chunks) (rc_document_id c)"
    using context_Inr [OF c] au(5) by blast+
  show "\<exists>d. generated = JObj d \<and> dict_get d ''_audit'' = None"
    by (simp add: entry(2) dict_get_def delete_conv)
qed

section \<open>The result and the review\<close>

abbreviation load_analysis :: "('t, 'e) env_scheme \<Rightarrow> 't \<Rightarrow> string \<Rightarrow> analysis_result option" where
  "load_analysis E t aid \<equiv> load_as (validate_analysis (lib_of E)) (dynamo_of E) t ''analysis'' aid"

abbreviation load_review :: "('t, 'e) env_scheme \<Rightarrow> 't \<Rightarrow> string \<Rightarrow> expert_review option" where
  "load_review E t rid \<equiv> load_as (validate_review (lib_of E)) (dynamo_of E) t ''expert_review'' rid"

definition low_confidence :: "json \<Rightarrow> bool" where
  "low_confidence generated \<longleftrightarrow>
     (\<exists>v c. sub_item generated ''confidence'' = Inr v \<and> number_of v = Inr c \<and>
            float_less c (float_lit (7 / 10)))"

definition expected_reasons :: "json \<Rightarrow> string list \<Rightarrow> string list" where
  "expected_reasons generated ids =
     (if low_confidence generated then [''low_confidence''] else []) @
     (if ids = [] then [''no_related_documents''] else [])"

lemma generated_list_state: "generated_list f E generated key w = (r, w') \<Longrightarrow> w' = w"
  by (auto simp: generated_list_def bnd_of_result_case each_validated split: sum.splits option.splits)

lemma pure_Inr:
  "of_result r w = (Inr x, w') \<longleftrightarrow> r = Inr x \<and> w' = w"
  "of_option e v w = (Inr x, w') \<longleftrightarrow> v = Some x \<and> w' = w"
  "ret y w = (Inr x, w') \<longleftrightarrow> x = y \<and> w' = w"
  "new_uuid E u = (Inr i, u') \<longleftrightarrow> i = uuid_at E (tick u) \<and> u' = u\<lparr>tick := Suc (tick u)\<rparr>"
  by (auto simp: of_result_def of_option_def ret_def throw_def new_uuid_def split: option.splits)

lemma review_policy_Inr:
  assumes "evaluate_review_policy confidence related risk = Inr decision"
  shows "\<exists>c. number_of confidence = Inr c \<and>
    rd_reasons decision = (if float_less c (float_lit (7 / 10)) then [''low_confidence''] else []) @
      (if related then [] else [''no_related_documents''])"
    "rd_expert_review_required decision \<longleftrightarrow> rd_reasons decision \<noteq> []"
    "rd_manager_approval_required decision \<longleftrightarrow> risk \<in> {''high'', ''critical''}"
  using assms by (auto simp: evaluate_review_policy_def Let_def split: sum.splits)

lemma result_of_InrE:
  assumes "result_of E request generated ids audit w = (Inr a, w')"
  obtains confidence risk_level decision where
    "sub_item generated ''confidence'' = Inr confidence"
    "evaluate_review_policy confidence (ids \<noteq> []) (risk_value risk_level) = Inr decision"
    "w' = w\<lparr>tick := Suc (tick w)\<rparr>"
    "an_incident_id a = rq_incident_id request" "an_risk_level a = risk_level"
    "an_related_document_ids a = ids"
    "an_expert_review_required a = rd_expert_review_required decision"
    "an_manager_approval_required a = rd_manager_approval_required decision"
    "an_review_reasons a = rd_reasons decision" "an_audit a = Some audit" "\<not> an_executable a"
  using assms unfolding result_of_def
  by (elim bnd_InrE) (clarsimp simp: pure_Inr dest!: generated_list_state)

lemma result_of_Inr:
  assumes "result_of E request generated ids audit w = (Inr a, w')"
  shows "w' = w\<lparr>tick := Suc (tick w)\<rparr>" "an_review_reasons a = expected_reasons generated ids"
    "an_expert_review_required a \<longleftrightarrow> an_review_reasons a \<noteq> []"
    "an_manager_approval_required a \<longleftrightarrow> an_risk_level a \<in> {HIGH, CRITICAL}"
    "an_incident_id a = rq_incident_id request" "an_related_document_ids a = ids"
    "an_audit a = Some audit" "\<not> an_executable a"
proof -
  from assms obtain confidence risk_level decision where
    c: "sub_item generated ''confidence'' = Inr confidence"
    and d: "evaluate_review_policy confidence (ids \<noteq> []) (risk_value risk_level) = Inr decision"
    and a: "w' = w\<lparr>tick := Suc (tick w)\<rparr>"
    "an_incident_id a = rq_incident_id request" "an_risk_level a = risk_level"
    "an_related_document_ids a = ids"
    "an_expert_review_required a = rd_expert_review_required decision"
    "an_manager_approval_required a = rd_manager_approval_required decision"
    "an_review_reasons a = rd_reasons decision" "an_audit a = Some audit" "\<not> an_executable a"
    by (rule result_of_InrE)
  obtain n where n: "number_of confidence = Inr n"
    "rd_reasons decision = (if float_less n (float_lit (7 / 10)) then [''low_confidence''] else []) @
      (if ids = [] then [''no_related_documents''] else [])"
    using review_policy_Inr(1) [OF d] by auto
  have "low_confidence generated \<longleftrightarrow> float_less n (float_lit (7 / 10))"
    using c n(1) by (simp add: low_confidence_def)
  then show "an_review_reasons a = expected_reasons generated ids"
    using n(2) by (simp add: a(7) expected_reasons_def)
  show "an_manager_approval_required a \<longleftrightarrow> an_risk_level a \<in> {HIGH, CRITICAL}"
    using review_policy_Inr(3) [OF d] by (cases risk_level) (simp_all add: a(3,6))
  show "an_expert_review_required a \<longleftrightarrow> an_review_reasons a \<noteq> []"
    using review_policy_Inr(2) [OF d] by (simp add: a(5,7))
qed (use assms in \<open>auto elim: result_of_InrE\<close>)

text \<open>What an analysis writes: itself, and the review it opens under a fresh id.\<close>

definition analysis_written ::
  "('t, 'e) env_scheme \<Rightarrow> analysis_result \<Rightarrow> string \<Rightarrow> int \<Rightarrow> 't \<Rightarrow> 't \<Rightarrow> bool" where
  "analysis_written E a rid now t t' \<longleftrightarrow>
     load_analysis E t' (an_id a) = Some a \<and>
     (an_expert_review_required a \<longrightarrow> load_review E t' rid = Some (review_of a rid now)) \<and>
     (\<forall>et eid. et \<in> set entity_types \<longrightarrow> \<not> (et = ''analysis'' \<and> eid = an_id a) \<longrightarrow>
        \<not> (an_expert_review_required a \<and> et = ''expert_review'' \<and> eid = rid) \<longrightarrow>
        view (dynamo_of E) t' et eid = view (dynamo_of E) t et eid)"

lemma store_analysis:
  fixes E :: "('t, 'e) env_scheme" and w :: "('t, 'w) world_scheme"
  assumes q: "quiet E" and tok: "table_ok (dynamo_of E) (tbl w)" and wf: "wf_analysis a"
  shows "\<exists>rid now n t. bnd (repo_put E ''analysis'' (an_id a) (dump_analysis (lib_of E) a)) (\<lambda>_.
      open_review E a) w = (Inr (), w\<lparr>tick := n, tbl := t\<rparr>) \<and>
    table_ok (dynamo_of E) t \<and> analysis_written E a rid now (tbl w) t"
proof -
  obtain t1 where
    s1: "repo_put E ''analysis'' (an_id a) (dump_analysis (lib_of E) a) w =
      (Inr (), w\<lparr>tick := tick w + 3, tbl := t1\<rparr>)"
    and ok1: "table_ok (dynamo_of E) t1" and a1: "load_analysis E t1 (an_id a) = Some a"
    and e1: "\<forall>et eid. et \<in> set entity_types \<longrightarrow> et \<noteq> ''analysis'' \<or> eid \<noteq> an_id a \<longrightarrow>
         view (dynamo_of E) t1 et eid = view (dynamo_of E) (tbl w) et eid"
    using analysis_store.save [OF q tok wf, of "an_id a"] by blast
  define w1 where "w1 = w\<lparr>tick := tick w + 3, tbl := t1\<rparr>"
  show ?thesis
  proof (cases "an_expert_review_required a")
    case False
    then have run: "bnd (repo_put E ''analysis'' (an_id a) (dump_analysis (lib_of E) a)) (\<lambda>_.
        open_review E a) w = (Inr (), w\<lparr>tick := tick w + 3, tbl := t1\<rparr>)"
      using s1 by (simp add: bnd_Inr open_review_def only_if_def ret_def)
    have "analysis_written E a [] 0 (tbl w) t1"
      using False a1 e1 by (auto simp: analysis_written_def)
    then show ?thesis using run ok1 by blast
  next
    case True
    define now where "now = now_at E (tick w1)"
    define rid where "rid = uuid_at E (Suc (tick w1))"
    define r where "r = review_of a rid now"
    define w2 where "w2 = w1\<lparr>tick := Suc (Suc (tick w1))\<rparr>"
    have r: "er_id r = rid" "wf_review r"
      using wf by (simp_all add: r_def review_of_def wf_review_def wf_analysis_def)
    have "table_ok (dynamo_of E) (tbl w2)" using ok1 by (simp add: w2_def w1_def)
    from review_store.save [OF q this r(2), of rid] obtain t2 where
      s2: "repo_put E ''expert_review'' rid (dump_review (lib_of E) r) w2 =
        (Inr (), w2\<lparr>tick := tick w2 + 3, tbl := t2\<rparr>)"
      and ok2: "table_ok (dynamo_of E) t2" and r2: "load_review E t2 rid = Some r"
      and e2: "\<forall>et eid. et \<in> set entity_types \<longrightarrow> et \<noteq> ''expert_review'' \<or> eid \<noteq> rid \<longrightarrow>
           view (dynamo_of E) t2 et eid = view (dynamo_of E) (tbl w2) et eid"
      by blast
    have tb: "tbl w2 = t1" by (simp add: w2_def w1_def)
    have "open_review E a w1 = (Inr (), w2\<lparr>tick := tick w2 + 3, tbl := t2\<rparr>)"
      using True s2 r(1)
      by (simp add: open_review_def only_if_def bnd_def now_utc_def new_uuid_def Let_def
          now_def [symmetric] rid_def [symmetric] r_def [symmetric] w2_def [symmetric])
    then have "bnd (repo_put E ''analysis'' (an_id a) (dump_analysis (lib_of E) a)) (\<lambda>_.
        open_review E a) w = (Inr (), w\<lparr>tick := tick w2 + 3, tbl := t2\<rparr>)"
      using s1 by (simp add: bnd_Inr w1_def [symmetric]) (simp add: w2_def w1_def)
    moreover have "''analysis'' \<in> set entity_types" by (simp add: entity_types_def)
    then have "load_analysis E t2 (an_id a) = Some a"
      using e2 a1 by (simp add: load_as_def tb)
    then have "analysis_written E a rid now (tbl w) t2"
      using True r2 e1 e2 by (auto simp: analysis_written_def r_def tb)
    ultimately show ?thesis using ok2 by blast
  qed
qed

lemma completed_type [simp]: "len_between 1 200 ''analysis.completed''"
  by code_simp

text \<open>The rest of an analysis, once the engine has answered.\<close>

lemma analyze_after_generate:
  fixes E :: "('t, 'e) ai_env_scheme" and w :: "('t, 'w) world_scheme"
  assumes q: "quiet E" and can: "can_publish E False"
    and p: "require_roles [OPERATOR_MANAGER, SYSTEM_ADMIN] caller = Inr p"
    and g: "generate E request authorization w = (Inr (generated, chunks, ids, audit), w1)"
    and tok: "table_ok (dynamo_of E) (tbl w1)"
    and r: "result_of E request generated ids audit w1 = (Inr a, w2)" and wf: "wf_analysis a"
  shows "\<exists>rid now w'. analyze_incident E caller authorization request w = (Inr a, w') \<and>
    analysis_written E a rid now (tbl w1) (tbl w') \<and>
    announced E ''analysis.completed'' (dict_of (dump_analysis (lib_of E) a))
      (Some (an_incident_id a)) (Some (subject p)) w w'"
proof -
  have w2: "w2 = w1\<lparr>tick := Suc (tick w1)\<rparr>" by (rule result_of_Inr [OF r])
  have tok2: "table_ok (dynamo_of E) (tbl w2)" using tok by (simp add: w2)
  obtain rid now n t where
    s: "bnd (repo_put E ''analysis'' (an_id a) (dump_analysis (lib_of E) a)) (\<lambda>_. open_review E a) w2 =
      (Inr (), w2\<lparr>tick := n, tbl := t\<rparr>)"
    and wr: "analysis_written E a rid now (tbl w2) t"
    using store_analysis [OF q tok2 wf] by blast
  define w3 where "w3 = w2\<lparr>tick := n, tbl := t\<rparr>"
  obtain e w' where
    pub: "publish_event E ''analysis.completed'' (dict_of (dump_analysis (lib_of E) a))
      (Some (an_incident_id a)) (Some (subject p)) False w3 = (Inr e, w')"
    and ann: "announced E ''analysis.completed'' (dict_of (dump_analysis (lib_of E) a))
      (Some (an_incident_id a)) (Some (subject p)) w3 w'"
    and tb: "tbl w' = tbl w3"
    using announce_quiet [OF q can completed_type,
        of "dict_of (dump_analysis (lib_of E) a)" "Some (an_incident_id a)" "Some (subject p)" w3] by blast
  have "analyze_incident E caller authorization request w = (Inr a, w')"
    unfolding analyze_incident_def
    by (simp add: bnd_of_result_case p bnd_Inr g r bnd_two [OF s] w3_def [symmetric] pub ret_def)
  moreover have "analysis_written E a rid now (tbl w1) (tbl w')"
    using wr by (simp add: tb w3_def w2)
  moreover have "kafka_sent w3 = kafka_sent w"
    using silent_run [OF silent_generate g] by (auto simp: w3_def w2)
  then have "announced E ''analysis.completed'' (dict_of (dump_analysis (lib_of E) a))
      (Some (an_incident_id a)) (Some (subject p)) w w'"
    using ann by (simp add: announced_def)
  ultimately show ?thesis by blast
qed

text \<open>A generated list that holds dumped models is read as those models.\<close>

context entity_codec
begin

lemma generated_list_dumped:
  assumes "sub_item generated key = Inr (JList (map (dump (lib_of E)) xs))"
    and "lib_ok (lib_of E)" "\<forall>x \<in> set xs. wf x"
  shows "generated_list validate E generated key w = (Inr xs, w)"
  using read_dumped_list [OF assms(2,3)] assms(1)
  by (simp add: generated_list_def bnd_of_result_case py_iter_def each_validated read_list_def)

end

end
