(* ===== verification/AnalysisProperties.thy ===== *)
theory AnalysisProperties
  imports AnalysisFacts KnowledgeProperties IncidentProperties
begin

text \<open>
  The properties of the AI analysis service: the plan an engine's proposal becomes, the audit of
  every generated answer, the effects of an analysis, the branches of a review's update, and the
  scores of an evaluation.
\<close>

section \<open>Engines\<close>

text \<open>
  C39. The loop that cleans the proposed actions (a set of seen
  instructions, a growing list) computes the reference plan: the actions with an instruction that
  is not blank and that no earlier action has up to case and surrounding space, in their order,
  numbered from one; and it fails exactly when some proposed action is not an object.
\<close>

theorem ollama_plan_is_reference:
  "unique_actions L [] {} items =
     (if list_all is_object items then Inr (reference_plan L items)
      else Inl (AttributeError ''get''))"
proof -
  have "reference_plan L [] = []" by (simp add: reference_plan_def)
  then show ?thesis using unique_actions_reference [of "{}" "[]" L items] by simp
qed

text \<open>
  C38. Whatever engine the settings choose, and whatever it says about
  itself, a generated answer comes with an audit that names the configured provider, the prompt
  version and hash, and a version for exactly the related documents (those the caller named and
  those retrieved, each once); the answer no longer contains the engine's entry, and generating
  has published nothing.
\<close>

theorem generated_answer_is_audited:
  assumes "generate E request authorization w = (Inr (generated, chunks, ids, audit), w')"
  shows "aa_ai_provider audit = ai_provider (settings_of E) \<and>
    aa_prompt_version audit = PROMPT_VERSION \<and> aa_prompt_hash audit = PROMPT_HASH E \<and>
    aa_rag_provider audit = rag_provider (settings_of E) \<and>
    distinct ids \<and> set ids = set (rq_related_document_ids request) \<union> rc_document_id ` set chunks \<and>
    fset (fmdom (aa_document_versions audit)) = set ids \<and>
    (\<exists>d. generated = JObj d \<and> dict_get d ''_audit'' = None) \<and>
    (\<exists>n t. w' = w\<lparr>tick := n, tbl := t\<rparr>)"
  using generate_Inr [OF assms] silent_run [OF silent_generate assms]
  by (simp add: related_ids_def)

text \<open>A run of the fixed engine in a world without documents.\<close>

definition sample_rq :: analysis_request where
  "sample_rq =
     \<lparr>rq_incident_id = ''i1'', rq_equipment_id = ''PRESS-001'', rq_sensor_summary = ''hot'',
      rq_log_summary = ''E42'', rq_related_document_ids = []\<rparr>"

definition sample_generated :: "analysis_request \<Rightarrow> json" where
  "sample_generated r = JObj
     [(''risk_level'', JStr ''high''),
      (''confidence'', JFloat (float_lit (55 / 100))),
      (''causes'', JList
        [JObj [(''cause'', JStr mock_cause), (''confidence'', JFloat (float_lit (55 / 100))),
               (''evidence'', JList [JStr (rq_sensor_summary r), JStr (rq_log_summary r)])]]),
      (''recommended_actions'', mock_actions)]"

lemma sample_lists_none:
  assumes "filter (\<lambda>it. dict_get it ''entity_type'' = Some (JStr et)) (tbl w) = []"
  shows "\<exists>n. repo_list sample_ai_env et w = (Inr [], w\<lparr>tick := n\<rparr>)"
proof -
  have "lists_as (dynamo_of sample_ai_env) (tbl w) et []"
    using mem_lists_as [of "tbl w" et] by (simp add: assms)
  from repo_list_quiet [OF sample_ai_quiet this] show ?thesis by simp
qed

lemma sample_generate:
  fixes w :: "(dict list, 'w) world_scheme"
  assumes tok: "table_ok mem_dynamo (tbl w)"
    and docs: "filter (\<lambda>it. dict_get it ''entity_type'' = Some (JStr ''document'')) (tbl w) = []"
    and maint: "filter (\<lambda>it. dict_get it ''entity_type'' = Some (JStr ''maintenance'')) (tbl w) = []"
    and eq: "view mem_dynamo (tbl w) ''equipment'' (rq_equipment_id r) = None"
    and ids: "rq_related_document_ids r = []"
  shows "\<exists>n audit. generate sample_ai_env r None w =
    (Inr (sample_generated r, [], [], audit), w\<lparr>tick := n\<rparr>)"
proof -
  obtain n1 where l1: "repo_list sample_ai_env ''document'' w = (Inr [], w\<lparr>tick := n1\<rparr>)"
    using sample_lists_none [OF docs] by blast
  have r1: "retrieve_chunks sample_ai_env (retrieval_query r) 5 None w = (Inr [], w\<lparr>tick := n1\<rparr>)"
    using l1 by (simp add: retrieve_chunks_def get_retriever_def default_settings_def retrieve_def
        local_retrieve_def is_set_def bnd_def of_result_def Let_def sorted_descending_def slice_to_def ret_def)
  define w1 where "w1 = w\<lparr>tick := n1\<rparr>"
  define w2 where "w2 = w1\<lparr>tick := Suc (tick w1)\<rparr>"
  have g: "repo_get sample_ai_env ''equipment'' (rq_equipment_id r) w1 = (Inr None, w2)"
    using repo_get_quiet [OF sample_ai_quiet, of w1 "''equipment''" "rq_equipment_id r"] tok eq
    by (simp add: w1_def w2_def)
  obtain n2 where l2: "repo_list sample_ai_env ''maintenance'' w2 = (Inr [], w2\<lparr>tick := n2\<rparr>)"
    using sample_lists_none [of "''maintenance''" w2] maint by (auto simp: w1_def w2_def)
  define w3 where "w3 = w2\<lparr>tick := n2\<rparr>"
  define ev where "ev = evidence_of r JNull (JList []) [] []"
  have c: "analysis_context sample_ai_env r None w = (Inr (ev, [], [], fmempty), w3)"
    using r1 g l2 ids
    by (simp add: analysis_context_def bnd_def w1_def [symmetric] w3_def [symmetric] equipment_context_def
        default_settings_def is_set_def local_equipment_def ret_def value_or_null_def related_ids_def
        chunk_versions_def ev_def fromkeys_def)
  have lookups: "sub_item ev ''related_document_ids'' = Inr (JList [])"
    "sub_item ev ''sensor_summary'' = Inr (JStr (rq_sensor_summary r))"
    "sub_item ev ''log_summary'' = Inr (JStr (rq_log_summary r))"
    by (simp_all add: ev_def evidence_of_def dump_analysis_request_def dict_union_def dict_set_def
        dict_get_def str_list_def)
  obtain a where a: "a = engine_audit sample_ai_env ''mock'' (JStr ''deterministic-mock-v1'')
      ''not_configured'' JNull (JInt 0) (JInt 0)" by blast
  have m: "mock_analyze sample_ai_env ev w3 =
      (Inr (JObj (dict_of (sample_generated r) @ [(''_audit'', a)])), w3)"
    by (simp add: mock_analyze_def Let_def bnd_of_result_case lookups mock_confidence_def ret_def a
        sample_generated_def)
  have p: "pop_audit (JObj (dict_of (sample_generated r) @ [(''_audit'', a)])) = Inr (a, sample_generated r)"
    by (simp add: pop_audit_def sample_generated_def dict_get_or_def dict_get_def)
  have "\<exists>x. audit_from sample_ai_env (dict_of a) fmempty 0 0 now = Some x" for now
    by (simp add: audit_from_def a engine_audit_def dict_get_or_def dict_get_def get_null_def py_or_def
        read_opt_def Let_def)
  then obtain audit where au: "audit_from sample_ai_env (dict_of a) fmempty 0 0 (now_at sample_ai_env n2) = Some audit"
    by blast
  have "get_method a ''input_tokens'' (JInt 0) = Inr (JInt 0)" "get_method a ''output_tokens'' (JInt 0) = Inr (JInt 0)"
    by (simp_all add: a engine_audit_def dict_get_or_def dict_get_def)
  then have ma: "make_audit sample_ai_env a fmempty w3 = (Inr audit, w3\<lparr>tick := Suc n2\<rparr>)"
    using au by (simp add: make_audit_def bnd_of_result_case py_int_def bnd_now w3_def of_option_def ret_def)
  have "get_analysis_engine (settings_of sample_ai_env) = Inr MockAnalysisEngine"
    by (simp add: get_analysis_engine_def default_settings_def)
  then have "generate sample_ai_env r None w =
      (Inr (sample_generated r, [], [], audit), w3\<lparr>tick := Suc n2\<rparr>)"
    using c m p ma by (simp add: generate_def bnd_Inr bnd_of_result_case engine_analyze_def ret_def)
  moreover have "w3\<lparr>tick := Suc n2\<rparr> = w\<lparr>tick := Suc n2\<rparr>" by (simp add: w3_def w2_def w1_def)
  ultimately show ?thesis by metis
qed

lemma generated_answer_is_audited_witness:
  "\<exists>gen audit w'. generate sample_ai_env sample_rq None (sample_world []) = (Inr (gen, [], [], audit), w') \<and>
     aa_ai_provider audit = ''mock'' \<and> aa_prompt_version audit = PROMPT_VERSION"
proof -
  obtain n audit where g: "generate sample_ai_env sample_rq None (sample_world []) =
      (Inr (sample_generated sample_rq, [], [], audit), (sample_world [])\<lparr>tick := n\<rparr>)"
    using sample_generate [of "sample_world []" sample_rq]
    by (auto simp: sample_rq_def sample_table_ok_empty)
  show ?thesis using g generated_answer_is_audited [OF g] by (auto simp: default_settings_def)
qed

section \<open>Analysing an incident\<close>

lemma keeps_generated_list [keeps_intros]: "keeps P (generated_list f E generated key)"
  by (intro keepsI) (simp add: generated_list_state [OF prod.collapse [symmetric]])

lemma result_of_state:
  assumes "result_of E request generated ids audit w = (r, w')"
  shows "\<exists>n. w' = w\<lparr>tick := n\<rparr>"
proof -
  have k: "keeps (\<lambda>u. \<exists>n. u = w\<lparr>tick := n\<rparr>) (result_of E request generated ids audit)"
    unfolding result_of_def by (intro keeps_intros) auto
  have "\<exists>n. w = w\<lparr>tick := n\<rparr>" by (rule exI [of _ "tick w"]) simp
  from keepsD [OF k this] show ?thesis by (simp add: assms)
qed

text \<open>
  C8. An analysis is accepted from managers and administrators. Once the
  engine has answered, either the answer is refused as malformed and nothing is stored or
  announced, or (its numbers being finite doubles) the result is stored under its id and reads
  back as it was answered, a pending review with the same reasons, risk and confidence is opened
  exactly when there is a reason for one (a confidence below 0.7, no related document), the
  manager must approve exactly the high and critical risks, nothing is ever marked executable,
  one completion event is published under the incident's id, and no other entity changes.
\<close>

theorem analyze_incident_effects:
  fixes E :: "('t, 'e) ai_env_scheme" and w :: "('t, 'w) world_scheme"
  assumes "quiet E" "can_publish E False"
    and "generate E request authorization w = (Inr (generated, chunks, ids, audit), w1)"
    and "table_ok (dynamo_of E) (tbl w1)"
  shows "case require_roles [OPERATOR_MANAGER, SYSTEM_ADMIN] caller of
      Inl e \<Rightarrow> analyze_incident E caller authorization request w = (Inl e, w)
    | Inr p \<Rightarrow>
       (case result_of E request generated ids audit w1 of
          (Inl e, w2) \<Rightarrow>
            analyze_incident E caller authorization request w = (Inl e, w2) \<and> (\<exists>n. w2 = w1\<lparr>tick := n\<rparr>)
        | (Inr a, w2) \<Rightarrow>
            wf_analysis a \<longrightarrow>
            (\<exists>rid now w'. analyze_incident E caller authorization request w = (Inr a, w') \<and>
               analysis_written E a rid now (tbl w1) (tbl w') \<and>
               announced E ''analysis.completed'' (dict_of (dump_analysis (lib_of E) a))
                 (Some (rq_incident_id request)) (Some (subject p)) w w' \<and>
               an_review_reasons a = expected_reasons generated ids \<and>
               (an_expert_review_required a \<longleftrightarrow> expected_reasons generated ids \<noteq> []) \<and>
               (an_manager_approval_required a \<longleftrightarrow> an_risk_level a \<in> {HIGH, CRITICAL}) \<and>
               an_audit a = Some audit \<and> \<not> an_executable a))"
proof (cases "require_roles [OPERATOR_MANAGER, SYSTEM_ADMIN] caller")
  case (Inl e)
  then show ?thesis by (simp add: analyze_incident_def bnd_of_result_case)
next
  case (Inr p)
  obtain res w2 where r: "result_of E request generated ids audit w1 = (res, w2)" by fastforce
  show ?thesis
  proof (cases res)
    case (Inl e)
    then have "analyze_incident E caller authorization request w = (Inl e, w2)"
      using Inr r assms(3) by (simp add: analyze_incident_def bnd_of_result_case bnd_Inr bnd_Inl)
    then show ?thesis using Inr r Inl result_of_state [OF r] by simp
  next
    case (Inr a)
    note r' = r [unfolded Inr]
    note facts = result_of_Inr [OF r']
    show ?thesis
    proof (cases "wf_analysis a")
      case True
      from analyze_after_generate [OF assms(1,2) \<open>require_roles _ caller = Inr p\<close> assms(3,4) r' True] facts
      show ?thesis using \<open>require_roles _ caller = Inr p\<close> r' by auto
    qed (use \<open>require_roles _ caller = Inr p\<close> r' in simp)
  qed
qed

lemma finite_double_to_float: "to_float x = Fin y \<Longrightarrow> finite_double (Fin y)"
proof -
  assume "to_float x = Fin y"
  then have "y = rnd x" "\<not> 2 ^ 1024 \<le> y" "\<not> y \<le> - (2 ^ 1024)"
    by (auto simp: to_float_def Let_def split: if_splits)
  then show ?thesis by (simp add: finite_double_def to_float_def)
qed

lemma float_lit_0_55: "float_lit (11 / 20) = Fin (2476979795053773 / 4503599627370496)"
  using to_float_eqI [of "-1" "11 / 20" 4953959590107546]
  by (simp add: float_lit_def power_int_def power_divide)

lemma finite_double_0_55: "finite_double (float_lit (11 / 20))"
  using finite_double_to_float float_lit_0_55 by (simp add: float_lit_def)

lemma sample_result:
  "\<exists>a. result_of sample_ai_env r (sample_generated r) [] audit w = (Inr a, w\<lparr>tick := Suc (tick w)\<rparr>) \<and>
     wf_analysis a"
proof -
  define c where "c = \<lparr>cc_cause = mock_cause, cc_confidence = float_lit (11 / 20),
      cc_evidence = [rq_sensor_summary r, rq_log_summary r]\<rparr>"
  have unit: "in_unit (float_lit (11 / 20))" by (simp add: in_unit_def float_lit_0_55)
  have wf: "wf_cause c" by (simp add: c_def wf_cause_def unit finite_double_0_55)
  define s1 where "s1 = \<lparr>st_sequence = 1, st_instruction = mock_instruction_1, st_hazardous = True,
      st_requires_shutdown = True\<rparr>"
  define s2 where "s2 = \<lparr>st_sequence = 2, st_instruction = mock_instruction_2, st_hazardous = False,
      st_requires_shutdown = True\<rparr>"
  have lists: "sub_item (sample_generated r) ''causes'' = Inr (JList (map (dump_cause (lib_of sample_ai_env)) [c]))"
    "sub_item (sample_generated r) ''recommended_actions'' =
       Inr (JList (map (dump_step (lib_of sample_ai_env)) [s1, s2]))"
    by (simp_all add: sample_generated_def dict_get_def dump_cause_def c_def str_list_def mock_actions_def
        dump_step_def s1_def s2_def)
  have cs: "generated_list validate_cause sample_ai_env (sample_generated r) ''causes'' u = (Inr [c], u)" for u
    using cause_model.generated_list_dumped [OF lists(1)] wf by (simp add: sample_lib_ok)
  have st: "generated_list validate_step sample_ai_env (sample_generated r) ''recommended_actions'' u =
      (Inr [s1, s2], u)" for u
    using step_model.generated_list_dumped [OF lists(2)] by (simp add: sample_lib_ok)
  have v: "sub_item (sample_generated r) ''confidence'' = Inr (JFloat (float_lit (11 / 20)))"
    "sub_item (sample_generated r) ''risk_level'' = Inr (JStr (risk_value HIGH))"
    by (simp_all add: sample_generated_def dict_get_def)
  obtain d where d: "evaluate_review_policy (JFloat (float_lit (11 / 20))) False ''high'' = Inr d"
    by (simp add: evaluate_review_policy_def number_of_def Let_def)
  have "wf_analysis a" if "an_confidence a = float_lit (11 / 20)" "an_causes a = [c]" for a
    using that wf by (simp add: wf_analysis_def finite_double_0_55)
  then show ?thesis
    by (simp add: result_of_def bnd_of_result_case v of_option_def bnd_uuid d cs st bnd_Inr
        read_enum_def read_float_def risk_levels_def) (simp add: ret_def)
qed

lemma sample_ai_publishes: "can_publish sample_ai_env False"
  by (simp add: can_publish_def default_settings_def supported_bus_def)

lemma analyze_incident_effects_witness:
  "\<exists>a rid now w'. analyze_incident sample_ai_env (Some (sample_principal SYSTEM_ADMIN)) None sample_rq
       (sample_world []) = (Inr a, w') \<and>
     load_review sample_ai_env (tbl w') rid = Some (review_of a rid now) \<and>
     an_review_reasons a = [''low_confidence'', ''no_related_documents'']"
proof -
  obtain n audit where g: "generate sample_ai_env sample_rq None (sample_world []) =
      (Inr (sample_generated sample_rq, [], [], audit), (sample_world [])\<lparr>tick := n\<rparr>)"
    using sample_generate [of "sample_world []" sample_rq]
    by (auto simp: sample_rq_def sample_table_ok_empty)
  obtain a where r: "result_of sample_ai_env sample_rq (sample_generated sample_rq) [] audit
      ((sample_world [])\<lparr>tick := n\<rparr>) = (Inr a, (sample_world [])\<lparr>tick := Suc n\<rparr>)" and wf: "wf_analysis a"
    using sample_result [of sample_rq audit "(sample_world [])\<lparr>tick := n\<rparr>"] by auto
  have low: "expected_reasons (sample_generated sample_rq) [] = [''low_confidence'', ''no_related_documents'']"
    by (simp add: expected_reasons_def low_confidence_def sample_generated_def dict_get_def number_of_def
        float_lit_0_55 float_lit_0_7)
  have p: "require_roles [OPERATOR_MANAGER, SYSTEM_ADMIN] (Some (sample_principal SYSTEM_ADMIN)) =
      Inr (sample_principal SYSTEM_ADMIN)"
    by (simp add: require_roles_def sample_principal_def)
  have "table_ok (dynamo_of sample_ai_env) (tbl ((sample_world [])\<lparr>tick := n\<rparr>))"
    by (simp add: sample_table_ok_empty)
  from analyze_incident_effects [OF sample_ai_quiet sample_ai_publishes g this,
      of "Some (sample_principal SYSTEM_ADMIN)"]
  show ?thesis unfolding p sum.case r prod.case low
    using wf by (auto simp: analysis_written_def)
qed

section \<open>Expert reviews\<close>

text \<open>The status an update asks for: its own, or \<open>assigned\<close> for a pending review that gets an assignee.\<close>

definition status_after :: "review_update \<Rightarrow> ReviewStatus \<Rightarrow> ReviewStatus" where
  "status_after u s =
     (case ru_status u of
        Some s' \<Rightarrow> s'
      | None \<Rightarrow> if ru_assignee_id u \<noteq> None \<and> s = PENDING then ASSIGNED else s)"

text \<open>An optional field of a review: what the update gives, and what it was otherwise.\<close>

definition given_or :: "'a option \<Rightarrow> 'a option \<Rightarrow> 'a option" where
  "given_or new old = (case new of Some x \<Rightarrow> Some x | None \<Rightarrow> old)"

text \<open>The update changes three fields, each by itself, and no other.\<close>

lemma apply_review_update_eq:
  "apply_review_update u r =
     r\<lparr>er_status := status_after u (er_status r),
       er_assignee_id := given_or (ru_assignee_id u) (er_assignee_id r),
       er_resolution_note := given_or (ru_resolution_note u) (er_resolution_note r)\<rparr>"
  by (cases r) (simp add: apply_review_update_def status_after_def given_or_def Let_def split: option.split)

text \<open>
  C40. A review is updated by managers and administrators; an unknown
  one is 404, an unreadable one is refused, and completing without a note (stored or given, and
  not empty) is 422, all without a trace. Otherwise the review takes the assignee and the note of
  the update where it gives them and keeps its own where it does not, becomes assigned when a
  pending one gets an assignee and no status is given, takes any other status that is asked for
  and the time of the update; its other fields stay, it reads back as it was answered under its
  own id, and nothing else changes.
\<close>

theorem update_expert_review_branches:
  fixes E :: "('t, 'e) env_scheme" and w :: "('t, 'w) world_scheme"
  assumes "quiet E" "table_ok (dynamo_of E) (tbl w)"
  shows "case require_roles [OPERATOR_MANAGER, SYSTEM_ADMIN] caller of
      Inl e \<Rightarrow> update_expert_review E caller rid u w = (Inl e, w)
    | Inr _ \<Rightarrow>
       (case view (dynamo_of E) (tbl w) ''expert_review'' rid of
          None \<Rightarrow> update_expert_review E caller rid u w =
            (Inl (not_found ''Expert review''), w\<lparr>tick := Suc (tick w)\<rparr>)
        | Some v \<Rightarrow>
           (case validate_review (lib_of E) v of
              None \<Rightarrow> update_expert_review E caller rid u w = (Inl ValidationError, w\<lparr>tick := Suc (tick w)\<rparr>)
            | Some r \<Rightarrow>
               let r' = r\<lparr>er_status := status_after u (er_status r),
                          er_assignee_id := given_or (ru_assignee_id u) (er_assignee_id r),
                          er_resolution_note := given_or (ru_resolution_note u) (er_resolution_note r),
                          er_updated_at := now_at E (Suc (tick w))\<rparr>
               in
               (if er_status r' = COMPLETED \<and> \<not> is_set (er_resolution_note r')
                then update_expert_review E caller rid u w = (Inl note_missing, w\<lparr>tick := Suc (tick w)\<rparr>)
                else wf_review r \<longrightarrow>
                  (\<exists>n t. update_expert_review E caller rid u w = (Inr r', w\<lparr>tick := n, tbl := t\<rparr>) \<and>
                     load_review E t (er_id r) = Some r' \<and>
                     same_elsewhere (dynamo_of E) (tbl w) t ''expert_review'' (er_id r)))))"
proof (cases "require_roles [OPERATOR_MANAGER, SYSTEM_ADMIN] caller")
  case (Inl e)
  then show ?thesis by (simp add: update_expert_review_def bnd_of_result_case)
next
  case (Inr p)
  define w1 where "w1 = w\<lparr>tick := Suc (tick w)\<rparr>"
  have get: "repo_get E ''expert_review'' rid w = (Inr (view (dynamo_of E) (tbl w) ''expert_review'' rid), w1)"
    using repo_get_quiet [OF assms] by (simp add: w1_def)
  consider "view (dynamo_of E) (tbl w) ''expert_review'' rid = None"
    | v where "view (dynamo_of E) (tbl w) ''expert_review'' rid = Some v" "validate_review (lib_of E) v = None"
    | v r where "view (dynamo_of E) (tbl w) ''expert_review'' rid = Some v" "validate_review (lib_of E) v = Some r"
    by fastforce
  then show ?thesis
  proof cases
    case (3 v r)
    define r' where "r' = apply_review_update u r"
    define r'' where "r'' = r'\<lparr>er_updated_at := now_at E (tick w1)\<rparr>"
    have r'': "r'' = r\<lparr>er_status := status_after u (er_status r),
        er_assignee_id := given_or (ru_assignee_id u) (er_assignee_id r),
        er_resolution_note := given_or (ru_resolution_note u) (er_resolution_note r),
        er_updated_at := now_at E (Suc (tick w))\<rparr>"
      by (simp add: r''_def r'_def apply_review_update_eq w1_def)
    have upd: "update_expert_review E caller rid u w =
        (if er_status r'' = COMPLETED \<and> \<not> is_set (er_resolution_note r'') then (Inl note_missing, w1)
         else bnd (repo_put E ''expert_review'' (er_id r) (dump_review (lib_of E) r'')) (\<lambda>_. ret r'')
           (w1\<lparr>tick := Suc (tick w1)\<rparr>))"
      using 3 Inr get
      by (simp add: update_expert_review_def bnd_of_result_case bnd_Inr validated_apply Let_def
          r'_def [symmetric] throw_def bnd_now) (auto simp: r''_def r'_def apply_review_update_eq)
    show ?thesis
    proof (cases "er_status r'' = COMPLETED \<and> \<not> is_set (er_resolution_note r'')")
      case True
      then show ?thesis using 3 Inr upd by (simp add: Let_def r'' [symmetric] w1_def)
    next
      case False
      define w2 where "w2 = w1\<lparr>tick := Suc (tick w1)\<rparr>"
      have "\<exists>n t. update_expert_review E caller rid u w = (Inr r'', w\<lparr>tick := n, tbl := t\<rparr>) \<and>
          load_review E t (er_id r) = Some r'' \<and>
          same_elsewhere (dynamo_of E) (tbl w) t ''expert_review'' (er_id r)" if wf: "wf_review r"
      proof -
        have "wf_review r''" using wf by (simp add: r'' wf_review_def)
        moreover have "table_ok (dynamo_of E) (tbl w2)" using assms(2) by (simp add: w2_def w1_def)
        ultimately obtain t where
          s: "repo_put E ''expert_review'' (er_id r) (dump_review (lib_of E) r'') w2 =
            (Inr (), w2\<lparr>tick := tick w2 + 3, tbl := t\<rparr>)"
          "load_review E t (er_id r) = Some r''"
          "\<forall>et eid. et \<in> set entity_types \<longrightarrow> et \<noteq> ''expert_review'' \<or> eid \<noteq> er_id r \<longrightarrow>
             view (dynamo_of E) t et eid = view (dynamo_of E) (tbl w2) et eid"
          using review_store.save [OF assms(1), of w2 r'' "er_id r"] by blast
        have "update_expert_review E caller rid u w = (Inr r'', w2\<lparr>tick := tick w2 + 3, tbl := t\<rparr>)"
          using upd False s(1)
          by (simp add: bnd_Inr w2_def [symmetric] ret_def)
        then have "update_expert_review E caller rid u w = (Inr r'', w\<lparr>tick := tick w2 + 3, tbl := t\<rparr>)"
          by (simp add: w2_def w1_def)
        then show ?thesis using s(2,3) by (fastforce simp: same_elsewhere_def w2_def w1_def)
      qed
      then show ?thesis using 3 Inr False by (auto simp: Let_def r'' [symmetric])
    qed
  qed (use Inr get in \<open>simp_all add: update_expert_review_def bnd_of_result_case bnd_Inr validated_apply
        throw_def w1_def bnd_Inl\<close>)
qed

text \<open>A dismissed review that is reopened: nothing restricts the order of statuses.\<close>

definition sample_review :: expert_review where
  "sample_review =
     \<lparr>er_id = ''r1'', er_analysis_id = ''a1'', er_incident_id = ''i1'', er_status = DISMISSED,
      er_reasons = [''low_confidence''], er_risk_level = HIGH, er_confidence = Fin 0,
      er_assignee_id = None, er_resolution_note = None, er_created_at = 0, er_updated_at = 0\<rparr>"

definition sample_review_table :: "dict list" where
  "sample_review_table = [sample_item ''expert_review'' ''r1'' 1 (dump_review sample_lib sample_review)]"

lemma update_expert_review_branches_witness:
  "\<exists>r w'. update_expert_review sample_ai_env (Some (sample_principal SYSTEM_ADMIN)) ''r1''
       \<lparr>ru_status = Some PENDING, ru_assignee_id = Some ''u2'', ru_resolution_note = None\<rparr>
       (sample_world sample_review_table) = (Inr r, w') \<and> er_status r = PENDING \<and>
       er_assignee_id r = Some ''u2''"
proof -
  have wf: "wf_review sample_review"
    using finite_double_int [of 0] by (simp add: sample_review_def wf_review_def)
  have "view (dynamo_of sample_ai_env) (tbl (sample_world sample_review_table)) ''expert_review'' ''r1'' =
      Some (stored sample_lib (dump_review sample_lib sample_review))"
    by (simp add: sample_review_table_def)
  moreover have "validate_review (lib_of sample_ai_env) (stored sample_lib (dump_review sample_lib sample_review)) =
      Some sample_review"
    using review_store.read_stored [OF sample_lib_ok wf] by simp
  moreover have "require_roles [OPERATOR_MANAGER, SYSTEM_ADMIN] (Some (sample_principal SYSTEM_ADMIN)) =
      Inr (sample_principal SYSTEM_ADMIN)"
    by (simp add: require_roles_def sample_principal_def)
  moreover have "table_ok (dynamo_of sample_ai_env) (tbl (sample_world sample_review_table))"
    using sample_table_ok_items [of sample_review_table] by (simp add: sample_review_table_def sample_item_ok)
  ultimately show ?thesis
    using update_expert_review_branches [OF sample_ai_quiet, of "sample_world sample_review_table"
        "Some (sample_principal SYSTEM_ADMIN)" "''r1''"
        "\<lparr>ru_status = Some PENDING, ru_assignee_id = Some ''u2'', ru_resolution_note = None\<rparr>"] wf
    by (fastforce simp: Let_def status_after_def given_or_def)
qed

section \<open>Evaluation\<close>

lemma each_Inr:
  assumes "each f xs w = (Inr ys, w')" "\<And>x u y u'. x \<in> set xs \<Longrightarrow> f x u = (Inr y, u') \<Longrightarrow> Q x y"
  shows "list_all2 Q xs ys"
  using assms
proof (induction xs arbitrary: w ys)
  case (Cons x xs)
  obtain y w1 ys' where s: "f x w = (Inr y, w1)" "each f xs w1 = (Inr ys', w')" "ys = y # ys'"
    using Cons.prems(1) by (auto elim!: bnd_InrE simp: ret_def)
  have "list_all2 Q xs ys'" using Cons.prems(2) by (intro Cons.IH [OF s(2)]) auto
  then show ?case using s Cons.prems(2) [OF _ s(1)] by simp
qed (simp add: ret_def)

text \<open>A score: a double between zero and one.\<close>

definition is_score :: "pyfloat \<Rightarrow> bool" where
  "is_score f \<longleftrightarrow> (\<exists>x. f = Fin x \<and> is_double x \<and> 0 \<le> x \<and> x \<le> 1)"

lemma ratio_score: "m \<le> n \<Longrightarrow> 0 < n \<Longrightarrow> is_score (int_truediv (int m) (int n))"
  using int_truediv_between [of 0 "int n" "int m" 1] to_float_double
  by (fastforce simp: is_score_def int_truediv_def)

lemma mean_score:
  "xs \<noteq> [] \<Longrightarrow> length xs \<le> 2 ^ 20 \<Longrightarrow> \<forall>f \<in> set xs. is_score f \<Longrightarrow>
   \<exists>m. float_mean xs (length xs) = Some m \<and> is_score m"
  using float_mean_unit [of xs] unfolding is_score_def by fastforce

lemma cause_match_score: "cause_match L expected generated = Inr f \<Longrightarrow> is_score f"
  by (auto simp: cause_match_def split: sum.splits if_splits intro!: ratio_score)

lemma hit_rate_score: "is_score (document_hit_rate expected chunks)"
proof -
  have "is_score (Fin 1)" using is_double_int [of 1] by (simp add: is_score_def)
  then show ?thesis by (auto simp: document_hit_rate_def intro!: ratio_score)
qed

lemma evaluate_case_Inr:
  assumes "evaluate_case E authorization c w = (Inr (r, audit), w')"
  shows "cr_case_id r = ec_id c \<and> is_score (cr_cause_match r) \<and> is_score (cr_document_hit_rate r) \<and>
    resolution_time_reduction c = Some (cr_resolution_time_reduction r) \<and>
    aa_ai_provider audit = ai_provider (settings_of E) \<and> aa_prompt_version audit = PROMPT_VERSION"
proof -
  obtain generated chunks ids w1 causes match reduction where
    g: "generate E (evaluation_request c) authorization w = (Inr (generated, chunks, ids, audit), w1)"
    and m: "cause_match (lib_of E) (ec_expected_causes c) causes = Inr match"
    and d: "resolution_time_reduction c = Some reduction"
    and r: "r = \<lparr>cr_case_id = ec_id c, cr_cause_match = match,
          cr_document_hit_rate = document_hit_rate (ec_expected_document_ids c) chunks,
          cr_resolution_time_reduction = reduction\<rparr>"
    using assms unfolding evaluate_case_def by (auto elim!: bnd_InrE simp: pure_Inr)
  show ?thesis using generate_Inr(4,5) [OF g] cause_match_score [OF m] hit_rate_score d by (simp add: r)
qed

text \<open>
  C15. A finished evaluation covers the whole, non-empty dataset in its
  order and names the configured provider and prompt version; every case's cause match and
  document hit rate are doubles between 0 and 1, and so are their two averages (for up to
  \<open>2 ^ 20\<close> cases), whatever the roundings of Python's compensated sum.
\<close>

theorem evaluation_scores_bounded:
  assumes "run_evaluation E caller authorization w = (Inr run, w')"
  shows "\<exists>cases u. list_evaluation_dataset E w = (Inr cases, u) \<and> cases \<noteq> [] \<and>
    map cr_case_id (ev_cases run) = map ec_id cases \<and> ev_case_count run = int (length cases) \<and>
    ev_ai_provider run = ai_provider (settings_of E) \<and> ev_prompt_version run = PROMPT_VERSION \<and>
    (\<forall>r \<in> set (ev_cases run). is_score (cr_cause_match r) \<and> is_score (cr_document_hit_rate r)) \<and>
    (length cases \<le> 2 ^ 20 \<longrightarrow>
       is_score (ev_cause_candidate_accuracy run) \<and> is_score (ev_document_hit_rate run))"
proof -
  obtain cases u outcomes w1 w2 where
    l: "list_evaluation_dataset E w = (Inr cases, u)" and ne: "cases \<noteq> []"
    and e: "each (evaluate_case E authorization) cases u = (Inr outcomes, w1)"
    and s: "summarize_run E outcomes w1 = (Inr run, w2)"
    using assms unfolding run_evaluation_def
    by (auto elim!: bnd_InrE simp: pure_Inr throw_def split: if_splits)
  define results where "results = map fst outcomes"
  have run: "ev_cases run = results" "ev_case_count run = int (length results)"
    "ev_ai_provider run = aa_ai_provider (snd (last outcomes))"
    "ev_prompt_version run = aa_prompt_version (snd (last outcomes))"
    "float_mean (map cr_cause_match results) (length results) = Some (ev_cause_candidate_accuracy run)"
    "float_mean (map cr_document_hit_rate results) (length results) = Some (ev_document_hit_rate run)"
    using s unfolding summarize_run_def Let_def results_def
    by (auto elim!: bnd_InrE simp: pure_Inr)
  have all: "list_all2 (\<lambda>c y. cr_case_id (fst y) = ec_id c \<and> is_score (cr_cause_match (fst y)) \<and>
      is_score (cr_document_hit_rate (fst y)) \<and> aa_ai_provider (snd y) = ai_provider (settings_of E) \<and>
      aa_prompt_version (snd y) = PROMPT_VERSION) cases outcomes"
    by (rule each_Inr [OF e]) (auto dest: evaluate_case_Inr)
  have len: "length outcomes = length cases" using list_all2_lengthD [OF all] by simp
  have ids: "map cr_case_id results = map ec_id cases"
    using all unfolding results_def by (induction rule: list_all2_induct) simp_all
  have each: "is_score (cr_cause_match (fst y)) \<and> is_score (cr_document_hit_rate (fst y)) \<and>
      aa_ai_provider (snd y) = ai_provider (settings_of E) \<and> aa_prompt_version (snd y) = PROMPT_VERSION"
    if "y \<in> set outcomes" for y
    using all that by (auto simp: list_all2_conv_all_nth in_set_conv_nth)
  have scores: "\<forall>r \<in> set results. is_score (cr_cause_match r) \<and> is_score (cr_document_hit_rate r)"
    using each by (auto simp: results_def)
  have "last outcomes \<in> set outcomes" using len ne by (intro last_in_set) auto
  note last = each [OF this]
  have "is_score (ev_cause_candidate_accuracy run) \<and> is_score (ev_document_hit_rate run)"
    if "length cases \<le> 2 ^ 20"
  proof -
    have r: "results \<noteq> []" "length results \<le> 2 ^ 20" using len ne that by (auto simp: results_def)
    from mean_score [of "map cr_cause_match results"] mean_score [of "map cr_document_hit_rate results"]
    show ?thesis using r scores run(5,6) by simp
  qed
  then show ?thesis using l ne ids run len last scores by (simp add: results_def)
qed

text \<open>A dataset of one case.\<close>

definition sample_case :: evaluation_case where
  "sample_case =
     \<lparr>ec_id = ''c1'', ec_name = ''bearing'', ec_equipment_id = ''PRESS-001'',
      ec_sensor_summary = ''hot'', ec_log_summary = ''E42'', ec_expected_causes = [''''],
      ec_expected_document_ids = [], ec_baseline_resolution_minutes = Fin 1,
      ec_actual_resolution_minutes = Fin 1\<rparr>"

definition sample_case_table :: "dict list" where
  "sample_case_table =
     [sample_item ''evaluation_case'' ''c1'' 1 (dump_evaluation_case sample_lib sample_case)]"

lemma sample_case_wf: "wf_evaluation_case sample_case"
  using finite_double_int [of 1]
  by (simp add: sample_case_def wf_evaluation_case_def above_zero_def from_zero_def)

lemma sample_dataset:
  "\<exists>n. list_evaluation_dataset sample_ai_env (sample_world sample_case_table) =
     (Inr [sample_case], (sample_world sample_case_table)\<lparr>tick := n\<rparr>)"
proof -
  let ?t = sample_case_table
  have "filter (\<lambda>it. dict_get it ''entity_type'' = Some (JStr ''evaluation_case'')) ?t = ?t"
    by (simp add: sample_case_table_def sample_item_def make_item_def dict_get_def)
  then have l: "lists_as (dynamo_of sample_ai_env) (tbl (sample_world ?t)) ''evaluation_case'' ?t"
    using mem_lists_as [of ?t "''evaluation_case''"] by simp
  have d: "dict_get it ''data'' = Some (stored sample_lib (dump_evaluation_case sample_lib sample_case))"
    if "it \<in> set ?t" for it
    using that by (simp add: sample_case_table_def)
  obtain n where "repo_list sample_ai_env ''evaluation_case'' (sample_world ?t) =
      (Inr [stored sample_lib (dump_evaluation_case sample_lib sample_case)], (sample_world ?t)\<lparr>tick := n\<rparr>)"
    using repo_list_quiet [OF sample_ai_quiet l] d by (fastforce simp: sample_case_table_def)
  then have "list_evaluation_dataset sample_ai_env (sample_world ?t) =
      (Inr [sample_case], (sample_world ?t)\<lparr>tick := n\<rparr>)"
    using evaluation_case_store.read_stored [OF sample_lib_ok sample_case_wf]
    by (simp add: list_evaluation_dataset_def bnd_Inr validated_apply ret_def)
  then show ?thesis by blast
qed

lemma sample_reduction: "resolution_time_reduction sample_case = Some (Fin 0)"
  using is_double_int [of 1]
  by (simp add: resolution_time_reduction_def sample_case_def float_sub_def to_float_def)

lemma sample_evaluated:
  fixes w :: "dict list world"
  assumes "tbl w = sample_case_table"
  shows "\<exists>r audit n. evaluate_case sample_ai_env None sample_case w = (Inr (r, audit), w\<lparr>tick := n\<rparr>) \<and>
    wf_case_result r \<and> cr_resolution_time_reduction r = Fin 0"
proof -
  have "table_ok mem_dynamo (tbl w)"
    using sample_table_ok_items [of sample_case_table] assms by (simp add: sample_case_table_def sample_item_ok)
  moreover have "filter (\<lambda>it. dict_get it ''entity_type'' = Some (JStr et)) (tbl w) = []"
    if "et \<noteq> ''evaluation_case''" for et
    using that by (simp add: assms sample_case_table_def sample_item_def make_item_def dict_get_def)
  moreover have "view mem_dynamo (tbl w) ''equipment'' ''PRESS-001'' = None"
    by (simp add: assms sample_case_table_def entity_key_def ascii_upper_def upper_char_def)
  ultimately obtain n audit where g: "generate sample_ai_env (evaluation_request sample_case) None w =
      (Inr (sample_generated (evaluation_request sample_case), [], [], audit), w\<lparr>tick := n\<rparr>)"
    using sample_generate [of w "evaluation_request sample_case"]
    by (auto simp: evaluation_request_def sample_case_def)
  have any: "has_substring [] s" for s by (cases s) (simp_all add: starts_with_def)
  have one: "int_truediv 1 1 = Fin 1"
    using finite_double_int [of 1] by (simp add: int_truediv_def finite_double_def)
  obtain causes where c: "sub_item (sample_generated (evaluation_request sample_case)) ''causes'' = Inr (JList causes)"
    "cause_match sample_lib [''''] causes = Inr (Fin 1)"
    by (simp add: sample_generated_def dict_get_def cause_match_def cause_matches_def any one
        sample_lib_def ascii_lower_def)
  define r where "r = \<lparr>cr_case_id = ec_id sample_case, cr_cause_match = Fin 1,
      cr_document_hit_rate = document_hit_rate (ec_expected_document_ids sample_case) [],
      cr_resolution_time_reduction = Fin 0\<rparr>"
  have "evaluate_case sample_ai_env None sample_case w = (Inr (r, audit), w\<lparr>tick := n\<rparr>)"
    using g c
    by (simp add: evaluate_case_def bnd_Inr bnd_of_result_case py_iter_def sample_reduction of_option_def
        r_def) (simp add: sample_case_def ret_def)
  moreover have "wf_case_result r"
    using finite_double_int [of 1] finite_double_int [of 0]
    by (simp add: r_def wf_case_result_def sample_case_def document_hit_rate_def)
  ultimately show ?thesis using r_def by auto
qed

lemma score_finite: "is_score f \<Longrightarrow> finite_double f"
  by (auto simp: is_score_def finite_double_def to_float_fin is_double_def)

lemma sample_run:
  "\<exists>run w'. run_evaluation sample_ai_env (Some (sample_principal SYSTEM_ADMIN)) None
     (sample_world sample_case_table) = (Inr run, w') \<and> length (ev_cases run) = 1"
proof -
  let ?w = "sample_world sample_case_table"
  obtain n where l: "list_evaluation_dataset sample_ai_env ?w = (Inr [sample_case], ?w\<lparr>tick := n\<rparr>)"
    using sample_dataset by blast
  obtain r audit m where
    e: "evaluate_case sample_ai_env None sample_case (?w\<lparr>tick := n\<rparr>) = (Inr (r, audit), ?w\<lparr>tick := m\<rparr>)"
    and wf: "wf_case_result r" and red: "cr_resolution_time_reduction r = Fin 0"
    using sample_evaluated [of "?w\<lparr>tick := n\<rparr>"] by auto
  have sc: "is_score (cr_cause_match r)" "is_score (cr_document_hit_rate r)"
    "is_score (cr_resolution_time_reduction r)"
    using evaluate_case_Inr [OF e] red is_double_int [of 0] by (simp_all add: is_score_def)
  obtain a h d where means: "float_mean [cr_cause_match r] 1 = Some a" "is_score a"
    "float_mean [cr_document_hit_rate r] 1 = Some h" "is_score h"
    "float_mean [cr_resolution_time_reduction r] 1 = Some d" "is_score d"
    using mean_score [of "[cr_cause_match r]"] mean_score [of "[cr_document_hit_rate r]"]
      mean_score [of "[cr_resolution_time_reduction r]"] sc by fastforce
  define k where "k = Suc (Suc m)"
  have "\<exists>run. summarize_run sample_ai_env [(r, audit)] (?w\<lparr>tick := m\<rparr>) = (Inr run, ?w\<lparr>tick := k\<rparr>) \<and>
      wf_run run \<and> ev_cases run = [r]"
    using means wf
    by (simp add: summarize_run_def Let_def bnd_uuid bnd_now of_option_def wf_run_def score_finite)
      (simp add: ret_def wf_run_def score_finite k_def)
  then obtain run where
    s: "summarize_run sample_ai_env [(r, audit)] (?w\<lparr>tick := m\<rparr>) = (Inr run, ?w\<lparr>tick := k\<rparr>)"
    and rw: "wf_run run" "ev_cases run = [r]" by blast
  have "table_ok (dynamo_of sample_ai_env) (tbl (?w\<lparr>tick := k\<rparr>))"
    using sample_table_ok_items [of sample_case_table] by (simp add: sample_case_table_def sample_item_ok)
  from run_store.save [OF sample_ai_quiet this rw(1), of "ev_id run"] obtain w' where
    p: "repo_put sample_ai_env ''evaluation_run'' (ev_id run) (dump_run (lib_of sample_ai_env) run)
      (?w\<lparr>tick := k\<rparr>) = (Inr (), w')" by blast
  have "require_roles [OPERATOR_MANAGER, SYSTEM_ADMIN] (Some (sample_principal SYSTEM_ADMIN)) =
      Inr (sample_principal SYSTEM_ADMIN)"
    by (simp add: require_roles_def sample_principal_def)
  then have "run_evaluation sample_ai_env (Some (sample_principal SYSTEM_ADMIN)) None ?w = (Inr run, w')"
    using l e s p by (simp add: run_evaluation_def bnd_of_result_case bnd_Inr ret_def)
  then show ?thesis using rw(2) by auto
qed

lemma evaluation_scores_bounded_witness:
  "\<exists>run w'. run_evaluation sample_ai_env (Some (sample_principal SYSTEM_ADMIN)) None
       (sample_world sample_case_table) = (Inr run, w') \<and> is_score (ev_cause_candidate_accuracy run)"
proof -
  obtain run w' where r: "run_evaluation sample_ai_env (Some (sample_principal SYSTEM_ADMIN)) None
      (sample_world sample_case_table) = (Inr run, w')" "length (ev_cases run) = 1"
    using sample_run by blast
  from evaluation_scores_bounded [OF r(1)] r(2) have "is_score (ev_cause_candidate_accuracy run)"
    by (metis length_map numeral_le_one_iff one_le_power one_le_numeral)
  then show ?thesis using r(1) by blast
qed

end
