(* ===== verification/MetricsProperties.thy ===== *)
theory MetricsProperties
  imports Metrics AnalysisProperties WorkOrderProperties
begin

text \<open>
  The summary of \<open>services/metrics/app/main.py\<close> over a table that holds what the services
  stored: every figure is a number, and each is the one its name promises.
\<close>

section \<open>Reading stored models\<close>

definition holds_model :: "lib \<Rightarrow> (lib \<Rightarrow> 'a \<Rightarrow> json) \<Rightarrow> 'a \<Rightarrow> json \<Rightarrow> bool" where
  "holds_model L dump x v \<longleftrightarrow> same_value (stored L (dump L x)) v"

lemma holds_lookup:
  assumes "holds_model L dump x v" "dump L x = JObj d" "map_of d k = Some y"
  shows "\<exists>d' y'. v = JObj d' \<and> dict_get d' k = Some y' \<and> same_value (stored L y) y'"
proof -
  have s: "same_value (wire (JObj (map (map_prod id (dynamodb_value (float_repr L))) d))) v"
    using assms by (simp add: holds_model_def stored_def)
  then obtain d' where v: "v = JObj d'" by (auto elim: same_obj_l)
  with s same_lookup [of "map (map_prod id (dynamodb_value (float_repr L))) d" d' k] assms(3)
  show ?thesis by (auto simp: dict_get_def stored_def)
qed

lemma same_scalar [simp]:
  "same_value (JBool b) y \<longleftrightarrow> y = JBool b" "same_value (JStr s) y \<longleftrightarrow> y = JStr s"
  "same_value (JDec d) y \<longleftrightarrow> y = JDec d"
  by (auto elim: same_bool_l same_str_l same_dec_l)

lemma feedback_fields:
  assumes "holds_model L dump_feedback f v"
  shows "sub_item v ''cause_accuracy'' = Inr (JDec (of_int (fb_cause_accuracy f)))"
    and "sub_item v ''action_usefulness'' = Inr (JDec (of_int (fb_action_usefulness f)))"
  using holds_lookup [OF assms dump_feedback_def, of "''cause_accuracy''"]
    holds_lookup [OF assms dump_feedback_def, of "''action_usefulness''"]
  by auto

lemma analysis_field:
  assumes "holds_model L dump_analysis a v"
  shows "needs_review v = Inr (an_expert_review_required a)"
  using holds_lookup [OF assms dump_analysis_def, of "''expert_review_required''"]
  by (auto simp: needs_review_def dict_get_or_def)

definition approving :: "ApprovalDecision \<Rightarrow> bool" where
  "approving d \<longleftrightarrow> d \<noteq> REJECT"

lemma approval_field:
  assumes "holds_model L dump_approval a v"
  shows "is_approved v = Inr (approving (ap_decision a))"
  using holds_lookup [OF assms dump_approval_def, of "''decision''"]
  by (cases "ap_decision a") (auto simp: is_approved_def dict_get_or_def approving_def)

text \<open>The decimal that a finite field of a run is read back as.\<close>

definition shown :: "lib \<Rightarrow> pyfloat \<Rightarrow> json" where
  "shown L f = stored L (JFloat f)"

lemma shown_fin: "finite_double f \<Longrightarrow> \<exists>x. shown L f = JDec x"
  by (cases f) (auto simp: finite_double_def shown_def)

lemma run_fields:
  assumes "holds_model L dump_run r v" "wf_run r"
  shows "created_key L v = Inr (format_datetime L (ev_created_at r), v)"
    and "\<exists>d. v = JObj d \<and>
      dict_get d ''cause_candidate_accuracy'' = Some (shown L (ev_cause_candidate_accuracy r)) \<and>
      dict_get d ''document_hit_rate'' = Some (shown L (ev_document_hit_rate r)) \<and>
      dict_get d ''resolution_time_reduction'' = Some (shown L (ev_resolution_time_reduction r)) \<and>
      dict_get d ''case_count'' = Some (JDec (of_int (ev_case_count r)))"
proof -
  note look = holds_lookup [OF assms(1) dump_run_def]
  show "created_key L v = Inr (format_datetime L (ev_created_at r), v)"
    using look [of "''created_at''"] by (auto simp: created_key_def dict_get_or_def py_str_def)
  obtain x y z where "shown L (ev_cause_candidate_accuracy r) = JDec x"
    "shown L (ev_document_hit_rate r) = JDec y" "shown L (ev_resolution_time_reduction r) = JDec z"
    using shown_fin assms(2) unfolding wf_run_def by metis
  then show "\<exists>d. v = JObj d \<and>
      dict_get d ''cause_candidate_accuracy'' = Some (shown L (ev_cause_candidate_accuracy r)) \<and>
      dict_get d ''document_hit_rate'' = Some (shown L (ev_document_hit_rate r)) \<and>
      dict_get d ''resolution_time_reduction'' = Some (shown L (ev_resolution_time_reduction r)) \<and>
      dict_get d ''case_count'' = Some (JDec (of_int (ev_case_count r)))"
    using look [of "''cause_candidate_accuracy''"] look [of "''document_hit_rate''"]
      look [of "''resolution_time_reduction''"] look [of "''case_count''"]
    by (auto simp: shown_def)
qed

section \<open>Counting, averaging, choosing\<close>

lemma count_true_all:
  "list_all2 (\<lambda>x v. test v = Inr (p x)) xs vs \<Longrightarrow>
   count_true test vs = Inr (int (length (filter p xs)))"
  by (induction xs vs rule: list_all2_induct) auto

lemma share_unit:
  "xs \<noteq> [] \<Longrightarrow> between_ints 0 1 (JFloat (int_truediv (int (length (filter p xs))) (int (length xs))))"
  using int_truediv_between [of 0 "int (length xs)" "int (length (filter p xs))" 1]
  by (auto simp: between_ints_def)

text \<open>
  The average of the ratings \<open>f\<close> of a list of feedback: 0.0 for none, and otherwise a decimal
  between 1 and 5 that is within half a unit of the 28th digit of the exact average.
\<close>

definition averages :: "('a \<Rightarrow> int) \<Rightarrow> 'a list \<Rightarrow> json \<Rightarrow> bool" where
  "averages f xs v \<longleftrightarrow>
     (if xs = [] then v = JFloat (Fin 0) else \<exists>d. v = JDec d \<and> is_average (map f xs) d)"

lemma feedback_average_stored:
  assumes "list_all2 (\<lambda>x v. sub_item v key = Inr (JDec (of_int (f x)))) xs vs"
    and "\<forall>x \<in> set xs. 1 \<le> f x \<and> f x \<le> 5" "int (length xs) < 10 ^ 27"
  shows "\<exists>v. feedback_average key vs w = (Inr v, w) \<and> averages f xs v"
proof (cases "xs = []")
  case True
  then show ?thesis using assms(1) by (simp add: feedback_average_def averages_def ret_def)
next
  case False
  have len: "length xs = length vs" using assms(1) by (rule list_all2_lengthD)
  have items: "map (\<lambda>item. sub_item item key) vs = map (\<lambda>k. Inr (JDec (of_int k))) (map f xs)"
    using assms(1) by (induction xs vs rule: list_all2_induct) auto
  obtain r d where "number_sum (IntNum 0) (map (\<lambda>item. sub_item item key) vs) = Inr r"
    "number_div r (int (length vs)) = JDec d" "is_average (map f xs) d"
    using number_average [of "map f xs"] assms(2,3) False len unfolding items by auto
  then show ?thesis using False len
    by (auto simp: feedback_average_def averages_def bnd_of_result_case ret_def)
qed

text \<open>The order of strings, and the element \<open>max\<close> picks.\<close>

lemma str_less_irrefl [simp]: "\<not> str_less s s"
  by (induction s) auto

lemma str_less_trans: "str_less a b \<Longrightarrow> str_less b c \<Longrightarrow> str_less a c"
proof (induction a b arbitrary: c rule: str_less.induct)
  case (2 x xs)
  then show ?case by (cases c) auto
next
  case (3 x xs y ys)
  then show ?case by (cases c) auto
qed simp

lemma str_less_linear: "\<not> str_less a b \<Longrightarrow> \<not> str_less b a \<Longrightarrow> a = b"
proof (induction a b rule: str_less.induct)
  case (1 a)
  then show ?case by (cases a) auto
next
  case (3 x xs y ys)
  then have "(of_char x :: nat) = of_char y" by auto
  then show ?case using 3 by (auto dest: injD [OF inj_of_char])
qed simp

lemma not_str_less_trans: "\<not> str_less a b \<Longrightarrow> \<not> str_less b c \<Longrightarrow> \<not> str_less a c"
  using str_less_trans str_less_linear by metis

lemma max_first_max:
  "\<exists>p \<in> set (b # ps). max_first b ps = snd p \<and> (\<forall>q \<in> set (b # ps). \<not> str_less (fst p) (fst q))"
proof (induction ps arbitrary: b)
  case (Cons x ps)
  define b' where "b' = (if str_less (fst b) (fst x) then x else b)"
  obtain p where p: "p \<in> set (b' # ps)" "max_first b' ps = snd p"
    "\<forall>q \<in> set (b' # ps). \<not> str_less (fst p) (fst q)"
    using Cons.IH by blast
  have "\<not> str_less (fst b') (fst b)" "\<not> str_less (fst b') (fst x)"
    using str_less_trans [of "fst b" "fst x" "fst b"] by (auto simp: b'_def)
  then have "\<not> str_less (fst p) (fst q)" if "q = b \<or> q = x" for q
    using p(3) that not_str_less_trans by auto
  moreover have "p \<in> set (b # x # ps)" using p(1) by (auto simp: b'_def split: if_splits)
  ultimately show ?case using p by (intro bexI [of _ p]) (simp_all add: b'_def)
qed simp

section \<open>The summary\<close>

definition is_number :: "json \<Rightarrow> bool" where
  "is_number v \<longleftrightarrow> (case v of JInt _ \<Rightarrow> True | JDec _ \<Rightarrow> True | JFloat f \<Rightarrow> is_finite_float f | _ \<Rightarrow> False)"

definition share :: "('a \<Rightarrow> bool) \<Rightarrow> 'a list \<Rightarrow> json" where
  "share p xs =
     JFloat (if xs = [] then Fin 0 else int_truediv (int (length (filter p xs))) (int (length xs)))"

lemma between_ints_number: "between_ints a b v \<Longrightarrow> is_number v"
  by (auto simp: between_ints_def is_number_def is_finite_float_def split: json.splits pyfloat.splits)

lemma share_between: "between_ints 0 1 (share p xs)"
  using share_unit [of xs p] by (cases "xs = []") (simp_all add: share_def between_ints_def)

text \<open>What the summary shows of the evaluation run it picks.\<close>

definition shows_run :: "lib \<Rightarrow> dict \<Rightarrow> evaluation_run \<Rightarrow> bool" where
  "shows_run L m r \<longleftrightarrow>
     dict_get m ''cause_candidate_accuracy'' = Some (shown L (ev_cause_candidate_accuracy r)) \<and>
     dict_get m ''document_hit_rate'' = Some (shown L (ev_document_hit_rate r)) \<and>
     dict_get m ''resolution_time_reduction'' = Some (shown L (ev_resolution_time_reduction r)) \<and>
     dict_get m ''evaluation_case_count'' = Some (JDec (of_int (ev_case_count r)))"

definition latest_among :: "lib \<Rightarrow> evaluation_run list \<Rightarrow> evaluation_run \<Rightarrow> bool" where
  "latest_among L rs r \<longleftrightarrow> r \<in> set rs \<and>
     (\<forall>r' \<in> set rs. \<not> str_less (format_datetime L (ev_created_at r)) (format_datetime L (ev_created_at r')))"

lemma each_created:
  "list_all2 (holds_model L dump_run) rs vs \<Longrightarrow> \<forall>r \<in> set rs. wf_run r \<Longrightarrow>
   each (\<lambda>item. of_result (created_key L item)) vs w =
     (Inr (map2 (\<lambda>r v. (format_datetime L (ev_created_at r), v)) rs vs), w)"
  by (induction rs vs rule: list_all2_induct) (simp_all add: ret_def bnd_of_result_case run_fields(1) bnd_Inr)

lemma latest_run_models:
  assumes "list_all2 (holds_model L dump_run) rs vs" "\<forall>r \<in> set rs. wf_run r"
  shows "\<exists>v. latest_run L vs w = (Inr v, w) \<and>
    (if rs = [] then v = JObj [] else \<exists>r. latest_among L rs r \<and> holds_model L dump_run r v)"
proof (cases rs)
  case Nil
  then show ?thesis using assms(1) by (simp add: latest_run_def bnd_def ret_def)
next
  case (Cons r0 rs0)
  define ps where "ps = map2 (\<lambda>r v. (format_datetime L (ev_created_at r), v)) rs vs"
  have len: "length rs = length vs" using assms(1) by (rule list_all2_lengthD)
  then obtain p0 ps0 where ps: "ps = p0 # ps0" using Cons by (cases vs) (auto simp: ps_def)
  obtain p where p: "p \<in> set ps" "max_first p0 ps0 = snd p" "\<forall>q \<in> set ps. \<not> str_less (fst p) (fst q)"
    using max_first_max [of p0 ps0] unfolding ps by blast
  obtain r where r: "(r, snd p) \<in> set (zip rs vs)" "fst p = format_datetime L (ev_created_at r)"
    using p(1) by (auto simp: ps_def)
  have "fst ` set ps = (\<lambda>r. format_datetime L (ev_created_at r)) ` set rs"
    using arg_cong [OF map_fst_zip [OF len], of set] by (force simp: ps_def image_iff)
  then have "latest_among L rs r"
    using r p(3) set_zip_leftD [OF r(1)] unfolding latest_among_def by (metis (no_types, lifting) imageE imageI)
  moreover have "holds_model L dump_run r (snd p)"
    using assms(1) r(1) by (auto simp: list_all2_iff)
  moreover have "latest_run L vs w = (Inr (snd p), w)"
    by (simp add: latest_run_def bnd_Inr each_created [OF assms] ps_def [symmetric]) (simp add: ps p(2) ret_def)
  ultimately show ?thesis using Cons by auto
qed

lemma review_rate_models:
  assumes "list_all2 (holds_model L dump_analysis) as vs"
  shows "review_rate (JList vs) w = (Inr (share an_expert_review_required as), w)"
proof -
  have "list_all2 (\<lambda>a v. needs_review v = Inr (an_expert_review_required a)) as vs"
    using assms by (rule list_all2_mono) (rule analysis_field)
  from count_true_all [OF this] list_all2_lengthD [OF assms] show ?thesis
    by (auto simp: review_rate_def py_iter_def json_len_def bnd_of_result_case share_def ret_def)
qed

lemma approval_models:
  assumes "list_all2 (holds_model L dump_approval) aps vs"
  shows "count_true is_approved vs = Inr (int (length (filter (approving \<circ> ap_decision) aps)))"
    and "approval_rate (int (length (filter (approving \<circ> ap_decision) aps))) (JList vs) w =
      (Inr (share (approving \<circ> ap_decision) aps), w)"
proof -
  have "list_all2 (\<lambda>a v. is_approved v = Inr ((approving \<circ> ap_decision) a)) aps vs"
    using assms by (rule list_all2_mono) (simp add: approval_field)
  from count_true_all [OF this]
  show "count_true is_approved vs = Inr (int (length (filter (approving \<circ> ap_decision) aps)))" .
  show "approval_rate (int (length (filter (approving \<circ> ap_decision) aps))) (JList vs) w =
      (Inr (share (approving \<circ> ap_decision) aps), w)"
    using list_all2_lengthD [OF assms]
    by (auto simp: approval_rate_def json_len_def bnd_of_result_case share_def ret_def)
qed

lemma feedback_average_models:
  assumes "list_all2 (holds_model L dump_feedback) fs vs" "\<forall>f \<in> set fs. wf_feedback f"
    and "int (length fs) < 10 ^ 27"
  shows "\<exists>v. feedback_average ''cause_accuracy'' vs w = (Inr v, w) \<and> averages fb_cause_accuracy fs v"
    and "\<exists>v. feedback_average ''action_usefulness'' vs w = (Inr v, w) \<and>
      averages fb_action_usefulness fs v"
proof -
  have "list_all2 (\<lambda>f v. sub_item v ''cause_accuracy'' = Inr (JDec (of_int (fb_cause_accuracy f)))) fs vs"
    using assms(1) by (rule list_all2_mono) (rule feedback_fields(1))
  then show "\<exists>v. feedback_average ''cause_accuracy'' vs w = (Inr v, w) \<and> averages fb_cause_accuracy fs v"
    by (rule feedback_average_stored) (use assms(2,3) in \<open>auto simp: wf_feedback_def one_to_five_def\<close>)
  have "list_all2 (\<lambda>f v. sub_item v ''action_usefulness'' =
      Inr (JDec (of_int (fb_action_usefulness f)))) fs vs"
    using assms(1) by (rule list_all2_mono) (rule feedback_fields(2))
  then show "\<exists>v. feedback_average ''action_usefulness'' vs w = (Inr v, w) \<and>
      averages fb_action_usefulness fs v"
    by (rule feedback_average_stored) (use assms(2,3) in \<open>auto simp: wf_feedback_def one_to_five_def\<close>)
qed

lemma averages_number: "averages f xs v \<Longrightarrow> is_number v"
  by (auto simp: averages_def is_number_def is_finite_float_def split: if_splits)

text \<open>The last four entries.\<close>

definition run_entries :: "dict \<Rightarrow> dict" where
  "run_entries d =
     [(''cause_candidate_accuracy'', dict_get_or d ''cause_candidate_accuracy'' (JFloat (Fin 0))),
      (''document_hit_rate'', dict_get_or d ''document_hit_rate'' (JFloat (Fin 0))),
      (''resolution_time_reduction'', dict_get_or d ''resolution_time_reduction'' (JFloat (Fin 0))),
      (''evaluation_case_count'', dict_get_or d ''case_count'' (JInt 0))]"

lemma run_entries_models:
  assumes "if rs = [] then v = JObj [] else \<exists>r. latest_among L rs r \<and> holds_model L dump_run r v"
    and "\<forall>r \<in> set rs. wf_run r"
  shows "(\<forall>(k, x) \<in> set (run_entries (dict_of v)). is_number x) \<and>
    (rs \<noteq> [] \<longrightarrow> (\<exists>r. latest_among L rs r \<and> shows_run L (run_entries (dict_of v)) r))"
proof (cases "rs = []")
  case True
  then show ?thesis using assms(1)
    by (simp add: run_entries_def dict_get_or_def dict_get_def is_number_def is_finite_float_def)
next
  case False
  then obtain r where r: "latest_among L rs r" "holds_model L dump_run r v" using assms(1) by auto
  then have wf: "wf_run r" using assms(2) by (auto simp: latest_among_def)
  obtain x y z where xyz: "shown L (ev_cause_candidate_accuracy r) = JDec x"
    "shown L (ev_document_hit_rate r) = JDec y" "shown L (ev_resolution_time_reduction r) = JDec z"
    using shown_fin wf unfolding wf_run_def by metis
  from run_fields(2) [OF r(2) wf] obtain d where "v = JObj d"
    "dict_get_or d ''cause_candidate_accuracy'' (JFloat (Fin 0)) = JDec x"
    "dict_get_or d ''document_hit_rate'' (JFloat (Fin 0)) = JDec y"
    "dict_get_or d ''resolution_time_reduction'' (JFloat (Fin 0)) = JDec z"
    "dict_get_or d ''case_count'' (JInt 0) = JDec (of_int (ev_case_count r))"
    by (auto simp: dict_get_or_def xyz)
  then have "(\<forall>(k, x) \<in> set (run_entries (dict_of v)). is_number x) \<and> shows_run L (run_entries (dict_of v)) r"
    by (simp add: run_entries_def is_number_def shows_run_def dict_get_def xyz)
  then show ?thesis using r(1) by blast
qed

text \<open>
  C12. Over a table that holds what the services stored, the summary is
  always produced and every one of its nine entries is a number, as its return type promises: the
  counts are those of the stored models, the review rate and the approval rate are the shares of
  the analyses that need a review and of the decisions that approve, doubles between 0 and 1, the
  cause accuracy and the action usefulness are each the average of that rating over the stored
  feedback (0.0 without feedback): between 1 and 5, and within half a unit of the 28th digit of
  the exact average, and the evaluation figures are those of a run whose creation time, read as
  text, is exceeded by no other.
\<close>

theorem metrics_summary_of_models:
  fixes E :: "('t, 'e) http_env_scheme" and w :: "('t, 'w) world_scheme"
  defines "L \<equiv> lib_of E"
  assumes "\<not> (is_set (analysis_service_url (settings_of E)) \<and> is_set (work_order_service_url (settings_of E)))"
    and "repo_list E ''feedback'' w = (Inr fvs, w1)" "repo_list E ''analysis'' w1 = (Inr avs, w2)"
    and "repo_list E ''approval'' w2 = (Inr pvs, w3)" "repo_list E ''evaluation_run'' w3 = (Inr rvs, w4)"
    and "list_all2 (holds_model L dump_feedback) fs fvs" "\<forall>f \<in> set fs. wf_feedback f"
    and "list_all2 (holds_model L dump_analysis) as avs" "list_all2 (holds_model L dump_approval) aps pvs"
    and "list_all2 (holds_model L dump_run) rs rvs" "\<forall>r \<in> set rs. wf_run r"
    and "int (length fs) < 10 ^ 27"
  shows "\<exists>m cause action.
    metrics_summary E authorization w = (Inr m, w4) \<and> length m = 9 \<and> (\<forall>(k, v) \<in> set m. is_number v) \<and>
    dict_get m ''analysis_count'' = Some (JInt (int (length as))) \<and>
    dict_get m ''expert_review_rate'' = Some (share an_expert_review_required as) \<and>
    dict_get m ''approval_rate'' = Some (share (approving \<circ> ap_decision) aps) \<and>
    between_ints 0 1 (share an_expert_review_required as) \<and>
    between_ints 0 1 (share (approving \<circ> ap_decision) aps) \<and>
    dict_get m ''cause_accuracy_average'' = Some cause \<and> averages fb_cause_accuracy fs cause \<and>
    dict_get m ''action_usefulness_average'' = Some action \<and>
    averages fb_action_usefulness fs action \<and>
    (rs \<noteq> [] \<longrightarrow> (\<exists>r. latest_among L rs r \<and> shows_run L m r))"
proof -
  have src: "metrics_sources E authorization w1 = (Inr (JList avs, JList pvs, JList rvs), w4)"
    using assms(2,4-6)
    by (auto simp: metrics_sources_def local_sources_def is_set_def bnd_Inr ret_def split: option.splits list.splits)
  obtain latest where latest: "latest_run L rvs w4 = (Inr latest, w4)"
    "if rs = [] then latest = JObj [] else \<exists>r. latest_among L rs r \<and> holds_model L dump_run r latest"
    using latest_run_models [OF assms(11,12), of w4] by blast
  obtain cause where cause: "feedback_average ''cause_accuracy'' fvs w4 = (Inr cause, w4)"
    "averages fb_cause_accuracy fs cause"
    using feedback_average_models(1) [OF assms(7,8,13), of w4] by auto
  obtain action where action: "feedback_average ''action_usefulness'' fvs w4 = (Inr action, w4)"
    "averages fb_action_usefulness fs action"
    using feedback_average_models(2) [OF assms(7,8,13), of w4] by auto
  define head where "head =
    [(''analysis_count'', JInt (int (length as))),
     (''expert_review_rate'', share an_expert_review_required as),
     (''cause_accuracy_average'', cause), (''action_usefulness_average'', action),
     (''approval_rate'', share (approving \<circ> ap_decision) aps)]"
  define m where "m = head @ run_entries (dict_of latest)"
  have "summarize L fvs (JList avs) (JList pvs) (JList rvs) w4 = (Inr m, w4)"
    using list_all2_lengthD [OF assms(9)]
    by (simp add: summarize_def py_iter_def json_len_def bnd_of_result_case approval_models [OF assms(10)]
        bnd_Inr latest(1) review_rate_models [OF assms(9)] cause(1) action(1) Let_def ret_def
        m_def head_def run_entries_def)
  then have run: "metrics_summary E authorization w = (Inr m, w4)"
    by (simp add: metrics_summary_def bnd_Inr assms(3) src L_def)
  note entries = run_entries_models [OF latest(2) assms(12)]
  have numbers: "is_number cause" "is_number action"
    using cause(2) action(2) by (auto intro: averages_number)
  then have "\<forall>(k, v) \<in> set m. is_number v"
    using entries between_ints_number [OF share_between, of an_expert_review_required as]
      between_ints_number [OF share_between, of "approving \<circ> ap_decision" aps]
    by (auto simp: m_def head_def is_number_def [of "JInt _"])
  moreover have "shows_run L m r \<longleftrightarrow> shows_run L (run_entries (dict_of latest)) r" for r
    by (simp add: shows_run_def m_def head_def dict_get_def)
  moreover have "length m = 9" by (simp add: m_def head_def run_entries_def)
  moreover have "dict_get m ''analysis_count'' = Some (JInt (int (length as)))"
    "dict_get m ''expert_review_rate'' = Some (share an_expert_review_required as)"
    "dict_get m ''approval_rate'' = Some (share (approving \<circ> ap_decision) aps)"
    "dict_get m ''cause_accuracy_average'' = Some cause"
    "dict_get m ''action_usefulness_average'' = Some action"
    by (simp_all add: m_def head_def dict_get_def)
  ultimately show ?thesis
    using run entries cause(2) action(2) share_between [of an_expert_review_required as]
      share_between [of "approving \<circ> ap_decision" aps]
    by (intro exI [of _ m] exI [of _ cause] exI [of _ action] conjI) simp_all
qed

section \<open>A table with one item of each kind\<close>

definition sample_feedback :: analysis_feedback where
  "sample_feedback =
     \<lparr>fb_incident_id = ''i1'', fb_analysis_id = ''a1'', fb_cause_accuracy = 4,
      fb_action_usefulness = 5, fb_actual_cause = ''bearing'', fb_comment = None\<rparr>"

definition sample_decision :: approval_record where
  "sample_decision =
     \<lparr>ap_analysis_id = ''a1'', ap_incident_id = ''i1'', ap_decision = APPROVE, ap_reviewer_id = ''u1'',
      ap_comment = ''fine'', ap_checklist = [], ap_id = ''p1''\<rparr>"

definition sample_old_run :: evaluation_run where
  "sample_old_run =
     \<lparr>ev_id = ''r1'', ev_created_at = 7, ev_ai_provider = ''mock'', ev_model_id = None,
      ev_prompt_version = ''v1'', ev_case_count = 1, ev_cause_candidate_accuracy = Fin 1,
      ev_document_hit_rate = Fin 1, ev_resolution_time_reduction = Fin 0, ev_cases = []\<rparr>"

definition sample_metrics_table :: "dict list" where
  "sample_metrics_table =
     [sample_item ''feedback'' ''f1'' 1 (dump_feedback sample_lib sample_feedback),
      sample_item ''approval'' ''p1'' 1 (dump_approval sample_lib sample_decision),
      sample_item ''evaluation_run'' ''r1'' 1 (dump_run sample_lib sample_old_run)]"

lemma sample_item_type [simp]:
  "dict_get (sample_item et eid v data) ''entity_type'' = Some (JStr et)"
  by (simp add: sample_item_def make_item_def dict_get_def)

lemma sample_metrics_listed:
  fixes w :: "(dict list, 'w) world_scheme"
  assumes "tbl w = sample_metrics_table"
  shows "\<exists>n. repo_list sample_ai_env ''feedback'' w =
      (Inr [stored sample_lib (dump_feedback sample_lib sample_feedback)], w\<lparr>tick := n\<rparr>)"
    and "\<exists>n. repo_list sample_ai_env ''analysis'' w = (Inr [], w\<lparr>tick := n\<rparr>)"
    and "\<exists>n. repo_list sample_ai_env ''approval'' w =
      (Inr [stored sample_lib (dump_approval sample_lib sample_decision)], w\<lparr>tick := n\<rparr>)"
    and "\<exists>n. repo_list sample_ai_env ''evaluation_run'' w =
      (Inr [stored sample_lib (dump_run sample_lib sample_old_run)], w\<lparr>tick := n\<rparr>)"
proof -
  have l: "\<exists>n. repo_list sample_ai_env et w = (Inr (map (\<lambda>it. the (dict_get it ''data''))
      (filter (\<lambda>it. dict_get it ''entity_type'' = Some (JStr et)) sample_metrics_table)), w\<lparr>tick := n\<rparr>)" for et
  proof (rule repo_list_quiet [OF sample_ai_quiet])
    show "lists_as (dynamo_of sample_ai_env) (tbl w) et
        (filter (\<lambda>it. dict_get it ''entity_type'' = Some (JStr et)) sample_metrics_table)"
      using mem_lists_as [of sample_metrics_table et] by (simp add: assms)
    have "\<forall>it \<in> set sample_metrics_table. dict_get it ''data'' \<noteq> None"
      by (simp add: sample_metrics_table_def)
    then show "it \<in> set (filter (\<lambda>it. dict_get it ''entity_type'' = Some (JStr et)) sample_metrics_table) \<Longrightarrow>
        dict_get it ''data'' \<noteq> None" for it by simp
    have "length (filter (\<lambda>it. dict_get it ''entity_type'' = Some (JStr et)) sample_metrics_table) \<le> 3"
      by (rule order_trans [OF length_filter_le]) (simp add: sample_metrics_table_def)
    then show "length (filter (\<lambda>it. dict_get it ''entity_type'' = Some (JStr et)) sample_metrics_table) <
        list_fuel sample_ai_env" by simp
  qed
  show "\<exists>n. repo_list sample_ai_env ''feedback'' w =
      (Inr [stored sample_lib (dump_feedback sample_lib sample_feedback)], w\<lparr>tick := n\<rparr>)"
    using l [of "''feedback''"] by (simp add: sample_metrics_table_def)
  show "\<exists>n. repo_list sample_ai_env ''analysis'' w = (Inr [], w\<lparr>tick := n\<rparr>)"
    using l [of "''analysis''"] by (simp add: sample_metrics_table_def)
  show "\<exists>n. repo_list sample_ai_env ''approval'' w =
      (Inr [stored sample_lib (dump_approval sample_lib sample_decision)], w\<lparr>tick := n\<rparr>)"
    using l [of "''approval''"] by (simp add: sample_metrics_table_def)
  show "\<exists>n. repo_list sample_ai_env ''evaluation_run'' w =
      (Inr [stored sample_lib (dump_run sample_lib sample_old_run)], w\<lparr>tick := n\<rparr>)"
    using l [of "''evaluation_run''"] by (simp add: sample_metrics_table_def)
qed

lemma metrics_summary_of_models_witness:
  "\<exists>m n. metrics_summary sample_ai_env None (sample_world sample_metrics_table) =
       (Inr m, sample_world sample_metrics_table\<lparr>tick := n\<rparr>) \<and>
     dict_get m ''analysis_count'' = Some (JInt 0) \<and> shows_run sample_lib m sample_old_run"
proof -
  let ?w = "sample_world sample_metrics_table"
  obtain a where l1: "repo_list sample_ai_env ''feedback'' ?w =
      (Inr [stored sample_lib (dump_feedback sample_lib sample_feedback)], ?w\<lparr>tick := a\<rparr>)"
    using sample_metrics_listed(1) [of ?w] by auto
  obtain b where l2: "repo_list sample_ai_env ''analysis'' (?w\<lparr>tick := a\<rparr>) = (Inr [], ?w\<lparr>tick := b\<rparr>)"
    using sample_metrics_listed(2) [of "?w\<lparr>tick := a\<rparr>"] by auto
  obtain c where l3: "repo_list sample_ai_env ''approval'' (?w\<lparr>tick := b\<rparr>) =
      (Inr [stored sample_lib (dump_approval sample_lib sample_decision)], ?w\<lparr>tick := c\<rparr>)"
    using sample_metrics_listed(3) [of "?w\<lparr>tick := b\<rparr>"] by auto
  obtain d where l4: "repo_list sample_ai_env ''evaluation_run'' (?w\<lparr>tick := c\<rparr>) =
      (Inr [stored sample_lib (dump_run sample_lib sample_old_run)], ?w\<lparr>tick := d\<rparr>)"
    using sample_metrics_listed(4) [of "?w\<lparr>tick := c\<rparr>"] by auto
  have "\<not> (is_set (analysis_service_url (settings_of sample_ai_env)) \<and>
      is_set (work_order_service_url (settings_of sample_ai_env)))"
    by (simp add: default_settings_def is_set_def)
  moreover have wf: "wf_feedback sample_feedback" "wf_run sample_old_run"
    using finite_double_int [of 1] finite_double_int [of 0]
    by (simp_all add: wf_feedback_def sample_feedback_def one_to_five_def wf_run_def sample_old_run_def)
  ultimately obtain m where "metrics_summary sample_ai_env None ?w = (Inr m, ?w\<lparr>tick := d\<rparr>)"
    "dict_get m ''analysis_count'' = Some (JInt 0)" "shows_run sample_lib m sample_old_run"
    using metrics_summary_of_models [OF _ l1 l2 l3 l4, of "[sample_feedback]" "[]" "[sample_decision]"
        "[sample_old_run]" None]
    by (auto simp: holds_model_def latest_among_def)
  then show ?thesis by blast
qed

section \<open>Recording feedback\<close>

lemma feedback_type: "len_between 1 200 ''feedback.submitted''"
  by code_simp

text \<open>
  Feedback is refused without a trace to other roles; otherwise, in a run without failures, it
  is stored under a fresh id, reads back, and is announced once with that id.
\<close>

lemma record_feedback_effects:
  fixes E :: "('t, 'e) env_scheme" and w :: "('t, 'w) world_scheme"
  assumes "quiet E" "can_publish E False" "table_ok (dynamo_of E) (tbl w)" "wf_feedback f"
  shows "case require_roles [FIELD_WORKER, OPERATOR_MANAGER, SYSTEM_ADMIN] caller of
      Inl e \<Rightarrow> record_feedback E caller f w = (Inl e, w)
    | Inr p \<Rightarrow> \<exists>w' fid. record_feedback E caller f w = (Inr \<lparr>fa_accepted = True\<rparr>, w') \<and>
        fid = uuid_at E (tick w) \<and>
        load_as (validate_feedback (lib_of E)) (dynamo_of E) (tbl w') ''feedback'' fid = Some f \<and>
        announced E ''feedback.submitted''
          (dict_union [(''id'', JStr fid)] (dict_of (dump_feedback (lib_of E) f)))
          (Some (fb_analysis_id f)) (Some (subject p)) w w' \<and>
        same_elsewhere (dynamo_of E) (tbl w) (tbl w') ''feedback'' fid"
proof (cases "require_roles [FIELD_WORKER, OPERATOR_MANAGER, SYSTEM_ADMIN] caller")
  case (Inl e)
  then show ?thesis by (simp add: record_feedback_def bnd_of_result_case)
next
  case (Inr p)
  define fid where "fid = uuid_at E (tick w)"
  define w1 where "w1 = w\<lparr>tick := Suc (tick w)\<rparr>"
  have "table_ok (dynamo_of E) (tbl w1)" using assms(3) by (simp add: w1_def)
  from feedback_store.save_announce [OF assms(1) this assms(4,2) feedback_type, of fid
      "dict_union [(''id'', JStr fid)] (dict_of (dump_feedback (lib_of E) f))" "Some (fb_analysis_id f)"
      "Some (subject p)"]
  obtain ev w' where
    run: "bnd (repo_put E ''feedback'' fid (dump_feedback (lib_of E) f)) (\<lambda>_.
      publish_event E ''feedback.submitted''
        (dict_union [(''id'', JStr fid)] (dict_of (dump_feedback (lib_of E) f)))
        (Some (fb_analysis_id f)) (Some (subject p)) False) w1 = (Inr ev, w')"
    and d: "announced E ''feedback.submitted''
        (dict_union [(''id'', JStr fid)] (dict_of (dump_feedback (lib_of E) f)))
        (Some (fb_analysis_id f)) (Some (subject p)) w1 w'"
      "load_as (validate_feedback (lib_of E)) (dynamo_of E) (tbl w') ''feedback'' fid = Some f"
      "same_elsewhere (dynamo_of E) (tbl w1) (tbl w') ''feedback'' fid"
    by blast
  have "record_feedback E caller f w = (Inr \<lparr>fa_accepted = True\<rparr>, w')"
    using Inr by (simp add: record_feedback_def bnd_of_result_case bnd_uuid fid_def [symmetric]
        w1_def [symmetric] bnd_two [OF run] ret_def)
  then show ?thesis using Inr d by (auto simp: w1_def fid_def)
qed

end
