(* ===== verification/Migration.thy ===== *)
theory Migration
  imports Sample
begin

text \<open>
  \<open>scripts/migrate-domain-tables.py\<close>: every record of the prototype's single table is copied
  to the table of the service that owns its entity type. The DynamoDB resource (the scan of the
  source, the batch writer of a target) is a parameter. The lemmas show that the grouping is a
  filter per target and that a finished migration is the last record of every key, written over
  whatever the target held.
\<close>

section \<open>The script\<close>

definition ENTITY_TABLES :: "(string \<times> string) list" where
  "ENTITY_TABLES =
     [(''equipment'', ''axsentinel-asset''),
      (''maintenance'', ''axsentinel-asset''),
      (''telemetry'', ''axsentinel-incident''),
      (''incident'', ''axsentinel-incident''),
      (''analysis'', ''axsentinel-analysis''),
      (''expert_review'', ''axsentinel-analysis''),
      (''evaluation_case'', ''axsentinel-analysis''),
      (''evaluation_run'', ''axsentinel-analysis''),
      (''document'', ''axsentinel-knowledge''),
      (''approval'', ''axsentinel-work-order''),
      (''work_order'', ''axsentinel-work-order''),
      (''feedback'', ''axsentinel-metrics''),
      (''processed_event'', ''axsentinel-events'')]"

datatype migration_error = ResourceNotFoundException | BotoError string | ScanUnfinished

text \<open>
  \<open>scan_table\<close> answers one \<open>table.scan\<close> (the \<open>ExclusiveStartKey\<close>, when there is one) with the
  items of the page and its \<open>LastEvaluatedKey\<close>. \<open>batch_put\<close> is a whole \<open>batch_writer\<close> block of
  one table: the puts in their order, with \<open>overwrite_by_pkeys\<close>.
\<close>

record 't resource =
  scan_table :: "dict option \<Rightarrow> migration_error + dict list \<times> dict option"
  batch_put :: "string \<Rightarrow> dict list \<Rightarrow> 't \<Rightarrow> (migration_error + unit) \<times> 't"
  item_at :: "'t \<Rightarrow> string \<Rightarrow> item_key \<Rightarrow> dict option"

text \<open>\<open>scan_all\<close>, with a bound on the number of pages.\<close>

fun scan_all :: "'t resource \<Rightarrow> nat \<Rightarrow> dict option \<Rightarrow> migration_error + dict list" where
  "scan_all R 0 start = Inl ScanUnfinished"
| "scan_all R (Suc fuel) start =
     (case scan_table R start of
        Inl e \<Rightarrow> Inl e
      | Inr (items, last_key) \<Rightarrow>
          (case last_key of
             None \<Rightarrow> Inr items
           | Some [] \<Rightarrow> Inr items
           | Some (c # k) \<Rightarrow>
               (case scan_all R fuel (Some (c # k)) of
                  Inl e \<Rightarrow> Inl e
                | Inr rest \<Rightarrow> Inr (items @ rest))))"

definition target_name :: "lib \<Rightarrow> dict \<Rightarrow> string option" where
  "target_name L item = map_of ENTITY_TABLES (py_str L (dict_get_or item ''entity_type'' (JStr [])))"

text \<open>\<open>item.setdefault("version", 1)\<close> and \<open>grouped[name].append(item)\<close>\<close>

definition default_version :: "dict \<Rightarrow> dict" where
  "default_version item = (if dict_get item ''version'' = None then item @ [(''version'', JInt 1)] else item)"

definition append_to :: "string \<Rightarrow> dict \<Rightarrow> (string \<times> dict list) list \<Rightarrow> (string \<times> dict list) list" where
  "append_to name item grouped =
     AList.update name ((case map_of grouped name of None \<Rightarrow> [] | Some xs \<Rightarrow> xs) @ [item]) grouped"

fun group_items ::
  "lib \<Rightarrow> (string \<times> dict list) list \<times> nat \<Rightarrow> dict list \<Rightarrow> (string \<times> dict list) list \<times> nat" where
  "group_items L acc [] = acc"
| "group_items L (grouped, skipped) (item # items) =
     (case target_name L item of
        None \<Rightarrow> group_items L (grouped, Suc skipped) items
      | Some name \<Rightarrow> group_items L (append_to name (default_version item) grouped, skipped) items)"

fun copy_groups ::
  "'t resource \<Rightarrow> nat \<Rightarrow> (string \<times> dict list) list \<Rightarrow> 't \<Rightarrow> (migration_error + nat) \<times> 't" where
  "copy_groups R copied [] t = (Inr copied, t)"
| "copy_groups R copied ((name, items) # groups) t =
     (case batch_put R name items t of
        (Inl e, t') \<Rightarrow> (Inl e, t')
      | (Inr _, t') \<Rightarrow> copy_groups R (copied + length items) groups t')"

text \<open>\<open>main\<close>: the counts it prints, or nothing when the source table does not exist.\<close>

definition migrate ::
  "lib \<Rightarrow> 't resource \<Rightarrow> nat \<Rightarrow> 't \<Rightarrow> (migration_error + (nat \<times> nat) option) \<times> 't" where
  "migrate L R fuel t =
     (case scan_all R fuel None of
        Inl ResourceNotFoundException \<Rightarrow> (Inr None, t)
      | Inl e \<Rightarrow> (Inl e, t)
      | Inr items \<Rightarrow>
          (let (grouped, skipped) = group_items L ([], 0) items
           in case copy_groups R 0 grouped t of
                (Inl e, t') \<Rightarrow> (Inl e, t')
              | (Inr copied, t') \<Rightarrow> (Inr (Some (copied, skipped)), t')))"

section \<open>What is relied on\<close>

text \<open>
  A finished batch leaves in its table the last item put under every key, and everything else
  as it was.
\<close>

definition last_put :: "dict list \<Rightarrow> item_key \<Rightarrow> dict option" where
  "last_put items k = List.find (\<lambda>it. key_of it = k) (rev items)"

definition over :: "'a option \<Rightarrow> 'a option \<Rightarrow> 'a option" where
  "over a b = (case a of None \<Rightarrow> b | Some x \<Rightarrow> Some x)"

definition batches_ok :: "'t resource \<Rightarrow> bool" where
  "batches_ok R \<longleftrightarrow>
     (\<forall>name items t t' n k. batch_put R name items t = (Inr (), t') \<longrightarrow>
        item_at R t' n k = (if n = name then over (last_put items k) (item_at R t n k) else item_at R t n k))"

text \<open>The pages of the source, from a start key on, hold \<open>items\<close> and end after \<open>n\<close> pages.\<close>

inductive pages_from :: "'t resource \<Rightarrow> dict option \<Rightarrow> dict list \<Rightarrow> nat \<Rightarrow> bool" for R where
  last_page: "scan_table R start = Inr (items, None) \<Longrightarrow> pages_from R start items 1"
| next_page: "scan_table R start = Inr (items, Some (c # k)) \<Longrightarrow> pages_from R (Some (c # k)) rest n \<Longrightarrow>
    pages_from R start (items @ rest) (Suc n)"

lemma scan_all_pages: "pages_from R start items n \<Longrightarrow> n \<le> fuel \<Longrightarrow> scan_all R fuel start = Inr items"
proof (induction arbitrary: fuel rule: pages_from.induct)
  case (last_page start items)
  then show ?case by (cases fuel) simp_all
next
  case (next_page start items c k rest n)
  then show ?case by (cases fuel) simp_all
qed

section \<open>The grouping\<close>

text \<open>The records that go to one table, in the order of the scan.\<close>

definition records_for :: "lib \<Rightarrow> dict list \<Rightarrow> string \<Rightarrow> dict list" where
  "records_for L items name = map default_version (filter (\<lambda>it. target_name L it = Some name) items)"

abbreviation group_of :: "(string \<times> dict list) list \<Rightarrow> string \<Rightarrow> dict list" where
  "group_of g n \<equiv> case map_of g n of None \<Rightarrow> [] | Some xs \<Rightarrow> xs"

lemma append_to_facts:
  "group_of (append_to name it g) n = (if n = name then group_of g n @ [it] else group_of g n)"
  "distinct (map fst g) \<Longrightarrow> distinct (map fst (append_to name it g))"
  "set (map fst (append_to name it g)) = insert name (set (map fst g))"
  by (auto simp: append_to_def update_conv' distinct_update dom_update simp flip: dom_map_of_conv_image_fst)

lemma group_items_facts:
  assumes "group_items L (g, s) items = (g', s')" "distinct (map fst g)"
  shows "distinct (map fst g') \<and> (\<forall>n. group_of g' n = group_of g n @ records_for L items n) \<and>
    s' = s + length (filter (\<lambda>it. target_name L it = None) items)"
  using assms
proof (induction items arbitrary: g s)
  case Nil
  then show ?case by (simp add: records_for_def)
next
  case (Cons it items)
  show ?case
  proof (cases "target_name L it")
    case None
    then show ?thesis using Cons.IH [of g "Suc s"] Cons.prems by (simp add: records_for_def)
  next
    case (Some name)
    then have "distinct (map fst g') \<and>
        (\<forall>n. group_of g' n = group_of (append_to name (default_version it) g) n @ records_for L items n) \<and>
        s' = s + length (filter (\<lambda>it. target_name L it = None) items)"
      using Cons.prems by (intro Cons.IH) (simp_all add: append_to_facts(2))
    then show ?thesis using Some by (simp add: append_to_facts(1) records_for_def)
  qed
qed

abbreviation group_sizes :: "(string \<times> dict list) list \<Rightarrow> nat" where
  "group_sizes g \<equiv> (\<Sum>p \<leftarrow> g. length (snd p))"

lemma sizes_update:
  "group_sizes (AList.update name (group_of g name @ [it]) g) = Suc (group_sizes g)"
  by (induction g) auto

lemma group_items_sizes:
  "group_items L (g, s) items = (g', s') \<Longrightarrow>
   group_sizes g' = group_sizes g + length (filter (\<lambda>it. target_name L it \<noteq> None) items)"
proof (induction items arbitrary: g s)
  case (Cons it items)
  show ?case
  proof (cases "target_name L it")
    case None
    then show ?thesis using Cons.IH [of g "Suc s"] Cons.prems by simp
  next
    case (Some name)
    then have "group_sizes g' = group_sizes (append_to name (default_version it) g) +
        length (filter (\<lambda>it. target_name L it \<noteq> None) items)"
      using Cons.prems by (intro Cons.IH) simp
    then show ?thesis using Some sizes_update [of name g "default_version it"] by (simp add: append_to_def)
  qed
qed simp

lemma copy_groups_facts:
  assumes "batches_ok R" "copy_groups R c g t = (Inr c', t')" "distinct (map fst g)"
  shows "c' = c + group_sizes g \<and>
    (\<forall>n k. item_at R t' n k = over (last_put (group_of g n) k) (item_at R t n k))"
  using assms(2,3)
proof (induction g arbitrary: c t)
  case Nil
  then show ?case by (simp add: last_put_def over_def)
next
  case (Cons p g)
  obtain name items where p: "p = (name, items)" by (cases p)
  from Cons.prems obtain t1 where b: "batch_put R name items t = (Inr (), t1)"
    and rest: "copy_groups R (c + length items) g t1 = (Inr c', t')"
    by (auto simp: p split: prod.splits sum.splits)
  have ih: "c' = c + length items + group_sizes g \<and>
      (\<forall>n k. item_at R t' n k = over (last_put (group_of g n) k) (item_at R t1 n k))"
    using Cons.prems(2) by (intro Cons.IH [OF rest]) simp
  have one: "item_at R t1 n k = (if n = name then over (last_put items k) (item_at R t n k) else item_at R t n k)"
    for n k using assms(1) b unfolding batches_ok_def by blast
  have "map_of g name = None" using Cons.prems(2) by (simp add: p map_of_eq_None_iff)
  then have "group_of g name = []" by simp
  then have "item_at R t' n k = over (last_put (group_of (p # g) n) k) (item_at R t n k)" for n k
    using ih one by (cases "n = name") (simp_all add: p last_put_def over_def del: split_paired_All)
  then show ?case using ih by (simp add: p del: split_paired_All)
qed

section \<open>Record by record\<close>

text \<open>The reference: every record with a target is put into it, one after the other.\<close>

definition put_record ::
  "lib \<Rightarrow> dict \<Rightarrow> (string \<Rightarrow> item_key \<Rightarrow> dict option) \<Rightarrow> string \<Rightarrow> item_key \<Rightarrow> dict option" where
  "put_record L it f =
     (case target_name L it of
        None \<Rightarrow> f
      | Some name \<Rightarrow> f(name := (f name)(key_of it \<mapsto> default_version it)))"

lemma key_of_default_version [simp]: "key_of (default_version it) = key_of it"
  by (auto simp: key_of_def default_version_def dict_get_def map_add_def split: option.splits)

lemma last_put_Cons: "last_put (it # items) k = over (last_put items k) (if key_of it = k then Some it else None)"
proof -
  have "List.find P (xs @ [x]) = over (List.find P xs) (if P x then Some x else None)" for P and xs :: "dict list" and x
    by (induction xs) (auto simp: over_def)
  then show ?thesis by (simp add: last_put_def)
qed

lemma records_one_by_one:
  "fold (put_record L) items f n k = over (last_put (records_for L items n) k) (f n k)"
proof (induction items arbitrary: f)
  case Nil
  then show ?case by (simp add: records_for_def last_put_def over_def)
next
  case (Cons it items)
  have "put_record L it f n k =
      (if target_name L it = Some n \<and> key_of it = k then Some (default_version it) else f n k)"
    by (simp add: put_record_def split: option.splits)
  moreover have "last_put (records_for L (it # items) n) k = over (last_put (records_for L items n) k)
      (if target_name L it = Some n \<and> key_of it = k then Some (default_version it) else None)"
    by (simp add: records_for_def last_put_Cons over_def split: option.splits)
  ultimately show ?case using Cons.IH [of "put_record L it f"]
    by (cases "last_put (records_for L items n) k") (simp_all add: over_def)
qed

lemma migrate_run:
  assumes ok: "batches_ok R" and pages: "pages_from R None items n" "n \<le> fuel"
    and run: "migrate L R fuel t = (Inr r, t')"
  shows "r = Some (length (filter (\<lambda>it. target_name L it \<noteq> None) items),
      length (filter (\<lambda>it. target_name L it = None) items)) \<and>
    item_at R t' = fold (put_record L) items (item_at R t)"
proof -
  obtain g s where g: "group_items L ([], 0) items = (g, s)" by fastforce
  have scan: "scan_all R fuel None = Inr items" by (rule scan_all_pages [OF pages])
  then obtain c where c: "copy_groups R 0 g t = (Inr c, t')" "r = Some (c, s)"
    using run by (auto simp: migrate_def g split: prod.splits sum.splits)
  note facts = group_items_facts [OF g]
  have "group_of g m = records_for L items m" for m using facts by simp
  then have "item_at R t' m k = over (last_put (records_for L items m) k) (item_at R t m k)" for m k
    using copy_groups_facts [OF ok c(1)] facts by (simp del: split_paired_All)
  moreover have "c = length (filter (\<lambda>it. target_name L it \<noteq> None) items)"
    using copy_groups_facts [OF ok c(1)] facts group_items_sizes [OF g] by simp
  ultimately show ?thesis using c(2) facts by (auto simp: records_one_by_one fun_eq_iff)
qed

text \<open>
  C14. A migration that finishes has done what putting every record
  of the source, one after the other and in the order of the scan, into the table of its entity
  type would have done, with version 1 for the records without one, whatever those tables held
  before; it reports the records it copied and the ones of unknown types, which together are all
  of them; and a second run over the same source reports the same and changes nothing.
\<close>

theorem migration_is_record_by_record:
  assumes "batches_ok R" "pages_from R None items n" "n \<le> fuel"
    and "migrate L R fuel t = (Inr r, t')"
  shows "(\<exists>copied skipped. r = Some (copied, skipped) \<and> copied + skipped = length items \<and>
        skipped = length (filter (\<lambda>it. target_name L it = None) items)) \<and>
    item_at R t' = fold (put_record L) items (item_at R t) \<and>
    (\<forall>r' t''. migrate L R fuel t' = (Inr r', t'') \<longrightarrow> r' = r \<and> item_at R t'' = item_at R t')"
proof -
  note one = migrate_run [OF assms]
  have "length (filter (\<lambda>it. target_name L it \<noteq> None) items) +
      length (filter (\<lambda>it. target_name L it = None) items) = length items"
    using sum_length_filter_compl [of "\<lambda>it. target_name L it \<noteq> None" items] by simp
  then have counts: "\<exists>copied skipped. r = Some (copied, skipped) \<and> copied + skipped = length items \<and>
      skipped = length (filter (\<lambda>it. target_name L it = None) items)"
    using one by blast
  have "over a (over a b) = over a b" for a b :: "dict option" by (cases a) (simp_all add: over_def)
  then have "fold (put_record L) items (fold (put_record L) items f) = fold (put_record L) items f" for f
    by (simp add: fun_eq_iff records_one_by_one del: split_paired_All)
  then have "r' = r \<and> item_at R t'' = item_at R t'" if "migrate L R fuel t' = (Inr r', t'')" for r' t''
    using one migrate_run [OF assms(1-3) that] by simp
  then show ?thesis using one counts by blast
qed

text \<open>Two pages, tables as functions; the target holds a newer version of the first record.\<close>

definition sample_record :: "string \<Rightarrow> string \<Rightarrow> dict" where
  "sample_record et eid =
     [(''pk'', JStr eid), (''sk'', JStr ''METADATA''), (''entity_type'', JStr et)]"

definition sample_resource :: "(string \<Rightarrow> item_key \<Rightarrow> dict option) resource" where
  "sample_resource =
     \<lparr>scan_table = (\<lambda>start. case start of
        None \<Rightarrow> Inr ([sample_record ''equipment'' ''E1''], Some [(''pk'', JStr ''E1'')])
      | Some _ \<Rightarrow> Inr ([sample_record ''unknown'' ''X1''], None)),
      batch_put = (\<lambda>name items t. (Inr (), t(name := \<lambda>k. over (last_put items k) (t name k)))),
      item_at = (\<lambda>t. t)\<rparr>"

definition newer_target :: "string \<Rightarrow> item_key \<Rightarrow> dict option" where
  "newer_target n k =
     (if n = ''axsentinel-asset'' \<and> k = (''E1'', ''METADATA'')
      then Some (sample_record ''equipment'' ''E1'' @ [(''version'', JInt 7)]) else None)"

lemma migration_is_record_by_record_witness:
  "\<exists>t'. migrate sample_lib sample_resource 5 newer_target = (Inr (Some (1, 1)), t') \<and>
     t' ''axsentinel-asset'' (''E1'', ''METADATA'') =
       Some (sample_record ''equipment'' ''E1'' @ [(''version'', JInt 1)])"
proof -
  have ok: "batches_ok sample_resource" by (simp add: batches_ok_def sample_resource_def)
  have pages: "pages_from sample_resource None
      ([sample_record ''equipment'' ''E1''] @ [sample_record ''unknown'' ''X1'']) (Suc 1)"
    by (rule next_page [where c = "(''pk'', JStr ''E1'')" and k = "[]"], simp add: sample_resource_def,
        rule last_page, simp add: sample_resource_def)
  have names: "target_name sample_lib (sample_record ''equipment'' ''E1'') = Some ''axsentinel-asset''"
    "target_name sample_lib (sample_record ''unknown'' ''X1'') = None"
    by (simp_all add: target_name_def ENTITY_TABLES_def sample_record_def dict_get_or_def dict_get_def py_str_def)
  obtain t' where run: "migrate sample_lib sample_resource 5 newer_target = (Inr (Some (1, 1)), t')"
    using scan_all_pages [OF pages, of 5]
    by (auto simp: migrate_def names append_to_def sample_resource_def)
  from migration_is_record_by_record [OF ok pages _ run]
  have "t' = fold (put_record sample_lib)
      ([sample_record ''equipment'' ''E1''] @ [sample_record ''unknown'' ''X1'']) newer_target"
    by (simp add: sample_resource_def)
  then have "t' ''axsentinel-asset'' (''E1'', ''METADATA'') =
      Some (sample_record ''equipment'' ''E1'' @ [(''version'', JInt 1)])"
    by (simp add: put_record_def names) (simp add: sample_record_def key_of_def dict_get_def default_version_def)
  then show ?thesis using run by blast
qed

end
