(* ===== verification/IntegrationCheck.thy ===== *)
theory IntegrationCheck
  imports Engine
begin

text \<open>
  \<open>scripts/aws-integration-check.py\<close>: the script that tries the identity provider, the model and
  the knowledge base of a real account through the classes the services use, and reports what it
  found. The AWS control plane, the two documents it downloads and the process environment are
  parameters. The lemmas say what a report that was printed stands for.
\<close>

section \<open>The script\<close>

record 't check_env = "'t ai_env" +
  environ :: "string \<Rightarrow> string option"
  aws_call :: "nat \<Rightarrow> string \<Rightarrow> dict \<Rightarrow> json"
  url_json :: "nat \<Rightarrow> string \<Rightarrow> json"

text \<open>\<open>os.getenv(name, default)\<close> and \<open>required(name)\<close>\<close>

definition getenv :: "('t, 'e) check_env_scheme \<Rightarrow> string \<Rightarrow> string \<Rightarrow> string" where
  "getenv E name dflt = (case environ E name of None \<Rightarrow> dflt | Some v \<Rightarrow> v)"

definition required_env :: "('t, 'e) check_env_scheme \<Rightarrow> string \<Rightarrow> exn + string" where
  "required_env E name =
     (let v = py_strip (getenv E name [])
      in if v = [] then Inl (RuntimeError (name @ '' is required'')) else Inr v)"

definition aws ::
  "('t, 'e) check_env_scheme \<Rightarrow> string \<Rightarrow> dict \<Rightarrow> (('t, 'w) world_scheme, json) act" where
  "aws E operation arguments = call E (read_state (\<lambda>w. aws_call E (tick w) operation arguments))"

definition fetch_json ::
  "('t, 'e) check_env_scheme \<Rightarrow> json \<Rightarrow> (('t, 'w) world_scheme, json) act" where
  "fetch_json E url =
     (case url of
        JStr u \<Rightarrow> call E (read_state (\<lambda>w. url_json E (tick w) u))
      | _ \<Rightarrow> throw (AttributeError ''timeout''))"

definition is_client_error :: "exn \<Rightarrow> bool" where
  "is_client_error e = (case e of ClientError _ \<Rightarrow> True | _ \<Rightarrow> False)"

text \<open>The user pool, its client, and the signing keys.\<close>

definition check_cognito ::
  "('t, 'e) check_env_scheme \<Rightarrow> string \<Rightarrow> string \<Rightarrow> string \<Rightarrow> (('t, 'w) world_scheme, unit) act" where
  "check_cognito E region pool_id client_id =
     bnd (aws E ''cognito-idp.describe_user_pool'' [(''UserPoolId'', JStr pool_id)]) (\<lambda>_.
     bnd (aws E ''cognito-idp.describe_user_pool_client''
            [(''UserPoolId'', JStr pool_id), (''ClientId'', JStr client_id)]) (\<lambda>_.
     bnd (fetch_json E (JStr (cognito_issuer region pool_id @ ''/.well-known/openid-configuration''))) (\<lambda>discovery.
     bnd (of_result (sub_item discovery ''jwks_uri'')) (\<lambda>jwks_uri.
     bnd (fetch_json E jwks_uri) (\<lambda>jwks.
     bnd (of_result (get_method jwks ''keys'' JNull)) (\<lambda>signing_keys.
     check (truthy signing_keys) (RuntimeError ''Cognito JWKS did not contain signing keys'')))))))"

text \<open>The knowledge base with its source, and the model under either of its names.\<close>

definition check_bedrock ::
  "('t, 'e) check_env_scheme \<Rightarrow> string \<Rightarrow> string \<Rightarrow> string \<Rightarrow> (('t, 'w) world_scheme, unit) act" where
  "check_bedrock E knowledge_base_id data_source_id model_id =
     bnd (aws E ''bedrock-agent.get_knowledge_base'' [(''knowledgeBaseId'', JStr knowledge_base_id)]) (\<lambda>_.
     bnd (aws E ''bedrock-agent.get_data_source''
            [(''knowledgeBaseId'', JStr knowledge_base_id), (''dataSourceId'', JStr data_source_id)]) (\<lambda>_.
     bnd (attempt
            (aws E ''bedrock.get_inference_profile'' [(''inferenceProfileIdentifier'', JStr model_id)])
            (\<lambda>e. if is_client_error e
                  then aws E ''bedrock.get_foundation_model'' [(''modelIdentifier'', JStr model_id)]
                  else throw e)) (\<lambda>_.
     ret ())))"

definition check_login ::
  "('t, 'e) check_env_scheme \<Rightarrow> string \<Rightarrow> string \<Rightarrow> string \<Rightarrow> (('t, 'w) world_scheme, bool) act" where
  "check_login E region pool_id client_id =
     (let username = py_strip (getenv E ''COGNITO_TEST_USERNAME'' []);
          password = getenv E ''COGNITO_TEST_PASSWORD'' []
      in if username = [] \<or> password = [] then ret False
         else
           bnd (aws E ''cognito-idp.admin_initiate_auth''
                  [(''UserPoolId'', JStr pool_id), (''ClientId'', JStr client_id),
                   (''AuthFlow'', JStr ''ADMIN_USER_PASSWORD_AUTH''),
                   (''AuthParameters'',
                     JObj [(''USERNAME'', JStr username), (''PASSWORD'', JStr password)])]) (\<lambda>auth.
           bnd (of_result (sub_items auth [''AuthenticationResult'', ''AccessToken''])) (\<lambda>v.
           bnd (of_option (PyJWTError ''Invalid token type'') (read_str v)) (\<lambda>access_token.
           bnd (verify E (CognitoTokenVerifier (cognito_issuer region pool_id) client_id) access_token) (\<lambda>_.
           ret True)))))"

definition check_evidence :: json where
  "check_evidence = JObj
     [(''incident_id'', JStr ''aws-integration-check''),
      (''equipment_id'', JStr ''TEST-EQUIPMENT''),
      (''sensor_summary'', JStr ''bearing temperature 110 C, threshold 90 C''),
      (''log_summary'', JStr ''bearing overheat warning''),
      (''related_document_ids'', JList []),
      (''retrieved_context'', JList [])]"

definition check_invoke ::
  "('t, 'e) check_env_scheme \<Rightarrow> string \<Rightarrow> string \<Rightarrow> (('t, 'w) world_scheme, bool \<times> bool) act" where
  "check_invoke E model_id knowledge_base_id =
     bnd (bedrock_analyze E model_id None None check_evidence) (\<lambda>res.
     bnd (of_result (get_method res ''causes'' JNull)) (\<lambda>causes.
     bnd (if truthy causes then of_result (get_method res ''recommended_actions'' JNull) else ret causes) (\<lambda>both.
     bnd (bedrock_kb_retrieve E knowledge_base_id ''bearing overheat maintenance procedure'' 3) (\<lambda>chunks.
     ret (truthy both, chunks \<noteq> [])))))"

definition check_report :: "json \<Rightarrow> string \<Rightarrow> bool \<Rightarrow> bool \<Rightarrow> bool \<Rightarrow> dict" where
  "check_report account region login_verified bedrock_verified rag_verified =
     [(''account'', account),
      (''region'', JStr region),
      (''cognito_configuration'', JStr ''verified''),
      (''cognito_login'', JStr (if login_verified then ''verified'' else ''skipped_no_test_user'')),
      (''bedrock_configuration'', JStr ''verified''),
      (''bedrock_converse'', JStr (if bedrock_verified then ''verified'' else ''skipped'')),
      (''knowledge_base_retrieve'', JStr (if rag_verified then ''verified'' else ''skipped''))]"

text \<open>\<open>main\<close>, with the flag \<open>--invoke\<close>; the value is what it prints.\<close>

definition integration_check ::
  "('t, 'e) check_env_scheme \<Rightarrow> bool \<Rightarrow> (('t, 'w) world_scheme, dict) act" where
  "integration_check E invoke =
     bnd (check (getenv E ''AWS_ENDPOINT_URL'' [] = [])
            (RuntimeError ''AWS_ENDPOINT_URL must be unset for a real AWS integration check'')) (\<lambda>_.
     let region = getenv E ''AWS_REGION'' ''ap-northeast-2''
     in bnd (of_result (required_env E ''COGNITO_USER_POOL_ID'')) (\<lambda>pool_id.
        bnd (of_result (required_env E ''COGNITO_CLIENT_ID'')) (\<lambda>client_id.
        bnd (of_result (required_env E ''BEDROCK_MODEL_ID'')) (\<lambda>model_id.
        bnd (of_result (required_env E ''BEDROCK_KNOWLEDGE_BASE_ID'')) (\<lambda>knowledge_base_id.
        bnd (of_result (required_env E ''BEDROCK_DATA_SOURCE_ID'')) (\<lambda>data_source_id.
        bnd (aws E ''sts.get_caller_identity'' []) (\<lambda>identity.
        bnd (check_cognito E region pool_id client_id) (\<lambda>_.
        bnd (check_bedrock E knowledge_base_id data_source_id model_id) (\<lambda>_.
        bnd (check_login E region pool_id client_id) (\<lambda>login_verified.
        bnd (if invoke then check_invoke E model_id knowledge_base_id else ret (False, False))
          (\<lambda>(bedrock_verified, rag_verified).
        bnd (of_result (sub_item identity ''Account'')) (\<lambda>account.
        ret (check_report account region login_verified bedrock_verified rag_verified)))))))))))))"

section \<open>What a report stands for\<close>

lemma silent_aws [silent_intros]:
  "silent (aws E operation arguments)" "silent (fetch_json E url)" "silent (check b e)"
  "silent (verify E v token)"
proof -
  show "silent (aws E operation arguments)" unfolding aws_def by (intro silent_intros)
  show "silent (fetch_json E url)" unfolding fetch_json_def by (cases url) (simp_all add: silent_intros)
  show "silent (check b e)" unfolding check_def by (intro silent_intros)
  show "silent (verify E v token)" unfolding verify_def by (intro silent_intros)
qed

lemma silent_attempt [silent_intros]:
  assumes m: "silent m" and h: "\<And>e. silent (h e)"
  shows "silent (attempt m h)"
proof (rule silentI)
  fix w
  obtain r w1 where r: "m w = (r, w1)" by fastforce
  obtain n t where w1: "w1 = w\<lparr>tick := n, tbl := t\<rparr>" using silent_run [OF m r] by blast
  show "\<exists>n t. snd (attempt m h w) = w\<lparr>tick := n, tbl := t\<rparr>"
  proof (cases r)
    case (Inl e)
    obtain n' t' where "snd (h e w1) = w1\<lparr>tick := n', tbl := t'\<rparr>" using h unfolding silent_def by blast
    then show ?thesis using r w1 Inl by (auto simp: attempt_def)
  next
    case (Inr x)
    then show ?thesis using r w1 by (auto simp: attempt_def)
  qed
qed

lemma silent_integration: "silent (integration_check E invoke)"
proof -
  have chunk: "silent (chunk_of_result L x)" for L x unfolding chunk_of_result_def by (intro silent_intros)
  have parts: "silent (check_cognito E region pool_id client_id)"
    "silent (check_bedrock E knowledge_base_id data_source_id model_id)"
    "silent (check_login E region pool_id client_id)"
    "silent (bedrock_analyze E model_id g v x)"
    "silent (bedrock_kb_retrieve E knowledge_base_id q n)"
    for region pool_id client_id knowledge_base_id data_source_id model_id g v x q n
    unfolding check_cognito_def check_bedrock_def check_login_def bedrock_analyze_def bedrock_kb_retrieve_def Let_def
    by (intro silent_intros chunk)+
  have inv: "silent (check_invoke E model_id knowledge_base_id)" for model_id knowledge_base_id
    unfolding check_invoke_def by (intro silent_intros parts)
  show ?thesis unfolding integration_check_def Let_def by (intro silent_intros parts inv)
qed

text \<open>
  A printed report: no endpoint override was set, every required identifier is, nothing was
  published or stored, and what was not invoked is not called verified.
\<close>

lemma integration_check_report:
  assumes "integration_check E invoke w = (Inr report, w')"
  shows "getenv E ''AWS_ENDPOINT_URL'' [] = []"
    and "name \<in> {''COGNITO_USER_POOL_ID'', ''COGNITO_CLIENT_ID'', ''BEDROCK_MODEL_ID'',
      ''BEDROCK_KNOWLEDGE_BASE_ID'', ''BEDROCK_DATA_SOURCE_ID''} \<Longrightarrow> \<exists>v. required_env E name = Inr v"
    and "\<exists>n t. w' = w\<lparr>tick := n, tbl := t\<rparr>"
    and "\<not> invoke \<Longrightarrow> dict_get report ''bedrock_converse'' = Some (JStr ''skipped'') \<and>
      dict_get report ''knowledge_base_retrieve'' = Some (JStr ''skipped'')"
proof -
  show "\<exists>n t. w' = w\<lparr>tick := n, tbl := t\<rparr>" by (rule silent_run [OF silent_integration assms])
  show "getenv E ''AWS_ENDPOINT_URL'' [] = []"
    using assms by (auto simp: integration_check_def check_def throw_def split: if_splits)
  show "\<exists>v. required_env E name = Inr v"
    if "name \<in> {''COGNITO_USER_POOL_ID'', ''COGNITO_CLIENT_ID'', ''BEDROCK_MODEL_ID'',
      ''BEDROCK_KNOWLEDGE_BASE_ID'', ''BEDROCK_DATA_SOURCE_ID''}"
    using assms that unfolding integration_check_def Let_def
    by (auto simp: check_def throw_def bnd_of_result_case split: if_splits sum.splits)
  show "dict_get report ''bedrock_converse'' = Some (JStr ''skipped'') \<and>
      dict_get report ''knowledge_base_retrieve'' = Some (JStr ''skipped'')" if "\<not> invoke"
    using assms that unfolding integration_check_def Let_def
    by (auto simp: check_report_def dict_get_def ret_def elim!: bnd_InrE)
qed

end
