(* ===== verification/Spec2Isabelle.thy ===== *)
theory Spec2Isabelle
  imports SharedProperties WorkOrderProperties EventWorkerLiveness AssetProperties KnowledgeProperties MetricsProperties
    Migration IntegrationCheck
begin

text \<open>
  A verification library for AX Sentinel, a platform that watches plant equipment: telemetry
  raises incidents, an AI service proposes a plan for each, people approve it and carry out the
  work order, and the quality of the proposals is measured. The program is a set of Python
  services over one package, \<open>shared/\<close>; each service keeps its entities in a DynamoDB table,
  announces what it did on Kafka (or SQS), and serves HTTP and WebSocket clients. Every file
  under \<open>services/\<close>, \<open>shared/\<close> and \<open>scripts/\<close> that is written in Python is modelled.

  \<^bold>\<open>How the code is modelled.\<close> An operation is an action: a function from the state of a process
  to a result or an exception (\<open>exn\<close>) together with the state it leaves; an exception undoes
  nothing. Every call that leaves the process goes through \<open>call\<close> (theory \<open>Effects\<close>), which lets
  the other processes write to the table first (\<open>others\<close>) and lets the call succeed, fail without
  effect, or take effect and fail (\<open>outcome_at\<close>). Time and identifiers come from the environment
  by the number of the call. Pydantic models are records with a reader (\<open>validate_...\<close>) and a
  writer (\<open>dump_...\<close>); values that the code does not type are \<open>json\<close> (theory \<open>Pyjson\<close>), read
  with the exceptions Python raises (theory \<open>Pyaccess\<close>). \<open>float\<close> is IEEE binary64 with exact
  rationals and explicit rounding (\<open>Pyfloat\<close>), \<open>sum\<close> of floats is the compensated summation of
  Python 3.12 (\<open>Pysum\<close>), \<open>Decimal\<close> is rounded to 28 digits (\<open>Pydec\<close>). A string is the list of its
  UTF-8 bytes; code points are recovered where the code counts them.

  \<^bold>\<open>Parts and theories.\<close>
  \<^item> \<open>Prelude\<close>: strings, digits, lists. \<open>Codec\<close>: field readers, the locale \<open>entity_codec\<close> of a
    model with reader and writer, the library parameters and a concrete instance of them.
  \<^item> \<open>Config\<close> (\<open>shared/config.py\<close>), \<open>Repository\<close> (\<open>shared/dynamodb.py\<close>: optimistic put, get,
    paged list; the locale \<open>stored_entity\<close>), \<open>Events\<close> (\<open>shared/events.py\<close>: envelope, topics,
    publication), \<open>Auth\<close> (\<open>shared/auth.py\<close>), \<open>Api\<close> (\<open>shared/api.py\<close>: the middleware),
    \<open>Realtime\<close> (\<open>shared/realtime.py\<close>), \<open>Remote\<close> (HTTP clients, \<open>shared/object_store.py\<close>), \<open>Rag\<close>
    (\<open>shared/rag.py\<close>). \<open>Entities\<close> joins storing and announcing, the step every endpoint ends with;
    \<open>Silent\<close> is about the actions that only ask. Their properties are in \<open>SharedProperties\<close>.
  \<^item> \<open>Detection\<close>, \<open>IncidentModel\<close>, \<open>Incident\<close>, \<open>IncidentFacts\<close>, \<open>IncidentProperties\<close>
    (\<open>services/incident\<close>): the anomaly detector refined against the history of a sensor, telemetry,
    automatic incidents, the life cycle, WebSocket broadcasting.
  \<^item> \<open>WorkOrder\<close>, \<open>WorkOrderProperties\<close> (\<open>services/work_order\<close>): approvals, completion, evidence.
  \<^item> \<open>Asset\<close>, \<open>AssetProperties\<close> (\<open>services/asset\<close>); \<open>Knowledge\<close>, \<open>KnowledgeProperties\<close>
    (\<open>services/knowledge\<close>, with retrieval); \<open>Metrics\<close>, \<open>MetricsProperties\<close> (\<open>services/metrics\<close>).
  \<^item> \<open>Engine\<close>, \<open>AnalysisModel\<close>, \<open>ReviewModel\<close>, \<open>Analysis\<close>, \<open>AnalysisFacts\<close>, \<open>AnalysisProperties\<close>
    (\<open>services/ai_analysis\<close>): the three engines behind the locale \<open>audited_engine\<close>, the review
    policy, analyses, expert reviews, evaluation.
  \<^item> \<open>EventWorker\<close>, \<open>SqsWorker\<close>, \<open>EventWorkerFacts\<close>, \<open>EventWorkerLoop\<close>, \<open>EventWorkerProperties\<close>,
    \<open>EventWorkerLiveness\<close> (\<open>services/event_worker\<close>): consumption with retries and dead letters, the
    polling loop, its safety and its progress.
  \<^item> \<open>Migration\<close>, \<open>IntegrationCheck\<close> (\<open>scripts/\<close>). \<open>Sample\<close>: the in-memory table on which the
    hypotheses of the properties are shown to hold.

  \<^bold>\<open>What the lemmas show.\<close> For the repository: a put is written only over the version it read, what
  was put is read back, a listing is complete and ends. For authentication: no protected path and
  no WebSocket is served without a token its verifier accepts, and roles come from its claims. For
  every endpoint: its branches with their errors, what it stores, that the stored entity reads back
  as the answer, the one event it announces, and that no other entity changes. For the incidents:
  served updates stay in the transition table, for any interleaving of requests, and every path of
  its steps into work has the approval on it; a measurement is classified exactly. For the worker:
  in cycles in which no dead letter and no seek fails, whatever else fails and whatever others write,
  no committed offset passes a record that was neither recorded nor dead-lettered (a record whose
  dead letter is itself invalid is shown to be passed); and when calls succeed, the whole backlog is
  committed within as many cycles as its records have attempts. For the numbers: evaluation scores
  stay in their range in spite of every rounding, and the ratings of the metrics summary are the
  averages they are called, up to half a unit of the 28th digit.

  \<^bold>\<open>Hypotheses.\<close> \<open>dynamo_ok\<close> is the documented behaviour of the table service (conditional put,
  consistent get); \<open>lists_as\<close> that the pages of the index enumerate the entities (a listing reads the
  index at one moment); \<open>table_ok\<close> that items have the shape the repository writes. \<open>quiet\<close> is a run
  without failures and without other writers (a refusal of the table service for the size of an item,
  400 KB, or of a number, 38 digits, is a failure too); where a property holds without it, it is not
  assumed. \<open>others_keep\<close>: nobody deletes an entity. \<open>lib_ok\<close>: datetimes and numbers survive being printed and
  read. \<open>consumer_ok\<close> is the contract of a Kafka consumer whose partitions are not reassigned and
  whose offsets are contiguous; \<open>delivering\<close> that it hands out what there is. \<open>batches_ok\<close> is the
  contract of the batch writer.

  \<^bold>\<open>Bounds.\<close> Loops over pages take fuel: \<open>list_fuel\<close> in a listing, an argument in the migration. A
  page carries at least one item when another follows, so fuel above the number of items (or the
  number of pages) is enough, and the properties say so. The polling loop is looked at for a given
  number of cycles; the liveness property gives a number that suffices.

  \<^bold>\<open>Not modelled.\<close> Process and client set-up, delays, logs and metric names. Handlers of one process
  run one after the other between their calls (the other processes interleave at every call); a
  cancelled request is not looked at. The text of JSON, JWT cryptography, Kafka group management and
  the answers of AWS, Ollama and the other services are parameters, so a record that is not JSON (on
  which the consumer itself raises) is outside the model. FastAPI's own rendering of a returned value
  is left out: a handler's value is what it returns. Times are instants, not their texts. The web
  client, the deployment files and the tests are no part of the model.
\<close>

end
